(* ===== verification/Prelude.thy ===== *)
theory Prelude
  imports Main "HOL-Library.Word"
begin

text \<open>
  Shared vocabulary of the development: the machine integers of the Go code, the
  \<^theory_text>\<open>named_theorems\<close> collections the component theories feed, and the generic
  lemmas on lists and words they share.

  Go's \<open>int64\<close> is a 64-bit word read with \<^const>\<open>sint\<close>; \<open>int\<close> is 64 bits wide on
  every platform the program is built for.
\<close>

type_synonym int64 = "64 word"
type_synonym uint64 = "64 word"
type_synonym uint32 = "32 word"
type_synonym uint16 = "16 word"

text \<open>A \<open>uuid.UUID\<close> is a \<open>[16]byte\<close> array value; a \<open>tb.Uint128\<close> is TigerBeetle's
  128-bit integer. Both are 128 bits; the conversions between them belong to packages
  outside the repository and are parameters of the model.\<close>

type_synonym uuid = "128 word"
type_synonym u128 = "128 word"

text \<open>\<open>handler\<close> collects the definitions that are unfolded to run a handler; \<open>op_run\<close> the
  equations that run one operation; \<open>rg_ops\<close> the rely/guarantee rules of operations.\<close>

named_theorems handler "definitions of handlers, unfolded to execute them"
named_theorems op_run "equations that run one operation of a component"
named_theorems rg_ops "rely/guarantee rules of the operations"

section \<open>Lists\<close>

lemma filter_map_upd:
  "(\<And>x. x \<in> set xs \<Longrightarrow> p x \<Longrightarrow> q (f x)) \<Longrightarrow>
   (\<And>x. x \<in> set xs \<Longrightarrow> \<not> p x \<Longrightarrow> \<not> q x) \<Longrightarrow>
   filter q (map (\<lambda>x. if p x then f x else x) xs) = map f (filter p xs)"
  by (induction xs) auto

lemma map_upd_id:
  "(\<And>x. x \<in> set xs \<Longrightarrow> \<not> p x) \<Longrightarrow> map (\<lambda>x. if p x then f x else x) xs = xs"
  by (induction xs) auto

lemma distinct_map_filter_single:
  "distinct (map k xs) \<Longrightarrow> x \<in> set xs \<Longrightarrow> k x = a \<Longrightarrow> filter (\<lambda>y. k y = a) xs = [x]"
proof (induction xs)
  case Nil
  then show ?case by simp
next
  case (Cons y ys)
  show ?case
  proof (cases "k y = a")
    case True
    with Cons.prems have "filter (\<lambda>y. k y = a) ys = []"
      by (auto simp: filter_empty_conv image_iff)
    moreover from True Cons.prems have "y = x"
      by (auto simp: image_iff)
    ultimately show ?thesis using True by simp
  next
    case False
    with Cons show ?thesis by auto
  qed
qed

lemma distinct_key_unique:
  "distinct (map k xs) \<Longrightarrow> x \<in> set xs \<Longrightarrow> y \<in> set xs \<Longrightarrow> k x = k y \<Longrightarrow> x = y"
  by (induction xs) (auto simp: image_iff)

lemma map_key_upd:
  "(\<And>x. k (f x) = k x) \<Longrightarrow> map k (map (\<lambda>x. if p x then f x else x) xs) = map k xs"
  by (induction xs) auto

section \<open>Words\<close>

lemma word_sless_sint: "(a <s b) = (sint (a :: int64) < sint b)"
  by (simp add: word_sless_alt)

end
