(* ===== verification/Effects.thy ===== *)
theory Effects
  imports Prelude
begin

text \<open>
  Effectful code as resumptions. A handler of the program is a \<open>prog\<close>: a finite tree of
  atomic actions (one database statement, one ledger call, one enqueue) whose continuation
  depends on the answer. The same handler can be run alone (\<open>run\<close>) or interleaved with
  others at every point between two actions (\<open>interleave\<close>), as the asynq server and the HTTP
  server do. The rely/guarantee judgement \<open>rg\<close> proves what holds in every interleaving.
\<close>

section \<open>Resumptions\<close>

datatype ('a, 'w) prog = Ret 'a | Atom "'w \<Rightarrow> ('a, 'w) prog \<times> 'w"

definition atom :: "('w \<Rightarrow> 'a \<times> 'w) \<Rightarrow> ('a, 'w) prog" where
  "atom f = Atom (\<lambda>w. map_prod Ret id (f w))"

primrec bnd :: "('a, 'w) prog \<Rightarrow> ('a \<Rightarrow> ('b, 'w) prog) \<Rightarrow> ('b, 'w) prog" where
  "bnd (Ret a) k = k a"
| "bnd (Atom f) k = Atom (\<lambda>w. map_prod (\<lambda>p. bnd p k) id (f w))"

primrec run :: "('a, 'w) prog \<Rightarrow> 'w \<Rightarrow> 'a \<times> 'w" where
  "run (Ret a) = (\<lambda>w. (a, w))"
| "run (Atom f) = (\<lambda>w. case map_prod run id (f w) of (r, w') \<Rightarrow> r w')"

lemma prog_induct [case_names Ret Atom]:
  assumes "\<And>a. P (Ret a)" and "\<And>f. (\<And>w. P (fst (f w))) \<Longrightarrow> P (Atom f)"
  shows "P p"
proof (induction p)
  case (Ret a)
  then show ?case by (rule assms(1))
next
  case (Atom f)
  have "P (fst (f w))" for w
    by (rule Atom[of "f w"]) (auto simp: fsts.simps prod.exhaust_sel)
  then show ?case by (rule assms(2))
qed

lemma bnd_assoc: "bnd (bnd p k) l = bnd p (\<lambda>a. bnd (k a) l)"
proof (induction p rule: prog_induct)
  case (Atom f)
  have "map_prod (\<lambda>p. bnd p l) id (map_prod (\<lambda>p. bnd p k) id (f w)) =
        map_prod (\<lambda>p. bnd p (\<lambda>a. bnd (k a) l)) id (f w)" for w
    using Atom[of w] by (cases "f w") simp
  then show ?case by simp
qed simp

lemma bnd_Ret_right: "bnd p Ret = p"
proof (induction p rule: prog_induct)
  case (Atom f)
  have "map_prod (\<lambda>p. bnd p Ret) id (f w) = f w" for w
    using Atom[of w] by (cases "f w") simp
  then show ?case by simp
qed simp

lemma run_Ret [simp]: "run (Ret a) w = (a, w)"
  by simp

lemma run_bnd [simp]: "run (bnd p k) w = (case run p w of (a, w') \<Rightarrow> run (k a) w')"
proof (induction p arbitrary: w rule: prog_induct)
  case (Atom f)
  show ?case using Atom.IH[of w] by (cases "f w") simp
qed simp

lemma run_atom [simp]: "run (atom f) w = f w"
  by (cases "f w") (simp add: atom_def)

lemma run_if [simp]: "run (if b then p else q) w = (if b then run p w else run q w)"
  by simp

section \<open>Interleaving\<close>

text \<open>A pool of handlers over one shared world. One step lets one handler perform one atomic
  action; which one is up to the scheduler.\<close>

inductive interleave :: "('a, 'w) prog list \<times> 'w \<Rightarrow> ('a, 'w) prog list \<times> 'w \<Rightarrow> bool" where
  step: "i < length ps \<Longrightarrow> ps ! i = Atom f \<Longrightarrow> f w = (p', w') \<Longrightarrow>
    interleave (ps, w) (ps[i := p'], w')"

inductive_cases interleaveE: "interleave (ps, w) c"

text \<open>The executable scheduler: the list says whose turn it is; a finished handler's turn is
  skipped.\<close>

fun turn :: "nat \<Rightarrow> ('a, 'w) prog list \<times> 'w \<Rightarrow> ('a, 'w) prog list \<times> 'w" where
  "turn i (ps, w) =
     (if i < length ps
      then (case ps ! i of Ret a \<Rightarrow> (ps, w) | Atom f \<Rightarrow> (case f w of (p', w') \<Rightarrow> (ps[i := p'], w')))
      else (ps, w))"

fun schedule :: "nat list \<Rightarrow> ('a, 'w) prog list \<times> 'w \<Rightarrow> ('a, 'w) prog list \<times> 'w" where
  "schedule [] c = c"
| "schedule (i # is) c = schedule is (turn i c)"

lemma turn_interleave: "interleave\<^sup>*\<^sup>* c (turn i c)"
proof (cases c)
  case (Pair ps w)
  then show ?thesis
    by (auto split: prog.splits prod.splits intro: interleave.step)
qed

lemma schedule_interleave: "interleave\<^sup>*\<^sup>* c (schedule is c)"
proof (induction "is" arbitrary: c)
  case (Cons i "is")
  show ?case using rtranclp_trans[OF turn_interleave Cons.IH] by simp
qed simp

section \<open>Rely and guarantee\<close>

text \<open>\<open>rg R p w Q\<close>: started in \<open>w\<close>, with the others changing the world only within \<open>R\<close>
  before every action, each action of \<open>p\<close> stays within \<open>R\<close> too, and when \<open>p\<close> returns \<open>a\<close> the
  assertion \<open>Q a\<close> holds and keeps holding.\<close>

primrec rg :: "('w \<Rightarrow> 'w \<Rightarrow> bool) \<Rightarrow> ('a, 'w) prog \<Rightarrow> 'w \<Rightarrow> ('a \<Rightarrow> 'w \<Rightarrow> bool) \<Rightarrow> bool" where
  "rg R (Ret a) = (\<lambda>w Q. \<forall>v. R w v \<longrightarrow> Q a v)"
| "rg R (Atom f) = (\<lambda>w Q. \<forall>v. R w v \<longrightarrow>
     (case map_prod (rg R) id (f v) of (g, v') \<Rightarrow> R v v' \<and> g v' Q))"

text \<open>The simpler judgement for a handler whose every action stays within \<open>R\<close> whatever happened
  before it.\<close>

primrec guar :: "('w \<Rightarrow> 'w \<Rightarrow> bool) \<Rightarrow> ('a, 'w) prog \<Rightarrow> bool" where
  "guar R (Ret a) \<longleftrightarrow> True"
| "guar R (Atom f) \<longleftrightarrow> (\<forall>w. case map_prod (guar R) id (f w) of (g, w') \<Rightarrow> R w w' \<and> g)"

lemma guar_Ret: "guar R (Ret a)"
  by simp

lemma guar_bnd: "guar R p \<Longrightarrow> (\<And>a. guar R (k a)) \<Longrightarrow> guar R (bnd p k)"
proof (induction p rule: prog_induct)
  case (Atom f)
  show ?case unfolding bnd.simps guar.simps
  proof
    fix w
    obtain p' w' where f: "f w = (p', w')" by fastforce
    from Atom.prems(1) have "case map_prod (guar R) id (f w) of (g, w') \<Rightarrow> R w w' \<and> g"
      unfolding guar.simps by (rule spec)
    then have "R w w'" "guar R p'" by (simp_all add: f)
    moreover have "guar R (bnd p' k)"
      using Atom.IH[of w] Atom.prems(2) \<open>guar R p'\<close> f by simp
    ultimately show "case map_prod (guar R) id (map_prod (\<lambda>p. bnd p k) id (f w)) of (g, w') \<Rightarrow> R w w' \<and> g"
      by (simp add: f)
  qed
qed simp

lemma guar_atom: "(\<And>w. R w (snd (f w))) \<Longrightarrow> guar R (atom f)"
proof -
  assume a: "\<And>w. R w (snd (f w))"
  have "case map_prod (guar R) id (map_prod Ret id (f w)) of (g, w') \<Rightarrow> R w w' \<and> g" for w
    using a[of w] by (cases "f w") simp
  then show ?thesis by (simp add: atom_def)
qed

locale rely_guarantee =
  fixes R :: "'w \<Rightarrow> 'w \<Rightarrow> bool"
  assumes rely_refl: "R w w"
    and rely_trans: "R u v \<Longrightarrow> R v w \<Longrightarrow> R u w"
begin

lemma rg_Ret: "(\<And>v. R w v \<Longrightarrow> Q a v) \<Longrightarrow> rg R (Ret a) w Q"
  by simp

lemma rg_env: "rg R p w Q \<Longrightarrow> R w v \<Longrightarrow> rg R p v Q"
  by (cases p) (auto intro: rely_trans)

lemma rg_mono:
  "rg R p w Q \<Longrightarrow> (\<And>a v. R w v \<Longrightarrow> Q a v \<Longrightarrow> Q' a v) \<Longrightarrow> rg R p w Q'"
proof (induction p arbitrary: w rule: prog_induct)
  case (Atom f)
  show ?case unfolding rg.simps
  proof (intro allI impI)
    fix v assume v: "R w v"
    obtain p' v' where f: "f v = (p', v')" by fastforce
    from Atom.prems(1) v f have "R v v'" "rg R p' v' Q" by auto
    moreover have "R w v'" using v \<open>R v v'\<close> by (rule rely_trans)
    ultimately have "rg R p' v' Q'"
      using Atom.IH[of v v'] Atom.prems(2) f by (simp) (meson rely_trans)
    with \<open>R v v'\<close> f show "case map_prod (rg R) id (f v) of (g, v') \<Rightarrow> R v v' \<and> g v' Q'"
      by simp
  qed
qed auto

lemma rg_bnd: "rg R p w (\<lambda>a v. rg R (k a) v Q) \<Longrightarrow> rg R (bnd p k) w Q"
proof (induction p arbitrary: w rule: prog_induct)
  case (Ret a)
  then show ?case by (auto intro: rely_refl)
next
  case (Atom f)
  show ?case unfolding bnd.simps rg.simps
  proof (intro allI impI)
    fix v assume v: "R w v"
    obtain p' v' where f: "f v = (p', v')" by fastforce
    from Atom.prems v f have "R v v'" "rg R p' v' (\<lambda>a v. rg R (k a) v Q)" by auto
    then have "rg R (bnd p' k) v' Q" using Atom.IH[of v v'] f by simp
    with \<open>R v v'\<close> f
    show "case map_prod (rg R) id (map_prod (\<lambda>p. bnd p k) id (f v)) of (g, v') \<Rightarrow> R v v' \<and> g v' Q"
      by simp
  qed
qed

lemma rg_atom:
  assumes "\<And>v a v'. R w v \<Longrightarrow> f v = (a, v') \<Longrightarrow> R v v'"
    and "\<And>v a v' u. R w v \<Longrightarrow> f v = (a, v') \<Longrightarrow> R v' u \<Longrightarrow> Q a u"
  shows "rg R (atom f) w Q"
  unfolding atom_def rg.simps
proof (intro allI impI)
  fix v assume v: "R w v"
  obtain a v' where f: "f v = (a, v')" by fastforce
  with v assms show "case map_prod (rg R) id (map_prod Ret id (f v)) of (g, v') \<Rightarrow> R v v' \<and> g v' Q"
    by simp
qed

lemma guar_rg: "guar R p \<Longrightarrow> (\<And>a v. R w v \<Longrightarrow> Q a v) \<Longrightarrow> rg R p w Q"
proof (induction p arbitrary: w rule: prog_induct)
  case (Atom f)
  show ?case unfolding rg.simps
  proof (intro allI impI)
    fix v assume v: "R w v"
    obtain p' v' where f: "f v = (p', v')" by fastforce
    from Atom.prems(1) have "case map_prod (guar R) id (f v) of (g, w') \<Rightarrow> R v w' \<and> g"
      unfolding guar.simps by (rule spec)
    then have "R v v'" "guar R p'" by (simp_all add: f)
    moreover have "rg R p' v' Q"
      using Atom.IH[of v v'] Atom.prems(2) calculation v f by simp (meson rely_trans)
    ultimately show "case map_prod (rg R) id (f v) of (g, v') \<Rightarrow> R v v' \<and> g v' Q"
      by (simp add: f)
  qed
qed auto

text \<open>Running alone is one of the interleavings.\<close>

lemma rg_run: "rg R p w Q \<Longrightarrow> run p w = (a, w') \<Longrightarrow> R w w' \<and> Q a w'"
proof (induction p arbitrary: w rule: prog_induct)
  case (Ret b)
  then show ?case by (auto intro: rely_refl)
next
  case (Atom f)
  obtain p' v' where f: "f w = (p', v')" by fastforce
  from Atom.prems f rely_refl[of w] have "R w v'" "rg R p' v' Q" "run p' v' = (a, w')" by auto
  then show ?case using Atom.IH[of w v'] f by (auto intro: rely_trans)
qed

lemma run_guar: "guar R p \<Longrightarrow> run p w = (a, w') \<Longrightarrow> R w w'"
  using rg_run[OF guar_rg[of p w "\<lambda>_ _. True"]] by blast

text \<open>The main theorem: in any interleaving of handlers that each satisfy the judgement, the
  world moves within \<open>R\<close>, and the handlers still satisfy it wherever they are.\<close>

lemma rg_step:
  assumes "interleave (ps, w) (qs, w')" and "\<forall>i < length ps. rg R (ps ! i) w (Q i)"
  shows "R w w' \<and> length qs = length ps \<and> (\<forall>i < length qs. rg R (qs ! i) w' (Q i))"
  using assms(1)
proof (cases rule: interleave.cases)
  case (step i f p')
  from assms(2) step have "rg R (Atom f) w (Q i)" by metis
  with step rely_refl[of w] have "R w w'" and p': "rg R p' w' (Q i)" by auto
  with assms(2) step show ?thesis
    by (auto simp: nth_list_update intro: rg_env)
qed

lemma rg_pool:
  assumes "interleave\<^sup>*\<^sup>* (ps, w) (qs, w')" and "\<forall>i < length ps. rg R (ps ! i) w (Q i)"
  shows "R w w' \<and> length qs = length ps \<and> (\<forall>i < length qs. rg R (qs ! i) w' (Q i))"
  using assms
proof (induction rule: rtranclp_induct2)
  case refl
  then show ?case using rely_refl by simp
next
  case (step ps1 w1 ps2 w2)
  then have "R w w1 \<and> length ps1 = length ps \<and> (\<forall>i < length ps1. rg R (ps1 ! i) w1 (Q i))"
    by blast
  with rg_step[OF step.hyps(2), of Q] show ?case by (metis rely_trans)
qed

end

end
