(* ===== verification/Go_Strings.thy ===== *)
theory Go_Strings
  imports Prelude "HOL-Library.Sublist" "HOL-Library.Char_ord" "HOL-Library.Signed_Division"
begin

text \<open>
  What the code uses of Go's \<open>strings\<close> and \<open>strconv\<close>. A Go string is its UTF-8 bytes, a
  \<^typ>\<open>string\<close> here. Case mapping treats the ASCII letters and the runes whose case mapping
  or folding is an ASCII letter (U+0130, U+0131, U+017F, U+212A); every other rune maps to
  some non-ASCII rune and is left as it is. So a comparison of a result with an ASCII
  constant, the only use the code makes of it, is exact.
\<close>

section \<open>Case mapping\<close>

fun replace_all :: "string \<Rightarrow> char \<Rightarrow> string \<Rightarrow> string" where
  "replace_all [] r s = s"
| "replace_all (p # ps) r [] = []"
| "replace_all (p # ps) r (c # cs) =
     (if c = p \<and> prefix ps cs then r # replace_all (p # ps) r (drop (length ps) cs)
      else c # replace_all (p # ps) r cs)"

definition code_of :: "char \<Rightarrow> nat" where
  "code_of c = of_char c"

definition ascii :: "string \<Rightarrow> bool" where
  "ascii s \<longleftrightarrow> (\<forall>c \<in> set s. code_of c < 128)"

definition lower_byte :: "char \<Rightarrow> char" where
  "lower_byte c = (if 65 \<le> code_of c \<and> code_of c \<le> 90 then char_of (code_of c + 32) else c)"

definition upper_byte :: "char \<Rightarrow> char" where
  "upper_byte c = (if 97 \<le> code_of c \<and> code_of c \<le> 122 then char_of (code_of c - 32) else c)"

definition ToLower :: "string \<Rightarrow> string" where
  "ToLower s = map lower_byte
     (replace_all [CHR 0xC4, CHR 0xB0] (CHR ''i'')
       (replace_all [CHR 0xE2, CHR 0x84, CHR 0xAA] (CHR ''k'') s))"

definition ToUpper :: "string \<Rightarrow> string" where
  "ToUpper s = map upper_byte
     (replace_all [CHR 0xC4, CHR 0xB1] (CHR ''I'')
       (replace_all [CHR 0xC5, CHR 0xBF] (CHR ''S'') s))"

text \<open>\<open>strings.EqualFold\<close> by simple folding: exact when one side is ASCII.\<close>

definition fold_key :: "string \<Rightarrow> string" where
  "fold_key s = map lower_byte
     (replace_all [CHR 0xC5, CHR 0xBF] (CHR ''s'')
       (replace_all [CHR 0xE2, CHR 0x84, CHR 0xAA] (CHR ''k'') s))"

definition EqualFold :: "string \<Rightarrow> string \<Rightarrow> bool" where
  "EqualFold s t \<longleftrightarrow> fold_key s = fold_key t"

lemma EqualFold_refl [simp]: "EqualFold s s"
  and EqualFold_sym: "EqualFold s t \<Longrightarrow> EqualFold t s"
  and EqualFold_trans: "EqualFold s t \<Longrightarrow> EqualFold t u \<Longrightarrow> EqualFold s u"
  by (simp_all add: EqualFold_def)

lemma replace_all_ascii: "ascii s \<Longrightarrow> 128 \<le> code_of p \<Longrightarrow> replace_all (p # ps) r s = s"
proof (induction s)
  case (Cons c cs)
  then have "c \<noteq> p" and "ascii cs" by (auto simp: ascii_def)
  with Cons show ?case by simp
qed simp

lemma case_ascii:
  assumes "ascii s"
  shows "ToLower s = map lower_byte s" and "ToUpper s = map upper_byte s"
    and "fold_key s = map lower_byte s"
  using assms by (simp_all add: ToLower_def ToUpper_def fold_key_def replace_all_ascii code_of_def)

section \<open>Trimming\<close>

text \<open>The byte strings of the runes \<open>unicode.IsSpace\<close> accepts.\<close>

definition space_units :: "string list" where
  "space_units = map (\<lambda>c. [c]) [CHR 0x09, CHR 0x0A, CHR 0x0B, CHR 0x0C, CHR 0x0D, CHR 0x20] @
     [[CHR 0xC2, CHR 0x85], [CHR 0xC2, CHR 0xA0], [CHR 0xE1, CHR 0x9A, CHR 0x80]] @
     map (\<lambda>n. [CHR 0xE2, CHR 0x80, char_of (0x80 + n)]) [0::nat, 1, 2, 3, 4, 5, 6, 7, 8, 9, 10] @
     [[CHR 0xE2, CHR 0x80, CHR 0xA8], [CHR 0xE2, CHR 0x80, CHR 0xA9],
      [CHR 0xE2, CHR 0x80, CHR 0xAF], [CHR 0xE2, CHR 0x81, CHR 0x9F], [CHR 0xE3, CHR 0x80, CHR 0x80]]"

function trim_units :: "string list \<Rightarrow> string \<Rightarrow> string" where
  "trim_units us s = (case find (\<lambda>u. u \<noteq> [] \<and> prefix u s) us of
      None \<Rightarrow> s | Some u \<Rightarrow> trim_units us (drop (length u) s))"
  by pat_completeness auto
termination
  by (relation "measure (\<lambda>(us, s). length s)")
    (auto simp: find_Some_iff prefix_def dest!: nth_mem)

declare trim_units.simps [simp del]

definition TrimSpace :: "string \<Rightarrow> string" where
  "TrimSpace s = rev (trim_units (map rev space_units) (rev (trim_units space_units s)))"

section \<open>Decimal numbers\<close>

definition digit :: "nat \<Rightarrow> char" where
  "digit d = char_of (48 + d)"

fun dec :: "nat \<Rightarrow> string" where
  "dec n = (if n < 10 then [digit n] else dec (n div 10) @ [digit (n mod 10)])"

declare dec.simps [simp del]

definition is_digit :: "char \<Rightarrow> bool" where
  "is_digit c \<longleftrightarrow> 48 \<le> code_of c \<and> code_of c \<le> 57"

text \<open>The value of a digit string; \<^const>\<open>None\<close> on an empty string or another byte.\<close>

fun undec_from :: "nat \<Rightarrow> string \<Rightarrow> nat option" where
  "undec_from acc [] = Some acc"
| "undec_from acc (c # cs) = (if is_digit c then undec_from (10 * acc + (code_of c - 48)) cs else None)"

definition undec :: "string \<Rightarrow> nat option" where
  "undec s = (if s = [] then None else undec_from 0 s)"

lemma digit_code: "d < 10 \<Longrightarrow> code_of (digit d) = 48 + d"
  by (simp add: code_of_def digit_def)

lemma is_digit_digit: "d < 10 \<Longrightarrow> is_digit (digit d)"
  by (simp add: is_digit_def digit_code)

lemma dec_nonempty [simp]: "dec n \<noteq> []"
  by (subst dec.simps) simp

lemma dec_digits: "c \<in> set (dec n) \<Longrightarrow> is_digit c"
proof (induction n rule: dec.induct)
  case (1 n)
  show ?case
  proof (cases "n < 10")
    case True
    with "1.prems" show ?thesis by (subst (asm) dec.simps) (simp add: is_digit_digit)
  next
    case False
    with "1.prems" have "c \<in> set (dec (n div 10)) \<or> c = digit (n mod 10)"
      by (subst (asm) dec.simps) auto
    with "1.IH"[OF False] show ?thesis by (auto simp: is_digit_digit)
  qed
qed

lemma undec_from_append:
  "undec_from acc (s @ t) = (case undec_from acc s of None \<Rightarrow> None | Some v \<Rightarrow> undec_from v t)"
  by (induction s arbitrary: acc) auto

lemma undec_from_dec: "undec_from 0 (dec n) = Some n"
proof (induction n rule: dec.induct)
  case (1 n)
  show ?case
  proof (cases "n < 10")
    case True
    then show ?thesis by (subst dec.simps) (simp add: is_digit_digit digit_code)
  next
    case False
    have "undec_from 0 (dec n) = undec_from (n div 10) [digit (n mod 10)]"
      using False "1.IH" by (subst dec.simps) (simp add: undec_from_append)
    also have "\<dots> = Some n" by (simp add: is_digit_digit digit_code)
    finally show ?thesis .
  qed
qed

lemma undec_dec [simp]: "undec (dec n) = Some n"
  by (simp add: undec_def undec_from_dec)

lemma dec_inj:
  assumes "dec m = dec n"
  shows "m = n"
proof -
  have "Some m = undec (dec n)" unfolding assms[symmetric] by (rule undec_dec[symmetric])
  then show ?thesis by simp
qed

lemma length_dec: "10 ^ k \<le> n \<Longrightarrow> n < 10 ^ Suc k \<Longrightarrow> length (dec n) = Suc k"
proof (induction k arbitrary: n)
  case 0
  then show ?case by (subst dec.simps) simp
next
  case (Suc k)
  have "10 ^ Suc k div 10 \<le> n div 10" using Suc.prems(1) by (rule div_le_mono)
  moreover from Suc.prems(2) have "n div 10 < 10 ^ Suc k" by (simp add: div_less_iff_less_mult)
  moreover have "(10::nat) ^ 1 \<le> 10 ^ Suc k" by (rule power_increasing) simp_all
  then have "10 \<le> n" using Suc.prems(1) unfolding power_one_right by (rule order.trans)
  ultimately have "10 ^ k \<le> n div 10" "n div 10 < 10 ^ Suc k" "\<not> n < 10" by simp_all
  with Suc.IH[of "n div 10"] show ?case by (subst dec.simps) simp
qed

text \<open>\<open>%d\<close> of a signed value, \<open>%02d\<close>, and \<open>strconv.ParseInt(s, 10, 64)\<close>: an optional sign, at
  least one digit, and a value in the range of \<open>int64\<close>.\<close>

definition fmt_d :: "int \<Rightarrow> string" where
  "fmt_d i = (if i < 0 then ''-'' @ dec (nat (- i)) else dec (nat i))"

definition fmt_02d :: "int \<Rightarrow> string" where
  "fmt_02d i = (if 0 \<le> i \<and> i < 10 then ''0'' @ fmt_d i else fmt_d i)"

definition ParseInt64 :: "string \<Rightarrow> int64 option" where
  "ParseInt64 s =
     (let (neg, ds) = (case s of [] \<Rightarrow> (False, []) | c # cs \<Rightarrow>
            if c = CHR ''-'' then (True, cs) else if c = CHR ''+'' then (False, cs) else (False, s))
      in case undec ds of None \<Rightarrow> None
         | Some n \<Rightarrow> (let v = (if neg then - int n else int n) in
             if - (2 ^ 63) \<le> v \<and> v < 2 ^ 63 then Some (word_of_int v) else None))"

lemma hd_dec_not_sign: "dec n = c # cs \<Longrightarrow> c \<noteq> CHR ''-'' \<and> c \<noteq> CHR ''+''"
  using dec_digits[of c n] by (auto simp: is_digit_def code_of_def)

lemma ParseInt64_fmt_d: "- (2 ^ 63) \<le> i \<Longrightarrow> i < 2 ^ 63 \<Longrightarrow> ParseInt64 (fmt_d i) = Some (word_of_int i)"
  using undec_dec[of "nat i"] hd_dec_not_sign[of "nat i"]
  by (cases "dec (nat i)") (auto simp: ParseInt64_def fmt_d_def)

end
