(* ===== verification/Go_Errors.thy ===== *)
theory Go_Errors
  imports Go_Strings
begin

text \<open>
  Go error values (\<open>errors.New\<close>, \<open>fmt.Errorf\<close> with one \<open>%w\<close>, \<open>errors.Is\<close>) and
  \<^verbatim>\<open>src/shared/error.go\<close>. A sentinel is one package-level \<open>errors.New\<close> variable; an error
  made on the spot or by a driver is \<open>Opaque\<close>; \<open>fmt.Errorf("...%w...")\<close> keeps the text
  around the wrapped error.
\<close>

datatype sentinel =
  \<comment> \<open>repository/errors.go, transaction_repository.go, transfer_repository.go, account_number.go\<close>
    ErrNotFound | ErrAlreadyExists | ErrNothingToUpdate | ErrNoIdentifier
  | ErrIntentNotPending | ErrIntentSucceeded | ErrIntentNotFailed
  | ErrTransferNotPending | ErrAccountNumberExhausted
  \<comment> \<open>ledger/ledger.go\<close>
  | ErrRejected | ErrInsufficientFunds | ErrCrossCurrency
  \<comment> \<open>queues/payment.go, queues/middleware.go\<close>
  | ErrAmountMismatch | ErrCurrencyMismatch | ErrWalletNotActive | ErrRetryLater
  \<comment> \<open>shared/payment.go\<close>
  | ErrProviderUnavailable | ErrInvalidSignature | ErrReferenceNotFound | ErrUnhandledWebhook
  \<comment> \<open>otp/store.go\<close>
  | OtpErrNotFound | OtpErrMismatch | OtpErrTooManyTries
  \<comment> \<open>sentinels of the packages the code compares with\<close>
  | gorm_ErrRecordNotFound | gorm_ErrDuplicatedKey
  | asynq_SkipRetry | asynq_ErrTaskIDConflict | asynq_ErrTaskNotFound | asynq_ErrQueueNotFound
  | redis_Nil

datatype go_error =
    Sentinel sentinel
  | Opaque string
  | Wrapf string go_error string

text \<open>\<open>errors.Is\<close> walks the \<open>Unwrap\<close> chain.\<close>

fun errors_Is :: "go_error \<Rightarrow> sentinel \<Rightarrow> bool" where
  "errors_Is (Sentinel s) t = (s = t)"
| "errors_Is (Opaque m) t = False"
| "errors_Is (Wrapf pre e post) t = errors_Is e t"

fun sentinel_text :: "sentinel \<Rightarrow> string" where
  "sentinel_text ErrNotFound = ''record not found''"
| "sentinel_text ErrAlreadyExists = ''record already exists''"
| "sentinel_text ErrNothingToUpdate = ''no fields to update''"
| "sentinel_text ErrNoIdentifier = ''update requires an id or email''"
| "sentinel_text ErrIntentNotPending = ''transaction intent is no longer pending''"
| "sentinel_text ErrIntentSucceeded = ''transaction intent has already succeeded''"
| "sentinel_text ErrIntentNotFailed = ''transaction intent is not in the expected refund state''"
| "sentinel_text ErrTransferNotPending = ''transfer is no longer pending''"
| "sentinel_text ErrAccountNumberExhausted = ''could not allocate a unique account number''"
| "sentinel_text ErrRejected = ''ledger rejected the request''"
| "sentinel_text ErrInsufficientFunds = ''insufficient funds''"
| "sentinel_text ErrCrossCurrency = ''cross-currency transfers are not supported''"
| "sentinel_text ErrAmountMismatch = ''settled amount does not match the intent''"
| "sentinel_text ErrCurrencyMismatch = ''settled currency does not match the wallet''"
| "sentinel_text ErrWalletNotActive = ''wallet is not active''"
| "sentinel_text ErrRetryLater = ''not ready, retry later''"
| "sentinel_text ErrProviderUnavailable = ''payment provider unavailable''"
| "sentinel_text ErrInvalidSignature = ''invalid webhook signature''"
| "sentinel_text ErrReferenceNotFound = ''payment reference not found at provider''"
| "sentinel_text ErrUnhandledWebhook = ''unhandled webhook event''"
| "sentinel_text OtpErrNotFound = ''otp not found or expired''"
| "sentinel_text OtpErrMismatch = ''otp does not match''"
| "sentinel_text OtpErrTooManyTries = ''too many otp attempts''"
| "sentinel_text gorm_ErrRecordNotFound = ''record not found''"
| "sentinel_text gorm_ErrDuplicatedKey = ''duplicated key not allowed''"
| "sentinel_text asynq_SkipRetry = ''skip retry for the task''"
| "sentinel_text asynq_ErrTaskIDConflict = ''task ID conflicts with another task''"
| "sentinel_text asynq_ErrTaskNotFound = ''task not found''"
| "sentinel_text asynq_ErrQueueNotFound = ''queue not found''"
| "sentinel_text redis_Nil = ''redis: nil''"

fun Error :: "go_error \<Rightarrow> string" where
  "Error (Sentinel s) = sentinel_text s"
| "Error (Opaque m) = m"
| "Error (Wrapf pre e post) = pre @ Error e @ post"

text \<open>The two shapes of \<open>fmt.Errorf\<close> the code uses: \<open>"%w: <text>: %v"\<close> wraps a sentinel and
  only quotes the cause; \<open>"<text>: %w"\<close> keeps the cause in the chain.\<close>

definition wrap_sentinel :: "sentinel \<Rightarrow> string \<Rightarrow> go_error \<Rightarrow> go_error" where
  "wrap_sentinel s t cause = Wrapf '''' (Sentinel s) ('': '' @ t @ Error cause)"

definition wrap_text :: "sentinel \<Rightarrow> string \<Rightarrow> go_error" where
  "wrap_text s t = Wrapf '''' (Sentinel s) ('': '' @ t)"

definition wrap_cause :: "string \<Rightarrow> go_error \<Rightarrow> go_error" where
  "wrap_cause t cause = Wrapf (t @ '': '') cause ''''"

text \<open>What \<open>errors.Is\<close> sees of the three shapes: the sentinel, the sentinel, the cause. The
  quoted cause of \<^const>\<open>wrap_sentinel\<close> is not part of the chain.\<close>

lemma errors_Is_wrap [simp]:
  "errors_Is (wrap_sentinel s t cause) u = (s = u)"
  "errors_Is (wrap_text s t) u = (s = u)"
  "errors_Is (wrap_cause t cause) u = errors_Is cause u"
  by (simp_all add: wrap_sentinel_def wrap_text_def wrap_cause_def)

section \<open>shared.AppError\<close>

record AppError =
  ae_Context :: string
  ae_Code :: int
  ae_Err :: "go_error option"
  ae_Message :: string

definition app_error :: "int \<Rightarrow> string \<Rightarrow> go_error option \<Rightarrow> AppError" where
  "app_error code msg err = \<lparr>ae_Context = '''', ae_Code = code, ae_Err = err, ae_Message = msg\<rparr>"

lemma app_error_sel [simp]:
  "ae_Code (app_error c m e) = c" "ae_Message (app_error c m e) = m"
  "ae_Err (app_error c m e) = e" "ae_Context (app_error c m e) = ''''"
  by (simp_all add: app_error_def)

text \<open>\<open>AppError.Error\<close> and \<open>Unwrap\<close>.\<close>

definition AppError_Error :: "AppError \<Rightarrow> string" where
  "AppError_Error e =
     (let msg0 = ''App Error'';
          msg1 = (if ae_Context e \<noteq> '''' then msg0 @ '': context: '' @ ae_Context e else msg0);
          msg2 = (if ae_Message e \<noteq> '''' then msg1 @ '': msg: '' @ ae_Message e else msg1);
          msg3 = (if ae_Code e \<noteq> 0 then msg2 @ '': status code: '' @ fmt_d (ae_Code e) else msg2)
      in case ae_Err e of Some err \<Rightarrow> msg3 @ '': err: '' @ Error err | None \<Rightarrow> msg3)"

definition AppError_Unwrap :: "AppError \<Rightarrow> go_error option" where
  "AppError_Unwrap e = ae_Err e"

text \<open>The HTTP status codes the services use (\<open>net/http\<close>).\<close>

abbreviation "StatusBadRequest \<equiv> (400::int)"
abbreviation "StatusUnauthorized \<equiv> (401::int)"
abbreviation "StatusForbidden \<equiv> (403::int)"
abbreviation "StatusNotFound \<equiv> (404::int)"
abbreviation "StatusConflict \<equiv> (409::int)"
abbreviation "StatusUnprocessableEntity \<equiv> (422::int)"
abbreviation "StatusInternalServerError \<equiv> (500::int)"
abbreviation "StatusBadGateway \<equiv> (502::int)"
abbreviation "StatusServiceUnavailable \<equiv> (503::int)"

end
