(* ===== verification/Money.thy ===== *)
theory Money
  imports Go_Strings Go_Errors
begin

text \<open>
  \<^verbatim>\<open>src/shared/money.go\<close> without its floating-point conversions, which are in
  \<^verbatim>\<open>Float64.thy\<close>: the amount type, its arithmetic, its rendering and its database encoding.
  A \<open>Money\<close> is an \<open>int64\<close> of minor units; \<open>Add\<close> and \<open>Sub\<close> wrap as the code's do.
\<close>

type_synonym Money = int64

definition minorUnits :: int where
  "minorUnits = 100"

definition NewMoneyFromMinor :: "int64 \<Rightarrow> Money" where
  "NewMoneyFromMinor minor = minor"

definition Minor :: "Money \<Rightarrow> int64" where
  "Minor m = m"

definition Money_Add :: "Money \<Rightarrow> Money \<Rightarrow> Money" where
  "Money_Add m other = m + other"

definition Money_Sub :: "Money \<Rightarrow> Money \<Rightarrow> Money" where
  "Money_Sub m other = m - other"

definition IsZero :: "Money \<Rightarrow> bool" where
  "IsZero m \<longleftrightarrow> m = 0"

definition IsPositive :: "Money \<Rightarrow> bool" where
  "IsPositive m \<longleftrightarrow> 0 < sint m"

definition IsNegative :: "Money \<Rightarrow> bool" where
  "IsNegative m \<longleftrightarrow> sint m < 0"

text \<open>\<open>String\<close>: the negation of the smallest \<open>int64\<close> wraps to itself, as in Go, and \<open>/\<close> and
  \<open>%\<close> truncate towards zero.\<close>

definition Money_String :: "Money \<Rightarrow> string" where
  "Money_String m =
     (let (sign, v) = (if sint m < 0 then (''-'', - m) else ('''', m))
      in sign @ fmt_d (sint v sdiv minorUnits) @ ''.'' @ fmt_02d (sint v smod minorUnits))"

definition MarshalJSON :: "Money \<Rightarrow> string" where
  "MarshalJSON m = Money_String m"

section \<open>Database encoding\<close>

text \<open>The dynamic types a driver hands to \<open>Scan\<close>. A \<open>float64\<close> is represented by what
  \<open>math.Round\<close> and the conversion to \<open>int64\<close> make of it.\<close>

datatype driver_value =
    DNil | DInt64 int64 | DInt32 "32 word" | DFloat64Rounded int64 | DBytes string | DString string
  | DOther string

definition Money_Value :: "Money \<Rightarrow> driver_value" where
  "Money_Value m = DInt64 m"

definition scan_text :: "string \<Rightarrow> go_error + Money" where
  "scan_text s = (case ParseInt64 s of
      None \<Rightarrow> Inl (wrap_cause ''scan money'' (Opaque (''parsing '' @ s)))
    | Some parsed \<Rightarrow> Inr parsed)"

fun Scan :: "driver_value \<Rightarrow> go_error + Money" where
  "Scan DNil = Inr 0"
| "Scan (DInt64 v) = Inr v"
| "Scan (DInt32 v) = Inr (scast v)"
| "Scan (DFloat64Rounded v) = Inr v"
| "Scan (DBytes s) = scan_text s"
| "Scan (DString s) = scan_text s"
| "Scan (DOther t) = Inl (Opaque (''scan money: unsupported type '' @ t))"

section \<open>Lemmas\<close>

lemma sint_bounds: "- (2 ^ 63) \<le> sint (m :: int64)" "sint (m :: int64) < 2 ^ 63"
  using sint_range_size[of m] by (simp_all add: word_size)

lemma sint_neg: "sint (m :: int64) \<noteq> - (2 ^ 63) \<Longrightarrow> sint (- m) = - sint m"
proof -
  assume ne: "sint m \<noteq> - (2 ^ 63)"
  have "sint (- m) = signed_take_bit 63 (- sint m)"
    by (simp add: sint_word_ariths)
  also have "\<dots> = - sint m"
    using ne sint_bounds[of m] by (intro signed_take_bit_int_eq_self) auto
  finally show ?thesis .
qed

text \<open>The rendering, digit by digit, of every amount but the smallest \<open>int64\<close>.\<close>

lemma Money_String_digits:
  assumes "sint m \<noteq> - (2 ^ 63)"
  shows "Money_String m =
    (if sint m < 0 then ''-'' else '''') @ dec (nat \<bar>sint m\<bar> div 100) @ ''.'' @
    [digit (nat \<bar>sint m\<bar> mod 100 div 10), digit (nat \<bar>sint m\<bar> mod 10)]"
proof -
  define n where "n = nat \<bar>sint m\<bar>"
  have d0: "digit 0 = CHR ''0''" by (simp add: digit_def char_of_eq_iff)
  have two: "fmt_02d (int k) = [digit (k div 10), digit (k mod 10)]" if "k < 100" for k
    using that by (auto simp: d0 fmt_02d_def fmt_d_def dec.simps[of k] dec.simps[of "k div 10"])
  have parts: "sint v sdiv 100 = int (n div 100)" "sint v smod 100 = int (n mod 100)"
    if "sint v = int n" for v :: int64
    unfolding that by (cases "n = 0"; simp add: signed_divide_int_def signed_modulo_int_def
        zdiv_int zmod_int)+
  have v: "sint (if sint m < 0 then - m else m) = int n"
    using assms by (simp add: n_def sint_neg)
  have mod10: "n mod 100 mod 10 = n mod 10" by (simp add: mod_mod_cancel)
  show ?thesis
    using parts[OF v] two[of "n mod 100"] mod10 unfolding n_def[symmetric]
    by (auto simp: Money_String_def minorUnits_def fmt_d_def)
qed

end
