(* ===== verification/Go_Json.thy ===== *)
theory Go_Json
  imports Go_Strings
begin

text \<open>
  What the code uses of \<open>encoding/json\<close>: documents as trees (a number keeps its literal
  text), and the decoding of an object into a struct. \<open>json.Unmarshal\<close> matches a key to a
  field by \<open>EqualFold\<close> of its tag, leaves a field alone on \<open>null\<close> or when it is absent, lets
  the last of several matching keys win, and reports a value of the wrong kind as an error.
\<close>

datatype json =
    JNull | JBool bool | JNum string | JStr string | JArr "json list" | JObj "(string \<times> json) list"

text \<open>One field: the zero value \<open>z\<close>, and \<open>conv\<close> from a non-null value.\<close>

fun field_of :: "(json \<Rightarrow> 'a option) \<Rightarrow> 'a \<Rightarrow> string \<Rightarrow> (string \<times> json) list \<Rightarrow> 'a option" where
  "field_of conv cur tag [] = Some cur"
| "field_of conv cur tag ((k, v) # kvs) =
     (if EqualFold k tag \<and> v \<noteq> JNull
      then (case conv v of None \<Rightarrow> None | Some a \<Rightarrow> field_of conv a tag kvs)
      else field_of conv cur tag kvs)"

fun as_string :: "json \<Rightarrow> string option" where
  "as_string (JStr s) = Some s"
| "as_string _ = None"

fun as_int64 :: "json \<Rightarrow> int64 option" where
  "as_int64 (JNum lit) = ParseInt64 lit"
| "as_int64 _ = None"

fun as_bool :: "json \<Rightarrow> bool option" where
  "as_bool (JBool b) = Some b"
| "as_bool _ = None"

definition string_field :: "string \<Rightarrow> (string \<times> json) list \<Rightarrow> string option" where
  "string_field = field_of as_string ''''"

definition int64_field :: "string \<Rightarrow> (string \<times> json) list \<Rightarrow> int64 option" where
  "int64_field = field_of as_int64 0"

definition bool_field :: "string \<Rightarrow> (string \<times> json) list \<Rightarrow> bool option" where
  "bool_field = field_of as_bool False"

text \<open>A \<open>json.RawMessage\<close> field takes the value as it is, \<open>null\<close> included.\<close>

fun raw_field :: "json option \<Rightarrow> string \<Rightarrow> (string \<times> json) list \<Rightarrow> json option" where
  "raw_field cur tag [] = cur"
| "raw_field cur tag ((k, v) # kvs) = raw_field (if EqualFold k tag then Some v else cur) tag kvs"

text \<open>Marshalling with \<open>omitempty\<close> leaves a zero field out.\<close>

definition put_string :: "string \<Rightarrow> string \<Rightarrow> (string \<times> json) list" where
  "put_string tag s = [(tag, JStr s)]"

definition put_string_omitempty :: "string \<Rightarrow> string \<Rightarrow> (string \<times> json) list" where
  "put_string_omitempty tag s = (if s = '''' then [] else [(tag, JStr s)])"

definition put_int64_omitempty :: "string \<Rightarrow> int64 \<Rightarrow> (string \<times> json) list" where
  "put_int64_omitempty tag n = (if n = 0 then [] else [(tag, JNum (fmt_d (sint n)))])"

lemma ParseInt64_fmt_sint [simp]: "ParseInt64 (fmt_d (sint (n :: int64))) = Some n"
proof -
  have "- (2 ^ 63) \<le> sint n" "sint n < 2 ^ 63"
    using sint_range_size[of n] by (simp_all add: word_size)
  then show ?thesis using ParseInt64_fmt_d[of "sint n"] by simp
qed

lemma field_of_append:
  "field_of conv cur tag (xs @ ys) =
   (case field_of conv cur tag xs of None \<Rightarrow> None | Some a \<Rightarrow> field_of conv a tag ys)"
  by (induction xs arbitrary: cur rule: list.induct) (auto split: option.splits)

lemma field_of_put [simp]:
  "field_of as_string cur tag (put_string k s) = Some (if EqualFold k tag then s else cur)"
  "field_of as_string '''' tag (put_string_omitempty k s) = Some (if EqualFold k tag then s else '''')"
  "\<not> EqualFold k tag \<Longrightarrow> field_of as_string cur tag (put_string_omitempty k s) = Some cur"
  "\<not> EqualFold k tag \<Longrightarrow> field_of as_string cur tag (put_int64_omitempty k n) = Some cur"
  "field_of as_int64 0 tag (put_int64_omitempty k n) = Some (if EqualFold k tag then n else 0)"
  "\<not> EqualFold k tag \<Longrightarrow> field_of as_int64 c tag (put_string k s) = Some c"
  "\<not> EqualFold k tag \<Longrightarrow> field_of as_int64 c tag (put_string_omitempty k s) = Some c"
  by (simp_all add: put_string_def put_string_omitempty_def put_int64_omitempty_def)

end
