(* ===== verification/Go_Time.thy ===== *)
theory Go_Time
  imports Go_Strings
begin

text \<open>
  What the code uses of package \<open>time\<close>: \<open>Format(time.RFC3339)\<close> of an instant in UTC. An
  instant is the number of nanoseconds since the Unix epoch.
\<close>

type_synonym time = int  \<comment> \<open>nanoseconds since the Unix epoch\<close>

text \<open>The proleptic Gregorian calendar date of a day number, counted from 1970-01-01, by way of
  years that begin on 1 March.\<close>

definition civil_of_day :: "int \<Rightarrow> int \<times> int \<times> int" where
  "civil_of_day day =
     (let z = day + 719468;
          era = z div 146097;
          doe = z mod 146097;
          yoe = (doe - doe div 1460 + doe div 36524 - doe div 146096) div 365;
          doy = doe - (365 * yoe + yoe div 4 - yoe div 100);
          mp = (5 * doy + 2) div 153;
          d = doy - (153 * mp + 2) div 5 + 1;
          m = (if mp < 10 then mp + 3 else mp - 9)
      in (yoe + era * 400 + (if m \<le> 2 then 1 else 0), m, d))"

definition day_of_civil :: "int \<Rightarrow> int \<Rightarrow> int \<Rightarrow> int" where
  "day_of_civil y m d =
     (let y' = (if m \<le> 2 then y - 1 else y);
          era = y' div 400;
          yoe = y' mod 400;
          doy = (153 * (if m > 2 then m - 3 else m + 9) + 2) div 5 + d - 1;
          doe = yoe * 365 + yoe div 4 - yoe div 100 + doy
      in era * 146097 + doe - 719468)"

definition pad_left :: "nat \<Rightarrow> string \<Rightarrow> string" where
  "pad_left n s = replicate (n - length s) (CHR ''0'') @ s"

definition fmt_pad :: "nat \<Rightarrow> int \<Rightarrow> string" where
  "fmt_pad n i = (if i < 0 then ''-'' @ pad_left n (dec (nat (- i))) else pad_left n (dec (nat i)))"

definition format_RFC3339 :: "time \<Rightarrow> string" where
  "format_RFC3339 t =
     (let secs = t div 1000000000; (y, m, d) = civil_of_day (secs div 86400); s = secs mod 86400
      in fmt_pad 4 y @ ''-'' @ fmt_pad 2 m @ ''-'' @ fmt_pad 2 d @ ''T'' @
         fmt_pad 2 (s div 3600) @ '':'' @ fmt_pad 2 (s div 60 mod 60) @ '':'' @ fmt_pad 2 (s mod 60) @ ''Z'')"

text \<open>The zero \<open>time.Time\<close>, 1 January of year 1.\<close>

definition zero_time :: time where
  "zero_time = day_of_civil 1 1 1 * 86400 * 1000000000"

text \<open>\<open>time.Parse\<close> with the layout \<open>2006-01-02 15:04:00\<close>. The final \<open>:00\<close> names no field, so it is
  literal text; the hour may have one digit; a space of the layout matches any number of them.\<close>

definition two_digits :: "string \<Rightarrow> (nat \<times> string) option" where
  "two_digits s = (case s of
      a # b # rest \<Rightarrow> if is_digit a \<and> is_digit b then map_option (\<lambda>n. (n, rest)) (undec [a, b]) else None
    | _ \<Rightarrow> None)"

definition one_or_two_digits :: "string \<Rightarrow> (nat \<times> string) option" where
  "one_or_two_digits s = (case s of [] \<Rightarrow> None
    | a # rest \<Rightarrow> if \<not> is_digit a then None
        else (case two_digits s of Some r \<Rightarrow> Some r | None \<Rightarrow> map_option (\<lambda>n. (n, rest)) (undec [a])))"

definition four_digits :: "string \<Rightarrow> (nat \<times> string) option" where
  "four_digits s = (if length s < 4 then None else map_option (\<lambda>n. (n, drop 4 s)) (undec (take 4 s)))"

definition skip_char :: "char \<Rightarrow> string \<Rightarrow> string option" where
  "skip_char c s = (case s of [] \<Rightarrow> None | a # rest \<Rightarrow> if a = c then Some rest else None)"

definition skip_space :: "string \<Rightarrow> string option" where
  "skip_space s = (case s of [] \<Rightarrow> Some [] | a # rest \<Rightarrow> if a = CHR '' '' then Some (dropWhile (\<lambda>c. c = CHR '' '') s) else None)"

definition leap_year :: "int \<Rightarrow> bool" where
  "leap_year y \<longleftrightarrow> y mod 4 = 0 \<and> (y mod 100 \<noteq> 0 \<or> y mod 400 = 0)"

definition days_in :: "int \<Rightarrow> int \<Rightarrow> int" where
  "days_in y m = (if m = 2 then (if leap_year y then 29 else 28) else if m \<in> {4, 6, 9, 11} then 30 else 31)"

definition parse_birth :: "string \<Rightarrow> time option" where
  "parse_birth s0 =
     Option.bind (four_digits s0) (\<lambda>(y, s1).
     Option.bind (skip_char (CHR ''-'') s1) (\<lambda>s2.
     Option.bind (two_digits s2) (\<lambda>(m, s3).
     Option.bind (skip_char (CHR ''-'') s3) (\<lambda>s4.
     Option.bind (two_digits s4) (\<lambda>(d, s5).
     Option.bind (skip_space s5) (\<lambda>s6.
     Option.bind (one_or_two_digits s6) (\<lambda>(h, s7).
     Option.bind (skip_char (CHR '':'') s7) (\<lambda>s8.
     Option.bind (two_digits s8) (\<lambda>(mi, s9).
       if s9 = '':00'' \<and> 1 \<le> m \<and> m \<le> 12 \<and> 1 \<le> d \<and> int d \<le> days_in (int y) (int m) \<and> h < 24 \<and> mi < 60
       then Some ((day_of_civil (int y) (int m) (int d) * 86400 + int h * 3600 + int mi * 60) * 1000000000)
       else None)))))))))"

end
