(* ===== verification/World.thy ===== *)
theory World
  imports Effects Money Go_Json Go_Time
begin

text \<open>
  The shared world the program works on. Its Postgres tables are lists of rows in insertion
  order, one record per model of \<^verbatim>\<open>src/internal/repository/db/types.go\<close>. TigerBeetle and
  the other remote services (payment provider, Redis queue, mail) are opaque states \<open>tb\<close> and
  \<open>ext\<close>, changed only by the client functions of the record \<open>externals\<close>, which are parameters
  of every definition that uses them. \<open>trace\<close> records the calls made to them, in order, for
  the properties to speak about; no code reads it. \<open>db_fault\<close>, \<open>uuid_src\<close> and \<open>rand_src\<close> are the oracles for the failures of the
  database, the identifiers \<open>uuid.New\<close> draws and the numbers \<open>crypto/rand\<close> draws: the \<open>n\<close>-th
  use reads the \<open>n\<close>-th value, and the theorems hold for every oracle.
\<close>

section \<open>Database models\<close>


datatype WalletStatus = WalletActive | WallteFrozen | WalletClosed

datatype TransactionStatus =
  TransactionPending | TransactionSuccess | TransactionFailed | TransactionRefunding | TransactionRefunded

record user_row =
  u_ID :: uuid
  u_FirstName :: string
  u_LastName :: string
  u_Email :: string
  u_Passwordhash :: "string option"
  u_PhoneNumber :: "string option"
  u_DateOfBirth :: "time option"
  u_ProfilePhotoURL :: "string option"
  u_Gender :: string
  u_IsActive :: bool
  u_IsVerified :: bool
  u_CreatedAt :: time
  u_UpdatedAt :: time
  u_DeletedAt :: "time option"

record wallet_row =
  w_ID :: uuid
  w_AccountNumber :: string
  w_UserID :: uuid
  w_Currency :: string
  w_Status :: WalletStatus
  w_CreatedAt :: time
  w_UpdatedAt :: time
  w_DeletedAt :: "time option"

record activity_row =
  a_ID :: nat
  a_UserID :: uuid
  a_Action :: string
  a_CreatedAt :: time
  a_UpdatedAt :: time
  a_DeletedAt :: "time option"

record transfer_row =
  tr_ID :: uuid
  tr_SenderUserID :: uuid
  tr_SenderWalletID :: uuid
  tr_RecipientUserID :: uuid
  tr_RecipientWalletID :: uuid
  tr_Amount :: Money
  tr_Currency :: string
  tr_Status :: TransactionStatus
  tr_FailureReason :: string
  tr_CreatedAt :: time
  tr_UpdatedAt :: time

record intent_row =
  ti_ID :: uuid
  ti_UserID :: uuid
  ti_Amount :: Money
  ti_Status :: TransactionStatus
  ti_Wallet :: uuid
  ti_Provider :: string
  ti_CreatedAt :: time
  ti_UpdatedAt :: time

section \<open>Remote services\<close>

text \<open>The TigerBeetle client's structures and result statuses (package \<open>tigerbeetle-go\<close>), with
  the fields the code sets or reads.\<close>

record tb_account =
  acc_ID :: u128
  acc_Ledger :: uint32
  acc_Code :: uint16
  acc_DebitsMustNotExceedCredits :: bool

record tb_balance =
  bal_ID :: u128
  bal_DebitsPosted :: u128
  bal_CreditsPosted :: u128

record tb_transfer =
  t_ID :: u128
  t_DebitAccountID :: u128
  t_CreditAccountID :: u128
  t_Amount :: u128
  t_Ledger :: uint32
  t_Code :: uint16

record tb_posted = tb_transfer +
  t_Timestamp :: uint64

datatype AccountStatus = AccountCreated | AccountExists | AccountOther string
datatype TransferStatus = TransferCreated | TransferExists | TransferExceedsCredits | TransferOther string

record 'tb tb_client =
  tb_BytesToUint128 :: "uuid \<Rightarrow> u128"
  tb_Bytes :: "u128 \<Rightarrow> uuid"
  tb_ToUint128 :: "uint64 \<Rightarrow> u128"
  tb_BigInt :: "u128 \<Rightarrow> int"
  tb_CreateAccounts :: "tb_account list \<Rightarrow> 'tb \<Rightarrow> (string + AccountStatus list) \<times> 'tb"
  tb_CreateTransfers :: "tb_transfer list \<Rightarrow> 'tb \<Rightarrow> (string + TransferStatus list) \<times> 'tb"
  tb_LookupTransfers :: "u128 list \<Rightarrow> 'tb \<Rightarrow> (string + tb_posted list) \<times> 'tb"
  tb_LookupAccounts :: "u128 list \<Rightarrow> 'tb \<Rightarrow> (string + tb_balance list) \<times> 'tb"
  tb_GetAccountTransfers :: "u128 \<Rightarrow> uint32 \<Rightarrow> 'tb \<Rightarrow> (string + tb_posted list) \<times> 'tb"

text \<open>An asynq task: type, JSON payload (\<open>None\<close>: bytes that are not JSON) and the options the
  code sets.\<close>

record task =
  task_Type :: string
  task_Payload :: "json option"
  task_MaxRetry :: int
  task_ProcessIn :: int
  task_TaskID :: "string option"

datatype asynq_error = ATaskIDConflict | ATaskNotFound | AQueueNotFound | AOther string

text \<open>The asynq client and inspector, and the uuid package.\<close>

record 'x asynq_client =
  aq_Enqueue :: "task \<Rightarrow> string option \<Rightarrow> 'x \<Rightarrow> asynq_error option \<times> 'x"
  aq_DeleteTask :: "string \<Rightarrow> string \<Rightarrow> 'x \<Rightarrow> asynq_error option \<times> 'x"

record uuid_pkg =
  uuid_Parse :: "string \<Rightarrow> uuid option"
  uuid_String :: "uuid \<Rightarrow> string"

text \<open>Documented behaviour of \<open>github.com/google/uuid\<close>: the canonical text parses back.\<close>

definition uuid_ok :: "uuid_pkg \<Rightarrow> bool" where
  "uuid_ok P \<longleftrightarrow> (\<forall>u. uuid_Parse P (uuid_String P u) = Some u)"

text \<open>The calls to remote services, as the trace records them.\<close>

datatype event =
    EvCreateAccounts "tb_account list"
  | EvCreateTransfers "tb_transfer list"
  | EvInitialize string Money
  | EvVerify string
  | EvRefund string Money
  | EvEnqueue task
  | EvDeleteTask string
  | EvSendEmail string

section \<open>The world\<close>

datatype fault = FailBefore string | FailAfter string

record ('tb, 'x) world =
  users :: "user_row list"
  wallets :: "wallet_row list"
  activities :: "activity_row list"
  transfers :: "transfer_row list"
  intents :: "intent_row list"
  now :: time
  db_fault :: "nat \<Rightarrow> fault option"
  db_n :: nat
  uuid_src :: "nat \<Rightarrow> uuid"
  uuid_n :: nat
  rand_src :: "nat \<Rightarrow> nat option"
  rand_n :: nat
  tb :: 'tb
  ext :: 'x
  trace :: "event list"

text \<open>One database statement. The driver may fail before the statement runs, or after it took
  effect (a lost connection): the caller sees an error either way. Driver errors are opaque to
  the code: none is one of its sentinels.\<close>

definition db_call ::
  "(('tb, 'x) world \<Rightarrow> (go_error + 'a) \<times> ('tb, 'x) world) \<Rightarrow> (go_error + 'a, ('tb, 'x) world) prog" where
  "db_call f = atom (\<lambda>w. let w1 = w\<lparr>db_n := Suc (db_n w)\<rparr> in
     case db_fault w (db_n w) of
       None \<Rightarrow> f w1
     | Some (FailBefore m) \<Rightarrow> (Inl (Opaque m), w1)
     | Some (FailAfter m) \<Rightarrow> (Inl (Opaque m), snd (f w1)))"

text \<open>\<open>uuid.New\<close>, as the \<open>BeforeCreate\<close> hooks of \<^verbatim>\<open>db/types.go\<close> call it, inside the insert.\<close>

definition uuid_New :: "('tb, 'x) world \<Rightarrow> uuid \<times> ('tb, 'x) world" where
  "uuid_New w = (uuid_src w (uuid_n w), w\<lparr>uuid_n := Suc (uuid_n w)\<rparr>)"

text \<open>\<open>rand.Int(rand.Reader, max)\<close>: the reader may fail; otherwise a number below \<open>max\<close>.\<close>

definition rand_Int :: "nat \<Rightarrow> (go_error + nat, ('tb, 'x) world) prog" where
  "rand_Int m = atom (\<lambda>w. (case rand_src w (rand_n w) of
       None \<Rightarrow> Inl (Opaque ''rand: read error'') | Some r \<Rightarrow> Inr (r mod m),
     w\<lparr>rand_n := Suc (rand_n w)\<rparr>))"

definition time_Now :: "(time, ('tb, 'x) world) prog" where
  "time_Now = atom (\<lambda>w. (now w, w))"

text \<open>A call to TigerBeetle and a call to another service, recorded in the trace.\<close>

definition tb_call :: "event list \<Rightarrow> ('tb \<Rightarrow> 'a \<times> 'tb) \<Rightarrow> ('a, ('tb, 'x) world) prog" where
  "tb_call evs f = atom (\<lambda>w. case f (tb w) of (r, s) \<Rightarrow> (r, w\<lparr>tb := s, trace := trace w @ evs\<rparr>))"

definition ext_call :: "event list \<Rightarrow> ('x \<Rightarrow> 'a \<times> 'x) \<Rightarrow> ('a, ('tb, 'x) world) prog" where
  "ext_call evs f = atom (\<lambda>w. case f (ext w) of (r, s) \<Rightarrow> (r, w\<lparr>ext := s, trace := trace w @ evs\<rparr>))"

section \<open>SQL\<close>

text \<open>\<open>ORDER BY <primary key> LIMIT 1\<close>, what gorm's \<open>First\<close> adds.\<close>

definition sql_first :: "('r \<Rightarrow> 'k::linorder) \<Rightarrow> ('r \<Rightarrow> bool) \<Rightarrow> 'r list \<Rightarrow> 'r option" where
  "sql_first key p rows = (case sort_key key (filter p rows) of [] \<Rightarrow> None | r # _ \<Rightarrow> Some r)"

text \<open>\<open>UPDATE ... WHERE p RETURNING *\<close>: the new table and the updated rows.\<close>

definition sql_update :: "('r \<Rightarrow> bool) \<Rightarrow> ('r \<Rightarrow> 'r) \<Rightarrow> 'r list \<Rightarrow> 'r list" where
  "sql_update p f rows = map (\<lambda>r. if p r then f r else r) rows"

definition sql_returning :: "('r \<Rightarrow> bool) \<Rightarrow> ('r \<Rightarrow> 'r) \<Rightarrow> 'r list \<Rightarrow> 'r list" where
  "sql_returning p f rows = map f (filter p rows)"

text \<open>\<open>LIMIT\<close> and \<open>OFFSET\<close> as gorm renders a Go \<open>int\<close>: a negative limit is no limit, and an
  offset that is not positive is none.\<close>

definition sql_page :: "int64 \<Rightarrow> int64 \<Rightarrow> 'r list \<Rightarrow> 'r list" where
  "sql_page limit offset rows =
     (let rest = (if 0 < sint offset then drop (nat (sint offset)) rows else rows)
      in if sint limit < 0 then rest else take (nat (sint limit)) rest)"

text \<open>\<open>ORDER BY created_at DESC\<close> (rows with equal times in insertion order; SQL leaves their
  order open).\<close>

definition sql_newest :: "('r \<Rightarrow> time) \<Rightarrow> 'r list \<Rightarrow> 'r list" where
  "sql_newest created rows = sort_key (\<lambda>r. - created r) rows"

lemma sql_first_None: "sql_first key p rows = None \<longleftrightarrow> (\<forall>r \<in> set rows. \<not> p r)"
proof -
  have "sort_key key (filter p rows) = [] \<longleftrightarrow> filter p rows = []"
    by (metis set_empty set_sort)
  then show ?thesis
    by (auto simp: sql_first_def filter_empty_conv split: list.splits)
qed

lemma sql_first_Some:
  assumes "sql_first key p rows = Some r"
  shows "r \<in> set rows \<and> p r"
proof -
  from assms obtain rs where e: "sort_key key (filter p rows) = r # rs"
    by (auto simp: sql_first_def split: list.splits)
  have "r \<in> set (sort_key key (filter p rows))" unfolding e by simp
  then show ?thesis by simp
qed

lemma sql_first_unique:
  "distinct (map k rows) \<Longrightarrow> r \<in> set rows \<Longrightarrow> k r = a \<Longrightarrow> q r \<Longrightarrow>
   sql_first key (\<lambda>r. k r = a \<and> q r) rows = Some r"
proof -
  assume a: "distinct (map k rows)" "r \<in> set rows" "k r = a" "q r"
  have "filter (\<lambda>r. k r = a \<and> q r) rows = filter q (filter (\<lambda>r. k r = a) rows)"
    by (induction rows) auto
  also have "\<dots> = [r]" using distinct_map_filter_single[OF a(1-3)] a(4) by simp
  finally show ?thesis by (simp add: sql_first_def)
qed

end
