(* ===== verification/Queues.thy ===== *)
theory Queues
  imports World
begin

text \<open>
  \<^verbatim>\<open>src/internal/queues/utils.go\<close> and \<^verbatim>\<open>middleware.go\<close>, and the dispatch of \<^verbatim>\<open>worker.go\<close>: how
  tasks are built and enqueued, and the middleware every payment and transfer handler runs
  behind. The contract of \<open>Worker[T]\<close> that listeners rely on is the locale \<open>worker\<close>: the handler
  decodes from a generated task the payload it was generated from.
\<close>

section \<open>utils.go\<close>

text \<open>The options of \<open>asynq.NewTask\<close> the code passes, applied in order.\<close>

datatype task_option = MaxRetry int | ProcessIn int | TaskID string

fun apply_option :: "task_option \<Rightarrow> task \<Rightarrow> task" where
  "apply_option (MaxRetry n) t = t\<lparr>task_MaxRetry := n\<rparr>"
| "apply_option (ProcessIn d) t = t\<lparr>task_ProcessIn := d\<rparr>"
| "apply_option (TaskID i) t = t\<lparr>task_TaskID := Some i\<rparr>"

definition NewTask :: "string \<Rightarrow> json \<Rightarrow> task_option list \<Rightarrow> task" where
  "NewTask name body opts = fold apply_option opts
     \<lparr>task_Type = name, task_Payload = Some body, task_MaxRetry = 25, task_ProcessIn = 0, task_TaskID = None\<rparr>"

text \<open>\<open>GenerateNewTask\<close>: \<open>json.Marshal\<close> of the payload structs (strings, integers, string maps)
  cannot fail, so \<open>body\<close> is the marshalled payload and there is no error to return.\<close>

definition GenerateNewTask :: "string \<Rightarrow> json \<Rightarrow> task_option list \<Rightarrow> task" where
  "GenerateNewTask name body opts = NewTask name body (MaxRetry 3 # opts)"

fun asynq_err :: "asynq_error \<Rightarrow> go_error" where
  "asynq_err ATaskIDConflict = Sentinel asynq_ErrTaskIDConflict"
| "asynq_err ATaskNotFound = Sentinel asynq_ErrTaskNotFound"
| "asynq_err AQueueNotFound = Sentinel asynq_ErrQueueNotFound"
| "asynq_err (AOther m) = Opaque m"

definition EnqueueWithContext ::
  "task \<Rightarrow> string \<Rightarrow> 'x asynq_client \<Rightarrow> (go_error option, ('tb, 'x) world) prog" where
  "EnqueueWithContext t queue client =
     bnd (ext_call [EvEnqueue t] (aq_Enqueue client t (if queue = '''' then None else Some queue))) (\<lambda>res.
       Ret (case res of
         None \<Rightarrow> None
       | Some e \<Rightarrow> let err = asynq_err e in
           if errors_Is err asynq_ErrTaskIDConflict then None
           else Some (wrap_cause (''enqueue '' @ task_Type t) err)))"

lemma NewTask_sel [simp]:
  "task_Type (NewTask name body opts) = name"
  "task_Payload (NewTask name body opts) = Some body"
proof -
  have "task_Type (fold apply_option opts t) = task_Type t \<and> task_Payload (fold apply_option opts t) = task_Payload t" for t
  proof (induction opts arbitrary: t)
    case (Cons o1 os)
    then show ?case by (cases o1) auto
  qed simp
  then show "task_Type (NewTask name body opts) = name" "task_Payload (NewTask name body opts) = Some body"
    by (simp_all add: NewTask_def)
qed

lemma GenerateNewTask_sel [simp]:
  "task_Type (GenerateNewTask name body opts) = name"
  "task_Payload (GenerateNewTask name body opts) = Some body"
  by (simp_all add: GenerateNewTask_def)

section \<open>middleware.go\<close>

text \<open>What the code reads of a task's context: how often it was retried and how often it may be.\<close>

record TaskCtx =
  tc_Retried :: "int option"
  tc_MaxRetry :: "int option"

datatype outcome = Returned "go_error option" | Panicked string

type_synonym 'w task_handler = "TaskCtx \<Rightarrow> task \<Rightarrow> (outcome, 'w) prog"
type_synonym 'w middleware = "'w task_handler \<Rightarrow> 'w task_handler"

text \<open>A handler that does not panic.\<close>

definition HandlerFunc :: "(task \<Rightarrow> (go_error option, 'w) prog) \<Rightarrow> 'w task_handler" where
  "HandlerFunc h = (\<lambda>ctx t. bnd (h t) (\<lambda>e. Ret (Returned e)))"

definition Chain :: "'w task_handler \<Rightarrow> 'w middleware list \<Rightarrow> 'w task_handler" where
  "Chain h mws = foldr (\<lambda>mw next. mw next) mws h"

definition IsFinalAttempt :: "TaskCtx \<Rightarrow> go_error option \<Rightarrow> bool" where
  "IsFinalAttempt ctx err = (case err of
      None \<Rightarrow> False
    | Some e \<Rightarrow>
        if errors_Is e asynq_SkipRetry then True
        else case tc_Retried ctx of
          None \<Rightarrow> False
        | Some retried \<Rightarrow> (case tc_MaxRetry ctx of
            None \<Rightarrow> False
          | Some maxRetry \<Rightarrow> retried \<ge> maxRetry))"

definition IsFailure :: "go_error \<Rightarrow> bool" where
  "IsFailure err \<longleftrightarrow> \<not> errors_Is err ErrRetryLater"

definition RecoverMiddleware :: "'w middleware" where
  "RecoverMiddleware next = (\<lambda>ctx t. bnd (next ctx t) (\<lambda>o1. Ret (case o1 of
      Panicked r \<Rightarrow> Returned (Some (Opaque (''task handler panicked: '' @ r)))
    | Returned e \<Rightarrow> Returned e)))"

text \<open>\<open>LoggingMiddleware\<close> only logs; \<open>attempt_log\<close> is the class it logs an attempt under.\<close>

datatype attempt = TaskCompleted | DroppedWithoutRetry | RetriesExhausted | NotReadyWillRetry | FailedWillRetry

definition attempt_log :: "TaskCtx \<Rightarrow> go_error option \<Rightarrow> attempt" where
  "attempt_log ctx err = (case err of
      None \<Rightarrow> TaskCompleted
    | Some e \<Rightarrow>
        if errors_Is e asynq_SkipRetry then DroppedWithoutRetry
        else if IsFinalAttempt ctx err then RetriesExhausted
        else if errors_Is e ErrRetryLater then NotReadyWillRetry
        else FailedWillRetry)"

definition LoggingMiddleware :: "'w middleware" where
  "LoggingMiddleware next = (\<lambda>ctx t. bnd (next ctx t) Ret)"

definition OnRetriesExhausted ::
  "(TaskCtx \<Rightarrow> task \<Rightarrow> go_error \<Rightarrow> (unit, 'w) prog) \<Rightarrow> 'w middleware" where
  "OnRetriesExhausted fn next = (\<lambda>ctx t. bnd (next ctx t) (\<lambda>o1. case o1 of
      Panicked r \<Rightarrow> Ret o1
    | Returned None \<Rightarrow> Ret o1
    | Returned (Some err) \<Rightarrow>
        if \<not> errors_Is err asynq_SkipRetry \<and> IsFinalAttempt ctx (Some err)
        then bnd (fn ctx t err) (\<lambda>_. Ret o1) else Ret o1))"

text \<open>\<open>RetryDelay\<close>; asynq's exponential backoff is the argument \<open>backoff\<close>.\<close>

definition RetryDelay :: "(string \<rightharpoonup> int) \<Rightarrow> (int \<Rightarrow> go_error \<Rightarrow> task \<Rightarrow> int) \<Rightarrow> int \<Rightarrow> go_error \<Rightarrow> task \<Rightarrow> int" where
  "RetryDelay fixed backoff n err t = (case fixed (task_Type t) of
      None \<Rightarrow> backoff n err t
    | Some delay \<Rightarrow> if delay > 0 then delay else backoff n err t)"

text \<open>\<open>handlePayment\<close> of \<^verbatim>\<open>worker.go\<close>: logging outermost, recovery innermost.\<close>

definition handlePayment :: "'w task_handler \<Rightarrow> 'w middleware list \<Rightarrow> 'w task_handler" where
  "handlePayment h mws = Chain h (LoggingMiddleware # mws @ [RecoverMiddleware])"

lemma LoggingMiddleware_id [simp]: "LoggingMiddleware next = next"
  by (simp add: LoggingMiddleware_def bnd_Ret_right)

lemma Chain_simps [simp]:
  "Chain h [] = h"
  "Chain h (mw # mws) = mw (Chain h mws)"
  by (simp_all add: Chain_def)

lemma handlePayment_simps:
  "handlePayment h [] = RecoverMiddleware h"
  "handlePayment h [mw] = mw (RecoverMiddleware h)"
  by (simp_all add: handlePayment_def)

lemma Recover_HandlerFunc [simp]: "RecoverMiddleware (HandlerFunc h) = HandlerFunc h"
  by (simp add: RecoverMiddleware_def HandlerFunc_def bnd_assoc)

section \<open>The worker interface\<close>

text \<open>A payload type with its JSON encoding: what a generated task carries is what the handler of
  the task decodes. \<open>ok\<close> restricts to payloads a Go value can be.\<close>

locale worker =
  fixes ok :: "'p \<Rightarrow> bool"
    and marshal :: "'p \<Rightarrow> json"
    and unmarshal :: "json option \<Rightarrow> 'p option"
  assumes round_trip: "ok p \<Longrightarrow> unmarshal (Some (marshal p)) = Some p"
begin

lemma decode_generated:
  "ok p \<Longrightarrow> unmarshal (task_Payload (GenerateNewTask name (marshal p) opts)) = Some p"
  by (simp add: round_trip)

lemma generated_inj:
  assumes "ok p" "ok q" and "GenerateNewTask name (marshal p) opts = GenerateNewTask name (marshal q) opts'"
  shows "p = q"
proof -
  from assms(3) have "task_Payload (GenerateNewTask name (marshal p) opts) =
      task_Payload (GenerateNewTask name (marshal q) opts')" by simp
  then have "unmarshal (Some (marshal p)) = unmarshal (Some (marshal q))" by simp
  with assms(1,2) round_trip show ?thesis by simp
qed

end

end
