(* ===== verification/Tasks.thy ===== *)
theory Tasks
  imports Queues
begin

text \<open>
  The payload structs of the four task types of \<^verbatim>\<open>src/internal/queues\<close> and their JSON encoding
  by the struct tags, with an interpretation of the locale \<open>worker\<close> for each.
\<close>

section \<open>PaymentPayload\<close>

record PaymentPayload =
  pp_Reference :: string
  pp_Provider :: string
  pp_Event :: string
  pp_Status :: string
  pp_AmountMinor :: int64
  pp_Currency :: string

definition marshal_payment :: "PaymentPayload \<Rightarrow> json" where
  "marshal_payment p = JObj (put_string ''reference'' (pp_Reference p) @ put_string ''provider'' (pp_Provider p) @
     put_string_omitempty ''event'' (pp_Event p) @ put_string_omitempty ''status'' (pp_Status p) @
     put_int64_omitempty ''amount_minor'' (pp_AmountMinor p) @ put_string_omitempty ''currency'' (pp_Currency p))"

text \<open>\<open>json.Unmarshal\<close> into a struct: an object fills the fields, \<open>null\<close> leaves them zero, and
  anything else is an error.\<close>

fun object_of :: "json option \<Rightarrow> (string \<times> json) list option" where
  "object_of (Some (JObj kvs)) = Some kvs"
| "object_of (Some JNull) = Some []"
| "object_of _ = None"

definition unmarshal_payment :: "json option \<Rightarrow> PaymentPayload option" where
  "unmarshal_payment body = (case object_of body of None \<Rightarrow> None | Some kvs \<Rightarrow>
     (case (string_field ''reference'' kvs, string_field ''provider'' kvs, string_field ''event'' kvs,
            string_field ''status'' kvs, int64_field ''amount_minor'' kvs, string_field ''currency'' kvs) of
        (Some r, Some p, Some e, Some s, Some a, Some c) \<Rightarrow>
          Some \<lparr>pp_Reference = r, pp_Provider = p, pp_Event = e, pp_Status = s, pp_AmountMinor = a, pp_Currency = c\<rparr>
      | _ \<Rightarrow> None))"

section \<open>TransferPayload and ActivityPayload\<close>

definition marshal_transfer :: "string \<Rightarrow> json" where
  "marshal_transfer transferID = JObj (put_string ''transfer_id'' transferID)"

definition unmarshal_transfer :: "json option \<Rightarrow> string option" where
  "unmarshal_transfer body = (case object_of body of None \<Rightarrow> None | Some kvs \<Rightarrow> string_field ''transfer_id'' kvs)"

record ActivityPayload =
  ap_UserID :: string
  ap_Action :: string

definition marshal_activity :: "ActivityPayload \<Rightarrow> json" where
  "marshal_activity p = JObj (put_string ''user_id'' (ap_UserID p) @ put_string ''action'' (ap_Action p))"

definition unmarshal_activity :: "json option \<Rightarrow> ActivityPayload option" where
  "unmarshal_activity body = (case object_of body of None \<Rightarrow> None | Some kvs \<Rightarrow>
     (case (string_field ''user_id'' kvs, string_field ''action'' kvs) of
        (Some u, Some a) \<Rightarrow> Some \<lparr>ap_UserID = u, ap_Action = a\<rparr> | _ \<Rightarrow> None))"

section \<open>EmailPayload\<close>

text \<open>\<open>Data\<close>, a \<open>map[string]string\<close>, is an association list in key order, as it is marshalled.\<close>

record EmailPayload =
  ep_To :: "string list"
  ep_Subject :: string
  ep_Template :: string
  ep_OTP :: string
  ep_FirstName :: string
  ep_LastName :: string
  ep_Data :: "(string \<times> string) list"

definition marshal_email :: "EmailPayload \<Rightarrow> json" where
  "marshal_email p = JObj ([(''to'', JArr (map JStr (ep_To p)))] @ put_string ''subject'' (ep_Subject p) @
     put_string ''template'' (ep_Template p) @ put_string_omitempty ''otp'' (ep_OTP p) @
     put_string_omitempty ''first_name'' (ep_FirstName p) @ put_string_omitempty ''last_name'' (ep_LastName p) @
     (if ep_Data p = [] then [] else [(''data'', JObj (map (map_prod id JStr) (ep_Data p)))]))"

fun string_elem :: "json \<Rightarrow> string option" where
  "string_elem JNull = Some ''''"
| "string_elem (JStr s) = Some s"
| "string_elem _ = None"

fun as_strings :: "json \<Rightarrow> string list option" where
  "as_strings (JArr js) = those (map string_elem js)"
| "as_strings _ = None"

fun as_string_map :: "json \<Rightarrow> (string \<times> string) list option" where
  "as_string_map (JObj kvs) = those (map (\<lambda>(k, v). map_option (Pair k) (string_elem v)) kvs)"
| "as_string_map _ = None"

definition unmarshal_email :: "json option \<Rightarrow> EmailPayload option" where
  "unmarshal_email body = (case object_of body of None \<Rightarrow> None | Some kvs \<Rightarrow>
     (case (field_of as_strings [] ''to'' kvs, string_field ''subject'' kvs, string_field ''template'' kvs,
            string_field ''otp'' kvs, string_field ''first_name'' kvs, string_field ''last_name'' kvs,
            field_of as_string_map [] ''data'' kvs) of
        (Some t, Some s, Some tm, Some c, Some f, Some l, Some d) \<Rightarrow>
          Some \<lparr>ep_To = t, ep_Subject = s, ep_Template = tm, ep_OTP = c, ep_FirstName = f, ep_LastName = l, ep_Data = d\<rparr>
      | _ \<Rightarrow> None))"

section \<open>Round trips\<close>

lemma those_map_Some: "(\<And>x. x \<in> set xs \<Longrightarrow> f x = Some (g x)) \<Longrightarrow> those (map f xs) = Some (map g xs)"
  by (induction xs) auto

lemma put_other:
  "\<not> EqualFold k tag \<Longrightarrow> field_of conv c tag (put_string k s) = Some c"
  "\<not> EqualFold k tag \<Longrightarrow> field_of conv c tag (put_string_omitempty k s) = Some c"
  "\<not> EqualFold k tag \<Longrightarrow> field_of conv c tag (put_int64_omitempty k n) = Some c"
  by (simp_all add: put_string_def put_string_omitempty_def put_int64_omitempty_def)

text \<open>The tags of one struct are pairwise different under the case folding of \<open>Unmarshal\<close>.\<close>

lemma EqualFold_tags:
  assumes "distinct (map fold_key ts)" "s \<in> set ts" "t \<in> set ts"
  shows "EqualFold s t \<longleftrightarrow> s = t"
  using assms by (auto simp: EqualFold_def distinct_map dest: inj_onD)

lemma tags_distinct:
  "distinct (map fold_key [''reference'', ''provider'', ''event'', ''status'', ''amount_minor'', ''currency''])"
  "distinct (map fold_key [''user_id'', ''action''])"
  "distinct (map fold_key [''to'', ''subject'', ''template'', ''otp'', ''first_name'', ''last_name'', ''data''])"
  by code_simp+

lemmas tag_eq = tags_distinct[THEN EqualFold_tags]

lemma payment_round_trip: "unmarshal_payment (Some (marshal_payment p)) = Some p"
proof -
  show ?thesis
    by (simp add: unmarshal_payment_def marshal_payment_def string_field_def int64_field_def
        field_of_append tag_eq(1) put_other)
qed

lemma transfer_round_trip: "unmarshal_transfer (Some (marshal_transfer i)) = Some i"
  by (simp add: unmarshal_transfer_def marshal_transfer_def string_field_def)

lemma activity_round_trip: "unmarshal_activity (Some (marshal_activity p)) = Some p"
proof -
  show ?thesis
    by (simp add: unmarshal_activity_def marshal_activity_def string_field_def field_of_append tag_eq(2) put_other)
qed

lemma string_map_round_trip: "as_string_map (JObj (map (map_prod id JStr) d)) = Some d"
  by (induction d) auto

lemma strings_round_trip: "as_strings (JArr (map JStr xs)) = Some xs"
  by (induction xs) auto

lemma email_round_trip: "unmarshal_email (Some (marshal_email p)) = Some p"
proof -
  have data: "field_of as_string_map [] ''data''
      (if ep_Data p = [] then [] else [(''data'', JObj (map (map_prod id JStr) (ep_Data p)))]) = Some (ep_Data p)"
    using string_map_round_trip[of "ep_Data p"] by (simp del: as_string_map.simps)
  have skip: "\<not> EqualFold ''data'' tag \<Longrightarrow> field_of conv c tag
      (if ep_Data p = [] then [] else [(''data'', JObj (map (map_prod id JStr) (ep_Data p)))]) = Some c" for conv c tag
    by simp
  show ?thesis
    by (simp add: unmarshal_email_def marshal_email_def string_field_def field_of_append tag_eq(3) put_other
        strings_round_trip data skip del: as_strings.simps as_string_map.simps if_split)
qed

interpretation payment_task: worker "\<lambda>_. True" marshal_payment unmarshal_payment
  by unfold_locales (rule payment_round_trip)

interpretation transfer_task: worker "\<lambda>_. True" marshal_transfer unmarshal_transfer
  by unfold_locales (rule transfer_round_trip)

interpretation activity_task: worker "\<lambda>_. True" marshal_activity unmarshal_activity
  by unfold_locales (rule activity_round_trip)

interpretation email_task: worker "\<lambda>_. True" marshal_email unmarshal_email
  by unfold_locales (rule email_round_trip)

end
