(* ===== verification/Repository_Base.thy ===== *)
theory Repository_Base
  imports World
begin

text \<open>
  The parts of \<^verbatim>\<open>src/internal/repository\<close> every repository file uses: \<^verbatim>\<open>errors.go\<close>, the
  domain types of \<^verbatim>\<open>types.go\<close>, and the well-formedness of the tables (primary keys and the
  unique indexes of \<^verbatim>\<open>db/types.go\<close>). The contract between a status table and its users is
  the locale \<open>lifecycle\<close>: rows are never dropped and only move forward in an order.
\<close>

section \<open>errors.go\<close>

definition wrapGormError :: "go_error \<Rightarrow> go_error" where
  "wrapGormError err =
     (if errors_Is err gorm_ErrRecordNotFound then Sentinel ErrNotFound
      else if errors_Is err gorm_ErrDuplicatedKey then Sentinel ErrAlreadyExists
      else err)"

text \<open>Apart from its log record, \<open>LogError\<close> is \<^const>\<open>wrapGormError\<close>.\<close>

definition LogError :: "go_error \<Rightarrow> go_error" where
  "LogError err = wrapGormError err"

definition ParseUUID :: "uuid_pkg \<Rightarrow> string \<Rightarrow> go_error + uuid" where
  "ParseUUID P s = (case uuid_Parse P s of None \<Rightarrow> Inl (Sentinel ErrNotFound) | Some u \<Rightarrow> Inr u)"

lemma LogError_simps [simp]:
  "LogError (Opaque m) = Opaque m"
  "LogError (Sentinel gorm_ErrRecordNotFound) = Sentinel ErrNotFound"
  "LogError (Sentinel gorm_ErrDuplicatedKey) = Sentinel ErrAlreadyExists"
  "s \<noteq> gorm_ErrRecordNotFound \<Longrightarrow> s \<noteq> gorm_ErrDuplicatedKey \<Longrightarrow> LogError (Sentinel s) = Sentinel s"
  by (simp_all add: LogError_def wrapGormError_def)

text \<open>A query whose row is mapped to the domain type and whose error is logged.\<close>

definition logged :: "(go_error + 'r, 'w) prog \<Rightarrow> ('r \<Rightarrow> 'a) \<Rightarrow> (go_error + 'a, 'w) prog" where
  "logged m f = bnd m (\<lambda>r. Ret (case r of Inl e \<Rightarrow> Inl (LogError e) | Inr a \<Rightarrow> Inr (f a)))"

text \<open>\<open>First\<close> on one table: the row or gorm's not-found error.\<close>

definition found :: "'r option \<Rightarrow> go_error + 'r" where
  "found r = (case r of None \<Rightarrow> Inl (Sentinel gorm_ErrRecordNotFound) | Some a \<Rightarrow> Inr a)"

section \<open>types.go\<close>

record Wallet =
  W_ID :: string
  W_AccountNumber :: string
  W_UserID :: string
  W_Currency :: string
  W_Status :: WalletStatus

record Transfer =
  T_ID :: string
  T_SenderUserID :: string
  T_SenderWalletID :: string
  T_RecipientUserID :: string
  T_RecipientWalletID :: string
  T_Amount :: Money
  T_Currency :: string
  T_Status :: TransactionStatus
  T_FailureReason :: string
  T_CreatedAt :: time
  T_UpdatedAt :: time

record CreateTransferParam =
  CT_SenderUserID :: string
  CT_SenderWalletID :: string
  CT_RecipientUserID :: string
  CT_RecipientWalletID :: string
  CT_Amount :: Money
  CT_Currency :: string

record TransactionIntent =
  TI_ID :: string
  TI_UserID :: string
  TI_WalletID :: string
  TI_Amount :: Money
  TI_Status :: TransactionStatus
  TI_Provider :: string
  TI_CreatedAt :: time
  TI_UpdatedAt :: time

record CreateIntentParam =
  CI_UserID :: string
  CI_WalletID :: string
  CI_Amount :: Money
  CI_Provider :: string

section \<open>The order of statuses\<close>

text \<open>The statuses as the program moves through them: an intent starts PENDING and ends SUCCESS
  or, after it FAILED, SUCCESS or REFUNDED by way of REFUNDING.\<close>

instantiation TransactionStatus :: order
begin

fun less_eq_TransactionStatus :: "TransactionStatus \<Rightarrow> TransactionStatus \<Rightarrow> bool" where
  "less_eq_TransactionStatus TransactionPending t \<longleftrightarrow> True"
| "less_eq_TransactionStatus TransactionSuccess t \<longleftrightarrow> t = TransactionSuccess"
| "less_eq_TransactionStatus TransactionFailed t \<longleftrightarrow> t \<noteq> TransactionPending"
| "less_eq_TransactionStatus TransactionRefunding t \<longleftrightarrow> t = TransactionRefunding \<or> t = TransactionRefunded"
| "less_eq_TransactionStatus TransactionRefunded t \<longleftrightarrow> t = TransactionRefunded"

definition less_TransactionStatus :: "TransactionStatus \<Rightarrow> TransactionStatus \<Rightarrow> bool" where
  "less_TransactionStatus s t \<longleftrightarrow> s \<le> t \<and> \<not> t \<le> s"

instance
proof
  fix s t u :: TransactionStatus
  show "s < t \<longleftrightarrow> s \<le> t \<and> \<not> t \<le> s" by (rule less_TransactionStatus_def)
  show "s \<le> s" by (cases s) simp_all
  show "s \<le> t \<Longrightarrow> t \<le> u \<Longrightarrow> s \<le> u" by (cases s; cases t) auto
  show "s \<le> t \<Longrightarrow> t \<le> s \<Longrightarrow> s = t" by (cases s; cases t) auto
qed

end

section \<open>Tables that only move forward\<close>

definition rows_evolve :: "('r \<Rightarrow> 'r \<Rightarrow> bool) \<Rightarrow> 'r list \<Rightarrow> 'r list \<Rightarrow> bool" where
  "rows_evolve le xs ys \<longleftrightarrow> (\<forall>r \<in> set xs. \<exists>s \<in> set ys. le r s)"

locale lifecycle =
  fixes key :: "'r \<Rightarrow> 'k"
    and le :: "'r \<Rightarrow> 'r \<Rightarrow> bool"
  assumes le_refl: "le r r"
    and le_trans: "le r s \<Longrightarrow> le s t \<Longrightarrow> le r t"
    and le_key: "le r s \<Longrightarrow> key s = key r"
begin

lemma evolve_refl: "rows_evolve le xs xs"
  by (auto simp: rows_evolve_def intro: le_refl)

lemma evolve_trans: "rows_evolve le xs ys \<Longrightarrow> rows_evolve le ys zs \<Longrightarrow> rows_evolve le xs zs"
  unfolding rows_evolve_def by (metis le_trans)

lemma evolve_insert: "rows_evolve le xs (xs @ ys)"
  by (auto simp: rows_evolve_def intro: le_refl)

lemma evolve_update:
  assumes "\<And>r. p r \<Longrightarrow> le r (f r)"
  shows "rows_evolve le xs (sql_update p f xs)"
proof -
  have "\<exists>s \<in> set (sql_update p f xs). le r s" if "r \<in> set xs" for r
    using that assms[of r] le_refl[of r]
    by (intro bexI[of _ "if p r then f r else r"]) (auto simp: sql_update_def)
  then show ?thesis by (simp add: rows_evolve_def)
qed

lemma keys_update:
  assumes "\<And>r. p r \<Longrightarrow> le r (f r)"
  shows "map key (sql_update p f xs) = map key xs"
  using assms by (auto simp: sql_update_def le_key)

lemma evolve_row:
  assumes "rows_evolve le xs ys" and "distinct (map key ys)"
    and "r \<in> set xs" and "s \<in> set ys" and "key s = key r"
  shows "le r s"
proof -
  from assms(1,3) obtain s' where s': "s' \<in> set ys" "le r s'" by (auto simp: rows_evolve_def)
  then have "key s' = key s" using le_key assms(5) by simp
  with assms(2,4) s'(1) have "s' = s" using distinct_key_unique by metis
  with s'(2) show ?thesis by simp
qed

lemma evolve_find: "rows_evolve le xs ys \<Longrightarrow> r \<in> set xs \<Longrightarrow> \<exists>s \<in> set ys. le r s \<and> key s = key r"
  by (auto simp: rows_evolve_def dest: le_key)

end

definition intent_le :: "intent_row \<Rightarrow> intent_row \<Rightarrow> bool" where
  "intent_le r s \<longleftrightarrow> ti_ID s = ti_ID r \<and> ti_UserID s = ti_UserID r \<and> ti_Amount s = ti_Amount r \<and>
     ti_Wallet s = ti_Wallet r \<and> ti_Provider s = ti_Provider r \<and> ti_CreatedAt s = ti_CreatedAt r \<and>
     ti_Status r \<le> ti_Status s"

text \<open>A transfer leaves PENDING once, for SUCCESS or FAILED, and never changes again.\<close>

definition transfer_le :: "transfer_row \<Rightarrow> transfer_row \<Rightarrow> bool" where
  "transfer_le r s \<longleftrightarrow> s = r \<or>
     (tr_Status r = TransactionPending \<and> tr_Status s \<in> {TransactionSuccess, TransactionFailed} \<and>
      tr_ID s = tr_ID r \<and> tr_SenderUserID s = tr_SenderUserID r \<and> tr_SenderWalletID s = tr_SenderWalletID r \<and>
      tr_RecipientUserID s = tr_RecipientUserID r \<and> tr_RecipientWalletID s = tr_RecipientWalletID r \<and>
      tr_Amount s = tr_Amount r \<and> tr_Currency s = tr_Currency r \<and> tr_CreatedAt s = tr_CreatedAt r)"

text \<open>A wallet keeps its owner, account number and currency; its status may be changed by an
  operator.\<close>

definition wallet_le :: "wallet_row \<Rightarrow> wallet_row \<Rightarrow> bool" where
  "wallet_le r s \<longleftrightarrow> w_ID s = w_ID r \<and> w_UserID s = w_UserID r \<and> w_AccountNumber s = w_AccountNumber r \<and>
     w_Currency s = w_Currency r \<and> w_CreatedAt s = w_CreatedAt r"

interpretation intent_rows: lifecycle ti_ID intent_le
  by unfold_locales (auto simp: intent_le_def)

interpretation transfer_rows: lifecycle tr_ID transfer_le
  by unfold_locales (auto simp: transfer_le_def)

interpretation wallet_rows: lifecycle w_ID wallet_le
  by unfold_locales (auto simp: wallet_le_def)

section \<open>Well-formed tables\<close>

definition db_wf :: "('tb, 'x) world \<Rightarrow> bool" where
  "db_wf w \<longleftrightarrow> distinct (map ti_ID (intents w)) \<and> distinct (map tr_ID (transfers w)) \<and>
     distinct (map w_ID (wallets w)) \<and> distinct (map w_AccountNumber (wallets w)) \<and>
     distinct (map u_ID (users w)) \<and> distinct (map u_Email (users w))"

end
