(* ===== verification/Repository_User.thy ===== *)
theory Repository_User
  imports Repository_Base
begin

text \<open>
  \<^verbatim>\<open>src/internal/repository/user_repository.go\<close> and \<^verbatim>\<open>activity.go\<close>: user accounts and the
  activity feed, one atomic action per SQL statement. Rows with a \<open>deleted_at\<close> are invisible to
  gorm's queries, but they still hold the unique index on \<open>email\<close>.
\<close>

section \<open>Domain types\<close>

record User =
  U_ID :: string
  U_FirstName :: string
  U_LastName :: string
  U_Email :: string
  U_PhoneNumber :: "string option"
  U_DateOfBirth :: "time option"
  U_ProfilePhotoURL :: "string option"
  U_Gender :: string
  U_IsVerified :: bool
  U_IsActive :: bool

record UserFilters =
  F_FirstName :: "string option"
  F_LastName :: "string option"
  F_Email :: "string option"
  F_Gender :: "string option"

record UserInputParam =
  UI_ID :: "string option"
  UI_FirstName :: "string option"
  UI_LastName :: "string option"
  UI_Email :: "string option"
  UI_Passwordhash :: "string option"
  UI_PhoneNumber :: "string option"
  UI_DateOfBirth :: "time option"
  UI_ProfilePhotoURL :: "string option"
  UI_Gender :: "string option"
  UI_IsVerified :: "bool option"

record Activity =
  A_Id :: nat
  A_UserID :: string
  A_CreatedAt :: string
  A_Action :: string

definition MapUserModelToUser :: "uuid_pkg \<Rightarrow> user_row \<Rightarrow> User" where
  "MapUserModelToUser P m = \<lparr>
     U_ID = uuid_String P (u_ID m), U_FirstName = u_FirstName m, U_LastName = u_LastName m,
     U_Email = u_Email m, U_PhoneNumber = u_PhoneNumber m, U_DateOfBirth = u_DateOfBirth m,
     U_ProfilePhotoURL = u_ProfilePhotoURL m, U_Gender = u_Gender m,
     U_IsVerified = u_IsVerified m, U_IsActive = u_IsActive m\<rparr>"

definition MapActivityModelToActivity :: "uuid_pkg \<Rightarrow> activity_row \<Rightarrow> Activity" where
  "MapActivityModelToActivity P m = \<lparr>
     A_Id = a_ID m, A_UserID = uuid_String P (a_UserID m),
     A_CreatedAt = format_RFC3339 (a_CreatedAt m), A_Action = a_Action m\<rparr>"

section \<open>Statements\<close>

definition live_user :: "user_row \<Rightarrow> bool" where
  "live_user r \<longleftrightarrow> u_DeletedAt r = None"

definition first_user :: "(user_row \<Rightarrow> bool) \<Rightarrow> (go_error + user_row, ('tb, 'x) world) prog" where
  "first_user p = db_call (\<lambda>w.
     (found (sql_first u_ID (\<lambda>r. live_user r \<and> p r) (users w)), w))"

definition select_users :: "(user_row list \<Rightarrow> 'a) \<Rightarrow> (go_error + 'a, ('tb, 'x) world) prog" where
  "select_users q = db_call (\<lambda>w. (Inr (q (filter live_user (users w))), w))"

definition insert_user :: "(uuid \<Rightarrow> time \<Rightarrow> user_row) \<Rightarrow> (go_error + user_row, ('tb, 'x) world) prog" where
  "insert_user mk = db_call (\<lambda>w. case uuid_New w of (u, w1) \<Rightarrow>
     let row = mk u (now w) in
     if u_Passwordhash row = None then (Inl (Opaque ''null value in column passwordhash''), w1)
     else if u \<in> u_ID ` set (users w) \<or> u_Email row \<in> u_Email ` set (users w)
     then (Inl (Sentinel gorm_ErrDuplicatedKey), w1)
     else (Inr row, w1\<lparr>users := users w @ [row]\<rparr>))"

text \<open>\<open>UPDATE users SET ... WHERE p AND deleted_at IS NULL RETURNING *\<close>. The statement is
  refused when the new table would break the unique index on \<open>email\<close>.\<close>

definition update_users ::
  "(user_row \<Rightarrow> bool) \<Rightarrow> (user_row \<Rightarrow> user_row) \<Rightarrow> (go_error + user_row list, ('tb, 'x) world) prog" where
  "update_users p f = db_call (\<lambda>w.
     let q = (\<lambda>r. live_user r \<and> p r); g = (\<lambda>r. (f r)\<lparr>u_UpdatedAt := now w\<rparr>);
         rows = sql_update q g (users w)
     in if distinct (map u_Email rows) then (Inr (sql_returning q g (users w)), w\<lparr>users := rows\<rparr>)
        else (Inl (Sentinel gorm_ErrDuplicatedKey), w))"

text \<open>gorm's \<open>Save\<close> of a loaded row: every column is written back; a row that vanished meanwhile
  is inserted again.\<close>

definition save_user :: "user_row \<Rightarrow> (go_error + unit, ('tb, 'x) world) prog" where
  "save_user m = db_call (\<lambda>w.
     let row = m\<lparr>u_UpdatedAt := now w\<rparr>;
         rows = (if u_ID m \<in> u_ID ` set (users w) then sql_update (\<lambda>r. u_ID r = u_ID m) (\<lambda>r. row) (users w)
                 else users w @ [row])
     in if distinct (map u_Email rows) then (Inr (), w\<lparr>users := rows\<rparr>)
        else (Inl (Sentinel gorm_ErrDuplicatedKey), w))"

section \<open>UserRepository\<close>

text \<open>\<open>CreateUser\<close> dereferences three pointers; a nil one panics, which the model returns as
  this error.\<close>

definition nil_dereference :: go_error where
  "nil_dereference = Opaque ''runtime error: invalid memory address or nil pointer dereference''"

definition CreateUser :: "uuid_pkg \<Rightarrow> UserInputParam \<Rightarrow> (go_error + User, ('tb, 'x) world) prog" where
  "CreateUser P user =
     (case (UI_FirstName user, UI_LastName user, UI_Email user) of
        (Some firstName, Some lastName, Some email) \<Rightarrow>
          logged (insert_user (\<lambda>u t. \<lparr>u_ID = u, u_FirstName = firstName, u_LastName = lastName,
              u_Email = email, u_Passwordhash = UI_Passwordhash user, u_PhoneNumber = UI_PhoneNumber user,
              u_DateOfBirth = UI_DateOfBirth user, u_ProfilePhotoURL = UI_ProfilePhotoURL user,
              u_Gender = ''OTHER'', u_IsActive = True, u_IsVerified = False,
              u_CreatedAt = t, u_UpdatedAt = t, u_DeletedAt = None\<rparr>))
            (MapUserModelToUser P)
      | _ \<Rightarrow> Ret (Inl nil_dereference))"

definition GetUserByEmail :: "uuid_pkg \<Rightarrow> string \<Rightarrow> (go_error + User, ('tb, 'x) world) prog" where
  "GetUserByEmail P email = logged (first_user (\<lambda>r. u_Email r = email)) (MapUserModelToUser P)"

definition GetUserCredentialsByEmail ::
  "uuid_pkg \<Rightarrow> string \<Rightarrow> (go_error + User \<times> string, ('tb, 'x) world) prog" where
  "GetUserCredentialsByEmail P email =
     logged (first_user (\<lambda>r. u_Email r = email \<and> u_IsActive r))
       (\<lambda>m. (MapUserModelToUser P m, case u_Passwordhash m of None \<Rightarrow> '''' | Some hash \<Rightarrow> hash))"

definition GetUserByID :: "uuid_pkg \<Rightarrow> string \<Rightarrow> (go_error + User, ('tb, 'x) world) prog" where
  "GetUserByID P userid =
     (case ParseUUID P userid of
        Inl err \<Rightarrow> Ret (Inl (LogError err))
      | Inr userID \<Rightarrow> logged (first_user (\<lambda>r. u_ID r = userID)) (MapUserModelToUser P))"

text \<open>The \<open>map[string]any\<close> of columns to set, as an association list in the order of the calls.\<close>

datatype field_value = FString string | FTime time | FBool bool

definition setIf :: "string \<Rightarrow> ('v \<Rightarrow> field_value) \<Rightarrow> 'v option \<Rightarrow> (string \<times> field_value) list" where
  "setIf column wrap v = (case v of None \<Rightarrow> [] | Some x \<Rightarrow> [(column, wrap x)])"

definition UpdateFields :: "UserInputParam \<Rightarrow> (string \<times> field_value) list" where
  "UpdateFields user =
     setIf ''first_name'' FString (UI_FirstName user) @ setIf ''last_name'' FString (UI_LastName user) @
     setIf ''email'' FString (UI_Email user) @ setIf ''phone_number'' FString (UI_PhoneNumber user) @
     setIf ''date_of_birth'' FTime (UI_DateOfBirth user) @
     setIf ''profile_photo_url'' FString (UI_ProfilePhotoURL user) @
     setIf ''gender'' FString (UI_Gender user) @ setIf ''is_verified'' FBool (UI_IsVerified user)"

text \<open>What the columns of \<^const>\<open>UpdateFields\<close> set on a row.\<close>

fun set_column :: "string \<times> field_value \<Rightarrow> user_row \<Rightarrow> user_row" where
  "set_column (c, FString s) r =
     (if c = ''first_name'' then r\<lparr>u_FirstName := s\<rparr>
      else if c = ''last_name'' then r\<lparr>u_LastName := s\<rparr>
      else if c = ''email'' then r\<lparr>u_Email := s\<rparr>
      else if c = ''phone_number'' then r\<lparr>u_PhoneNumber := Some s\<rparr>
      else if c = ''profile_photo_url'' then r\<lparr>u_ProfilePhotoURL := Some s\<rparr>
      else if c = ''gender'' then r\<lparr>u_Gender := s\<rparr> else r)"
| "set_column (c, FTime t) r = (if c = ''date_of_birth'' then r\<lparr>u_DateOfBirth := Some t\<rparr> else r)"
| "set_column (c, FBool b) r = (if c = ''is_verified'' then r\<lparr>u_IsVerified := b\<rparr> else r)"

definition update_where ::
  "uuid_pkg \<Rightarrow> (user_row \<Rightarrow> bool) \<Rightarrow> (string \<times> field_value) list \<Rightarrow> (go_error + User, ('tb, 'x) world) prog" where
  "update_where P p flds =
     (if flds = [] then Ret (Inl (LogError (Sentinel ErrNothingToUpdate)))
      else bnd (update_users p (fold set_column flds)) (\<lambda>result. Ret (case result of
          Inl err \<Rightarrow> Inl (LogError err)
        | Inr [] \<Rightarrow> Inl (LogError (Sentinel ErrNotFound))
        | Inr (row # _) \<Rightarrow> Inr (MapUserModelToUser P row))))"

definition UpdateUser :: "uuid_pkg \<Rightarrow> UserInputParam \<Rightarrow> (go_error + User, ('tb, 'x) world) prog" where
  "UpdateUser P user =
     (let flds = UpdateFields user in
      case UI_ID user of
        Some userid \<Rightarrow> (case ParseUUID P userid of
            Inl err \<Rightarrow> Ret (Inl (LogError err))
          | Inr userID \<Rightarrow> update_where P (\<lambda>r. u_ID r = userID) flds)
      | None \<Rightarrow> (case UI_Email user of
            Some email \<Rightarrow> update_where P (\<lambda>r. u_Email r = email) (filter (\<lambda>(c, _). c \<noteq> ''email'') flds)
          | None \<Rightarrow> Ret (Inl (LogError (Sentinel ErrNoIdentifier)))))"

definition UserEmailExists :: "string \<Rightarrow> (go_error + bool, ('tb, 'x) world) prog" where
  "UserEmailExists email =
     logged (select_users (\<lambda>rows. 0 < length (filter (\<lambda>r. u_Email r = email) rows))) id"

definition DeleteUser :: "uuid_pkg \<Rightarrow> string \<Rightarrow> (go_error option, ('tb, 'x) world) prog" where
  "DeleteUser P userid =
     (case ParseUUID P userid of
        Inl err \<Rightarrow> Ret (Some (LogError err))
      | Inr userID \<Rightarrow>
          bnd (first_user (\<lambda>r. u_ID r = userID)) (\<lambda>res. case res of
            Inl err \<Rightarrow> Ret (Some (LogError err))
          | Inr userModel \<Rightarrow>
              bnd (save_user (userModel\<lparr>u_IsActive := False\<rparr>)) (\<lambda>res. Ret (case res of
                Inl err \<Rightarrow> Some (LogError err) | Inr _ \<Rightarrow> None))))"

definition matches :: "string option \<Rightarrow> string \<Rightarrow> bool" where
  "matches f v = (case f of None \<Rightarrow> True | Some x \<Rightarrow> v = x)"

definition GetAllUsers :: "uuid_pkg \<Rightarrow> UserFilters \<Rightarrow> (go_error + User list, ('tb, 'x) world) prog" where
  "GetAllUsers P filters =
     logged (select_users (filter (\<lambda>r. matches (F_FirstName filters) (u_FirstName r) \<and>
         matches (F_LastName filters) (u_LastName r) \<and> matches (F_Email filters) (u_Email r) \<and>
         matches (F_Gender filters) (u_Gender r))))
       (map (MapUserModelToUser P))"

section \<open>ActivityRepository\<close>

text \<open>The serial primary key is modelled as the next number; a sequence may also skip some.\<close>

definition insert_activity :: "uuid \<Rightarrow> string \<Rightarrow> (go_error + activity_row, ('tb, 'x) world) prog" where
  "insert_activity u action = db_call (\<lambda>w.
     let row = \<lparr>a_ID = Suc (length (activities w)), a_UserID = u, a_Action = action,
                a_CreatedAt = now w, a_UpdatedAt = now w, a_DeletedAt = None\<rparr>
     in (Inr row, w\<lparr>activities := activities w @ [row]\<rparr>))"

definition CreateActivity :: "uuid_pkg \<Rightarrow> string \<Rightarrow> string \<Rightarrow> (go_error + Activity, ('tb, 'x) world) prog" where
  "CreateActivity P userId action =
     (case ParseUUID P userId of
        Inl err \<Rightarrow> Ret (Inl err)
      | Inr parsedId \<Rightarrow> bnd (insert_activity parsedId action) (\<lambda>r. Ret (map_sum id (MapActivityModelToActivity P) r)))"

definition select_activities ::
  "uuid \<Rightarrow> (activity_row list \<Rightarrow> 'a) \<Rightarrow> (go_error + 'a, ('tb, 'x) world) prog" where
  "select_activities u q = db_call (\<lambda>w.
     (Inr (q (filter (\<lambda>r. a_DeletedAt r = None \<and> a_UserID r = u) (activities w))), w))"

definition GetUserActivities ::
  "uuid_pkg \<Rightarrow> string \<Rightarrow> int64 \<Rightarrow> int64 \<Rightarrow> (go_error + Activity list \<times> int64, ('tb, 'x) world) prog" where
  "GetUserActivities P userId limit offset =
     (case ParseUUID P userId of
        Inl err \<Rightarrow> Ret (Inl (LogError err))
      | Inr parsedId \<Rightarrow>
          bnd (select_activities parsedId (\<lambda>rows. of_nat (length rows))) (\<lambda>total. case total of
            Inl err \<Rightarrow> Ret (Inl (LogError err))
          | Inr n \<Rightarrow>
              logged (select_activities parsedId (\<lambda>rows. sql_page limit offset (sql_newest a_CreatedAt rows)))
                (\<lambda>models. (map (MapActivityModelToActivity P) models, n))))"

end
