(* ===== verification/Notify_Workers.thy ===== *)
theory Notify_Workers
  imports Tasks Repository_User
begin

text \<open>
  \<^verbatim>\<open>src/internal/queues/activity.go\<close> and \<^verbatim>\<open>email.go\<close>: the two workers the others notify through,
  and their handlers. Sending mail and the HTML templates are parameters; \<open>RenderEmail\<close> of
  \<^verbatim>\<open>src/internal/templates/templates.go\<close> looks a template up by name.
\<close>

section \<open>ActivityWorker\<close>

record 'x ActivityWorker =
  aw_Client :: "'x asynq_client"
  aw_Queue :: string

definition NewActivityWorker :: "'x asynq_client \<Rightarrow> string \<Rightarrow> 'x ActivityWorker" where
  "NewActivityWorker client queue = \<lparr>aw_Client = client, aw_Queue = queue\<rparr>"

definition UpdateUserActivity :: string where "UpdateUserActivity = ''user:activity_update''"

definition Activity_GenerateNewTask :: "string \<Rightarrow> ActivityPayload \<Rightarrow> task" where
  "Activity_GenerateNewTask name payload = GenerateNewTask name (marshal_activity payload) []"

definition Activity_Enqueue :: "'x ActivityWorker \<Rightarrow> task \<Rightarrow> (go_error option, ('tb, 'x) world) prog" where
  "Activity_Enqueue A t = EnqueueWithContext t (aw_Queue A) (aw_Client A)"

definition skip_retry :: "string \<Rightarrow> go_error \<Rightarrow> go_error" where
  "skip_retry what err = wrap_sentinel asynq_SkipRetry what err"

definition HandleCreateActivity :: "uuid_pkg \<Rightarrow> task \<Rightarrow> (go_error option, ('tb, 'x) world) prog" where
  "HandleCreateActivity P t = (case unmarshal_activity (task_Payload t) of
      None \<Rightarrow> Ret (Some (skip_retry '''' (Opaque ''invalid JSON'')))
    | Some payload \<Rightarrow>
        bnd (CreateActivity P (ap_UserID payload) (ap_Action payload)) (\<lambda>r. Ret (case r of
          Inl err \<Rightarrow> Some (skip_retry '''' err) | Inr _ \<Rightarrow> None)))"

section \<open>EmailWorker\<close>

definition TaskTypeEmailSend :: string where "TaskTypeEmailSend = ''email:send''"
definition EmailWelcome :: string where "EmailWelcome = ''digiwallet''"
definition EmailLoginAlert :: string where "EmailLoginAlert = ''login-alert''"
definition EmailDepositSuccess :: string where "EmailDepositSuccess = ''deposit-success''"

text \<open>\<open>ew_Lookup\<close> is the embedded template set, \<open>ew_Send\<close> the sender, nil when no provider is configured.\<close>

record 'x EmailWorker =
  ew_Client :: "'x asynq_client"
  ew_Queue :: string
  ew_Lookup :: "string \<Rightarrow> (EmailPayload \<Rightarrow> string + string) option"
  ew_Send :: "(EmailPayload \<Rightarrow> string \<Rightarrow> 'x \<Rightarrow> go_error option \<times> 'x) option"

definition NewEmailWorker ::
  "'x asynq_client \<Rightarrow> string \<Rightarrow> (string \<Rightarrow> (EmailPayload \<Rightarrow> string + string) option) \<Rightarrow>
   (EmailPayload \<Rightarrow> string \<Rightarrow> 'x \<Rightarrow> go_error option \<times> 'x) option \<Rightarrow> 'x EmailWorker" where
  "NewEmailWorker client queue templates sender =
     \<lparr>ew_Client = client, ew_Queue = queue, ew_Lookup = templates, ew_Send = sender\<rparr>"

fun Join :: "string list \<Rightarrow> string \<Rightarrow> string" where
  "Join [] sep = ''''"
| "Join [s] sep = s"
| "Join (s # t # ts) sep = s @ sep @ Join (t # ts) sep"

definition Recipient :: "EmailPayload \<Rightarrow> string" where
  "Recipient p = (if ep_To p = [] then '''' else Join (ep_To p) '', '')"

definition Email_GenerateNewTask :: "string \<Rightarrow> EmailPayload \<Rightarrow> task" where
  "Email_GenerateNewTask name payload = GenerateNewTask name (marshal_email payload) []"

definition Email_Enqueue :: "'x EmailWorker \<Rightarrow> task \<Rightarrow> (go_error option, ('tb, 'x) world) prog" where
  "Email_Enqueue E t = EnqueueWithContext t (ew_Queue E) (ew_Client E)"

definition RenderEmail :: "'x EmailWorker \<Rightarrow> string \<Rightarrow> EmailPayload \<Rightarrow> go_error + string" where
  "RenderEmail E name payload =
     (let n = (if name = '''' then EmailWelcome else name) in
      case ew_Lookup E (n @ ''.html'') of
        None \<Rightarrow> Inl (Opaque (''unknown email template '' @ n))
      | Some tmpl \<Rightarrow> (case tmpl payload of
          Inl m \<Rightarrow> Inl (wrap_cause (''rendering email template '' @ n) (Opaque m))
        | Inr body \<Rightarrow> Inr body))"

text \<open>\<open>FormatTime\<close> of an instant in UTC, in the layout \<open>Jan 2, 2006 at 3:04 PM MST\<close>, and the function \<open>now\<close> of
  the templates.\<close>

definition month_abbr :: "int \<Rightarrow> string" where
  "month_abbr m = (case map_of [(1, ''Jan''), (2, ''Feb''), (3, ''Mar''), (4, ''Apr''), (5, ''May''), (6, ''Jun''), (7, ''Jul''),
     (8, ''Aug''), (9, ''Sep''), (10, ''Oct''), (11, ''Nov''), (12, ''Dec'')] m of Some s \<Rightarrow> s | None \<Rightarrow> '''')"

definition clock12 :: "int \<Rightarrow> int \<times> string" where
  "clock12 hour = (if hour mod 12 = 0 then 12 else hour mod 12, if hour \<ge> 12 then ''PM'' else ''AM'')"

definition FormatTime :: "time \<Rightarrow> string" where
  "FormatTime t =
     (let secs = t div 1000000000; (y, m, d) = civil_of_day (secs div 86400);
          (h, half) = clock12 (secs mod 86400 div 3600)
      in month_abbr m @ '' '' @ fmt_d d @ '', '' @ fmt_pad 4 y @ '' at '' @ fmt_d h @ '':'' @
         fmt_pad 2 (secs div 60 mod 60) @ '' '' @ half @ '' UTC'')"

definition template_now :: "('tb, 'x) world \<Rightarrow> string" where
  "template_now w = FormatTime (now w)"

text \<open>Without a sender the call dereferences a nil interface.\<close>

definition HandleEmailSend :: "'x EmailWorker \<Rightarrow> task \<Rightarrow> (outcome, ('tb, 'x) world) prog" where
  "HandleEmailSend E t = (case unmarshal_email (task_Payload t) of
      None \<Rightarrow> Ret (Returned (Some (skip_retry '''' (Opaque ''invalid JSON''))))
    | Some payload \<Rightarrow> (case RenderEmail E (ep_Template payload) payload of
        Inl err \<Rightarrow> Ret (Returned (Some (skip_retry '''' err)))
      | Inr body \<Rightarrow> (case ew_Send E of
          None \<Rightarrow> Ret (Panicked ''invalid memory address or nil pointer dereference'')
        | Some send \<Rightarrow>
            bnd (ext_call [EvSendEmail (Recipient payload)] (send payload body)) (\<lambda>e. Ret (Returned e)))))"

lemma errors_Is_skip_retry [simp]: "errors_Is (skip_retry what err) s \<longleftrightarrow> s = asynq_SkipRetry"
  by (auto simp: skip_retry_def)

declare NewActivityWorker_def [simp] NewEmailWorker_def [simp]

end
