(* ===== verification/Payment_Provider.thy ===== *)
theory Payment_Provider
  imports World
begin

text \<open>
  The payment provider: the interface of \<^verbatim>\<open>src/shared/payment.go\<close> as a record of functions over
  the state \<open>'x\<close> of the remote services, and its Paystack implementation,
  \<^verbatim>\<open>src/internal/api/providers/paystack.go\<close>. What Paystack is built on and the repository does
  not contain is the record \<open>paystack_env\<close>: sending a request over HTTP and the HMAC of package
  \<open>crypto\<close>. \<open>json_parse\<close> is the parser of \<open>encoding/json\<close>: the document a text denotes.
\<close>

section \<open>shared/payment.go\<close>

type_synonym PaymentStatus = string

definition PaymentPending :: PaymentStatus where "PaymentPending = ''PENDING''"
definition PaymentSuccess :: PaymentStatus where "PaymentSuccess = ''SUCCESS''"
definition PaymentFailed :: PaymentStatus where "PaymentFailed = ''FAILED''"
definition PaymentAbandoned :: PaymentStatus where "PaymentAbandoned = ''ABANDONED''"

lemma PaymentStatus_distinct [simp]:
  "PaymentSuccess \<noteq> PaymentFailed" "PaymentFailed \<noteq> PaymentSuccess"
  "PaymentPending \<noteq> PaymentSuccess" "PaymentPending \<noteq> PaymentFailed"
  "PaymentAbandoned \<noteq> PaymentSuccess" "PaymentAbandoned \<noteq> PaymentFailed"
  by (simp_all add: PaymentPending_def PaymentSuccess_def PaymentFailed_def PaymentAbandoned_def)

record InitializePaymentRequest =
  ipr_Reference :: string
  ipr_Amount :: Money
  ipr_Currency :: string
  ipr_Email :: string
  ipr_CallbackURL :: string
  ipr_Metadata :: "(string \<times> string) list"

record InitializePaymentResponse =
  ips_Reference :: string
  ips_AuthorizationURL :: string
  ips_AccessCode :: string
  ips_Raw :: "json option"

record PaymentVerification =
  pv_Reference :: string
  pv_Status :: PaymentStatus
  pv_Amount :: Money
  pv_Currency :: string
  pv_ProviderRef :: string
  pv_Raw :: "json option"

record WebhookEvent =
  we_Event :: string
  we_Reference :: string
  we_Status :: PaymentStatus
  we_Amount :: Money
  we_Currency :: string

record 'x PaymentProvider =
  prov_Name :: string
  prov_Initialize :: "InitializePaymentRequest \<Rightarrow> 'x \<Rightarrow> (go_error + InitializePaymentResponse) \<times> 'x"
  prov_Verify :: "string \<Rightarrow> 'x \<Rightarrow> (go_error + PaymentVerification) \<times> 'x"
  prov_VerifyWebhookSignature :: "string \<Rightarrow> string \<Rightarrow> go_error option"
  prov_ParseWebhook :: "string \<Rightarrow> go_error + WebhookEvent"
  prov_Refund :: "string \<Rightarrow> Money \<Rightarrow> 'x \<Rightarrow> go_error option \<times> 'x"

text \<open>The calls the handlers make, recorded in the trace.\<close>

definition Provider_Initialize ::
  "'x PaymentProvider \<Rightarrow> InitializePaymentRequest \<Rightarrow> (go_error + InitializePaymentResponse, ('tb, 'x) world) prog" where
  "Provider_Initialize V req = ext_call [EvInitialize (ipr_Reference req) (ipr_Amount req)] (prov_Initialize V req)"

definition Provider_Verify ::
  "'x PaymentProvider \<Rightarrow> string \<Rightarrow> (go_error + PaymentVerification, ('tb, 'x) world) prog" where
  "Provider_Verify V reference = ext_call [EvVerify reference] (prov_Verify V reference)"

definition Provider_Refund ::
  "'x PaymentProvider \<Rightarrow> string \<Rightarrow> Money \<Rightarrow> (go_error option, ('tb, 'x) world) prog" where
  "Provider_Refund V reference amount = ext_call [EvRefund reference amount] (prov_Refund V reference amount)"

section \<open>Paystack\<close>

definition PaystackName :: string where "PaystackName = ''paystack''"
definition PaystackDefaultBaseURL :: string where "PaystackDefaultBaseURL = ''https://api.paystack.co''"
definition PaystackSignatureHeader :: string where "PaystackSignatureHeader = ''x-paystack-signature''"

record http_request =
  req_Method :: string
  req_URL :: string
  req_Header :: "(string \<times> string) list"
  req_Body :: "json option"

record http_response =
  resp_StatusCode :: int
  resp_Body :: "string + string"  \<comment> \<open>a read error, or the body cut at \<open>1 << 20\<close> bytes\<close>

record 'x paystack_env =
  http_Do :: "http_request \<Rightarrow> 'x \<Rightarrow> (string + http_response) \<times> 'x"
  hmac_sha512_hex :: "string \<Rightarrow> string \<Rightarrow> string"
  json_parse :: "string \<Rightarrow> json option"

record PaystackProvider =
  ps_BaseURL :: string
  ps_Secret :: string

definition NewPaystackProvider :: "string \<Rightarrow> string \<Rightarrow> PaystackProvider" where
  "NewPaystackProvider secretKey baseURL =
     (let trimmed = (if baseURL \<noteq> '''' \<and> last baseURL = CHR ''/'' then butlast baseURL else baseURL)
      in \<lparr>ps_BaseURL = (if trimmed = '''' then PaystackDefaultBaseURL else trimmed), ps_Secret = secretKey\<rparr>)"

record paystackEnvelope =
  env_Status :: bool
  env_Message :: string
  env_Data :: "json option"

record paystackInitData =
  pid_AuthorizationURL :: string
  pid_AccessCode :: string
  pid_Reference :: string

record paystackTransactionData =
  ptd_Reference :: string
  ptd_Status :: string
  ptd_Amount :: int64
  ptd_Currency :: string
  ptd_ID :: int64

text \<open>Decoding into the structs. An empty \<open>RawMessage\<close> is not JSON, so decoding it fails.\<close>

fun struct_of :: "json option \<Rightarrow> (string \<times> json) list option" where
  "struct_of (Some (JObj kvs)) = Some kvs"
| "struct_of (Some JNull) = Some []"
| "struct_of _ = None"

definition decode_envelope :: "json option \<Rightarrow> paystackEnvelope option" where
  "decode_envelope j = (case struct_of j of None \<Rightarrow> None | Some kvs \<Rightarrow>
     (case (bool_field ''status'' kvs, string_field ''message'' kvs) of
        (Some s, Some m) \<Rightarrow> Some \<lparr>env_Status = s, env_Message = m, env_Data = raw_field None ''data'' kvs\<rparr>
      | _ \<Rightarrow> None))"

definition decode_init :: "json option \<Rightarrow> paystackInitData option" where
  "decode_init j = (case struct_of j of None \<Rightarrow> None | Some kvs \<Rightarrow>
     (case (string_field ''authorization_url'' kvs, string_field ''access_code'' kvs, string_field ''reference'' kvs) of
        (Some u, Some a, Some r) \<Rightarrow> Some \<lparr>pid_AuthorizationURL = u, pid_AccessCode = a, pid_Reference = r\<rparr>
      | _ \<Rightarrow> None))"

definition decode_transaction :: "json option \<Rightarrow> paystackTransactionData option" where
  "decode_transaction j = (case struct_of j of None \<Rightarrow> None | Some kvs \<Rightarrow>
     (case (string_field ''reference'' kvs, string_field ''status'' kvs, int64_field ''amount'' kvs,
            string_field ''currency'' kvs, int64_field ''id'' kvs) of
        (Some r, Some s, Some a, Some c, Some i) \<Rightarrow>
          Some \<lparr>ptd_Reference = r, ptd_Status = s, ptd_Amount = a, ptd_Currency = c, ptd_ID = i\<rparr>
      | _ \<Rightarrow> None))"

definition paystackStatus :: "string \<Rightarrow> PaymentStatus" where
  "paystackStatus status =
     (let s = ToLower status in
      if s = ''success'' then PaymentSuccess
      else if s = ''failed'' \<or> s = ''reversed'' then PaymentFailed
      else if s = ''abandoned'' then PaymentAbandoned
      else PaymentPending)"

definition decode_error :: "string \<Rightarrow> go_error" where
  "decode_error what = Opaque (what @ '': invalid JSON'')"

text \<open>\<open>do\<close>. A URL that does not parse is the transport's error here.\<close>

definition paystack_request :: "PaystackProvider \<Rightarrow> string \<Rightarrow> string \<Rightarrow> json option \<Rightarrow> http_request" where
  "paystack_request p verb path body = \<lparr>req_Method = verb, req_URL = ps_BaseURL p @ path,
     req_Header = [(''Authorization'', ''Bearer '' @ ps_Secret p), (''Accept'', ''application/json'')] @
       (if body \<noteq> None then [(''Content-Type'', ''application/json'')] else []),
     req_Body = body\<rparr>"

definition paystack_answer ::
  "'x paystack_env \<Rightarrow> string \<Rightarrow> string \<Rightarrow> string + http_response \<Rightarrow> go_error + paystackEnvelope" where
  "paystack_answer E verb path res = (case res of
      Inl m \<Rightarrow> Inl (wrap_text ErrProviderUnavailable m)
    | Inr resp \<Rightarrow> (case resp_Body resp of
        Inl m \<Rightarrow> Inl (wrap_text ErrProviderUnavailable (''reading paystack response: '' @ m))
      | Inr raw \<Rightarrow>
          if resp_StatusCode resp = 404 then Inl (Sentinel ErrReferenceNotFound)
          else (case decode_envelope (json_parse E raw) of
            None \<Rightarrow> Inl (wrap_text ErrProviderUnavailable
                (''decoding paystack response (status '' @ fmt_d (resp_StatusCode resp) @ ''): invalid JSON''))
          | Some envelope \<Rightarrow>
              if resp_StatusCode resp \<ge> 500
              then Inl (wrap_text ErrProviderUnavailable
                (''paystack returned '' @ fmt_d (resp_StatusCode resp) @ '': '' @ env_Message envelope))
              else if \<not> env_Status envelope
              then Inl (Opaque (''paystack rejected '' @ verb @ '' '' @ path @ '': '' @ env_Message envelope))
              else Inr envelope)))"

definition paystack_do ::
  "'x paystack_env \<Rightarrow> PaystackProvider \<Rightarrow> string \<Rightarrow> string \<Rightarrow> json option \<Rightarrow> 'x \<Rightarrow> (go_error + paystackEnvelope) \<times> 'x" where
  "paystack_do E p verb path body x = (case http_Do E (paystack_request p verb path body) x of
     (res, x') \<Rightarrow> (paystack_answer E verb path res, x'))"

definition paystack_Initialize ::
  "'x paystack_env \<Rightarrow> PaystackProvider \<Rightarrow> InitializePaymentRequest \<Rightarrow> 'x \<Rightarrow> (go_error + InitializePaymentResponse) \<times> 'x" where
  "paystack_Initialize E p req x =
     (let payload = [(''email'', JStr (ipr_Email req)), (''amount'', JNum (fmt_d (sint (Minor (ipr_Amount req))))),
            (''reference'', JStr (ipr_Reference req))] @
            (if ipr_Currency req \<noteq> '''' then [(''currency'', JStr (ipr_Currency req))] else []) @
            (if ipr_CallbackURL req \<noteq> '''' then [(''callback_url'', JStr (ipr_CallbackURL req))] else []) @
            (if ipr_Metadata req \<noteq> [] then [(''metadata'', JObj (map (map_prod id JStr) (ipr_Metadata req)))] else [])
      in case paystack_do E p ''POST'' ''/transaction/initialize'' (Some (JObj payload)) x of
        (Inl err, x') \<Rightarrow> (Inl err, x')
      | (Inr envelope, x') \<Rightarrow> (case decode_init (env_Data envelope) of
          None \<Rightarrow> (Inl (decode_error ''decoding paystack initialize data''), x')
        | Some d \<Rightarrow> (Inr \<lparr>ips_Reference = (if pid_Reference d = '''' then ipr_Reference req else pid_Reference d),
              ips_AuthorizationURL = pid_AuthorizationURL d, ips_AccessCode = pid_AccessCode d,
              ips_Raw = env_Data envelope\<rparr>, x')))"

definition paystack_Verify ::
  "'x paystack_env \<Rightarrow> PaystackProvider \<Rightarrow> string \<Rightarrow> 'x \<Rightarrow> (go_error + PaymentVerification) \<times> 'x" where
  "paystack_Verify E p reference x =
     (case paystack_do E p ''GET'' (''/transaction/verify/'' @ reference) None x of
        (Inl err, x') \<Rightarrow> (Inl err, x')
      | (Inr envelope, x') \<Rightarrow> (case decode_transaction (env_Data envelope) of
          None \<Rightarrow> (Inl (decode_error ''decoding paystack verify data''), x')
        | Some d \<Rightarrow> (Inr \<lparr>pv_Reference = (if ptd_Reference d = '''' then reference else ptd_Reference d),
              pv_Status = paystackStatus (ptd_Status d), pv_Amount = NewMoneyFromMinor (ptd_Amount d),
              pv_Currency = ptd_Currency d, pv_ProviderRef = fmt_d (sint (ptd_ID d)),
              pv_Raw = env_Data envelope\<rparr>, x')))"

definition paystack_Refund ::
  "'x paystack_env \<Rightarrow> PaystackProvider \<Rightarrow> string \<Rightarrow> Money \<Rightarrow> 'x \<Rightarrow> go_error option \<times> 'x" where
  "paystack_Refund E p reference amount x =
     (case paystack_do E p ''POST'' ''/refund''
        (Some (JObj [(''transaction'', JStr reference), (''amount'', JNum (fmt_d (sint (Minor amount))))])) x of
        (Inl err, x') \<Rightarrow> (Some err, x')
      | (Inr _, x') \<Rightarrow> (None, x'))"

definition paystack_VerifyWebhookSignature ::
  "'x paystack_env \<Rightarrow> PaystackProvider \<Rightarrow> string \<Rightarrow> string \<Rightarrow> go_error option" where
  "paystack_VerifyWebhookSignature E p signature body =
     (if ps_Secret p = '''' then Some (wrap_text ErrInvalidSignature ''no paystack secret configured'')
      else if signature = ''''
      then Some (wrap_text ErrInvalidSignature (''missing '' @ PaystackSignatureHeader @ '' header''))
      else if hmac_sha512_hex E (ps_Secret p) body \<noteq> ToLower (TrimSpace signature)
      then Some (Sentinel ErrInvalidSignature)
      else None)"

text \<open>\<open>strings.HasPrefix\<close>; the webhook body (of a repeated \<open>data\<close> key the last counts).\<close>

definition HasPrefix :: "string \<Rightarrow> string \<Rightarrow> bool" where
  "HasPrefix s pre \<longleftrightarrow> take (length pre) s = pre"

definition decode_webhook :: "json option \<Rightarrow> (string \<times> paystackTransactionData) option" where
  "decode_webhook j = (case struct_of j of None \<Rightarrow> None | Some kvs \<Rightarrow>
     (case (string_field ''event'' kvs,
            decode_transaction (Some (case raw_field None ''data'' kvs of None \<Rightarrow> JNull | Some v \<Rightarrow> v))) of
        (Some e, Some d) \<Rightarrow> Some (e, d) | _ \<Rightarrow> None))"

definition paystack_ParseWebhook ::
  "'x paystack_env \<Rightarrow> string \<Rightarrow> go_error + WebhookEvent" where
  "paystack_ParseWebhook E body = (case decode_webhook (json_parse E body) of
      None \<Rightarrow> Inl (decode_error ''decoding paystack webhook'')
    | Some (event, d) \<Rightarrow>
        if \<not> HasPrefix event ''charge.'' \<and> \<not> HasPrefix event ''transaction.''
        then Inl (wrap_text ErrUnhandledWebhook event)
        else if ptd_Reference d = '''' then Inl (wrap_text ErrUnhandledWebhook ''webhook carried no reference'')
        else Inr \<lparr>we_Event = event, we_Reference = ptd_Reference d, we_Status = paystackStatus (ptd_Status d),
          we_Amount = NewMoneyFromMinor (ptd_Amount d), we_Currency = ptd_Currency d\<rparr>)"

definition paystack :: "'x paystack_env \<Rightarrow> PaystackProvider \<Rightarrow> 'x PaymentProvider" where
  "paystack E p = \<lparr>prov_Name = PaystackName, prov_Initialize = paystack_Initialize E p,
     prov_Verify = paystack_Verify E p, prov_VerifyWebhookSignature = paystack_VerifyWebhookSignature E p,
     prov_ParseWebhook = paystack_ParseWebhook E, prov_Refund = paystack_Refund E p\<rparr>"

end
