(* ===== verification/Repository_Tx.thy ===== *)
theory Repository_Tx
  imports Repository_Base
begin

text \<open>
  \<^verbatim>\<open>src/internal/repository/transaction_repository.go\<close>, \<^verbatim>\<open>transfer_repository.go\<close> and
  \<^verbatim>\<open>account_number.go\<close>: wallets, deposit intents and transfers. Every operation is a
  \<^typ>\<open>('a, 'w) prog\<close> with one atomic action per SQL statement, so two operations interleave the
  way two connections do.
\<close>

section \<open>Mapping rows to the domain\<close>

definition MapIntentModelToIntent :: "uuid_pkg \<Rightarrow> intent_row \<Rightarrow> TransactionIntent" where
  "MapIntentModelToIntent P m = \<lparr>
     TI_ID = uuid_String P (ti_ID m), TI_UserID = uuid_String P (ti_UserID m),
     TI_WalletID = uuid_String P (ti_Wallet m), TI_Amount = ti_Amount m, TI_Status = ti_Status m,
     TI_Provider = ti_Provider m, TI_CreatedAt = ti_CreatedAt m, TI_UpdatedAt = ti_UpdatedAt m\<rparr>"

definition MapWalletModelToWallet :: "uuid_pkg \<Rightarrow> wallet_row \<Rightarrow> Wallet" where
  "MapWalletModelToWallet P m = \<lparr>
     W_ID = uuid_String P (w_ID m), W_AccountNumber = w_AccountNumber m,
     W_UserID = uuid_String P (w_UserID m), W_Currency = w_Currency m, W_Status = w_Status m\<rparr>"

definition MapTransferModelToTransfer :: "uuid_pkg \<Rightarrow> transfer_row \<Rightarrow> Transfer" where
  "MapTransferModelToTransfer P m = \<lparr>
     T_ID = uuid_String P (tr_ID m), T_SenderUserID = uuid_String P (tr_SenderUserID m),
     T_SenderWalletID = uuid_String P (tr_SenderWalletID m),
     T_RecipientUserID = uuid_String P (tr_RecipientUserID m),
     T_RecipientWalletID = uuid_String P (tr_RecipientWalletID m),
     T_Amount = tr_Amount m, T_Currency = tr_Currency m, T_Status = tr_Status m,
     T_FailureReason = tr_FailureReason m, T_CreatedAt = tr_CreatedAt m, T_UpdatedAt = tr_UpdatedAt m\<rparr>"

lemma Map_sel [simp]:
  "TI_ID (MapIntentModelToIntent P m) = uuid_String P (ti_ID m)"
  "TI_UserID (MapIntentModelToIntent P m) = uuid_String P (ti_UserID m)"
  "TI_WalletID (MapIntentModelToIntent P m) = uuid_String P (ti_Wallet m)"
  "TI_Amount (MapIntentModelToIntent P m) = ti_Amount m"
  "TI_Status (MapIntentModelToIntent P m) = ti_Status m"
  "TI_Provider (MapIntentModelToIntent P m) = ti_Provider m"
  "TI_CreatedAt (MapIntentModelToIntent P m) = ti_CreatedAt m"
  "W_ID (MapWalletModelToWallet P v) = uuid_String P (w_ID v)"
  "W_UserID (MapWalletModelToWallet P v) = uuid_String P (w_UserID v)"
  "W_AccountNumber (MapWalletModelToWallet P v) = w_AccountNumber v"
  "W_Currency (MapWalletModelToWallet P v) = w_Currency v"
  "W_Status (MapWalletModelToWallet P v) = w_Status v"
  "T_ID (MapTransferModelToTransfer P t) = uuid_String P (tr_ID t)"
  "T_SenderUserID (MapTransferModelToTransfer P t) = uuid_String P (tr_SenderUserID t)"
  "T_SenderWalletID (MapTransferModelToTransfer P t) = uuid_String P (tr_SenderWalletID t)"
  "T_RecipientUserID (MapTransferModelToTransfer P t) = uuid_String P (tr_RecipientUserID t)"
  "T_RecipientWalletID (MapTransferModelToTransfer P t) = uuid_String P (tr_RecipientWalletID t)"
  "T_Amount (MapTransferModelToTransfer P t) = tr_Amount t"
  "T_Currency (MapTransferModelToTransfer P t) = tr_Currency t"
  "T_Status (MapTransferModelToTransfer P t) = tr_Status t"
  "T_FailureReason (MapTransferModelToTransfer P t) = tr_FailureReason t"
  "T_CreatedAt (MapTransferModelToTransfer P t) = tr_CreatedAt t"
  by (simp_all add: MapIntentModelToIntent_def MapWalletModelToWallet_def MapTransferModelToTransfer_def)

section \<open>Statements\<close>

definition first_wallet ::
  "(wallet_row \<Rightarrow> bool) \<Rightarrow> (go_error + wallet_row, ('tb, 'x) world) prog" where
  "first_wallet p = db_call (\<lambda>w.
     (found (sql_first w_ID (\<lambda>r. w_DeletedAt r = None \<and> p r) (wallets w)), w))"

definition first_intent ::
  "(intent_row \<Rightarrow> bool) \<Rightarrow> (go_error + intent_row, ('tb, 'x) world) prog" where
  "first_intent p = db_call (\<lambda>w. (found (sql_first ti_ID p (intents w)), w))"

definition first_transfer ::
  "(transfer_row \<Rightarrow> bool) \<Rightarrow> (go_error + transfer_row, ('tb, 'x) world) prog" where
  "first_transfer p = db_call (\<lambda>w. (found (sql_first tr_ID p (transfers w)), w))"

definition select_wallets ::
  "(wallet_row list \<Rightarrow> 'a) \<Rightarrow> (go_error + 'a, ('tb, 'x) world) prog" where
  "select_wallets q = db_call (\<lambda>w. (Inr (q (filter (\<lambda>r. w_DeletedAt r = None) (wallets w))), w))"

definition select_intents ::
  "(intent_row list \<Rightarrow> 'a) \<Rightarrow> (go_error + 'a, ('tb, 'x) world) prog" where
  "select_intents q = db_call (\<lambda>w. (Inr (q (intents w)), w))"

definition select_transfers ::
  "(transfer_row list \<Rightarrow> 'a) \<Rightarrow> (go_error + 'a, ('tb, 'x) world) prog" where
  "select_transfers q = db_call (\<lambda>w. (Inr (q (transfers w)), w))"

text \<open>The guarded updates: \<open>UPDATE ... WHERE id = ? AND status IN ? RETURNING *\<close>. gorm also sets
  \<open>updated_at\<close>.\<close>

definition update_intent ::
  "uuid \<Rightarrow> TransactionStatus list \<Rightarrow> TransactionStatus \<Rightarrow> (go_error + intent_row list, ('tb, 'x) world) prog" where
  "update_intent u from to = db_call (\<lambda>w.
     let p = (\<lambda>r. ti_ID r = u \<and> ti_Status r \<in> set from);
         f = (\<lambda>r. r\<lparr>ti_Status := to, ti_UpdatedAt := now w\<rparr>)
     in (Inr (sql_returning p f (intents w)), w\<lparr>intents := sql_update p f (intents w)\<rparr>))"

definition update_transfer ::
  "uuid \<Rightarrow> TransactionStatus \<Rightarrow> string \<Rightarrow> (go_error + transfer_row list, ('tb, 'x) world) prog" where
  "update_transfer u to reason = db_call (\<lambda>w.
     let p = (\<lambda>r. tr_ID r = u \<and> tr_Status r = TransactionPending);
         f = (\<lambda>r. r\<lparr>tr_Status := to, tr_FailureReason := reason, tr_UpdatedAt := now w\<rparr>)
     in (Inr (sql_returning p f (transfers w)), w\<lparr>transfers := sql_update p f (transfers w)\<rparr>))"

text \<open>Inserts. The \<open>BeforeCreate\<close> hook draws the primary key; a duplicate key is gorm's
  translated error.\<close>

definition insert_intent :: "(uuid \<Rightarrow> time \<Rightarrow> intent_row) \<Rightarrow> (go_error + intent_row, ('tb, 'x) world) prog" where
  "insert_intent mk = db_call (\<lambda>w. case uuid_New w of (u, w1) \<Rightarrow>
     if u \<in> ti_ID ` set (intents w) then (Inl (Sentinel gorm_ErrDuplicatedKey), w1)
     else (Inr (mk u (now w)), w1\<lparr>intents := intents w @ [mk u (now w)]\<rparr>))"

definition insert_transfer :: "(uuid \<Rightarrow> time \<Rightarrow> transfer_row) \<Rightarrow> (go_error + transfer_row, ('tb, 'x) world) prog" where
  "insert_transfer mk = db_call (\<lambda>w. case uuid_New w of (u, w1) \<Rightarrow>
     if u \<in> tr_ID ` set (transfers w) then (Inl (Sentinel gorm_ErrDuplicatedKey), w1)
     else (Inr (mk u (now w)), w1\<lparr>transfers := transfers w @ [mk u (now w)]\<rparr>))"

definition insert_wallet :: "(uuid \<Rightarrow> time \<Rightarrow> wallet_row) \<Rightarrow> (go_error + wallet_row, ('tb, 'x) world) prog" where
  "insert_wallet mk = db_call (\<lambda>w. case uuid_New w of (u, w1) \<Rightarrow>
     let row = mk u (now w) in
     if u \<in> w_ID ` set (wallets w) \<or> w_AccountNumber row \<in> w_AccountNumber ` set (wallets w)
     then (Inl (Sentinel gorm_ErrDuplicatedKey), w1)
     else (Inr row, w1\<lparr>wallets := wallets w @ [row]\<rparr>))"

section \<open>Wallets\<close>

definition GetWalletByID :: "uuid_pkg \<Rightarrow> string \<Rightarrow> (go_error + Wallet, ('tb, 'x) world) prog" where
  "GetWalletByID P walletID =
     (case ParseUUID P walletID of
        Inl err \<Rightarrow> Ret (Inl (LogError err))
      | Inr parsed \<Rightarrow> logged (first_wallet (\<lambda>r. w_ID r = parsed)) (MapWalletModelToWallet P))"

definition GetWalletByUser :: "uuid_pkg \<Rightarrow> string \<Rightarrow> string \<Rightarrow> (go_error + Wallet, ('tb, 'x) world) prog" where
  "GetWalletByUser P userID currency =
     (case ParseUUID P userID of
        Inl err \<Rightarrow> Ret (Inl (LogError err))
      | Inr parsedUser \<Rightarrow>
          logged (first_wallet (\<lambda>r. w_UserID r = parsedUser \<and> (currency \<noteq> '''' \<longrightarrow> w_Currency r = currency)))
            (MapWalletModelToWallet P))"

definition ListWalletsByUser :: "uuid_pkg \<Rightarrow> string \<Rightarrow> (go_error + Wallet list, ('tb, 'x) world) prog" where
  "ListWalletsByUser P userID =
     (case ParseUUID P userID of
        Inl err \<Rightarrow> Ret (Inl (LogError err))
      | Inr parsedUser \<Rightarrow>
          logged (select_wallets (\<lambda>rows. sort_key w_CreatedAt (filter (\<lambda>r. w_UserID r = parsedUser) rows)))
            (map (MapWalletModelToWallet P)))"

definition GetWalletByAccountNumber :: "uuid_pkg \<Rightarrow> string \<Rightarrow> (go_error + Wallet, ('tb, 'x) world) prog" where
  "GetWalletByAccountNumber P accountNumber =
     logged (first_wallet (\<lambda>r. w_AccountNumber r = accountNumber)) (MapWalletModelToWallet P)"

definition accountNumberMin :: nat where "accountNumberMin = 1000000000"
definition accountNumberSpan :: nat where "accountNumberSpan = 9000000000"
definition AccountNumberLength :: nat where "AccountNumberLength = 10"
definition accountNumberAttempts :: nat where "accountNumberAttempts = 5"

definition NewAccountNumber :: "(go_error + string, ('tb, 'x) world) prog" where
  "NewAccountNumber = bnd (rand_Int accountNumberSpan) (\<lambda>r. Ret (case r of
      Inl err \<Rightarrow> Inl err | Inr n \<Rightarrow> Inr (dec (n + accountNumberMin))))"

text \<open>The loop of \<open>CreateWallet\<close>, counting the attempts left.\<close>

primrec CreateWallet_loop ::
  "uuid_pkg \<Rightarrow> uuid \<Rightarrow> string \<Rightarrow> nat \<Rightarrow> (go_error + Wallet, ('tb, 'x) world) prog" where
  "CreateWallet_loop P parsedUser currency 0 = Ret (Inl (LogError (Sentinel ErrAccountNumberExhausted)))"
| "CreateWallet_loop P parsedUser currency (Suc left) =
     bnd NewAccountNumber (\<lambda>n. case n of
       Inl err \<Rightarrow> Ret (Inl (LogError err))
     | Inr accountNumber \<Rightarrow>
         bnd (insert_wallet (\<lambda>u t. \<lparr>w_ID = u, w_AccountNumber = accountNumber, w_UserID = parsedUser,
                w_Currency = (if currency = '''' then ''USD'' else currency), w_Status = WalletActive,
                w_CreatedAt = t, w_UpdatedAt = t, w_DeletedAt = None\<rparr>)) (\<lambda>r. case r of
           Inr row \<Rightarrow> Ret (Inr (MapWalletModelToWallet P row))
         | Inl err \<Rightarrow>
             if \<not> errors_Is (wrapGormError err) ErrAlreadyExists then Ret (Inl (LogError err))
             else CreateWallet_loop P parsedUser currency left))"

definition CreateWallet :: "uuid_pkg \<Rightarrow> string \<Rightarrow> string \<Rightarrow> (go_error + Wallet, ('tb, 'x) world) prog" where
  "CreateWallet P userID currency =
     (case ParseUUID P userID of
        Inl err \<Rightarrow> Ret (Inl (LogError err))
      | Inr parsedUser \<Rightarrow> CreateWallet_loop P parsedUser currency accountNumberAttempts)"

section \<open>Intents\<close>

definition CreateIntent :: "uuid_pkg \<Rightarrow> CreateIntentParam \<Rightarrow> (go_error + TransactionIntent, ('tb, 'x) world) prog" where
  "CreateIntent P param =
     (case ParseUUID P (CI_UserID param) of
        Inl err \<Rightarrow> Ret (Inl (LogError err))
      | Inr parsedUser \<Rightarrow> (case ParseUUID P (CI_WalletID param) of
          Inl err \<Rightarrow> Ret (Inl (LogError err))
        | Inr parsedWallet \<Rightarrow>
            logged (insert_intent (\<lambda>u t. \<lparr>ti_ID = u, ti_UserID = parsedUser, ti_Amount = CI_Amount param,
                ti_Status = TransactionPending, ti_Wallet = parsedWallet, ti_Provider = CI_Provider param,
                ti_CreatedAt = t, ti_UpdatedAt = t\<rparr>))
              (MapIntentModelToIntent P)))"

definition GetIntentByReference :: "uuid_pkg \<Rightarrow> string \<Rightarrow> (go_error + TransactionIntent, ('tb, 'x) world) prog" where
  "GetIntentByReference P reference =
     (case ParseUUID P reference of
        Inl err \<Rightarrow> Ret (Inl (LogError err))
      | Inr parsed \<Rightarrow> logged (first_intent (\<lambda>r. ti_ID r = parsed)) (MapIntentModelToIntent P))"

text \<open>The two statements of \<open>ListUserIntents\<close>: the count, then the page.\<close>

definition ListUserIntents ::
  "uuid_pkg \<Rightarrow> string \<Rightarrow> int64 \<Rightarrow> int64 \<Rightarrow> (go_error + TransactionIntent list \<times> int64, ('tb, 'x) world) prog" where
  "ListUserIntents P userID limit offset =
     (case ParseUUID P userID of
        Inl err \<Rightarrow> Ret (Inl (LogError err))
      | Inr parsedUser \<Rightarrow>
          bnd (select_intents (\<lambda>rows. of_nat (length (filter (\<lambda>r. ti_UserID r = parsedUser) rows)))) (\<lambda>total.
            case total of
              Inl err \<Rightarrow> Ret (Inl (LogError err))
            | Inr n \<Rightarrow>
                logged (select_intents (\<lambda>rows. sql_page limit offset
                    (sql_newest ti_CreatedAt (filter (\<lambda>r. ti_UserID r = parsedUser) rows))))
                  (\<lambda>models. (map (MapIntentModelToIntent P) models, n))))"

definition ListUnsettledIntents ::
  "uuid_pkg \<Rightarrow> string \<Rightarrow> int64 \<Rightarrow> (go_error + TransactionIntent list, ('tb, 'x) world) prog" where
  "ListUnsettledIntents P userID limit =
     (case ParseUUID P userID of
        Inl err \<Rightarrow> Ret (Inl (LogError err))
      | Inr parsed \<Rightarrow>
          logged (select_intents (\<lambda>rows. sql_page limit 0 (sql_newest ti_CreatedAt
              (filter (\<lambda>r. ti_UserID r = parsed \<and> ti_Status r \<noteq> TransactionSuccess) rows))))
            (map (MapIntentModelToIntent P)))"

definition GetIntentsByIDs ::
  "uuid_pkg \<Rightarrow> string list \<Rightarrow> (go_error + (string \<rightharpoonup> TransactionIntent), ('tb, 'x) world) prog" where
  "GetIntentsByIDs P ids =
     (let parsed = List.map_filter (uuid_Parse P) ids in
      if parsed = [] then Ret (Inr Map.empty)
      else logged (select_intents (filter (\<lambda>r. ti_ID r \<in> set parsed)))
        (foldl (\<lambda>found r. found(uuid_String P (ti_ID r) \<mapsto> MapIntentModelToIntent P r)) Map.empty))"

text \<open>The result of a guarded update: an error, no row, or the updated row.\<close>

definition updated :: "go_error \<Rightarrow> ('r \<Rightarrow> 'a) \<Rightarrow> go_error + 'r list \<Rightarrow> go_error + 'a" where
  "updated none f r = (case r of
      Inl err \<Rightarrow> Inl (LogError err) | Inr [] \<Rightarrow> Inl none | Inr (row # _) \<Rightarrow> Inr (f row))"

definition MarkIntentFailed :: "uuid_pkg \<Rightarrow> string \<Rightarrow> (go_error + TransactionIntent, ('tb, 'x) world) prog" where
  "MarkIntentFailed P reference =
     (case ParseUUID P reference of
        Inl err \<Rightarrow> Ret (Inl (LogError err))
      | Inr parsed \<Rightarrow>
          bnd (update_intent parsed [TransactionPending] TransactionFailed) (\<lambda>result.
            Ret (updated (LogError (Sentinel ErrIntentNotPending)) (MapIntentModelToIntent P) result)))"

definition moveIntent ::
  "uuid_pkg \<Rightarrow> string \<Rightarrow> TransactionStatus list \<Rightarrow> TransactionStatus \<Rightarrow> (go_error + TransactionIntent, ('tb, 'x) world) prog" where
  "moveIntent P reference from to =
     (case ParseUUID P reference of
        Inl err \<Rightarrow> Ret (Inl (LogError err))
      | Inr parsed \<Rightarrow>
          bnd (update_intent parsed from to) (\<lambda>result.
            Ret (updated (Sentinel ErrIntentNotFailed) (MapIntentModelToIntent P) result)))"

definition MarkIntentRefunding :: "uuid_pkg \<Rightarrow> string \<Rightarrow> (go_error + TransactionIntent, ('tb, 'x) world) prog" where
  "MarkIntentRefunding P reference =
     moveIntent P reference [TransactionFailed, TransactionRefunding] TransactionRefunding"

definition MarkIntentRefunded :: "uuid_pkg \<Rightarrow> string \<Rightarrow> (go_error + TransactionIntent, ('tb, 'x) world) prog" where
  "MarkIntentRefunded P reference = moveIntent P reference [TransactionRefunding] TransactionRefunded"

definition MarkIntentSucceeded :: "uuid_pkg \<Rightarrow> string \<Rightarrow> (go_error + TransactionIntent, ('tb, 'x) world) prog" where
  "MarkIntentSucceeded P reference =
     (case ParseUUID P reference of
        Inl err \<Rightarrow> Ret (Inl (LogError err))
      | Inr parsed \<Rightarrow>
          bnd (update_intent parsed [TransactionPending, TransactionFailed] TransactionSuccess) (\<lambda>result.
            Ret (updated (Sentinel ErrIntentSucceeded) (MapIntentModelToIntent P) result)))"

section \<open>Transfers\<close>

definition CreateTransfer :: "uuid_pkg \<Rightarrow> CreateTransferParam \<Rightarrow> (go_error + Transfer, ('tb, 'x) world) prog" where
  "CreateTransfer P param =
     (case ParseUUID P (CT_SenderUserID param) of Inl err \<Rightarrow> Ret (Inl (LogError err)) | Inr senderUser \<Rightarrow>
     (case ParseUUID P (CT_SenderWalletID param) of Inl err \<Rightarrow> Ret (Inl (LogError err)) | Inr senderWallet \<Rightarrow>
     (case ParseUUID P (CT_RecipientUserID param) of Inl err \<Rightarrow> Ret (Inl (LogError err)) | Inr recipientUser \<Rightarrow>
     (case ParseUUID P (CT_RecipientWalletID param) of Inl err \<Rightarrow> Ret (Inl (LogError err)) | Inr recipientWallet \<Rightarrow>
        logged (insert_transfer (\<lambda>u t. \<lparr>tr_ID = u, tr_SenderUserID = senderUser,
            tr_SenderWalletID = senderWallet, tr_RecipientUserID = recipientUser,
            tr_RecipientWalletID = recipientWallet, tr_Amount = CT_Amount param,
            tr_Currency = CT_Currency param, tr_Status = TransactionPending,
            tr_FailureReason = '''', tr_CreatedAt = t, tr_UpdatedAt = t\<rparr>))
          (MapTransferModelToTransfer P)))))"

definition GetTransferByID :: "uuid_pkg \<Rightarrow> string \<Rightarrow> (go_error + Transfer, ('tb, 'x) world) prog" where
  "GetTransferByID P transferID =
     (case ParseUUID P transferID of
        Inl err \<Rightarrow> Ret (Inl (LogError err))
      | Inr parsed \<Rightarrow> logged (first_transfer (\<lambda>r. tr_ID r = parsed)) (MapTransferModelToTransfer P))"

definition markTransfer ::
  "uuid_pkg \<Rightarrow> string \<Rightarrow> TransactionStatus \<Rightarrow> string \<Rightarrow> (go_error + Transfer, ('tb, 'x) world) prog" where
  "markTransfer P transferID status reason =
     (case ParseUUID P transferID of
        Inl err \<Rightarrow> Ret (Inl (LogError err))
      | Inr parsed \<Rightarrow>
          bnd (update_transfer parsed status reason) (\<lambda>result.
            Ret (updated (Sentinel ErrTransferNotPending) (MapTransferModelToTransfer P) result)))"

definition MarkTransferSucceeded :: "uuid_pkg \<Rightarrow> string \<Rightarrow> (go_error + Transfer, ('tb, 'x) world) prog" where
  "MarkTransferSucceeded P transferID = markTransfer P transferID TransactionSuccess ''''"

definition MarkTransferFailed :: "uuid_pkg \<Rightarrow> string \<Rightarrow> string \<Rightarrow> (go_error + Transfer, ('tb, 'x) world) prog" where
  "MarkTransferFailed P transferID reason = markTransfer P transferID TransactionFailed reason"

definition ListTransfersByUser ::
  "uuid_pkg \<Rightarrow> string \<Rightarrow> int64 \<Rightarrow> int64 \<Rightarrow> (go_error + Transfer list \<times> int64, ('tb, 'x) world) prog" where
  "ListTransfersByUser P userID limit offset =
     (case ParseUUID P userID of
        Inl err \<Rightarrow> Ret (Inl (LogError err))
      | Inr parsed \<Rightarrow>
          (let mine = filter (\<lambda>r. tr_SenderUserID r = parsed \<or> tr_RecipientUserID r = parsed) in
           bnd (select_transfers (\<lambda>rows. of_nat (length (mine rows)))) (\<lambda>total. case total of
              Inl err \<Rightarrow> Ret (Inl (LogError err))
            | Inr n \<Rightarrow>
                logged (select_transfers (\<lambda>rows. sql_page limit offset (sql_newest tr_CreatedAt (mine rows))))
                  (\<lambda>models. (map (MapTransferModelToTransfer P) models, n)))))"

definition ListUnsettledTransfers ::
  "uuid_pkg \<Rightarrow> string \<Rightarrow> int64 \<Rightarrow> (go_error + Transfer list, ('tb, 'x) world) prog" where
  "ListUnsettledTransfers P userID limit =
     (case ParseUUID P userID of
        Inl err \<Rightarrow> Ret (Inl (LogError err))
      | Inr parsed \<Rightarrow>
          logged (select_transfers (\<lambda>rows. sql_page limit 0 (sql_newest tr_CreatedAt
              (filter (\<lambda>r. (tr_SenderUserID r = parsed \<or> tr_RecipientUserID r = parsed) \<and>
                 tr_Status r \<noteq> TransactionSuccess) rows))))
            (map (MapTransferModelToTransfer P)))"

end
