(* ===== verification/Ledger.thy ===== *)
theory Ledger
  imports World "HOL-Library.Multiset"
begin

text \<open>
  \<^verbatim>\<open>src/internal/ledger/ledger.go\<close> and \<^verbatim>\<open>types.go\<close>: the double-entry ledger over the TigerBeetle
  client \<open>C\<close>. TigerBeetle itself is not under \<^verbatim>\<open>src/\<close>; its client is the record
  \<^typ>\<open>'tb tb_client\<close>, and what the code relies on of its documented behaviour is \<open>tb_ok\<close>, stated
  over a view \<open>posted\<close> of the transfers TigerBeetle holds. Spans and log records are left out.
\<close>

section \<open>types.go\<close>

type_synonym LedgerID = uint32

definition currencyLedgers :: "(string \<times> LedgerID) list" where
  "currencyLedgers = [(''NGN'', 1), (''USD'', 2), (''EUR'', 3), (''GBP'', 4), (''JPY'', 5), (''AUD'', 6),
     (''CAD'', 7), (''CHF'', 8), (''CNY'', 9), (''SEK'', 10), (''NZD'', 11)]"

definition LedgerForCurrency :: "string \<Rightarrow> go_error + LedgerID" where
  "LedgerForCurrency currency = (case map_of currencyLedgers currency of
      None \<Rightarrow> Inl (Opaque (''no ledger for currency '' @ currency)) | Some l \<Rightarrow> Inr l)"

definition AccountWallet :: uint16 where "AccountWallet = 1"
definition AccountSettlement :: uint16 where "AccountSettlement = 2"
definition TransferDeposit :: uint16 where "TransferDeposit = 1"
definition TransferInternal :: uint16 where "TransferInternal = 2"

section \<open>Identifiers\<close>

definition AccountID :: "'tb tb_client \<Rightarrow> uuid \<Rightarrow> u128" where
  "AccountID C walletID = tb_BytesToUint128 C walletID"

definition TransferID :: "'tb tb_client \<Rightarrow> uuid \<Rightarrow> u128" where
  "TransferID C intentID = tb_BytesToUint128 C intentID"

definition SettlementAccountID :: "'tb tb_client \<Rightarrow> LedgerID \<Rightarrow> u128" where
  "SettlementAccountID C ledgerID = tb_ToUint128 C (ucast ledgerID)"

section \<open>Accounts\<close>

definition client_CreateAccounts ::
  "'tb tb_client \<Rightarrow> tb_account list \<Rightarrow> (string + AccountStatus list, ('tb, 'x) world) prog" where
  "client_CreateAccounts C as = tb_call [EvCreateAccounts as] (tb_CreateAccounts C as)"

definition client_CreateTransfers ::
  "'tb tb_client \<Rightarrow> tb_transfer list \<Rightarrow> (string + TransferStatus list, ('tb, 'x) world) prog" where
  "client_CreateTransfers C ts = tb_call [EvCreateTransfers ts] (tb_CreateTransfers C ts)"

definition client_LookupTransfers ::
  "'tb tb_client \<Rightarrow> u128 list \<Rightarrow> (string + tb_posted list, ('tb, 'x) world) prog" where
  "client_LookupTransfers C ids = tb_call [] (tb_LookupTransfers C ids)"

definition client_LookupAccounts ::
  "'tb tb_client \<Rightarrow> u128 list \<Rightarrow> (string + tb_balance list, ('tb, 'x) world) prog" where
  "client_LookupAccounts C ids = tb_call [] (tb_LookupAccounts C ids)"

definition client_GetAccountTransfers ::
  "'tb tb_client \<Rightarrow> u128 \<Rightarrow> uint32 \<Rightarrow> (string + tb_posted list, ('tb, 'x) world) prog" where
  "client_GetAccountTransfers C a limit = tb_call [] (tb_GetAccountTransfers C a limit)"

text \<open>The loops over the results stop at the first status that is neither created nor exists.\<close>

fun account_results :: "AccountStatus list \<Rightarrow> go_error option" where
  "account_results [] = None"
| "account_results (AccountCreated # rs) = account_results rs"
| "account_results (AccountExists # rs) = account_results rs"
| "account_results (AccountOther s # rs) = Some (wrap_text ErrRejected (''create account: '' @ s))"

definition createAccounts :: "'tb tb_client \<Rightarrow> tb_account list \<Rightarrow> (go_error option, ('tb, 'x) world) prog" where
  "createAccounts C accounts = bnd (client_CreateAccounts C accounts) (\<lambda>results. Ret (case results of
      Inl m \<Rightarrow> Some (wrap_cause ''create accounts'' (Opaque m))
    | Inr rs \<Rightarrow> account_results rs))"

definition settlement_account :: "'tb tb_client \<Rightarrow> LedgerID \<Rightarrow> tb_account" where
  "settlement_account C ledgerID = \<lparr>acc_ID = SettlementAccountID C ledgerID, acc_Ledger = ledgerID,
     acc_Code = AccountSettlement, acc_DebitsMustNotExceedCredits = False\<rparr>"

definition wallet_account :: "'tb tb_client \<Rightarrow> LedgerID \<Rightarrow> uuid \<Rightarrow> tb_account" where
  "wallet_account C ledgerID walletID = \<lparr>acc_ID = AccountID C walletID, acc_Ledger = ledgerID,
     acc_Code = AccountWallet, acc_DebitsMustNotExceedCredits = True\<rparr>"

definition ensureAccounts ::
  "'tb tb_client \<Rightarrow> LedgerID \<Rightarrow> uuid \<Rightarrow> (go_error option, ('tb, 'x) world) prog" where
  "ensureAccounts C ledgerID walletID =
     createAccounts C [settlement_account C ledgerID, wallet_account C ledgerID walletID]"

definition EnsureWalletAccount ::
  "'tb tb_client \<Rightarrow> uuid \<Rightarrow> string \<Rightarrow> (go_error option, ('tb, 'x) world) prog" where
  "EnsureWalletAccount C walletID currency = (case LedgerForCurrency currency of
      Inl err \<Rightarrow> Ret (Some (wrap_sentinel ErrRejected '''' err))
    | Inr ledgerID \<Rightarrow> ensureAccounts C ledgerID walletID)"

text \<open>The code ranges over a Go map, whose order is unspecified; the model takes the order of
  \<^const>\<open>currencyLedgers\<close>.\<close>

definition EnsureSettlementAccounts :: "'tb tb_client \<Rightarrow> (go_error option, ('tb, 'x) world) prog" where
  "EnsureSettlementAccounts C = createAccounts C (map (\<lambda>(_, l). settlement_account C l) currencyLedgers)"

section \<open>Deposit and Transfer\<close>

record DepositParam =
  dp_TransferID :: uuid
  dp_WalletID :: uuid
  dp_Currency :: string
  dp_Amount :: Money

record TransferParam =
  tp_TransferID :: uuid
  tp_SenderWalletID :: uuid
  tp_ReceipientWalletID :: uuid
  tp_SenderCurrency :: string
  tp_ReceipientsCurrency :: string
  tp_Amount :: Money

fun deposit_results :: "TransferStatus list \<Rightarrow> go_error option" where
  "deposit_results [] = None"
| "deposit_results (TransferCreated # rs) = deposit_results rs"
| "deposit_results (TransferExists # rs) = deposit_results rs"
| "deposit_results (TransferExceedsCredits # rs) = Some (wrap_text ErrRejected ''create transfer: exceeds_credits'')"
| "deposit_results (TransferOther s # rs) = Some (wrap_text ErrRejected (''create transfer: '' @ s))"

fun transfer_results :: "TransferStatus list \<Rightarrow> go_error option" where
  "transfer_results [] = None"
| "transfer_results (TransferCreated # rs) = transfer_results rs"
| "transfer_results (TransferExists # rs) = transfer_results rs"
| "transfer_results (TransferExceedsCredits # rs) = Some (Sentinel ErrInsufficientFunds)"
| "transfer_results (TransferOther s # rs) = Some (wrap_text ErrRejected (''create transfer: '' @ s))"

definition deposit_request :: "'tb tb_client \<Rightarrow> LedgerID \<Rightarrow> DepositParam \<Rightarrow> tb_transfer" where
  "deposit_request C ledgerID param = \<lparr>t_ID = TransferID C (dp_TransferID param),
     t_DebitAccountID = SettlementAccountID C ledgerID, t_CreditAccountID = AccountID C (dp_WalletID param),
     t_Amount = tb_ToUint128 C (Minor (dp_Amount param)), t_Ledger = ledgerID, t_Code = TransferDeposit\<rparr>"

definition Ledger_deposit :: "'tb tb_client \<Rightarrow> DepositParam \<Rightarrow> (go_error option, ('tb, 'x) world) prog" where
  "Ledger_deposit C param =
     (if \<not> IsPositive (dp_Amount param)
      then Ret (Some (wrap_text ErrRejected ''deposit amount must be positive''))
      else case LedgerForCurrency (dp_Currency param) of
        Inl err \<Rightarrow> Ret (Some (wrap_sentinel ErrRejected '''' err))
      | Inr ledgerID \<Rightarrow>
          bnd (ensureAccounts C ledgerID (dp_WalletID param)) (\<lambda>err. case err of
            Some e \<Rightarrow> Ret (Some e)
          | None \<Rightarrow>
              bnd (client_CreateTransfers C [deposit_request C ledgerID param]) (\<lambda>results. Ret (case results of
                Inl m \<Rightarrow> Some (wrap_cause ''create transfer'' (Opaque m))
              | Inr rs \<Rightarrow> deposit_results rs))))"

definition transfer_request :: "'tb tb_client \<Rightarrow> LedgerID \<Rightarrow> TransferParam \<Rightarrow> tb_transfer" where
  "transfer_request C ledgerID param = \<lparr>t_ID = TransferID C (tp_TransferID param),
     t_DebitAccountID = AccountID C (tp_SenderWalletID param),
     t_CreditAccountID = AccountID C (tp_ReceipientWalletID param),
     t_Amount = tb_ToUint128 C (Minor (tp_Amount param)), t_Ledger = ledgerID, t_Code = TransferInternal\<rparr>"

definition Ledger_transfer :: "'tb tb_client \<Rightarrow> TransferParam \<Rightarrow> (go_error option, ('tb, 'x) world) prog" where
  "Ledger_transfer C param =
     (if \<not> IsPositive (tp_Amount param)
      then Ret (Some (wrap_text ErrRejected ''transfer amount must be positive''))
      else if tp_SenderWalletID param = tp_ReceipientWalletID param
      then Ret (Some (wrap_text ErrRejected ''a wallet cannot transfer to itself''))
      else if \<not> EqualFold (tp_SenderCurrency param) (tp_ReceipientsCurrency param)
      then Ret (Some (wrap_text ErrCrossCurrency (tp_SenderCurrency param @ '' to '' @ tp_ReceipientsCurrency param)))
      else case LedgerForCurrency (tp_SenderCurrency param) of
        Inl err \<Rightarrow> Ret (Some (wrap_sentinel ErrRejected '''' err))
      | Inr ledgerID \<Rightarrow>
          bnd (ensureAccounts C ledgerID (tp_SenderWalletID param)) (\<lambda>err. case err of
            Some e \<Rightarrow> Ret (Some e)
          | None \<Rightarrow>
          bnd (ensureAccounts C ledgerID (tp_ReceipientWalletID param)) (\<lambda>err. case err of
            Some e \<Rightarrow> Ret (Some e)
          | None \<Rightarrow>
              bnd (client_CreateTransfers C [transfer_request C ledgerID param]) (\<lambda>results. Ret (case results of
                Inl m \<Rightarrow> Some (wrap_cause ''create transfer'' (Opaque m))
              | Inr rs \<Rightarrow> transfer_results rs)))))"

text \<open>\<open>TransferExists\<close>: the method; the status of the same name is a constructor.\<close>

definition Ledger_TransferExists ::
  "'tb tb_client \<Rightarrow> uuid \<Rightarrow> (go_error + bool, ('tb, 'x) world) prog" where
  "Ledger_TransferExists C intentID =
     bnd (client_LookupTransfers C [TransferID C intentID]) (\<lambda>res. Ret (case res of
       Inl m \<Rightarrow> Inl (wrap_cause ''lookup transfers'' (Opaque m))
     | Inr ts \<Rightarrow> Inr (0 < length ts)))"

section \<open>Balances\<close>

text \<open>\<open>big.Int.Int64\<close> keeps the low 64 bits. An account the lookup returns that was not asked
  for is filed under the zero UUID, as a Go map read of a missing key gives.\<close>

definition balance_of :: "'tb tb_client \<Rightarrow> tb_balance \<Rightarrow> Money" where
  "balance_of C account =
     NewMoneyFromMinor (word_of_int (tb_BigInt C (bal_CreditsPosted account) - tb_BigInt C (bal_DebitsPosted account)))"

definition byAccount :: "'tb tb_client \<Rightarrow> uuid list \<Rightarrow> u128 \<Rightarrow> uuid" where
  "byAccount C walletIDs =
     (\<lambda>a. case foldl (\<lambda>m walletID. m(AccountID C walletID \<mapsto> walletID)) Map.empty walletIDs a of
        None \<Rightarrow> 0 | Some u \<Rightarrow> u)"

definition Balances ::
  "'tb tb_client \<Rightarrow> uuid list \<Rightarrow> (go_error + (uuid \<rightharpoonup> Money), ('tb, 'x) world) prog" where
  "Balances C walletIDs =
     (if walletIDs = [] then Ret (Inr Map.empty)
      else bnd (client_LookupAccounts C (map (AccountID C) walletIDs)) (\<lambda>res. Ret (case res of
          Inl m \<Rightarrow> Inl (wrap_cause ''lookup accounts'' (Opaque m))
        | Inr accounts \<Rightarrow> Inr (foldl (\<lambda>m account. m(byAccount C walletIDs (bal_ID account) \<mapsto> balance_of C account))
            (foldl (\<lambda>m walletID. m(walletID \<mapsto> 0)) Map.empty walletIDs) accounts))))"

section \<open>Movements\<close>

datatype Direction = DirectionCredit | DirectionDebit

record Movement =
  mv_TransferID :: uuid
  mv_WalletID :: uuid
  mv_Direction :: Direction
  mv_Amount :: Money
  mv_Code :: uint16
  mv_Timestamp :: uint64

definition Movement_Time :: "Movement \<Rightarrow> time" where
  "Movement_Time m = sint (mv_Timestamp m)"

definition movement :: "'tb tb_client \<Rightarrow> uuid \<Rightarrow> tb_posted \<Rightarrow> Movement" where
  "movement C walletID transfer = \<lparr>
     mv_TransferID = tb_Bytes C (t_ID transfer), mv_WalletID = walletID,
     mv_Direction = (if t_DebitAccountID transfer = AccountID C walletID then DirectionDebit else DirectionCredit),
     mv_Amount = NewMoneyFromMinor (word_of_int (tb_BigInt C (t_Amount transfer))),
     mv_Code = t_Code transfer, mv_Timestamp = t_Timestamp transfer\<rparr>"

primrec movements_loop ::
  "'tb tb_client \<Rightarrow> uint32 \<Rightarrow> uuid list \<Rightarrow> (go_error + Movement list, ('tb, 'x) world) prog" where
  "movements_loop C limit [] = Ret (Inr [])"
| "movements_loop C limit (walletID # rest) =
     bnd (client_GetAccountTransfers C (AccountID C walletID) limit) (\<lambda>res. case res of
       Inl m \<Rightarrow> Ret (Inl (wrap_cause ''get account transfers'' (Opaque m)))
     | Inr ts \<Rightarrow> bnd (movements_loop C limit rest) (\<lambda>r. Ret (case r of
         Inl e \<Rightarrow> Inl e | Inr ms \<Rightarrow> Inr (map (movement C walletID) ts @ ms))))"

text \<open>\<open>sort.SliceStable\<close> by descending timestamp.\<close>

definition newest_first :: "Movement list \<Rightarrow> Movement list" where
  "newest_first = sort_key (\<lambda>m. - uint (mv_Timestamp m))"

definition WalletMovements ::
  "'tb tb_client \<Rightarrow> uuid list \<Rightarrow> uint32 \<Rightarrow> (go_error + Movement list, ('tb, 'x) world) prog" where
  "WalletMovements C walletIDs limit =
     (if walletIDs = [] \<or> limit = 0 then Ret (Inr [])
      else bnd (movements_loop C limit walletIDs) (\<lambda>r. Ret (map_sum id newest_first r)))"

section \<open>What the code relies on of TigerBeetle\<close>

text \<open>\<open>posted s\<close> views a state of TigerBeetle as the transfers it holds, by identifier. The
  documented contract: no call but \<open>create_transfers\<close> changes it; \<open>create_transfers\<close> of one event
  answers with one status, posts exactly that event when it reports it created, reports \<open>exists\<close>
  only for an identical event under that id (and always then), and posts nothing otherwise; a
  call that ends in a client error has either posted the event or not; a lookup by id finds
  exactly the posted transfers.\<close>

definition tb_ok :: "'tb tb_client \<Rightarrow> ('tb \<Rightarrow> u128 \<Rightarrow> tb_transfer option) \<Rightarrow> bool" where
  "tb_ok C posted \<longleftrightarrow>
     (\<forall>as s. posted (snd (tb_CreateAccounts C as s)) = posted s) \<and>
     (\<forall>ids s. posted (snd (tb_LookupAccounts C ids s)) = posted s) \<and>
     (\<forall>a n s. posted (snd (tb_GetAccountTransfers C a n s)) = posted s) \<and>
     (\<forall>ids s. posted (snd (tb_LookupTransfers C ids s)) = posted s) \<and>
     (\<forall>i s ts s'. tb_LookupTransfers C [i] s = (Inr ts, s') \<longrightarrow> (ts = [] \<longleftrightarrow> posted s i = None)) \<and>
     (\<forall>t s m s'. tb_CreateTransfers C [t] s = (Inl m, s') \<longrightarrow>
        posted s' = posted s \<or> (posted s (t_ID t) = None \<and> posted s' = (posted s)(t_ID t \<mapsto> t))) \<and>
     (\<forall>t s rs s'. tb_CreateTransfers C [t] s = (Inr rs, s') \<longrightarrow>
        (\<exists>st. rs = [st] \<and>
          (if posted s (t_ID t) = Some t then st = TransferExists \<and> posted s' = posted s
           else if st = TransferCreated then posted s (t_ID t) = None \<and> posted s' = (posted s)(t_ID t \<mapsto> t)
           else st \<noteq> TransferExists \<and> posted s' = posted s)))"

text \<open>The byte conversions are mutually inverse, and numbers convert exactly.\<close>

definition tb_ids_ok :: "'tb tb_client \<Rightarrow> bool" where
  "tb_ids_ok C \<longleftrightarrow> (\<forall>u. tb_Bytes C (tb_BytesToUint128 C u) = u) \<and> (\<forall>i. tb_BytesToUint128 C (tb_Bytes C i) = i) \<and>
     (\<forall>n. tb_BigInt C (tb_ToUint128 C n) = uint n)"

end
