(* ===== verification/Payment_Worker.thy ===== *)
theory Payment_Worker
  imports Notify_Workers Payment_Provider Repository_Tx Ledger
begin

text \<open>
  \<^verbatim>\<open>src/internal/queues/payment.go\<close>: the worker that settles deposits. Each handler is
  translated whole; \<open>slog\<close> records are left out. A nil \<open>Provider\<close>, \<open>Ledger\<close>, \<open>Inspector\<close>,
  \<open>Email\<close> or \<open>Activity\<close> is \<open>None\<close>.
\<close>

section \<open>The worker\<close>

definition TaskTypePaymentWebhook :: string where "TaskTypePaymentWebhook = ''payment:webhook''"
definition TaskTypePaymentPoll :: string where "TaskTypePaymentPoll = ''payment:poll''"
definition DefaultPollInterval :: int where "DefaultPollInterval = 60000000000"
definition DefaultPollMaxRetry :: int where "DefaultPollMaxRetry = 30"
definition PaymentWebhookRetry :: int where "PaymentWebhookRetry = 10"

record ('tb, 'x) PaymentWorker =
  pw_uuid :: uuid_pkg
  pw_Client :: "'x asynq_client"
  pw_Inspector :: "'x asynq_client option"
  pw_Queue :: string
  pw_Provider :: "'x PaymentProvider option"
  pw_Ledger :: "'tb tb_client option"
  pw_Email :: "'x EmailWorker option"
  pw_Activity :: "'x ActivityWorker option"
  pw_PollInterval :: int
  pw_PollMaxRetry :: int

definition NewPaymentWorker :: "('tb, 'x) PaymentWorker \<Rightarrow> ('tb, 'x) PaymentWorker" where
  "NewPaymentWorker cfg = cfg\<lparr>
     pw_PollInterval := (if pw_PollInterval cfg \<le> 0 then DefaultPollInterval else pw_PollInterval cfg),
     pw_PollMaxRetry := (if pw_PollMaxRetry cfg \<le> 0 then DefaultPollMaxRetry else pw_PollMaxRetry cfg)\<rparr>"

definition Payment_Enqueue :: "('tb, 'x) PaymentWorker \<Rightarrow> task \<Rightarrow> (go_error option, ('tb, 'x) world) prog" where
  "Payment_Enqueue p t = EnqueueWithContext t (pw_Queue p) (pw_Client p)"

definition PollTaskID :: "string \<Rightarrow> string" where
  "PollTaskID reference = TaskTypePaymentPoll @ '':'' @ reference"

definition Payment_GenerateNewTask :: "('tb, 'x) PaymentWorker \<Rightarrow> string \<Rightarrow> PaymentPayload \<Rightarrow> task" where
  "Payment_GenerateNewTask p name payload =
     (if name = TaskTypePaymentPoll
      then GenerateNewTask name (marshal_payment payload)
        [MaxRetry (pw_PollMaxRetry p), ProcessIn (pw_PollInterval p), TaskID (PollTaskID (pp_Reference payload))]
      else if name = TaskTypePaymentWebhook
      then GenerateNewTask name (marshal_payment payload) [MaxRetry PaymentWebhookRetry]
      else GenerateNewTask name (marshal_payment payload) [])"

definition decode_payment :: "task \<Rightarrow> go_error + PaymentPayload" where
  "decode_payment t = (case unmarshal_payment (task_Payload t) of
      None \<Rightarrow> Inl (skip_retry ''unprocessable payment payload: '' (Opaque ''invalid JSON''))
    | Some payload \<Rightarrow> Inr payload)"

section \<open>notify, fail, cancelPoll\<close>

definition deposit_email :: "User \<Rightarrow> TransactionIntent \<Rightarrow> EmailPayload" where
  "deposit_email user intent = \<lparr>ep_To = [U_Email user], ep_Subject = ''Your DigiWallet Deposit Was Successful'',
     ep_Template = EmailDepositSuccess, ep_OTP = '''', ep_FirstName = U_FirstName user, ep_LastName = U_LastName user,
     ep_Data = [(''amount'', Money_String (TI_Amount intent)), (''first_name'', U_FirstName user),
       (''last_name'', U_LastName user), (''reference'', TI_ID intent)]\<rparr>"

definition notify :: "('tb, 'x) PaymentWorker \<Rightarrow> TransactionIntent \<Rightarrow> (unit, ('tb, 'x) world) prog" where
  "notify p intent =
     bnd (case pw_Activity p of
         None \<Rightarrow> Ret ()
       | Some A \<Rightarrow>
           bnd (Activity_Enqueue A (Activity_GenerateNewTask UpdateUserActivity
             \<lparr>ap_UserID = TI_UserID intent,
              ap_Action = ''Deposited '' @ Money_String (TI_Amount intent) @ '' into wallet''\<rparr>)) (\<lambda>_. Ret ()))
     (\<lambda>_. case pw_Email p of
         None \<Rightarrow> Ret ()
       | Some E \<Rightarrow>
           bnd (GetUserByID (pw_uuid p) (TI_UserID intent)) (\<lambda>res. case res of
             Inl err \<Rightarrow> Ret ()
           | Inr user \<Rightarrow>
               bnd (Email_Enqueue E (Email_GenerateNewTask TaskTypeEmailSend (deposit_email user intent))) (\<lambda>_. Ret ())))"

definition fail :: "('tb, 'x) PaymentWorker \<Rightarrow> string \<Rightarrow> (go_error option, ('tb, 'x) world) prog" where
  "fail p reference =
     bnd (MarkIntentFailed (pw_uuid p) reference) (\<lambda>r. Ret (case r of
       Inl err \<Rightarrow> if errors_Is err ErrIntentNotPending then None else Some err
     | Inr _ \<Rightarrow> None))"

text \<open>All outcomes of the deletion are only logged.\<close>

definition cancelPoll :: "('tb, 'x) PaymentWorker \<Rightarrow> string \<Rightarrow> (unit, ('tb, 'x) world) prog" where
  "cancelPoll p reference = (case pw_Inspector p of
      None \<Rightarrow> Ret ()
    | Some I \<Rightarrow> bnd (ext_call [EvDeleteTask (PollTaskID reference)]
        (aq_DeleteTask I (pw_Queue p) (PollTaskID reference))) (\<lambda>_. Ret ()))"

section \<open>refundLatePayment\<close>

text \<open>\<open>MarkIntentSucceeded\<close> as both callers use it: an intent settled by another task is fine.\<close>

definition mark_succeeded ::
  "('tb, 'x) PaymentWorker \<Rightarrow> string \<Rightarrow> (go_error option, ('tb, 'x) world) prog" where
  "mark_succeeded p reference =
     bnd (MarkIntentSucceeded (pw_uuid p) reference) (\<lambda>r. case r of
       Inl err \<Rightarrow> Ret (if errors_Is err ErrIntentSucceeded then None else Some err)
     | Inr settled \<Rightarrow> bnd (notify p settled) (\<lambda>_. Ret None))"

definition refund ::
  "('tb, 'x) PaymentWorker \<Rightarrow> 'x PaymentProvider \<Rightarrow> TransactionIntent \<Rightarrow> (go_error option, ('tb, 'x) world) prog" where
  "refund p V intent =
     bnd (MarkIntentRefunding (pw_uuid p) (TI_ID intent)) (\<lambda>r. case r of
       Inl err \<Rightarrow> Ret (if errors_Is err ErrIntentNotFailed then None else Some err)
     | Inr _ \<Rightarrow>
         bnd (Provider_Refund V (TI_ID intent) (TI_Amount intent)) (\<lambda>e. case e of
           Some err \<Rightarrow> Ret (Some err)
         | None \<Rightarrow>
             bnd (MarkIntentRefunded (pw_uuid p) (TI_ID intent)) (\<lambda>r. Ret (case r of
               Inl err \<Rightarrow> if errors_Is err ErrIntentNotFailed then None else Some err
             | Inr _ \<Rightarrow> None))))"

definition refundLatePayment ::
  "('tb, 'x) PaymentWorker \<Rightarrow> 'tb tb_client \<Rightarrow> TransactionIntent \<Rightarrow> (go_error option, ('tb, 'x) world) prog" where
  "refundLatePayment p C intent = (case pw_Provider p of
      None \<Rightarrow> Ret (Some (wrap_text asynq_SkipRetry ''no payment provider configured''))
    | Some V \<Rightarrow> (case uuid_Parse (pw_uuid p) (TI_ID intent) of
        None \<Rightarrow> Ret (Some (skip_retry '''' (Opaque ''invalid UUID'')))
      | Some intentID \<Rightarrow>
          if TI_Status intent = TransactionFailed
          then bnd (Ledger_TransferExists C intentID) (\<lambda>res. case res of
              Inl err \<Rightarrow> Ret (Some err)
            | Inr credited \<Rightarrow> if credited then mark_succeeded p (TI_ID intent) else refund p V intent)
          else refund p V intent))"

section \<open>settle\<close>

text \<open>The part of \<open>settle\<close> after the guards on the intent, from the wallet on.\<close>

definition settle_pending ::
  "('tb, 'x) PaymentWorker \<Rightarrow> 'tb tb_client \<Rightarrow> string \<Rightarrow> string \<Rightarrow> TransactionIntent \<Rightarrow>
   (go_error option, ('tb, 'x) world) prog" where
  "settle_pending p C reference currency intent =
     bnd (GetWalletByID (pw_uuid p) (TI_WalletID intent)) (\<lambda>res. case res of
       Inl err \<Rightarrow> Ret (Some (if errors_Is err ErrNotFound
           then skip_retry ''wallet for this intent is gone: '' err else err))
     | Inr wallet \<Rightarrow>
         if currency \<noteq> '''' \<and> \<not> EqualFold currency (W_Currency wallet)
         then Ret (Some (skip_retry '''' (Sentinel ErrCurrencyMismatch)))
         else if W_Status wallet \<noteq> WalletActive
         then Ret (Some (skip_retry '''' (Sentinel ErrWalletNotActive)))
         else (case uuid_Parse (pw_uuid p) (TI_ID intent) of
           None \<Rightarrow> Ret (Some (skip_retry '''' (Opaque ''invalid UUID'')))
         | Some intentID \<Rightarrow> (case uuid_Parse (pw_uuid p) (W_ID wallet) of
             None \<Rightarrow> Ret (Some (skip_retry '''' (Opaque ''invalid UUID'')))
           | Some walletID \<Rightarrow>
               bnd (Ledger_deposit C \<lparr>dp_TransferID = intentID, dp_WalletID = walletID,
                     dp_Currency = W_Currency wallet, dp_Amount = TI_Amount intent\<rparr>) (\<lambda>e. case e of
                 Some err \<Rightarrow> Ret (Some (if errors_Is err ErrRejected then skip_retry '''' err else err))
               | None \<Rightarrow> mark_succeeded p reference))))"

definition settle ::
  "('tb, 'x) PaymentWorker \<Rightarrow> string \<Rightarrow> Money \<Rightarrow> string \<Rightarrow> (go_error option, ('tb, 'x) world) prog" where
  "settle p reference amount currency = (case pw_Ledger p of
      None \<Rightarrow> Ret (Some (wrap_text asynq_SkipRetry ''no ledger configured''))
    | Some C \<Rightarrow>
        bnd (GetIntentByReference (pw_uuid p) reference) (\<lambda>res. case res of
          Inl err \<Rightarrow> Ret (Some (if errors_Is err ErrNotFound
              then skip_retry ''no intent for this reference: '' err else err))
        | Inr intent \<Rightarrow>
            if TI_Status intent = TransactionFailed \<or> TI_Status intent = TransactionRefunding
            then refundLatePayment p C intent
            else if TI_Status intent \<noteq> TransactionPending then Ret None
            else if amount \<noteq> TI_Amount intent
            then Ret (Some (skip_retry '''' (Sentinel ErrAmountMismatch)))
            else settle_pending p C reference currency intent))"

section \<open>The handlers\<close>

definition HandlePaymentWebhook :: "('tb, 'x) PaymentWorker \<Rightarrow> task \<Rightarrow> (go_error option, ('tb, 'x) world) prog" where
  "HandlePaymentWebhook p t = (case decode_payment t of
      Inl err \<Rightarrow> Ret (Some err)
    | Inr payload \<Rightarrow>
        if pp_Status payload \<noteq> PaymentSuccess \<and> pp_Status payload \<noteq> PaymentFailed then Ret None
        else bnd (if pp_Status payload = PaymentSuccess
                  then settle p (pp_Reference payload) (NewMoneyFromMinor (pp_AmountMinor payload)) (pp_Currency payload)
                  else fail p (pp_Reference payload)) (\<lambda>e. case e of
            Some err \<Rightarrow> Ret (Some err)
          | None \<Rightarrow> bnd (cancelPoll p (pp_Reference payload)) (\<lambda>_. Ret None)))"

text \<open>The part of \<open>HandlePaymentPoll\<close> after the guard on the status.\<close>

definition poll_verify ::
  "('tb, 'x) PaymentWorker \<Rightarrow> 'x PaymentProvider \<Rightarrow> string \<Rightarrow> (go_error option, ('tb, 'x) world) prog" where
  "poll_verify p V reference = bnd (Provider_Verify V reference) (\<lambda>res. case res of
      Inl err \<Rightarrow> Ret (Some (if errors_Is err ErrReferenceNotFound
          then wrap_text ErrRetryLater ''provider does not know this reference yet'' else err))
    | Inr verification \<Rightarrow>
        if pv_Status verification = PaymentSuccess
        then settle p reference (pv_Amount verification) (pv_Currency verification)
        else if pv_Status verification = PaymentFailed then fail p reference
        else Ret (Some (wrap_text ErrRetryLater (''provider status '' @ pv_Status verification))))"

definition HandlePaymentPoll :: "('tb, 'x) PaymentWorker \<Rightarrow> task \<Rightarrow> (go_error option, ('tb, 'x) world) prog" where
  "HandlePaymentPoll p t = (case decode_payment t of
      Inl err \<Rightarrow> Ret (Some err)
    | Inr payload \<Rightarrow> (case pw_Provider p of
        None \<Rightarrow> Ret (Some (wrap_text asynq_SkipRetry ''no payment provider configured''))
      | Some V \<Rightarrow>
          bnd (GetIntentByReference (pw_uuid p) (pp_Reference payload)) (\<lambda>res. case res of
            Inl err \<Rightarrow> Ret (Some (if errors_Is err ErrNotFound
                then skip_retry ''no intent for this reference: '' err else err))
          | Inr intent \<Rightarrow>
              if TI_Status intent \<noteq> TransactionPending then Ret None
              else poll_verify p V (pp_Reference payload))))"

definition HandlePollExhausted :: "('tb, 'x) PaymentWorker \<Rightarrow> task \<Rightarrow> go_error \<Rightarrow> (unit, ('tb, 'x) world) prog" where
  "HandlePollExhausted p t cause = (case decode_payment t of
      Inl err \<Rightarrow> Ret ()
    | Inr payload \<Rightarrow> bnd (fail p (pp_Reference payload)) (\<lambda>_. Ret ()))"

text \<open>The two payment tasks as \<open>RegisterHandlers\<close> mounts them.\<close>

definition payment_webhook_route :: "('tb, 'x) PaymentWorker \<Rightarrow> ('tb, 'x) world task_handler" where
  "payment_webhook_route p = handlePayment (HandlerFunc (HandlePaymentWebhook p)) []"

definition payment_poll_route :: "('tb, 'x) PaymentWorker \<Rightarrow> ('tb, 'x) world task_handler" where
  "payment_poll_route p =
     handlePayment (HandlerFunc (HandlePaymentPoll p)) [OnRetriesExhausted (\<lambda>ctx. HandlePollExhausted p)]"

end
