(* ===== verification/Transfer_Worker.thy ===== *)
theory Transfer_Worker
  imports Notify_Workers Repository_Tx Ledger
begin

text \<open>
  \<^verbatim>\<open>src/internal/queues/transfer.go\<close>: the worker that moves money between wallets. A nil
  \<open>Ledger\<close> or \<open>Activity\<close> is \<open>None\<close>; \<open>slog\<close> records are left out.
\<close>

definition TaskTypeTransferExecute :: string where "TaskTypeTransferExecute = ''transfer:execute''"
definition TransferMaxRetry :: int where "TransferMaxRetry = 10"

record ('tb, 'x) TransferWorker =
  tw_uuid :: uuid_pkg
  tw_Client :: "'x asynq_client"
  tw_Queue :: string
  tw_Ledger :: "'tb tb_client option"
  tw_Activity :: "'x ActivityWorker option"

definition NewTransferWorker ::
  "uuid_pkg \<Rightarrow> 'x asynq_client \<Rightarrow> string \<Rightarrow> 'tb tb_client option \<Rightarrow> 'x ActivityWorker option \<Rightarrow> ('tb, 'x) TransferWorker" where
  "NewTransferWorker P client queue ledger activity =
     \<lparr>tw_uuid = P, tw_Client = client, tw_Queue = queue, tw_Ledger = ledger, tw_Activity = activity\<rparr>"

declare NewTransferWorker_def [simp]

definition Transfer_Enqueue :: "('tb, 'x) TransferWorker \<Rightarrow> task \<Rightarrow> (go_error option, ('tb, 'x) world) prog" where
  "Transfer_Enqueue t k = EnqueueWithContext k (tw_Queue t) (tw_Client t)"

definition ExecuteTaskID :: "string \<Rightarrow> string" where
  "ExecuteTaskID transferID = TaskTypeTransferExecute @ '':'' @ transferID"

definition Transfer_GenerateNewTask :: "string \<Rightarrow> string \<Rightarrow> task" where
  "Transfer_GenerateNewTask name transferID =
     (if name = TaskTypeTransferExecute
      then GenerateNewTask name (marshal_transfer transferID) [MaxRetry TransferMaxRetry, TaskID (ExecuteTaskID transferID)]
      else GenerateNewTask name (marshal_transfer transferID) [])"

definition decode_transfer :: "task \<Rightarrow> go_error + string" where
  "decode_transfer k = (case unmarshal_transfer (task_Payload k) of
      None \<Rightarrow> Inl (skip_retry ''unprocessable transfer payload: '' (Opaque ''invalid JSON''))
    | Some transferID \<Rightarrow> Inr transferID)"

text \<open>The method \<open>record\<close>.\<close>

definition record_activity :: "('tb, 'x) TransferWorker \<Rightarrow> string \<Rightarrow> string \<Rightarrow> (unit, ('tb, 'x) world) prog" where
  "record_activity t userID action = (case tw_Activity t of
      None \<Rightarrow> Ret ()
    | Some A \<Rightarrow> bnd (Activity_Enqueue A (Activity_GenerateNewTask UpdateUserActivity
        \<lparr>ap_UserID = userID, ap_Action = action\<rparr>)) (\<lambda>_. Ret ()))"

definition notify_transfer :: "('tb, 'x) TransferWorker \<Rightarrow> Transfer \<Rightarrow> (unit, ('tb, 'x) world) prog" where
  "notify_transfer t transfer =
     bnd (record_activity t (T_SenderUserID transfer) (''Sent '' @ Money_String (T_Amount transfer))) (\<lambda>_.
       record_activity t (T_RecipientUserID transfer) (''Received '' @ Money_String (T_Amount transfer)))"

definition finalizeFailed ::
  "('tb, 'x) TransferWorker \<Rightarrow> Transfer \<Rightarrow> string \<Rightarrow> (go_error option, ('tb, 'x) world) prog" where
  "finalizeFailed t transfer reason =
     bnd (MarkTransferFailed (tw_uuid t) (T_ID transfer) reason) (\<lambda>r. case r of
       Inl err \<Rightarrow> Ret (if errors_Is err ErrTransferNotPending then None else Some err)
     | Inr failed \<Rightarrow>
         bnd (record_activity t (T_SenderUserID failed)
           (''Transfer of '' @ Money_String (T_Amount failed) @ '' failed: '' @ reason)) (\<lambda>_. Ret None))"

text \<open>\<open>loadWallets\<close> returns two wallets, or none with the error (nil when the transfer was
  closed).\<close>

definition loadWallets ::
  "('tb, 'x) TransferWorker \<Rightarrow> Transfer \<Rightarrow> (go_error option + Wallet \<times> Wallet, ('tb, 'x) world) prog" where
  "loadWallets t transfer =
     bnd (GetWalletByID (tw_uuid t) (T_SenderWalletID transfer)) (\<lambda>res. case res of
       Inl err \<Rightarrow> Ret (Inl (Some (if errors_Is err ErrNotFound then skip_retry ''sending wallet is gone: '' err else err)))
     | Inr sender \<Rightarrow>
     bnd (GetWalletByID (tw_uuid t) (T_RecipientWalletID transfer)) (\<lambda>res. case res of
       Inl err \<Rightarrow> Ret (Inl (Some (if errors_Is err ErrNotFound then skip_retry ''receiving wallet is gone: '' err else err)))
     | Inr recipient \<Rightarrow>
         if W_Status sender \<noteq> WalletActive \<or> W_Status recipient \<noteq> WalletActive
         then bnd (finalizeFailed t transfer ''An account involved is not active'') (\<lambda>e. Ret (Inl e))
         else if \<not> EqualFold (W_Currency sender) (W_Currency recipient)
         then bnd (finalizeFailed t transfer ''Cross-currency transfers are not supported'') (\<lambda>e. Ret (Inl e))
         else Ret (Inr (sender, recipient))))"

text \<open>The end of \<open>HandleTransferExecute\<close>: what each answer of the ledger leads to.\<close>

definition close_transfer ::
  "('tb, 'x) TransferWorker \<Rightarrow> Transfer \<Rightarrow> go_error option \<Rightarrow> (go_error option, ('tb, 'x) world) prog" where
  "close_transfer t transfer e = (case e of
      Some err \<Rightarrow>
        if errors_Is err ErrInsufficientFunds then finalizeFailed t transfer ''Insufficient funds''
        else if errors_Is err ErrCrossCurrency \<or> errors_Is err ErrRejected
        then bnd (finalizeFailed t transfer ''Rejected by the ledger'') (\<lambda>failErr. Ret (case failErr of
            Some e \<Rightarrow> Some e | None \<Rightarrow> Some (skip_retry '''' err)))
        else Ret (Some err)
    | None \<Rightarrow>
        bnd (MarkTransferSucceeded (tw_uuid t) (T_ID transfer)) (\<lambda>r. case r of
          Inl err \<Rightarrow> Ret (if errors_Is err ErrTransferNotPending then None else Some err)
        | Inr settled \<Rightarrow> bnd (notify_transfer t settled) (\<lambda>_. Ret None)))"

text \<open>The middle of \<open>HandleTransferExecute\<close>: the identifiers and the ledger call, and the part
  after the guard on the status.\<close>

definition move_money ::
  "('tb, 'x) TransferWorker \<Rightarrow> 'tb tb_client \<Rightarrow> Transfer \<Rightarrow> Wallet \<Rightarrow> Wallet \<Rightarrow> (go_error option, ('tb, 'x) world) prog" where
  "move_money t C transfer sender recipient = (case (uuid_Parse (tw_uuid t) (T_ID transfer),
        uuid_Parse (tw_uuid t) (W_ID sender), uuid_Parse (tw_uuid t) (W_ID recipient)) of
      (Some transferID, Some senderWalletID, Some recipientWalletID) \<Rightarrow>
        bnd (Ledger_transfer C \<lparr>tp_TransferID = transferID, tp_SenderWalletID = senderWalletID,
            tp_ReceipientWalletID = recipientWalletID, tp_SenderCurrency = W_Currency sender,
            tp_ReceipientsCurrency = W_Currency recipient, tp_Amount = T_Amount transfer\<rparr>)
          (close_transfer t transfer)
    | _ \<Rightarrow> Ret (Some (skip_retry '''' (Opaque ''invalid UUID''))))"

definition execute_pending ::
  "('tb, 'x) TransferWorker \<Rightarrow> 'tb tb_client \<Rightarrow> Transfer \<Rightarrow> (go_error option, ('tb, 'x) world) prog" where
  "execute_pending t C transfer = bnd (loadWallets t transfer) (\<lambda>res. case res of
      Inl e \<Rightarrow> Ret e
    | Inr (sender, recipient) \<Rightarrow> move_money t C transfer sender recipient)"

definition HandleTransferExecute :: "('tb, 'x) TransferWorker \<Rightarrow> task \<Rightarrow> (go_error option, ('tb, 'x) world) prog" where
  "HandleTransferExecute t k = (case decode_transfer k of
      Inl err \<Rightarrow> Ret (Some err)
    | Inr payload \<Rightarrow> (case tw_Ledger t of
        None \<Rightarrow> Ret (Some (wrap_text asynq_SkipRetry ''no ledger configured''))
      | Some C \<Rightarrow>
          bnd (GetTransferByID (tw_uuid t) payload) (\<lambda>res. case res of
            Inl err \<Rightarrow> Ret (Some (if errors_Is err ErrNotFound
                then skip_retry ''no transfer with this id: '' err else err))
          | Inr transfer \<Rightarrow>
              if T_Status transfer \<noteq> TransactionPending then Ret None
              else execute_pending t C transfer)))"

definition exhausted_pending ::
  "('tb, 'x) TransferWorker \<Rightarrow> Transfer \<Rightarrow> uuid \<Rightarrow> (unit, ('tb, 'x) world) prog" where
  "exhausted_pending t transfer transferID = (case tw_Ledger t of
      None \<Rightarrow> bnd (finalizeFailed t transfer ''The transfer could not be completed'') (\<lambda>_. Ret ())
    | Some C \<Rightarrow>
        bnd (Ledger_TransferExists C transferID) (\<lambda>res. case res of
          Inl err \<Rightarrow> Ret ()
        | Inr moved \<Rightarrow>
            if moved
            then bnd (MarkTransferSucceeded (tw_uuid t) (T_ID transfer)) (\<lambda>r. case r of
                Inl err \<Rightarrow> Ret ()
              | Inr settled \<Rightarrow> notify_transfer t settled)
            else bnd (finalizeFailed t transfer ''The transfer could not be completed'') (\<lambda>_. Ret ())))"

definition HandleTransferExhausted :: "('tb, 'x) TransferWorker \<Rightarrow> task \<Rightarrow> go_error \<Rightarrow> (unit, ('tb, 'x) world) prog" where
  "HandleTransferExhausted t k cause = (case decode_transfer k of
      Inl err \<Rightarrow> Ret ()
    | Inr payload \<Rightarrow>
        bnd (GetTransferByID (tw_uuid t) payload) (\<lambda>res. case res of
          Inl err \<Rightarrow> Ret ()
        | Inr transfer \<Rightarrow>
            if T_Status transfer \<noteq> TransactionPending then Ret ()
            else (case uuid_Parse (tw_uuid t) (T_ID transfer) of
              None \<Rightarrow> Ret ()
            | Some transferID \<Rightarrow> exhausted_pending t transfer transferID)))"

definition transfer_execute_route :: "('tb, 'x) TransferWorker \<Rightarrow> ('tb, 'x) world task_handler" where
  "transfer_execute_route t =
     handlePayment (HandlerFunc (HandleTransferExecute t)) [OnRetriesExhausted (\<lambda>ctx. HandleTransferExhausted t)]"

end
