(* ===== verification/System_Invariant.thy ===== *)
theory System_Invariant
  imports Payment_Worker Transfer_Worker
begin

text \<open>
  The invariant that ties Postgres to TigerBeetle and to the payment provider, and the relation
  every atomic action of the program stays within. \<open>ledger_inv\<close> says that every transfer
  TigerBeetle holds was made for a row of the database, with that row's amount and accounts; that
  a row marked SUCCESS has its transfer in the ledger; and that a refund was only ever requested
  for an intent recorded as being refunded, with the intent's amount. \<open>sys_rel\<close> adds that rows
  only move forward in their life cycle and that the ledger only grows.
\<close>

section \<open>The hypotheses on the packages\<close>

definition env_ok :: "uuid_pkg \<Rightarrow> 'tb tb_client \<Rightarrow> ('tb \<Rightarrow> u128 \<Rightarrow> tb_transfer option) \<Rightarrow> bool" where
  "env_ok P C posted \<longleftrightarrow> uuid_ok P \<and> tb_ids_ok C \<and> tb_ok C posted"

lemma env_okD:
  assumes "env_ok P C posted"
  shows uuid_round: "uuid_Parse P (uuid_String P u) = Some u"
    and uuid_text_inj: "uuid_String P a = uuid_String P b \<longleftrightarrow> a = b"
    and TransferID_inj: "TransferID C a = TransferID C b \<longleftrightarrow> a = b"
proof -
  have P: "\<forall>u. uuid_Parse P (uuid_String P u) = Some u"
    and C: "\<forall>u. tb_Bytes C (tb_BytesToUint128 C u) = u"
    using assms by (auto simp: env_ok_def uuid_ok_def tb_ids_ok_def)
  from P show "uuid_Parse P (uuid_String P u) = Some u" by blast
  from P show "uuid_String P a = uuid_String P b \<longleftrightarrow> a = b" by (metis option.inject)
  from C show "TransferID C a = TransferID C b \<longleftrightarrow> a = b" unfolding TransferID_def by metis
qed

section \<open>The invariant\<close>

definition is_deposit :: "'tb tb_client \<Rightarrow> wallet_row list \<Rightarrow> intent_row \<Rightarrow> tb_transfer \<Rightarrow> bool" where
  "is_deposit C ws r t \<longleftrightarrow> IsPositive (ti_Amount r) \<and> (\<exists>v \<in> set ws. \<exists>l. w_ID v = ti_Wallet r \<and>
     LedgerForCurrency (w_Currency v) = Inr l \<and>
     t = deposit_request C l \<lparr>dp_TransferID = ti_ID r, dp_WalletID = ti_Wallet r,
           dp_Currency = w_Currency v, dp_Amount = ti_Amount r\<rparr>)"

definition is_move :: "'tb tb_client \<Rightarrow> wallet_row list \<Rightarrow> transfer_row \<Rightarrow> tb_transfer \<Rightarrow> bool" where
  "is_move C ws r t \<longleftrightarrow> IsPositive (tr_Amount r) \<and> tr_SenderWalletID r \<noteq> tr_RecipientWalletID r \<and>
     (\<exists>v \<in> set ws. \<exists>v' \<in> set ws. \<exists>l. w_ID v = tr_SenderWalletID r \<and> w_ID v' = tr_RecipientWalletID r \<and>
       EqualFold (w_Currency v) (w_Currency v') \<and> LedgerForCurrency (w_Currency v) = Inr l \<and>
       t = transfer_request C l \<lparr>tp_TransferID = tr_ID r, tp_SenderWalletID = tr_SenderWalletID r,
             tp_ReceipientWalletID = tr_RecipientWalletID r, tp_SenderCurrency = w_Currency v,
             tp_ReceipientsCurrency = w_Currency v', tp_Amount = tr_Amount r\<rparr>)"

text \<open>The primary keys of intents and transfers were drawn from \<open>uuid.New\<close>, and no identifier is
  used in both tables. \<open>uuids_fresh\<close>: none of the identifiers drawn so far was drawn twice.\<close>

definition ids_ok :: "('tb, 'x) world \<Rightarrow> bool" where
  "ids_ok w \<longleftrightarrow> ti_ID ` set (intents w) \<union> tr_ID ` set (transfers w) \<subseteq> uuid_src w ` {..<uuid_n w} \<and>
     ti_ID ` set (intents w) \<inter> tr_ID ` set (transfers w) = {}"

definition uuids_fresh :: "('tb, 'x) world \<Rightarrow> bool" where
  "uuids_fresh w \<longleftrightarrow> inj_on (uuid_src w) {..<uuid_n w}"

definition posted_explained ::
  "'tb tb_client \<Rightarrow> ('tb \<Rightarrow> u128 \<Rightarrow> tb_transfer option) \<Rightarrow> ('tb, 'x) world \<Rightarrow> bool" where
  "posted_explained C posted w \<longleftrightarrow> (\<forall>i t. posted (tb w) i = Some t \<longrightarrow>
     (\<exists>r \<in> set (intents w). i = TransferID C (ti_ID r) \<and> is_deposit C (wallets w) r t) \<or>
     (\<exists>r \<in> set (transfers w). i = TransferID C (tr_ID r) \<and> is_move C (wallets w) r t))"

definition success_posted ::
  "'tb tb_client \<Rightarrow> ('tb \<Rightarrow> u128 \<Rightarrow> tb_transfer option) \<Rightarrow> ('tb, 'x) world \<Rightarrow> bool" where
  "success_posted C posted w \<longleftrightarrow>
     (\<forall>r \<in> set (intents w). ti_Status r = TransactionSuccess \<longrightarrow> posted (tb w) (TransferID C (ti_ID r)) \<noteq> None) \<and>
     (\<forall>r \<in> set (transfers w). tr_Status r = TransactionSuccess \<longrightarrow> posted (tb w) (TransferID C (tr_ID r)) \<noteq> None)"

definition refunds_recorded :: "uuid_pkg \<Rightarrow> ('tb, 'x) world \<Rightarrow> bool" where
  "refunds_recorded P w \<longleftrightarrow> (\<forall>ref amount. EvRefund ref amount \<in> set (trace w) \<longrightarrow>
     (\<exists>r \<in> set (intents w). uuid_String P (ti_ID r) = ref \<and> ti_Amount r = amount \<and>
        ti_Status r \<in> {TransactionRefunding, TransactionRefunded}))"

definition ledger_inv ::
  "uuid_pkg \<Rightarrow> 'tb tb_client \<Rightarrow> ('tb \<Rightarrow> u128 \<Rightarrow> tb_transfer option) \<Rightarrow> ('tb, 'x) world \<Rightarrow> bool" where
  "ledger_inv P C posted w \<longleftrightarrow> db_wf w \<and> ids_ok w \<and> posted_explained C posted w \<and>
     success_posted C posted w \<and> refunds_recorded P w"

section \<open>The relation\<close>

definition evolves :: "('tb, 'x) world \<Rightarrow> ('tb, 'x) world \<Rightarrow> bool" where
  "evolves w w' \<longleftrightarrow> rows_evolve intent_le (intents w) (intents w') \<and>
     rows_evolve transfer_le (transfers w) (transfers w') \<and> rows_evolve wallet_le (wallets w) (wallets w') \<and>
     (\<exists>evs. trace w' = trace w @ evs) \<and> uuid_src w' = uuid_src w \<and> uuid_n w \<le> uuid_n w'"

definition ledger_grows :: "('tb \<Rightarrow> u128 \<Rightarrow> tb_transfer option) \<Rightarrow> ('tb, 'x) world \<Rightarrow> ('tb, 'x) world \<Rightarrow> bool" where
  "ledger_grows posted w w' \<longleftrightarrow> (\<forall>i t. posted (tb w) i = Some t \<longrightarrow> posted (tb w') i = Some t)"

definition sys_rel ::
  "uuid_pkg \<Rightarrow> 'tb tb_client \<Rightarrow> ('tb \<Rightarrow> u128 \<Rightarrow> tb_transfer option) \<Rightarrow>
   ('tb, 'x) world \<Rightarrow> ('tb, 'x) world \<Rightarrow> bool" where
  "sys_rel P C posted w w' \<longleftrightarrow> evolves w w' \<and> ledger_grows posted w w' \<and>
     (ledger_inv P C posted w \<and> uuids_fresh w' \<longrightarrow> ledger_inv P C posted w')"

lemma evolves_refl: "evolves w w"
  by (simp add: evolves_def intent_rows.evolve_refl transfer_rows.evolve_refl wallet_rows.evolve_refl)

lemma evolves_trans: "evolves u v \<Longrightarrow> evolves v w \<Longrightarrow> evolves u w"
  unfolding evolves_def
  using intent_rows.evolve_trans transfer_rows.evolve_trans wallet_rows.evolve_trans
  by (metis append.assoc le_trans)

lemma fresh_earlier: "evolves w w' \<Longrightarrow> uuids_fresh w' \<Longrightarrow> uuids_fresh w"
  unfolding evolves_def uuids_fresh_def by (metis inj_on_subset lessThan_subset_iff)

interpretation sys: rely_guarantee "sys_rel P C posted" for P C posted
proof unfold_locales
  show "sys_rel P C posted w w" for w
    by (simp add: sys_rel_def evolves_refl ledger_grows_def)
  show "sys_rel P C posted u v \<Longrightarrow> sys_rel P C posted v w \<Longrightarrow> sys_rel P C posted u w" for u v w
    unfolding sys_rel_def ledger_grows_def by (metis evolves_trans fresh_earlier)
qed

section \<open>Facts that keep holding\<close>

definition has_intent :: "intent_row \<Rightarrow> ('tb, 'x) world \<Rightarrow> bool" where
  "has_intent r w \<longleftrightarrow> (\<exists>s \<in> set (intents w). intent_le r s)"

definition has_transfer :: "transfer_row \<Rightarrow> ('tb, 'x) world \<Rightarrow> bool" where
  "has_transfer r w \<longleftrightarrow> (\<exists>s \<in> set (transfers w). transfer_le r s)"

definition has_wallet :: "wallet_row \<Rightarrow> ('tb, 'x) world \<Rightarrow> bool" where
  "has_wallet r w \<longleftrightarrow> (\<exists>s \<in> set (wallets w). wallet_le r s)"

lemma has_now:
  "r \<in> set (intents w) \<Longrightarrow> has_intent r w" "t \<in> set (transfers w) \<Longrightarrow> has_transfer t w"
  "v \<in> set (wallets w) \<Longrightarrow> has_wallet v w"
  using intent_rows.le_refl transfer_rows.le_refl wallet_rows.le_refl
  by (auto simp: has_intent_def has_transfer_def has_wallet_def)

lemma has_stable:
  assumes "sys_rel P C posted w v"
  shows has_intent_stable: "has_intent r w \<Longrightarrow> has_intent r v"
    and has_transfer_stable: "has_transfer t w \<Longrightarrow> has_transfer t v"
    and has_wallet_stable: "has_wallet u w \<Longrightarrow> has_wallet u v"
    and posted_stable: "posted (tb w) i \<noteq> None \<Longrightarrow> posted (tb v) i \<noteq> None"
proof -
  from assms have e: "rows_evolve intent_le (intents w) (intents v)"
    "rows_evolve transfer_le (transfers w) (transfers v)" "rows_evolve wallet_le (wallets w) (wallets v)"
    and g: "ledger_grows posted w v"
    by (auto simp: sys_rel_def evolves_def)
  from e(1) show "has_intent r w \<Longrightarrow> has_intent r v"
    unfolding has_intent_def rows_evolve_def using intent_rows.le_trans by metis
  from e(2) show "has_transfer t w \<Longrightarrow> has_transfer t v"
    unfolding has_transfer_def rows_evolve_def using transfer_rows.le_trans by metis
  from e(3) show "has_wallet u w \<Longrightarrow> has_wallet u v"
    unfolding has_wallet_def rows_evolve_def using wallet_rows.le_trans by metis
  from g show "posted (tb w) i \<noteq> None \<Longrightarrow> posted (tb v) i \<noteq> None"
    unfolding ledger_grows_def by fastforce
qed

lemma deposit_stable:
  assumes "rows_evolve wallet_le ws ws'" and "intent_le r s" and "is_deposit C ws r t"
  shows "is_deposit C ws' s t"
proof -
  from assms(3) obtain v l where v: "v \<in> set ws" "w_ID v = ti_Wallet r" "LedgerForCurrency (w_Currency v) = Inr l"
    "IsPositive (ti_Amount r)"
    "t = deposit_request C l \<lparr>dp_TransferID = ti_ID r, dp_WalletID = ti_Wallet r,
           dp_Currency = w_Currency v, dp_Amount = ti_Amount r\<rparr>"
    by (auto simp: is_deposit_def)
  from assms(1) v(1) obtain v' where "v' \<in> set ws'" "wallet_le v v'" by (auto simp: rows_evolve_def)
  with assms(2) v show ?thesis
    unfolding is_deposit_def by (auto simp: wallet_le_def intent_le_def intro!: bexI[of _ v'])
qed

lemma move_stable:
  assumes "rows_evolve wallet_le ws ws'" and "transfer_le r s" and "is_move C ws r t"
  shows "is_move C ws' s t"
proof -
  from assms(3) obtain u v l where v: "u \<in> set ws" "v \<in> set ws" "w_ID u = tr_SenderWalletID r"
    "w_ID v = tr_RecipientWalletID r" "EqualFold (w_Currency u) (w_Currency v)"
    "LedgerForCurrency (w_Currency u) = Inr l" "IsPositive (tr_Amount r)"
    "tr_SenderWalletID r \<noteq> tr_RecipientWalletID r"
    "t = transfer_request C l \<lparr>tp_TransferID = tr_ID r, tp_SenderWalletID = tr_SenderWalletID r,
             tp_ReceipientWalletID = tr_RecipientWalletID r, tp_SenderCurrency = w_Currency u,
             tp_ReceipientsCurrency = w_Currency v, tp_Amount = tr_Amount r\<rparr>"
    by (auto simp: is_move_def)
  from assms(1) v(1) obtain u' where u': "u' \<in> set ws'" "wallet_le u u'" by (auto simp: rows_evolve_def)
  from assms(1) v(2) obtain v' where "v' \<in> set ws'" "wallet_le v v'" by (auto simp: rows_evolve_def)
  then have v': "v' \<in> set ws'" "w_ID v' = w_ID v" "w_Currency v' = w_Currency v"
    by (simp_all add: wallet_le_def)
  from u' have u'': "w_ID u' = w_ID u" "w_Currency u' = w_Currency u" by (simp_all add: wallet_le_def)
  from assms(2) have s: "tr_ID s = tr_ID r" "tr_SenderWalletID s = tr_SenderWalletID r"
    "tr_RecipientWalletID s = tr_RecipientWalletID r" "tr_Amount s = tr_Amount r"
    by (auto simp: transfer_le_def)
  show ?thesis
    unfolding is_move_def s
    by (intro conjI bexI[of _ u'] bexI[of _ v'] exI[of _ l])
      (simp_all only: u'' v' v(3-8) u'(1), simp_all add: v(9))
qed

lemma explained_stable:
  assumes "evolves w w'" and "posted (tb w') = posted (tb w)" and "posted_explained C posted w"
  shows "posted_explained C posted w'"
  unfolding posted_explained_def
proof (intro allI impI)
  fix i t assume "posted (tb w') i = Some t"
  with assms(2,3) consider
      r where "r \<in> set (intents w)" "i = TransferID C (ti_ID r)" "is_deposit C (wallets w) r t"
    | r where "r \<in> set (transfers w)" "i = TransferID C (tr_ID r)" "is_move C (wallets w) r t"
    unfolding posted_explained_def by metis
  then show "(\<exists>r \<in> set (intents w'). i = TransferID C (ti_ID r) \<and> is_deposit C (wallets w') r t) \<or>
             (\<exists>r \<in> set (transfers w'). i = TransferID C (tr_ID r) \<and> is_move C (wallets w') r t)"
  proof cases
    case 1
    with assms(1) intent_rows.evolve_find deposit_stable show ?thesis unfolding evolves_def by metis
  next
    case 2
    with assms(1) transfer_rows.evolve_find move_stable show ?thesis unfolding evolves_def by metis
  qed
qed

lemma refunds_stable:
  assumes "evolves w w'" and "trace w' = trace w" and "refunds_recorded P w"
  shows "refunds_recorded P w'"
  unfolding refunds_recorded_def
proof (intro allI impI)
  fix ref a assume "EvRefund ref a \<in> set (trace w')"
  with assms(2,3) obtain r where r: "r \<in> set (intents w)" "uuid_String P (ti_ID r) = ref" "ti_Amount r = a"
    "ti_Status r \<in> {TransactionRefunding, TransactionRefunded}"
    unfolding refunds_recorded_def by metis
  from assms(1) r(1) obtain s where "s \<in> set (intents w')" "intent_le r s"
    unfolding evolves_def rows_evolve_def by metis
  with r show "\<exists>r \<in> set (intents w'). uuid_String P (ti_ID r) = ref \<and> ti_Amount r = a \<and>
      ti_Status r \<in> {TransactionRefunding, TransactionRefunded}"
    by (intro bexI[of _ s]) (auto simp: intent_le_def)
qed


section \<open>Actions that stay within the relation\<close>

text \<open>An action on the database alone: the rows evolve, the keys stay well formed, and a row that
  is SUCCESS afterwards has its transfer in the ledger.\<close>

lemma sys_rel_db:
  assumes "evolves w w'" "tb w' = tb w" "trace w' = trace w"
    and "db_wf w \<and> ids_ok w \<Longrightarrow> uuids_fresh w' \<Longrightarrow> db_wf w' \<and> ids_ok w'"
    and "success_posted C posted w \<Longrightarrow> success_posted C posted w'"
  shows "sys_rel P C posted w w'"
  using assms explained_stable[OF assms(1), of posted C] refunds_stable[OF assms(1,3), of P]
  by (auto simp: sys_rel_def ledger_grows_def ledger_inv_def)

text \<open>An action that changes no table the invariant speaks of.\<close>

lemma sys_rel_frame:
  assumes "intents w' = intents w" "transfers w' = transfers w" "wallets w' = wallets w"
    "posted (tb w') = posted (tb w)"
    and "map u_ID (users w') = map u_ID (users w)" "map u_Email (users w') = map u_Email (users w)"
    and "uuid_src w' = uuid_src w" "uuid_n w \<le> uuid_n w'"
    and "trace w' = trace w @ evs" "\<And>ref a. EvRefund ref a \<notin> set evs"
  shows "sys_rel P C posted w w'"
proof -
  have "evolves w w'"
    using assms(1-3,7-9) by (simp add: evolves_def intent_rows.evolve_refl transfer_rows.evolve_refl wallet_rows.evolve_refl)
  moreover have "ids_ok w \<Longrightarrow> ids_ok w'"
    using image_mono[of "{..<uuid_n w}" "{..<uuid_n w'}" "uuid_src w"] assms(8)
    unfolding ids_ok_def assms(1,2,7) by (simp add: subset_iff)
  moreover have "refunds_recorded P w \<Longrightarrow> refunds_recorded P w'"
    using assms(1,9,10) by (auto simp: refunds_recorded_def)
  moreover have "db_wf w' = db_wf w" "posted_explained C posted w' = posted_explained C posted w"
    "success_posted C posted w' = success_posted C posted w" "ledger_grows posted w w'"
    using assms(1-6) by (simp_all add: db_wf_def posted_explained_def success_posted_def ledger_grows_def)
  ultimately show ?thesis by (auto simp: sys_rel_def ledger_inv_def)
qed

lemma sys_rel_db_n [simp]: "sys_rel P C posted w (w\<lparr>db_n := n\<rparr>)"
  by (rule sys_rel_frame[where evs = "[]"]) simp_all

lemma guar_db_call:
  assumes "\<And>w. sys_rel P C posted w (snd (f w))"
  shows "guar (sys_rel P C posted) (db_call f)"
  unfolding db_call_def
proof (rule guar_atom)
  fix w
  have "sys_rel P C posted w (snd (f (w\<lparr>db_n := Suc (db_n w)\<rparr>)))"
    using sys.rely_trans[OF sys_rel_db_n assms] .
  then show "sys_rel P C posted w (snd (let w1 = w\<lparr>db_n := Suc (db_n w)\<rparr> in
      case db_fault w (db_n w) of None \<Rightarrow> f w1 | Some (FailBefore m) \<Rightarrow> (Inl (Opaque m), w1)
      | Some (FailAfter m) \<Rightarrow> (Inl (Opaque m), snd (f w1))))"
    by (auto simp: Let_def split: option.splits fault.splits)
qed

lemma rg_db_call:
  assumes "\<And>v. sys_rel P C posted w v \<Longrightarrow> sys_rel P C posted v (snd (f v))"
    and "\<And>v a v' u. sys_rel P C posted w v \<Longrightarrow> f v = (a, v') \<Longrightarrow> sys_rel P C posted v' u \<Longrightarrow> Q a u"
    and "\<And>m v. sys_rel P C posted w v \<Longrightarrow> Q (Inl (Opaque m)) v"
  shows "rg (sys_rel P C posted) (db_call f) w Q"
  unfolding db_call_def
proof (rule sys.rg_atom)
  fix v a v' assume v: "sys_rel P C posted w v"
    and f: "(let w1 = v\<lparr>db_n := Suc (db_n v)\<rparr> in
      case db_fault v (db_n v) of None \<Rightarrow> f w1 | Some (FailBefore m) \<Rightarrow> (Inl (Opaque m), w1)
      | Some (FailAfter m) \<Rightarrow> (Inl (Opaque m), snd (f w1))) = (a, v')"
  define w1 where "w1 = v\<lparr>db_n := Suc (db_n v)\<rparr>"
  have w1: "sys_rel P C posted v w1" "sys_rel P C posted w w1"
    using sys.rely_trans[OF v] by (simp_all add: w1_def)
  with assms(1)[of w1] have f1: "sys_rel P C posted v (snd (f w1))" by (blast intro: sys.rely_trans)
  with f w1 show vv': "sys_rel P C posted v v'"
    unfolding w1_def[symmetric] by (auto simp: Let_def split: option.splits fault.splits)
  fix u assume u: "sys_rel P C posted v' u"
  have wu: "sys_rel P C posted w u" using v vv' u by (blast intro: sys.rely_trans)
  show "Q a u"
  proof (cases "db_fault v (db_n v)")
    case None
    with f have "f w1 = (a, v')" by (simp add: w1_def Let_def)
    with assms(2) w1(2) u show ?thesis by blast
  next
    case (Some x)
    with f obtain m where "a = Inl (Opaque m)" by (cases x) (auto simp: Let_def)
    with assms(3) wu show ?thesis by simp
  qed
qed

lemma guar_rand_Int: "guar (sys_rel P C posted) (rand_Int m)"
  unfolding rand_Int_def by (rule guar_atom) (auto intro: sys_rel_frame[where evs = "[]"])

lemma guar_time_Now: "guar (sys_rel P C posted) time_Now"
  unfolding time_Now_def by (rule guar_atom) (simp add: sys.rely_refl)

lemma guar_ext_call:
  "(\<And>ref a. EvRefund ref a \<notin> set evs) \<Longrightarrow> guar (sys_rel P C posted) (ext_call evs f)"
  unfolding ext_call_def
  by (rule guar_atom) (auto split: prod.splits intro!: sys_rel_frame[where evs = evs])

lemma guar_tb_call:
  fixes f :: "'tb \<Rightarrow> 'a \<times> 'tb"
  assumes a: "\<And>s. posted (snd (f s)) = posted s" and evs: "\<And>ref a. EvRefund ref a \<notin> set evs"
  shows "guar (sys_rel P C posted) (tb_call evs f :: ('a, ('tb, 'x) world) prog)"
  unfolding tb_call_def
proof (rule guar_atom)
  fix w :: "('tb, 'x) world"
  obtain r s where f: "f (tb w) = (r, s)" by fastforce
  with a[of "tb w"] have "posted s = posted (tb w)" by simp
  then show "sys_rel P C posted w (snd (case f (tb w) of (r, s) \<Rightarrow> (r, w\<lparr>tb := s, trace := trace w @ evs\<rparr>)))"
    using evs by (auto simp: f intro!: sys_rel_frame[where evs = evs])
qed

lemma guar_logged: "guar R m \<Longrightarrow> guar R (logged m f)"
  unfolding logged_def by (rule guar_bnd) simp_all


section \<open>Statements on the tables\<close>

lemma sys_rel_update_intent:
  assumes "\<forall>s \<in> set from. s \<le> to"
    and "to = TransactionSuccess \<Longrightarrow> posted (tb w) (TransferID C u) \<noteq> None"
  shows "sys_rel P C posted w (w\<lparr>intents := sql_update (\<lambda>r. ti_ID r = u \<and> ti_Status r \<in> set from)
           (\<lambda>r. r\<lparr>ti_Status := to, ti_UpdatedAt := t\<rparr>) (intents w)\<rparr>)"
    (is "sys_rel P C posted w ?w'")
proof -
  let ?p = "\<lambda>r. ti_ID r = u \<and> ti_Status r \<in> set from" and ?f = "\<lambda>r. r\<lparr>ti_Status := to, ti_UpdatedAt := t\<rparr>"
  have le: "?p r \<Longrightarrow> intent_le r (?f r)" for r using assms(1) by (auto simp: intent_le_def)
  have keys: "map ti_ID (intents ?w') = map ti_ID (intents w)"
    using intent_rows.keys_update[of ?p ?f] le by simp
  then have "set (map ti_ID (intents ?w')) = set (map ti_ID (intents w))" by simp
  then have ids: "ti_ID ` set (intents ?w') = ti_ID ` set (intents w)" by simp
  show ?thesis
  proof (rule sys_rel_db)
    show "evolves w ?w'"
      using intent_rows.evolve_update[of ?p ?f "intents w"] le
      by (simp add: evolves_def transfer_rows.evolve_refl wallet_rows.evolve_refl)
    show "db_wf w \<and> ids_ok w \<Longrightarrow> db_wf ?w' \<and> ids_ok ?w'"
      using keys ids by (simp add: db_wf_def ids_ok_def)
    show "success_posted C posted w \<Longrightarrow> success_posted C posted ?w'"
      using assms(2) by (auto simp: success_posted_def sql_update_def split: if_splits)
  qed simp_all
qed

lemma sys_rel_update_transfer:
  assumes "to \<in> {TransactionSuccess, TransactionFailed}"
    and "to = TransactionSuccess \<Longrightarrow> posted (tb w) (TransferID C u) \<noteq> None"
  shows "sys_rel P C posted w (w\<lparr>transfers := sql_update (\<lambda>r. tr_ID r = u \<and> tr_Status r = TransactionPending)
           (\<lambda>r. r\<lparr>tr_Status := to, tr_FailureReason := reason, tr_UpdatedAt := t\<rparr>) (transfers w)\<rparr>)"
    (is "sys_rel P C posted w ?w'")
proof -
  let ?p = "\<lambda>r. tr_ID r = u \<and> tr_Status r = TransactionPending"
    and ?f = "\<lambda>r. r\<lparr>tr_Status := to, tr_FailureReason := reason, tr_UpdatedAt := t\<rparr>"
  have le: "?p r \<Longrightarrow> transfer_le r (?f r)" for r using assms(1) by (auto simp: transfer_le_def)
  have keys: "map tr_ID (transfers ?w') = map tr_ID (transfers w)"
    using transfer_rows.keys_update[of ?p ?f] le by simp
  then have "set (map tr_ID (transfers ?w')) = set (map tr_ID (transfers w))" by simp
  then have ids: "tr_ID ` set (transfers ?w') = tr_ID ` set (transfers w)" by simp
  show ?thesis
  proof (rule sys_rel_db)
    show "evolves w ?w'"
      using transfer_rows.evolve_update[of ?p ?f "transfers w"] le
      by (simp add: evolves_def intent_rows.evolve_refl wallet_rows.evolve_refl)
    show "db_wf w \<and> ids_ok w \<Longrightarrow> db_wf ?w' \<and> ids_ok ?w'"
      using keys ids by (simp add: db_wf_def ids_ok_def)
    show "success_posted C posted w \<Longrightarrow> success_posted C posted ?w'"
      using assms(2) by (auto simp: success_posted_def sql_update_def split: if_splits)
  qed simp_all
qed

lemma fresh_uuid:
  assumes "ids_ok w" and "inj_on (uuid_src w) {..<Suc (uuid_n w)}"
  shows "uuid_src w (uuid_n w) \<notin> ti_ID ` set (intents w) \<union> tr_ID ` set (transfers w)"
proof
  assume "uuid_src w (uuid_n w) \<in> ti_ID ` set (intents w) \<union> tr_ID ` set (transfers w)"
  with assms(1) obtain n where "n < uuid_n w" "uuid_src w (uuid_n w) = uuid_src w n"
    unfolding ids_ok_def by blast
  with assms(2) show False by (auto dest: inj_onD)
qed

lemma sys_rel_insert_intent:
  assumes "ti_ID row = uuid_src w (uuid_n w)" "ti_Status row = TransactionPending"
    and "ti_ID row \<notin> ti_ID ` set (intents w)"
  shows "sys_rel P C posted w (w\<lparr>uuid_n := Suc (uuid_n w), intents := intents w @ [row]\<rparr>)"
    (is "sys_rel P C posted w ?w'")
proof (rule sys_rel_db)
  show "evolves w ?w'"
    by (simp add: evolves_def intent_rows.evolve_insert transfer_rows.evolve_refl wallet_rows.evolve_refl)
  show "db_wf ?w' \<and> ids_ok ?w'" if "db_wf w \<and> ids_ok w" "uuids_fresh ?w'"
    using that assms(1,3) fresh_uuid[of w] by (auto simp: db_wf_def ids_ok_def uuids_fresh_def lessThan_Suc)
  show "success_posted C posted w \<Longrightarrow> success_posted C posted ?w'"
    using assms(2) by (auto simp: success_posted_def)
qed simp_all

lemma sys_rel_insert_transfer:
  assumes "tr_ID row = uuid_src w (uuid_n w)" "tr_Status row = TransactionPending"
    and "tr_ID row \<notin> tr_ID ` set (transfers w)"
  shows "sys_rel P C posted w (w\<lparr>uuid_n := Suc (uuid_n w), transfers := transfers w @ [row]\<rparr>)"
    (is "sys_rel P C posted w ?w'")
proof (rule sys_rel_db)
  show "evolves w ?w'"
    by (simp add: evolves_def transfer_rows.evolve_insert intent_rows.evolve_refl wallet_rows.evolve_refl)
  show "db_wf ?w' \<and> ids_ok ?w'" if "db_wf w \<and> ids_ok w" "uuids_fresh ?w'"
    using that assms(1,3) fresh_uuid[of w] by (auto simp: db_wf_def ids_ok_def uuids_fresh_def lessThan_Suc)
  show "success_posted C posted w \<Longrightarrow> success_posted C posted ?w'"
    using assms(2) by (auto simp: success_posted_def)
qed simp_all

lemma sys_rel_insert_wallet:
  assumes "w_ID row \<notin> w_ID ` set (wallets w)" "w_AccountNumber row \<notin> w_AccountNumber ` set (wallets w)"
  shows "sys_rel P C posted w (w\<lparr>uuid_n := Suc (uuid_n w), wallets := wallets w @ [row]\<rparr>)"
    (is "sys_rel P C posted w ?w'")
proof (rule sys_rel_db)
  show "evolves w ?w'"
    by (simp add: evolves_def wallet_rows.evolve_insert transfer_rows.evolve_refl intent_rows.evolve_refl)
  show "db_wf w \<and> ids_ok w \<Longrightarrow> db_wf ?w' \<and> ids_ok ?w'"
    using assms by (auto simp: db_wf_def ids_ok_def lessThan_Suc)
  show "success_posted C posted w \<Longrightarrow> success_posted C posted ?w'"
    by (auto simp: success_posted_def)
qed simp_all

lemma sys_rel_uuid_n: "sys_rel P C posted w (w\<lparr>uuid_n := Suc (uuid_n w)\<rparr>)"
  by (rule sys_rel_frame[where evs = "[]"]) simp_all

lemma guar_reads:
  "guar (sys_rel P C posted) (first_wallet p)" "guar (sys_rel P C posted) (first_intent q)"
  "guar (sys_rel P C posted) (first_transfer r)" "guar (sys_rel P C posted) (select_wallets f)"
  "guar (sys_rel P C posted) (select_intents g)" "guar (sys_rel P C posted) (select_transfers h)"
  "guar (sys_rel P C posted) (first_user s)" "guar (sys_rel P C posted) (select_users k)"
  "guar (sys_rel P C posted) (select_activities u l)"
  unfolding first_wallet_def first_intent_def first_transfer_def select_wallets_def select_intents_def
    select_transfers_def first_user_def select_users_def select_activities_def
  by (rule guar_db_call, simp add: sys.rely_refl)+

lemma guar_update_intent:
  "\<forall>s \<in> set from. s \<le> to \<Longrightarrow> to \<noteq> TransactionSuccess \<Longrightarrow> guar (sys_rel P C posted) (update_intent u from to)"
  unfolding update_intent_def
  by (rule guar_db_call) (auto simp: Let_def intro: sys_rel_update_intent)

lemma guar_update_transfer:
  "guar (sys_rel P C posted) (update_transfer u TransactionFailed reason)"
  unfolding update_transfer_def
  by (rule guar_db_call) (auto simp: Let_def intro: sys_rel_update_transfer)

lemma guar_insert_intent:
  assumes "\<And>u t. ti_ID (mk u t) = u \<and> ti_Status (mk u t) = TransactionPending"
  shows "guar (sys_rel P C posted) (insert_intent mk :: (_, ('tb, 'x) world) prog)"
  unfolding insert_intent_def uuid_New_def
proof (rule guar_db_call)
  fix w :: "('tb, 'x) world"
  show "sys_rel P C posted w (snd (case (uuid_src w (uuid_n w), w\<lparr>uuid_n := Suc (uuid_n w)\<rparr>) of (u, w1) \<Rightarrow>
      if u \<in> ti_ID ` set (intents w) then (Inl (Sentinel gorm_ErrDuplicatedKey), w1)
      else (Inr (mk u (now w)), w1\<lparr>intents := intents w @ [mk u (now w)]\<rparr>)))"
    using assms sys_rel_insert_intent[of "mk (uuid_src w (uuid_n w)) (now w)" w P C posted]
    by (simp add: sys_rel_uuid_n)
qed

lemma guar_insert_transfer:
  assumes "\<And>u t. tr_ID (mk u t) = u \<and> tr_Status (mk u t) = TransactionPending"
  shows "guar (sys_rel P C posted) (insert_transfer mk :: (_, ('tb, 'x) world) prog)"
  unfolding insert_transfer_def uuid_New_def
proof (rule guar_db_call)
  fix w :: "('tb, 'x) world"
  show "sys_rel P C posted w (snd (case (uuid_src w (uuid_n w), w\<lparr>uuid_n := Suc (uuid_n w)\<rparr>) of (u, w1) \<Rightarrow>
      if u \<in> tr_ID ` set (transfers w) then (Inl (Sentinel gorm_ErrDuplicatedKey), w1)
      else (Inr (mk u (now w)), w1\<lparr>transfers := transfers w @ [mk u (now w)]\<rparr>)))"
    using assms sys_rel_insert_transfer[of "mk (uuid_src w (uuid_n w)) (now w)" w P C posted]
    by (simp add: sys_rel_uuid_n)
qed

lemma guar_insert_wallet:
  assumes "\<And>u t. w_ID (mk u t) = u"
  shows "guar (sys_rel P C posted) (insert_wallet mk :: (_, ('tb, 'x) world) prog)"
  unfolding insert_wallet_def uuid_New_def
proof (rule guar_db_call)
  fix w :: "('tb, 'x) world"
  show "sys_rel P C posted w (snd (case (uuid_src w (uuid_n w), w\<lparr>uuid_n := Suc (uuid_n w)\<rparr>) of (u, w1) \<Rightarrow>
      let row = mk u (now w) in
      if u \<in> w_ID ` set (wallets w) \<or> w_AccountNumber row \<in> w_AccountNumber ` set (wallets w)
      then (Inl (Sentinel gorm_ErrDuplicatedKey), w1)
      else (Inr row, w1\<lparr>wallets := wallets w @ [row]\<rparr>)))"
    using assms sys_rel_insert_wallet[of "mk (uuid_src w (uuid_n w)) (now w)" w P C posted]
    by (simp add: sys_rel_uuid_n Let_def)
qed

end
