(* ===== verification/System_Ops.thy ===== *)
theory System_Ops
  imports System_Invariant
begin

text \<open>
  The rely/guarantee rules of the operations: every repository operation and ledger call stays
  within \<open>sys_rel\<close>, and what it learns of a row keeps holding while others run. \<open>guar_rules\<close>
  proves a handler that needs no more than that; the \<open>rg_\<close> rules are for the few whose actions
  are only safe because of what they read before.
\<close>

section \<open>Structure\<close>

lemma guar_case:
  "(\<And>e. guar R (f e)) \<Longrightarrow> (\<And>a. guar R (g a)) \<Longrightarrow> guar R (case s of Inl e \<Rightarrow> f e | Inr a \<Rightarrow> g a)"
  "guar R n \<Longrightarrow> (\<And>a. guar R (h a)) \<Longrightarrow> guar R (case x of None \<Rightarrow> n | Some a \<Rightarrow> h a)"
  "guar R p \<Longrightarrow> guar R q \<Longrightarrow> guar R (if b then p else q)"
  "(\<And>a b. guar R (k a b)) \<Longrightarrow> guar R (case y of (a, b) \<Rightarrow> k a b)"
  "guar R (c l) \<Longrightarrow> guar R (let z = l in c z)"
  by (auto split: sum.split option.split prod.split)

lemmas guar_rules = guar_bnd guar_Ret guar_case guar_logged guar_reads guar_rand_Int guar_time_Now

lemma rg_logged:
  assumes "rg (sys_rel P C posted) m w (\<lambda>r v. \<forall>u. sys_rel P C posted v u \<longrightarrow>
     Q (case r of Inl e \<Rightarrow> Inl (LogError e) | Inr a \<Rightarrow> Inr (f a)) u)"
  shows "rg (sys_rel P C posted) (logged m f) w Q"
  unfolding logged_def by (rule sys.rg_bnd) (use assms in simp)

section \<open>Reading a row\<close>

lemma rg_found:
  fixes q :: "('tb, 'x) world \<Rightarrow> 'r list" and p :: "'r \<Rightarrow> bool" and key :: "'r \<Rightarrow> uuid"
  assumes "\<And>e v. sys_rel P C posted w v \<Longrightarrow> Q (Inl e) v"
    and "\<And>r v u. sys_rel P C posted w v \<Longrightarrow> r \<in> set (q v) \<Longrightarrow> p r \<Longrightarrow> sys_rel P C posted v u \<Longrightarrow> Q (Inr r) u"
  shows "rg (sys_rel P C posted) (db_call (\<lambda>v. (found (sql_first key p (q v)), v))) w Q"
proof (rule rg_db_call)
  fix v a v' u
  assume v: "sys_rel P C posted w v" and f: "(found (sql_first key p (q v)), v) = (a, v')"
    and u: "sys_rel P C posted v' u"
  show "Q a u"
  proof (cases "sql_first key p (q v)")
    case None
    with f assms(1) sys.rely_trans[OF v] u show ?thesis by (auto simp: found_def)
  next
    case (Some r)
    with f u assms(2)[OF v, of r u] sql_first_Some[OF Some] show ?thesis by (auto simp: found_def)
  qed
qed (use assms(1) in \<open>simp_all add: sys.rely_refl\<close>)

lemma rg_logged_found:
  fixes q :: "('tb, 'x) world \<Rightarrow> 'r list" and p :: "'r \<Rightarrow> bool" and key :: "'r \<Rightarrow> uuid"
  assumes e: "\<And>e v. sys_rel P C posted w v \<Longrightarrow> Q (Inl e) v"
    and r: "\<And>r v u. sys_rel P C posted w u \<Longrightarrow> r \<in> set (q v) \<Longrightarrow> p r \<Longrightarrow> sys_rel P C posted v u \<Longrightarrow> Q (Inr (f r)) u"
  shows "rg (sys_rel P C posted) (logged (db_call (\<lambda>v. (found (sql_first key p (q v)), v))) f) w Q"
proof (rule rg_logged, rule rg_found)
  fix err v assume v: "sys_rel P C posted w v"
  then show "\<forall>u. sys_rel P C posted v u \<longrightarrow>
      Q (case Inl err of Inl e \<Rightarrow> Inl (LogError e) | Inr a \<Rightarrow> Inr (f a)) u"
    using e sys.rely_trans by fastforce
next
  fix r0 v u assume v: "sys_rel P C posted w v" "r0 \<in> set (q v)" "p r0" "sys_rel P C posted v u"
  show "\<forall>u'. sys_rel P C posted u u' \<longrightarrow>
      Q (case Inr r0 of Inl e \<Rightarrow> Inl (LogError e) | Inr a \<Rightarrow> Inr (f a)) u'"
  proof (intro allI impI)
    fix u' assume u': "sys_rel P C posted u u'"
    from v(4) u' have vu: "sys_rel P C posted v u'" by (rule sys.rely_trans)
    with v(1) have "sys_rel P C posted w u'" by (rule sys.rely_trans)
    from r[OF this v(2,3) vu] show "Q (case Inr r0 of Inl e \<Rightarrow> Inl (LogError e) | Inr a \<Rightarrow> Inr (f a)) u'"
      by simp
  qed
qed

lemma rg_GetIntentByReference:
  assumes e: "\<And>e v. sys_rel P C posted w v \<Longrightarrow> Q (Inl e) v"
    and r: "\<And>r v. sys_rel P C posted w v \<Longrightarrow> has_intent r v \<Longrightarrow> uuid_Parse P reference = Some (ti_ID r) \<Longrightarrow>
      Q (Inr (MapIntentModelToIntent P r)) v"
  shows "rg (sys_rel P C posted) (GetIntentByReference P reference) w Q"
proof (cases "uuid_Parse P reference")
  case None
  then show ?thesis using e by (simp add: GetIntentByReference_def ParseUUID_def)
next
  case (Some a)
  have "rg (sys_rel P C posted) (logged (first_intent (\<lambda>r. ti_ID r = a)) (MapIntentModelToIntent P)) w Q"
    unfolding first_intent_def
  proof (rule rg_logged_found)
    fix r0 v u
    assume u: "sys_rel P C posted w u" and m: "r0 \<in> set (intents v)" "ti_ID r0 = a" and vu: "sys_rel P C posted v u"
    from vu have "has_intent r0 u" by (rule has_intent_stable) (rule has_now, rule m(1))
    then show "Q (Inr (MapIntentModelToIntent P r0)) u" using r[OF u] m(2) Some by simp
  qed (rule e)
  then show ?thesis by (simp add: GetIntentByReference_def ParseUUID_def Some)
qed

lemma rg_GetTransferByID:
  assumes e: "\<And>e v. sys_rel P C posted w v \<Longrightarrow> Q (Inl e) v"
    and r: "\<And>r v. sys_rel P C posted w v \<Longrightarrow> has_transfer r v \<Longrightarrow> uuid_Parse P transferID = Some (tr_ID r) \<Longrightarrow>
      Q (Inr (MapTransferModelToTransfer P r)) v"
  shows "rg (sys_rel P C posted) (GetTransferByID P transferID) w Q"
proof (cases "uuid_Parse P transferID")
  case None
  then show ?thesis using e by (simp add: GetTransferByID_def ParseUUID_def)
next
  case (Some a)
  have "rg (sys_rel P C posted) (logged (first_transfer (\<lambda>r. tr_ID r = a)) (MapTransferModelToTransfer P)) w Q"
    unfolding first_transfer_def
  proof (rule rg_logged_found)
    fix r0 v u
    assume u: "sys_rel P C posted w u" and m: "r0 \<in> set (transfers v)" "tr_ID r0 = a" and vu: "sys_rel P C posted v u"
    from vu have "has_transfer r0 u" by (rule has_transfer_stable) (rule has_now, rule m(1))
    then show "Q (Inr (MapTransferModelToTransfer P r0)) u" using r[OF u] m(2) Some by simp
  qed (rule e)
  then show ?thesis by (simp add: GetTransferByID_def ParseUUID_def Some)
qed

lemma rg_GetWalletByID:
  assumes e: "\<And>e v. sys_rel P C posted w v \<Longrightarrow> Q (Inl e) v"
    and r: "\<And>r v. sys_rel P C posted w v \<Longrightarrow> has_wallet r v \<Longrightarrow> uuid_Parse P walletID = Some (w_ID r) \<Longrightarrow>
      Q (Inr (MapWalletModelToWallet P r)) v"
  shows "rg (sys_rel P C posted) (GetWalletByID P walletID) w Q"
proof (cases "uuid_Parse P walletID")
  case None
  then show ?thesis using e by (simp add: GetWalletByID_def ParseUUID_def)
next
  case (Some a)
  have "rg (sys_rel P C posted) (logged (first_wallet (\<lambda>r. w_ID r = a)) (MapWalletModelToWallet P)) w Q"
    unfolding first_wallet_def
  proof (rule rg_logged_found)
    fix r0 v u
    assume u: "sys_rel P C posted w u" and m: "r0 \<in> set (wallets v)" "w_DeletedAt r0 = None \<and> w_ID r0 = a" and vu: "sys_rel P C posted v u"
    from vu have "has_wallet r0 u" by (rule has_wallet_stable) (rule has_now, rule m(1))
    then show "Q (Inr (MapWalletModelToWallet P r0)) u" using r[OF u] m(2) Some by simp
  qed (rule e)
  then show ?thesis by (simp add: GetWalletByID_def ParseUUID_def Some)
qed

section \<open>Moving a status\<close>

text \<open>A guarded update, whatever guard it has: on success it returns a row that is now in the new
  status.\<close>

lemma rg_update_intent:
  assumes le: "\<forall>s \<in> set from. s \<le> to"
    and posted: "to = TransactionSuccess \<Longrightarrow> posted (tb w) (TransferID C a) \<noteq> None"
    and e: "\<And>e v. sys_rel P C posted w v \<Longrightarrow> Q (Inl e) v"
    and n: "\<And>v. sys_rel P C posted w v \<Longrightarrow> Q (Inr []) v"
    and r: "\<And>s rs v. sys_rel P C posted w v \<Longrightarrow> has_intent s v \<Longrightarrow> ti_ID s = a \<Longrightarrow> ti_Status s = to \<Longrightarrow>
      Q (Inr (s # rs)) v"
  shows "rg (sys_rel P C posted) (update_intent a from to) w Q"
  unfolding update_intent_def Let_def
proof (rule rg_db_call)
  let ?p = "\<lambda>r. ti_ID r = a \<and> ti_Status r \<in> set from"
  fix v assume v: "sys_rel P C posted w v"
  have step: "sys_rel P C posted v (v\<lparr>intents := sql_update ?p (\<lambda>r. r\<lparr>ti_Status := to, ti_UpdatedAt := now v\<rparr>) (intents v)\<rparr>)"
    using posted posted_stable[OF v] by (intro sys_rel_update_intent le) blast
  then show "sys_rel P C posted v (snd (Inr (sql_returning ?p (\<lambda>r. r\<lparr>ti_Status := to, ti_UpdatedAt := now v\<rparr>) (intents v)),
      v\<lparr>intents := sql_update ?p (\<lambda>r. r\<lparr>ti_Status := to, ti_UpdatedAt := now v\<rparr>) (intents v)\<rparr>))" by simp
  fix ans :: "go_error + intent_row list" and v' u
  assume f: "(Inr (sql_returning ?p (\<lambda>r. r\<lparr>ti_Status := to, ti_UpdatedAt := now v\<rparr>) (intents v)),
      v\<lparr>intents := sql_update ?p (\<lambda>r. r\<lparr>ti_Status := to, ti_UpdatedAt := now v\<rparr>) (intents v)\<rparr>) = (ans, v')"
    and u: "sys_rel P C posted v' u"
  have wu: "sys_rel P C posted w u" using v step f u sys.rely_trans by blast
  show "Q ans u"
  proof (cases "sql_returning ?p (\<lambda>r. r\<lparr>ti_Status := to, ti_UpdatedAt := now v\<rparr>) (intents v)")
    case Nil
    with f n[OF wu] show ?thesis by auto
  next
    case (Cons s rs)
    then have "s \<in> set (sql_returning ?p (\<lambda>r. r\<lparr>ti_Status := to, ti_UpdatedAt := now v\<rparr>) (intents v))" by simp
    then obtain r0 where r0: "r0 \<in> set (intents v)" "?p r0" "s = r0\<lparr>ti_Status := to, ti_UpdatedAt := now v\<rparr>"
      by (auto simp: sql_returning_def)
    then have "s \<in> set (sql_update ?p (\<lambda>r. r\<lparr>ti_Status := to, ti_UpdatedAt := now v\<rparr>) (intents v))"
      by (force simp: sql_update_def)
    with f have "s \<in> set (intents v')" by auto
    from has_intent_stable[OF u has_now(1)[OF this]] r[OF wu, of s rs] r0 f Cons show ?thesis by auto
  qed
qed (use e in auto)

lemma rg_updated:
  assumes "rg (sys_rel P C posted) m w (\<lambda>r v. \<forall>u. sys_rel P C posted v u \<longrightarrow> Q (updated none f r) u)"
  shows "rg (sys_rel P C posted) (bnd m (\<lambda>r. Ret (updated none f r))) w Q"
  by (rule sys.rg_bnd) (use assms in simp)

lemma updated_simps [simp]:
  "updated none f (Inl e) = Inl (LogError e)" "updated none f (Inr []) = Inl none"
  "updated none f (Inr (r # rs)) = Inr (f r)"
  by (simp_all add: updated_def)

text \<open>The three steps of the rule for an operation that parses the reference and updates.\<close>

lemma rg_move:
  assumes le: "\<forall>s \<in> set from. s \<le> to"
    and posted: "to = TransactionSuccess \<Longrightarrow> posted (tb w) (TransferID C a) \<noteq> None"
    and e: "\<And>e v. sys_rel P C posted w v \<Longrightarrow> Q (Inl e) v"
    and r: "\<And>s v. sys_rel P C posted w v \<Longrightarrow> has_intent s v \<Longrightarrow> ti_ID s = a \<Longrightarrow> ti_Status s = to \<Longrightarrow>
      Q (Inr (MapIntentModelToIntent P s)) v"
  shows "rg (sys_rel P C posted) (bnd (update_intent a from to)
     (\<lambda>result. Ret (updated none (MapIntentModelToIntent P) result))) w Q"
proof (rule rg_updated, rule rg_update_intent)
  show "\<forall>s \<in> set from. s \<le> to" by (rule le)
  show "posted (tb w) (TransferID C a) \<noteq> None" if "to = TransactionSuccess" using posted that .
  show "\<forall>u. sys_rel P C posted v u \<longrightarrow> Q (updated none (MapIntentModelToIntent P) (Inl err)) u"
    "\<forall>u. sys_rel P C posted v u \<longrightarrow> Q (updated none (MapIntentModelToIntent P) (Inr [])) u"
    if "sys_rel P C posted w v" for err v
    using e sys.rely_trans[OF that] by simp_all
  fix s rs v assume v: "sys_rel P C posted w v" "has_intent s v" "ti_ID s = a" "ti_Status s = to"
  show "\<forall>u. sys_rel P C posted v u \<longrightarrow> Q (updated none (MapIntentModelToIntent P) (Inr (s # rs))) u"
    using r sys.rely_trans[OF v(1)] has_intent_stable[OF _ v(2)] v(3,4) by simp
qed

lemma rg_MarkIntentSucceeded:
  assumes posted: "\<And>a. uuid_Parse P reference = Some a \<Longrightarrow> posted (tb w) (TransferID C a) \<noteq> None"
    and e: "\<And>e v. sys_rel P C posted w v \<Longrightarrow> Q (Inl e) v"
    and r: "\<And>s v. sys_rel P C posted w v \<Longrightarrow> has_intent s v \<Longrightarrow> uuid_Parse P reference = Some (ti_ID s) \<Longrightarrow>
      ti_Status s = TransactionSuccess \<Longrightarrow> Q (Inr (MapIntentModelToIntent P s)) v"
  shows "rg (sys_rel P C posted) (MarkIntentSucceeded P reference) w Q"
proof (cases "uuid_Parse P reference")
  case None
  then show ?thesis using e by (simp add: MarkIntentSucceeded_def ParseUUID_def)
next
  case (Some a)
  have "rg (sys_rel P C posted) (bnd (update_intent a [TransactionPending, TransactionFailed] TransactionSuccess)
      (\<lambda>result. Ret (updated (Sentinel ErrIntentSucceeded) (MapIntentModelToIntent P) result))) w Q"
    by (rule rg_move) (use posted e r Some in auto)
  then show ?thesis by (simp add: MarkIntentSucceeded_def ParseUUID_def Some)
qed

lemma rg_MarkIntentRefunding:
  assumes e: "\<And>e v. sys_rel P C posted w v \<Longrightarrow> Q (Inl e) v"
    and r: "\<And>s v. sys_rel P C posted w v \<Longrightarrow> has_intent s v \<Longrightarrow> uuid_Parse P reference = Some (ti_ID s) \<Longrightarrow>
      ti_Status s = TransactionRefunding \<Longrightarrow> Q (Inr (MapIntentModelToIntent P s)) v"
  shows "rg (sys_rel P C posted) (MarkIntentRefunding P reference) w Q"
proof (cases "uuid_Parse P reference")
  case None
  then show ?thesis using e by (simp add: MarkIntentRefunding_def moveIntent_def ParseUUID_def)
next
  case (Some a)
  have "rg (sys_rel P C posted) (bnd (update_intent a [TransactionFailed, TransactionRefunding] TransactionRefunding)
      (\<lambda>result. Ret (updated (Sentinel ErrIntentNotFailed) (MapIntentModelToIntent P) result))) w Q"
    by (rule rg_move) (use e r Some in auto)
  then show ?thesis by (simp add: MarkIntentRefunding_def moveIntent_def ParseUUID_def Some)
qed

lemma guar_marks:
  "guar (sys_rel P C posted) (MarkIntentFailed P' reference)"
  "guar (sys_rel P C posted) (MarkIntentRefunding P' reference)"
  "guar (sys_rel P C posted) (MarkIntentRefunded P' reference)"
  "guar (sys_rel P C posted) (MarkTransferFailed P' reference reason)"
  unfolding MarkIntentFailed_def MarkIntentRefunding_def MarkIntentRefunded_def moveIntent_def
    MarkTransferFailed_def markTransfer_def
  by (intro guar_rules guar_update_intent guar_update_transfer; simp)+

lemma rg_MarkTransferSucceeded:
  assumes posted: "\<And>a. uuid_Parse P transferID = Some a \<Longrightarrow> posted (tb w) (TransferID C a) \<noteq> None"
    and q: "\<And>a v. sys_rel P C posted w v \<Longrightarrow> Q a v"
  shows "rg (sys_rel P C posted) (MarkTransferSucceeded P transferID) w Q"
proof (cases "uuid_Parse P transferID")
  case None
  then show ?thesis using q by (simp add: MarkTransferSucceeded_def markTransfer_def ParseUUID_def)
next
  case (Some a)
  have "rg (sys_rel P C posted) (update_transfer a TransactionSuccess '''') w (\<lambda>_ _. True)"
    unfolding update_transfer_def Let_def
  proof (rule rg_db_call)
    fix v assume "sys_rel P C posted w v"
    from posted_stable[OF this posted[OF Some]]
    show "sys_rel P C posted v (snd (Inr (sql_returning (\<lambda>r. tr_ID r = a \<and> tr_Status r = TransactionPending)
          (\<lambda>r. r\<lparr>tr_Status := TransactionSuccess, tr_FailureReason := [], tr_UpdatedAt := now v\<rparr>) (transfers v)),
        v\<lparr>transfers := sql_update (\<lambda>r. tr_ID r = a \<and> tr_Status r = TransactionPending)
          (\<lambda>r. r\<lparr>tr_Status := TransactionSuccess, tr_FailureReason := [], tr_UpdatedAt := now v\<rparr>) (transfers v)\<rparr>))"
      by (simp add: sys_rel_update_transfer)
  qed simp_all
  then have "rg (sys_rel P C posted) (update_transfer a TransactionSuccess '''') w
      (\<lambda>r v. \<forall>u. sys_rel P C posted v u \<longrightarrow> Q (updated (Sentinel ErrTransferNotPending) (MapTransferModelToTransfer P) r) u)"
    by (rule sys.rg_mono) (use q sys.rely_trans in blast)
  then show ?thesis
    by (simp add: MarkTransferSucceeded_def markTransfer_def ParseUUID_def Some rg_updated)
qed

section \<open>The ledger\<close>

lemma tb_frame:
  assumes "tb_ok C posted"
  shows "posted (snd (tb_CreateAccounts C as s)) = posted s" "posted (snd (tb_LookupAccounts C ids s)) = posted s"
    "posted (snd (tb_GetAccountTransfers C a n s)) = posted s" "posted (snd (tb_LookupTransfers C ids s)) = posted s"
  using assms by (simp_all add: tb_ok_def)

lemma guar_clients:
  assumes "tb_ok C posted"
  shows "guar (sys_rel P C posted) (client_CreateAccounts C as)"
    "guar (sys_rel P C posted) (client_LookupTransfers C ids)"
    "guar (sys_rel P C posted) (client_LookupAccounts C ids)"
    "guar (sys_rel P C posted) (client_GetAccountTransfers C a n)"
  unfolding client_CreateAccounts_def client_LookupTransfers_def client_LookupAccounts_def client_GetAccountTransfers_def
  by (rule guar_tb_call; simp add: tb_frame[OF assms])+

lemma guar_ensureAccounts:
  assumes "tb_ok C posted"
  shows "guar (sys_rel P C posted) (ensureAccounts C l u)"
  unfolding ensureAccounts_def createAccounts_def by (intro guar_rules guar_clients assms)

text \<open>A lookup that finds the transfer knows it is posted, and it stays so.\<close>

lemma rg_TransferExists:
  assumes ok: "tb_ok C posted"
    and e: "\<And>e v. sys_rel P C posted w v \<Longrightarrow> Q (Inl e) v"
    and f: "\<And>v. sys_rel P C posted w v \<Longrightarrow> Q (Inr False) v"
    and t: "\<And>v. sys_rel P C posted w v \<Longrightarrow> posted (tb v) (TransferID C i) \<noteq> None \<Longrightarrow> Q (Inr True) v"
  shows "rg (sys_rel P C posted) (Ledger_TransferExists C i) w Q"
  unfolding Ledger_TransferExists_def client_LookupTransfers_def tb_call_def
proof (rule sys.rg_bnd, rule sys.rg_atom)
  fix v a v'
  assume v: "sys_rel P C posted w v"
    and c: "(case tb_LookupTransfers C [TransferID C i] (tb v) of
      (r, s) \<Rightarrow> (r, v\<lparr>tb := s, trace := trace v @ []\<rparr>)) = (a, v')"
  obtain r s where l: "tb_LookupTransfers C [TransferID C i] (tb v) = (r, s)" by fastforce
  with tb_frame(4)[OF ok, of "[TransferID C i]" "tb v"] have s: "posted s = posted (tb v)" by simp
  from c l have a: "a = r" and v': "v' = v\<lparr>tb := s, trace := trace v @ []\<rparr>" by auto
  show vv': "sys_rel P C posted v v'"
    unfolding v' using s by (intro sys_rel_frame[where evs = "[]"]) simp_all
  fix u assume u: "sys_rel P C posted v' u"
  have wu: "sys_rel P C posted w u" using v vv' u sys.rely_trans by blast
  have "Q (case a of Inl m \<Rightarrow> Inl (wrap_cause ''lookup transfers'' (Opaque m)) | Inr ts \<Rightarrow> Inr (0 < length ts)) u'"
    if u': "sys_rel P C posted u u'" for u'
  proof -
    have wu': "sys_rel P C posted w u'" using wu u' by (rule sys.rely_trans)
    show ?thesis
    proof (cases a)
      case (Inl m)
      with e[OF wu'] show ?thesis by simp
    next
      case (Inr ts)
      show ?thesis
      proof (cases "ts = []")
        case True
        with f[OF wu'] Inr show ?thesis by simp
      next
        case False
        with ok l Inr a have "posted (tb v) (TransferID C i) \<noteq> None"
          unfolding tb_ok_def by blast
        then have "posted (tb v') (TransferID C i) \<noteq> None" using s v' by simp
        then have "posted (tb u') (TransferID C i) \<noteq> None"
          using posted_stable[OF u] posted_stable[OF u'] by blast
        with t[OF wu'] False Inr show ?thesis by simp
      qed
    qed
  qed
  then show "rg (sys_rel P C posted) (Ret (case a of Inl m \<Rightarrow> Inl (wrap_cause ''lookup transfers'' (Opaque m))
      | Inr ts \<Rightarrow> Inr (0 < length ts))) u Q" by simp
qed

text \<open>Posting one transfer that a row explains.\<close>

definition explained :: "'tb tb_client \<Rightarrow> ('tb, 'x) world \<Rightarrow> tb_transfer \<Rightarrow> bool" where
  "explained C w t \<longleftrightarrow>
     (\<exists>r \<in> set (intents w). t_ID t = TransferID C (ti_ID r) \<and> is_deposit C (wallets w) r t) \<or>
     (\<exists>r \<in> set (transfers w). t_ID t = TransferID C (tr_ID r) \<and> is_move C (wallets w) r t)"

lemma sys_rel_post:
  assumes t: "explained C w t"
    and s: "posted s = posted (tb w) \<or> posted (tb w) (t_ID t) = None \<and> posted s = (posted (tb w))(t_ID t \<mapsto> t)"
  shows "sys_rel P C posted w (w\<lparr>tb := s, trace := trace w @ [EvCreateTransfers ts]\<rparr>)" (is "sys_rel P C posted w ?w'")
  using s
proof
  assume "posted s = posted (tb w)"
  then show ?thesis by (intro sys_rel_frame[where evs = "[EvCreateTransfers ts]"]) simp_all
next
  assume new: "posted (tb w) (t_ID t) = None \<and> posted s = (posted (tb w))(t_ID t \<mapsto> t)"
  have "evolves w ?w'"
    by (simp add: evolves_def intent_rows.evolve_refl transfer_rows.evolve_refl wallet_rows.evolve_refl)
  moreover have "ledger_grows posted w ?w'"
    using new by (auto simp: ledger_grows_def)
  moreover have "posted_explained C posted w \<Longrightarrow> posted_explained C posted ?w'"
    using t new unfolding posted_explained_def explained_def by simp
  moreover have "success_posted C posted w \<Longrightarrow> success_posted C posted ?w'"
    using new by (simp add: success_posted_def)
  moreover have "refunds_recorded P w \<Longrightarrow> refunds_recorded P ?w'"
    by (simp add: refunds_recorded_def)
  moreover have "db_wf ?w' = db_wf w" "ids_ok ?w' = ids_ok w"
    by (simp_all add: db_wf_def ids_ok_def)
  ultimately show ?thesis by (simp add: sys_rel_def ledger_inv_def)
qed

definition created :: "TransferStatus \<Rightarrow> bool" where
  "created st \<longleftrightarrow> st = TransferCreated \<or> st = TransferExists"

lemma rg_CreateTransfer:
  assumes ok: "tb_ok C posted"
    and t: "\<And>v. sys_rel P C posted w v \<Longrightarrow> explained C v t"
    and e: "\<And>m v. sys_rel P C posted w v \<Longrightarrow> Q (Inl m) v"
    and r: "\<And>st v. sys_rel P C posted w v \<Longrightarrow>
      (created st \<Longrightarrow> posted (tb v) (t_ID t) \<noteq> None) \<Longrightarrow> Q (Inr [st]) v"
  shows "rg (sys_rel P C posted) (client_CreateTransfers C [t]) w Q"
  unfolding client_CreateTransfers_def tb_call_def
proof (rule sys.rg_atom)
  fix v a v'
  assume v: "sys_rel P C posted w v"
    and c: "(case tb_CreateTransfers C [t] (tb v) of
      (r, s) \<Rightarrow> (r, v\<lparr>tb := s, trace := trace v @ [EvCreateTransfers [t]]\<rparr>)) = (a, v')"
  obtain s where l: "tb_CreateTransfers C [t] (tb v) = (a, s)"
    and v': "v' = v\<lparr>tb := s, trace := trace v @ [EvCreateTransfers [t]]\<rparr>"
    using c by (auto split: prod.splits)
  have inl: "posted s = posted (tb v) \<or> (posted (tb v) (t_ID t) = None \<and> posted s = (posted (tb v))(t_ID t \<mapsto> t))"
    if "a = Inl m" for m
    using ok l that unfolding tb_ok_def by blast
  have inr: "\<exists>st. rs = [st] \<and> (if posted (tb v) (t_ID t) = Some t then st = TransferExists \<and> posted s = posted (tb v)
       else if st = TransferCreated then posted (tb v) (t_ID t) = None \<and> posted s = (posted (tb v))(t_ID t \<mapsto> t)
       else st \<noteq> TransferExists \<and> posted s = posted (tb v))" if "a = Inr rs" for rs
    using ok l that unfolding tb_ok_def by blast
  have "posted s = posted (tb v) \<or> (posted (tb v) (t_ID t) = None \<and> posted s = (posted (tb v))(t_ID t \<mapsto> t))"
  proof (cases a)
    case (Inr rs)
    with inr show ?thesis by (metis (no_types, lifting))
  qed (use inl in blast)
  from sys_rel_post[OF t[OF v] this] show vv': "sys_rel P C posted v v'" unfolding v' .
  fix u assume u: "sys_rel P C posted v' u"
  have wu: "sys_rel P C posted w u" using v vv' u sys.rely_trans by blast
  show "Q a u"
  proof (cases a)
    case (Inl m)
    with e[OF wu] show ?thesis by simp
  next
    case (Inr rs)
    with inr obtain st where st: "rs = [st]"
      "created st \<Longrightarrow> posted s (t_ID t) \<noteq> None"
      by (auto simp: created_def split: if_splits)
    have "posted (tb u) (t_ID t) \<noteq> None" if "created st"
      using posted_stable[OF u, of "t_ID t"] st(2)[OF that] by (simp add: v')
    with r[OF wu, of st] Inr st(1) show ?thesis by simp
  qed
qed

lemma created_results:
  "deposit_results [st] = None \<longleftrightarrow> created st" "transfer_results [st] = None \<longleftrightarrow> created st"
  by (cases st; simp add: created_def)+

lemma explained_deposit:
  assumes "has_intent r w" "has_wallet u w" "ti_Wallet r = w_ID u" "LedgerForCurrency (w_Currency u) = Inr l"
    "IsPositive (ti_Amount r)"
  shows "explained C w (deposit_request C l
     \<lparr>dp_TransferID = ti_ID r, dp_WalletID = w_ID u, dp_Currency = w_Currency u, dp_Amount = ti_Amount r\<rparr>)"
proof -
  from assms(1) obtain s where s: "s \<in> set (intents w)" "intent_le r s" by (auto simp: has_intent_def)
  from assms(2) obtain x where x: "x \<in> set (wallets w)" "wallet_le u x" by (auto simp: has_wallet_def)
  have "is_deposit C (wallets w) s (deposit_request C l
     \<lparr>dp_TransferID = ti_ID r, dp_WalletID = w_ID u, dp_Currency = w_Currency u, dp_Amount = ti_Amount r\<rparr>)"
    using assms(3-5) s(2) x unfolding is_deposit_def
    by (intro conjI bexI[of _ x] exI[of _ l]) (auto simp: intent_le_def wallet_le_def)
  moreover have "t_ID (deposit_request C l \<lparr>dp_TransferID = ti_ID r, dp_WalletID = w_ID u,
      dp_Currency = w_Currency u, dp_Amount = ti_Amount r\<rparr>) = TransferID C (ti_ID s)"
    using s(2) by (simp add: deposit_request_def intent_le_def)
  ultimately show ?thesis using s(1) unfolding explained_def by blast
qed

lemma explained_move:
  assumes "has_transfer r w" "has_wallet u w" "has_wallet v w" "tr_SenderWalletID r = w_ID u"
    "tr_RecipientWalletID r = w_ID v" "w_ID u \<noteq> w_ID v" "EqualFold (w_Currency u) (w_Currency v)"
    "LedgerForCurrency (w_Currency u) = Inr l" "IsPositive (tr_Amount r)"
  shows "explained C w (transfer_request C l
     \<lparr>tp_TransferID = tr_ID r, tp_SenderWalletID = w_ID u, tp_ReceipientWalletID = w_ID v,
      tp_SenderCurrency = w_Currency u, tp_ReceipientsCurrency = w_Currency v, tp_Amount = tr_Amount r\<rparr>)"
proof -
  from assms(1) obtain s where s: "s \<in> set (transfers w)" "transfer_le r s" by (auto simp: has_transfer_def)
  from assms(2) obtain x where x: "x \<in> set (wallets w)" "wallet_le u x" by (auto simp: has_wallet_def)
  from assms(3) obtain y where y: "y \<in> set (wallets w)" "wallet_le v y" by (auto simp: has_wallet_def)
  from s(2) have r: "tr_ID s = tr_ID r" "tr_SenderWalletID s = tr_SenderWalletID r"
    "tr_RecipientWalletID s = tr_RecipientWalletID r" "tr_Amount s = tr_Amount r"
    by (auto simp: transfer_le_def)
  have "is_move C (wallets w) s (transfer_request C l
     \<lparr>tp_TransferID = tr_ID r, tp_SenderWalletID = w_ID u, tp_ReceipientWalletID = w_ID v,
      tp_SenderCurrency = w_Currency u, tp_ReceipientsCurrency = w_Currency v, tp_Amount = tr_Amount r\<rparr>)"
    using assms(4-9) x y unfolding is_move_def r
    by (intro conjI bexI[of _ x] bexI[of _ y] exI[of _ l]) (auto simp: wallet_le_def)
  moreover have "t_ID (transfer_request C l
     \<lparr>tp_TransferID = tr_ID r, tp_SenderWalletID = w_ID u, tp_ReceipientWalletID = w_ID v,
      tp_SenderCurrency = w_Currency u, tp_ReceipientsCurrency = w_Currency v, tp_Amount = tr_Amount r\<rparr>)
      = TransferID C (tr_ID s)"
    by (simp add: r(1) transfer_request_def)
  ultimately show ?thesis using s(1) unfolding explained_def by blast
qed

text \<open>The common end of \<open>Deposit\<close> and \<open>Transfer\<close>: no error means the transfer is posted.\<close>

lemma rg_create:
  assumes ok: "tb_ok C posted"
    and t: "\<And>v. sys_rel P C posted w v \<Longrightarrow> explained C v t"
    and f: "\<And>st. f [st] = None \<longleftrightarrow> created st"
    and e: "\<And>e v. sys_rel P C posted w v \<Longrightarrow> Q (Some e) v"
    and n: "\<And>v. sys_rel P C posted w v \<Longrightarrow> posted (tb v) (t_ID t) \<noteq> None \<Longrightarrow> Q None v"
  shows "rg (sys_rel P C posted) (bnd (client_CreateTransfers C [t]) (\<lambda>results. Ret (case results of
      Inl m \<Rightarrow> Some (wrap_cause ''create transfer'' (Opaque m)) | Inr rs \<Rightarrow> f rs))) w Q"
proof (rule sys.rg_bnd, rule rg_CreateTransfer[OF ok t])
  fix m v assume v: "sys_rel P C posted w v"
  then show "rg (sys_rel P C posted) (Ret (case Inl m of
      Inl m \<Rightarrow> Some (wrap_cause ''create transfer'' (Opaque m)) | Inr rs \<Rightarrow> f rs)) v Q"
    using e sys.rely_trans[OF v] by simp
next
  fix st v
  assume v: "sys_rel P C posted w v" and c: "created st \<Longrightarrow> posted (tb v) (t_ID t) \<noteq> None"
  show "rg (sys_rel P C posted) (Ret (case Inr [st] of
      Inl m \<Rightarrow> Some (wrap_cause ''create transfer'' (Opaque m)) | Inr rs \<Rightarrow> f rs)) v Q"
  proof (rule sys.rg_Ret)
    fix u assume u: "sys_rel P C posted v u"
    with v have wu: "sys_rel P C posted w u" by (rule sys.rely_trans)
    show "Q (case Inr [st] of Inl m \<Rightarrow> Some (wrap_cause ''create transfer'' (Opaque m)) | Inr rs \<Rightarrow> f rs) u"
    proof (cases "f [st]")
      case None
      then have "posted (tb u) (t_ID t) \<noteq> None" using posted_stable[OF u c] f by simp
      with n[OF wu] None show ?thesis by simp
    qed (use e[OF wu] in simp)
  qed
qed simp_all

text \<open>Ensuring accounts first changes nothing the rules speak of.\<close>

lemma rg_after_accounts:
  assumes ok: "tb_ok C posted"
    and e: "\<And>e v. sys_rel P C posted w v \<Longrightarrow> Q (Some e) v"
    and p: "\<And>v. sys_rel P C posted w v \<Longrightarrow> rg (sys_rel P C posted) p v Q"
  shows "rg (sys_rel P C posted) (bnd (ensureAccounts C l u) (\<lambda>err. case err of
      Some e \<Rightarrow> Ret (Some e) | None \<Rightarrow> p)) w Q"
proof (rule sys.rg_bnd, rule sys.guar_rg[OF guar_ensureAccounts[OF ok]])
  fix err v assume v: "sys_rel P C posted w v"
  show "rg (sys_rel P C posted) (case err of Some e \<Rightarrow> Ret (Some e) | None \<Rightarrow> p) v Q"
    using p[OF v] e sys.rely_trans[OF v] by (cases err) simp_all
qed

lemma rg_Ledger_deposit:
  assumes ok: "tb_ok C posted" and h: "has_intent r w" "has_wallet u w" and k: "ti_Wallet r = w_ID u"
    and e: "\<And>e v. sys_rel P C posted w v \<Longrightarrow> Q (Some e) v"
    and n: "\<And>v. sys_rel P C posted w v \<Longrightarrow> posted (tb v) (TransferID C (ti_ID r)) \<noteq> None \<Longrightarrow> Q None v"
  shows "rg (sys_rel P C posted) (Ledger_deposit C \<lparr>dp_TransferID = ti_ID r, dp_WalletID = w_ID u,
           dp_Currency = w_Currency u, dp_Amount = ti_Amount r\<rparr>) w Q"
    (is "rg _ (Ledger_deposit C ?d) w Q")
proof (cases "IsPositive (ti_Amount r)")
  case pos: True
  show ?thesis
  proof (cases "LedgerForCurrency (w_Currency u)")
    case (Inl x)
    then show ?thesis using e by (simp add: Ledger_deposit_def pos)
  next
    case (Inr l)
    have "rg (sys_rel P C posted) (bnd (client_CreateTransfers C [deposit_request C l ?d])
        (\<lambda>results. Ret (case results of Inl m \<Rightarrow> Some (wrap_cause ''create transfer'' (Opaque m))
           | Inr rs \<Rightarrow> deposit_results rs))) v Q" if v: "sys_rel P C posted w v" for v
    proof (rule rg_create[OF ok])
      fix v1 assume "sys_rel P C posted v v1"
      with v have wv: "sys_rel P C posted w v1" by (rule sys.rely_trans)
      show "explained C v1 (deposit_request C l ?d)"
        by (rule explained_deposit[OF has_intent_stable[OF wv h(1)] has_wallet_stable[OF wv h(2)] k Inr pos])
    qed (use e n sys.rely_trans[OF v] in \<open>simp_all add: created_results deposit_request_def\<close>)
    then have "rg (sys_rel P C posted) (bnd (ensureAccounts C l (w_ID u)) (\<lambda>err. case err of
        Some e \<Rightarrow> Ret (Some e)
      | None \<Rightarrow> bnd (client_CreateTransfers C [deposit_request C l ?d]) (\<lambda>results. Ret (case results of
            Inl m \<Rightarrow> Some (wrap_cause ''create transfer'' (Opaque m)) | Inr rs \<Rightarrow> deposit_results rs)))) w Q"
      using e by (intro rg_after_accounts[OF ok]) blast+
    with pos Inr show ?thesis by (simp add: Ledger_deposit_def)
  qed
qed (use e in \<open>simp add: Ledger_deposit_def\<close>)

lemma rg_Ledger_transfer:
  assumes ok: "tb_ok C posted" and h: "has_transfer r w" "has_wallet u w" "has_wallet x w"
    and k: "tr_SenderWalletID r = w_ID u" "tr_RecipientWalletID r = w_ID x"
    and e: "\<And>e v. sys_rel P C posted w v \<Longrightarrow> Q (Some e) v"
    and n: "\<And>v. sys_rel P C posted w v \<Longrightarrow> posted (tb v) (TransferID C (tr_ID r)) \<noteq> None \<Longrightarrow> Q None v"
  shows "rg (sys_rel P C posted) (Ledger_transfer C \<lparr>tp_TransferID = tr_ID r, tp_SenderWalletID = w_ID u,
           tp_ReceipientWalletID = w_ID x, tp_SenderCurrency = w_Currency u,
           tp_ReceipientsCurrency = w_Currency x, tp_Amount = tr_Amount r\<rparr>) w Q"
    (is "rg _ (Ledger_transfer C ?d) w Q")
proof (cases "IsPositive (tr_Amount r) \<and> w_ID u \<noteq> w_ID x \<and> EqualFold (w_Currency u) (w_Currency x)")
  case guards: True
  show ?thesis
  proof (cases "LedgerForCurrency (w_Currency u)")
    case (Inl x)
    then show ?thesis using e guards by (simp add: Ledger_transfer_def)
  next
    case (Inr l)
    have "rg (sys_rel P C posted) (bnd (client_CreateTransfers C [transfer_request C l ?d])
        (\<lambda>results. Ret (case results of Inl m \<Rightarrow> Some (wrap_cause ''create transfer'' (Opaque m))
           | Inr rs \<Rightarrow> transfer_results rs))) v Q" if v: "sys_rel P C posted w v" for v
    proof (rule rg_create[OF ok])
      fix v1 assume "sys_rel P C posted v v1"
      with v have wv: "sys_rel P C posted w v1" by (rule sys.rely_trans)
      show "explained C v1 (transfer_request C l ?d)"
        using guards explained_move[OF has_transfer_stable[OF wv h(1)] has_wallet_stable[OF wv h(2)]
            has_wallet_stable[OF wv h(3)] k _ _ Inr] by simp
    qed (use e n sys.rely_trans[OF v] in \<open>simp_all add: created_results transfer_request_def\<close>)
    then have inner: "rg (sys_rel P C posted) (bnd (ensureAccounts C l (w_ID x)) (\<lambda>err. case err of
        Some e \<Rightarrow> Ret (Some e)
      | None \<Rightarrow> bnd (client_CreateTransfers C [transfer_request C l ?d]) (\<lambda>results. Ret (case results of
            Inl m \<Rightarrow> Some (wrap_cause ''create transfer'' (Opaque m)) | Inr rs \<Rightarrow> transfer_results rs)))) v Q"
      if "sys_rel P C posted w v" for v
      using e sys.rely_trans[OF that] by (intro rg_after_accounts[OF ok]) blast+
    have "rg (sys_rel P C posted) (bnd (ensureAccounts C l (w_ID u)) (\<lambda>err. case err of
        Some e \<Rightarrow> Ret (Some e)
      | None \<Rightarrow> bnd (ensureAccounts C l (w_ID x)) (\<lambda>err. case err of
        Some e \<Rightarrow> Ret (Some e)
      | None \<Rightarrow> bnd (client_CreateTransfers C [transfer_request C l ?d]) (\<lambda>results. Ret (case results of
            Inl m \<Rightarrow> Some (wrap_cause ''create transfer'' (Opaque m)) | Inr rs \<Rightarrow> transfer_results rs))))) w Q"
      by (rule rg_after_accounts[OF ok]) (use e inner in blast)+
    with guards Inr show ?thesis by (simp add: Ledger_transfer_def)
  qed
qed (use e in \<open>auto simp: Ledger_transfer_def\<close>)

end
