(* ===== verification/Worker.thy ===== *)
theory Worker
  imports Payment_Worker Transfer_Worker
begin

text \<open>
  \<^verbatim>\<open>src/internal/queues/worker.go\<close>: the workers put together, and the task types mounted on their
  handlers. \<open>serve\<close> is what the asynq server runs for one attempt at one task.
\<close>

record ('tb, 'x) AsynqWorker =
  aqw_Queue :: string
  aqw_Email :: "'x EmailWorker"
  aqw_Activity :: "'x ActivityWorker"
  aqw_Payment :: "('tb, 'x) PaymentWorker"
  aqw_Transfer :: "('tb, 'x) TransferWorker"

text \<open>\<open>NewAsyncWorker\<close>: the queue name defaults to \<open>default\<close>, and every worker shares the client,
  the ledger and the repository.\<close>

definition NewAsyncWorker ::
  "string \<Rightarrow> uuid_pkg \<Rightarrow> 'x asynq_client \<Rightarrow> (string \<Rightarrow> (EmailPayload \<Rightarrow> string + string) option) \<Rightarrow>
   (EmailPayload \<Rightarrow> string \<Rightarrow> 'x \<Rightarrow> go_error option \<times> 'x) option \<Rightarrow> 'x PaymentProvider option \<Rightarrow>
   'tb tb_client option \<Rightarrow> int \<Rightarrow> int \<Rightarrow> ('tb, 'x) AsynqWorker" where
  "NewAsyncWorker namespace P client templates sender provider ledger pollInterval pollMaxRetry =
     (let queueName = (if namespace = '''' then ''default'' else namespace);
          email = NewEmailWorker client queueName templates sender;
          activity = NewActivityWorker client queueName
      in \<lparr>aqw_Queue = queueName, aqw_Email = email, aqw_Activity = activity,
          aqw_Payment = NewPaymentWorker \<lparr>pw_uuid = P, pw_Client = client, pw_Inspector = Some client,
            pw_Queue = queueName, pw_Provider = provider, pw_Ledger = ledger, pw_Email = Some email,
            pw_Activity = Some activity, pw_PollInterval = pollInterval, pw_PollMaxRetry = pollMaxRetry\<rparr>,
          aqw_Transfer = NewTransferWorker P client queueName ledger (Some activity)\<rparr>)"

definition RegisterHandlers :: "('tb, 'x) AsynqWorker \<Rightarrow> (string \<times> ('tb, 'x) world task_handler) list" where
  "RegisterHandlers W =
     [(TaskTypeEmailSend, \<lambda>ctx. HandleEmailSend (aqw_Email W)),
      (UpdateUserActivity, HandlerFunc (HandleCreateActivity (pw_uuid (aqw_Payment W)))),
      (TaskTypePaymentWebhook, payment_webhook_route (aqw_Payment W)),
      (TaskTypePaymentPoll, payment_poll_route (aqw_Payment W)),
      (TaskTypeTransferExecute, transfer_execute_route (aqw_Transfer W))]"

text \<open>asynq's \<open>ServeMux\<close> answers a task of no registered type with an error.\<close>

definition serve :: "('tb, 'x) AsynqWorker \<Rightarrow> ('tb, 'x) world task_handler" where
  "serve W ctx t = (case map_of (RegisterHandlers W) (task_Type t) of
      None \<Rightarrow> Ret (Returned (Some (Opaque (''handler not found for task '' @ task_Type t))))
    | Some h \<Rightarrow> h ctx t)"

definition retry_delay :: "('tb, 'x) AsynqWorker \<Rightarrow> (int \<Rightarrow> go_error \<Rightarrow> task \<Rightarrow> int) \<Rightarrow> int \<Rightarrow> go_error \<Rightarrow> task \<Rightarrow> int" where
  "retry_delay W = RetryDelay [TaskTypePaymentPoll \<mapsto> pw_PollInterval (aqw_Payment W)]"

end
