(* ===== verification/System_Safety.thy ===== *)
theory System_Safety
  imports System_Ops Worker
begin

text \<open>
  Every handler stays within \<open>sys_rel\<close> whatever the others do meanwhile. The two that need more
  than their own steps are \<open>settle\<close> (the deposit is explained by the intent it read, and SUCCESS
  is only written once the deposit is posted) and \<open>refundLatePayment\<close> (the refund is only asked
  for once the intent is recorded REFUNDING).
\<close>

section \<open>Notifications\<close>

lemma guar_Enqueue: "guar (sys_rel P C posted) (EnqueueWithContext t q c)"
  unfolding EnqueueWithContext_def by (intro guar_rules guar_ext_call) simp

lemma guar_GetUserByID: "guar (sys_rel P C posted) (GetUserByID P' u)"
  unfolding GetUserByID_def by (intro guar_rules)

lemma guar_notify: "guar (sys_rel P C posted) (notify p intent)"
  unfolding notify_def Activity_Enqueue_def Email_Enqueue_def
  by (intro guar_rules guar_Enqueue guar_GetUserByID)

lemma guar_fail: "guar (sys_rel P C posted) (fail p reference)"
  unfolding fail_def by (intro guar_rules guar_marks)

lemma guar_cancelPoll: "guar (sys_rel P C posted) (cancelPoll p reference)"
  unfolding cancelPoll_def by (intro guar_rules guar_ext_call) simp

lemma guar_HandlePollExhausted: "guar (sys_rel P C posted) (HandlePollExhausted p t cause)"
  unfolding HandlePollExhausted_def by (intro guar_rules guar_fail)

lemma guar_record_activity: "guar (sys_rel P C posted) (record_activity t u a)"
  unfolding record_activity_def Activity_Enqueue_def by (intro guar_rules guar_Enqueue)

lemma guar_notify_transfer: "guar (sys_rel P C posted) (notify_transfer t transfer)"
  unfolding notify_transfer_def by (intro guar_rules guar_record_activity)

lemma guar_finalizeFailed: "guar (sys_rel P C posted) (finalizeFailed t transfer reason)"
  unfolding finalizeFailed_def by (intro guar_rules guar_marks guar_record_activity)

lemma guar_insert_activity: "guar (sys_rel P C posted) (insert_activity u a)"
  unfolding insert_activity_def
  by (rule guar_db_call) (auto simp: Let_def intro!: sys_rel_frame[where evs = "[]"])

lemma guar_HandleCreateActivity: "guar (sys_rel P C posted) (HandleCreateActivity P' t)"
  unfolding HandleCreateActivity_def CreateActivity_def by (intro guar_rules guar_insert_activity)

lemma guar_HandleEmailSend: "guar (sys_rel P C posted) (HandleEmailSend E t)"
  unfolding HandleEmailSend_def by (intro guar_rules guar_ext_call) simp

section \<open>Deposits\<close>

abbreviation safe where
  "safe P C posted p w \<equiv> rg (sys_rel P C posted) p w (\<lambda>_ _. True)"

lemma rg_guar_then:
  "(\<And>a v. sys_rel P C posted w v \<Longrightarrow> rg (sys_rel P C posted) (k a) v Q) \<Longrightarrow>
   guar (sys_rel P C posted) p \<Longrightarrow> rg (sys_rel P C posted) (bnd p k) w Q"
  by (rule sys.rg_bnd, rule sys.guar_rg)

lemma safe_guar: "guar (sys_rel P C posted) p \<Longrightarrow> safe P C posted p w"
  by (rule sys.guar_rg) simp_all

lemma safe_mark_succeeded:
  assumes ok: "env_ok (pw_uuid p) C posted"
    and posted: "\<And>a. uuid_Parse (pw_uuid p) reference = Some a \<Longrightarrow> posted (tb w) (TransferID C a) \<noteq> None"
  shows "safe (pw_uuid p) C posted (mark_succeeded p reference) w"
  unfolding mark_succeeded_def
proof (rule sys.rg_bnd, rule rg_MarkIntentSucceeded)
  show "posted (tb w) (TransferID C a) \<noteq> None" if "uuid_Parse (pw_uuid p) reference = Some a" for a
    using posted that .
qed (simp_all add: safe_guar guar_bnd guar_notify)

lemma sys_rel_refund:
  assumes "has_intent r w" "has_intent s w" "ti_ID s = ti_ID r"
    and "ti_Status s \<in> {TransactionRefunding, TransactionRefunded}"
  shows "sys_rel P C posted w (w\<lparr>ext := x, trace := trace w @ [EvRefund (uuid_String P (ti_ID r)) (ti_Amount r)]\<rparr>)"
    (is "sys_rel P C posted w ?w'")
proof -
  have "refunds_recorded P ?w'" if "refunds_recorded P w" "db_wf w"
  proof -
    from assms obtain r' s' where r': "r' \<in> set (intents w)" "intent_le r r'"
      and s': "s' \<in> set (intents w)" "intent_le s s'" by (auto simp: has_intent_def)
    with assms(3) have "ti_ID r' = ti_ID s'" by (simp add: intent_le_def)
    with that(2) r'(1) s'(1) have "r' = s'" by (auto simp: db_wf_def dest: distinct_key_unique)
    with r' s' assms(3,4) have "s' \<in> set (intents w)" "ti_ID s' = ti_ID r" "ti_Amount s' = ti_Amount r"
      "ti_Status s' \<in> {TransactionRefunding, TransactionRefunded}"
      by (auto simp: intent_le_def)
    then have new: "\<exists>x \<in> set (intents w). uuid_String P (ti_ID x) = uuid_String P (ti_ID r) \<and>
        ti_Amount x = ti_Amount r \<and> ti_Status x \<in> {TransactionRefunding, TransactionRefunded}"
      by (intro bexI[of _ s']) simp_all
    with that(1) show ?thesis by (auto simp: refunds_recorded_def)
  qed
  moreover have "evolves w ?w'"
    by (simp add: evolves_def intent_rows.evolve_refl transfer_rows.evolve_refl wallet_rows.evolve_refl)
  moreover have "db_wf ?w' = db_wf w" "ids_ok ?w' = ids_ok w" "success_posted C posted ?w' = success_posted C posted w"
    "posted_explained C posted ?w' = posted_explained C posted w" "ledger_grows posted w ?w'"
    by (simp_all add: db_wf_def ids_ok_def success_posted_def posted_explained_def ledger_grows_def)
  ultimately show ?thesis by (simp add: sys_rel_def ledger_inv_def)
qed

lemma safe_Provider_Refund:
  assumes "has_intent r w" "has_intent s w" "ti_ID s = ti_ID r" "ti_Status s = TransactionRefunding"
  shows "safe P C posted (Provider_Refund V (uuid_String P (ti_ID r)) (ti_Amount r)) w"
  unfolding Provider_Refund_def ext_call_def
proof (rule sys.rg_atom)
  fix v a v'
  assume v: "sys_rel P C posted w v"
    and c: "(case prov_Refund V (uuid_String P (ti_ID r)) (ti_Amount r) (ext v) of
      (r', s') \<Rightarrow> (r', v\<lparr>ext := s', trace := trace v @ [EvRefund (uuid_String P (ti_ID r)) (ti_Amount r)]\<rparr>)) = (a, v')"
  from c obtain x where "v' = v\<lparr>ext := x, trace := trace v @ [EvRefund (uuid_String P (ti_ID r)) (ti_Amount r)]\<rparr>"
    by (auto split: prod.splits)
  with sys_rel_refund[OF has_intent_stable[OF v assms(1)] has_intent_stable[OF v assms(2)] assms(3)] assms(4)
  show "sys_rel P C posted v v'" by simp
qed simp

lemma safe_refund:
  assumes ok: "env_ok (pw_uuid p) C posted" and r: "has_intent r w"
  shows "safe (pw_uuid p) C posted (refund p V (MapIntentModelToIntent (pw_uuid p) r)) w"
  unfolding refund_def
proof (rule sys.rg_bnd, rule rg_MarkIntentRefunding)
  fix s v
  assume v: "sys_rel (pw_uuid p) C posted w v" "has_intent s v" "ti_Status s = TransactionRefunding"
    and "uuid_Parse (pw_uuid p) (TI_ID (MapIntentModelToIntent (pw_uuid p) r)) = Some (ti_ID s)"
  then have s: "ti_ID s = ti_ID r" using uuid_round[OF ok] by simp
  have rest: "guar (sys_rel (pw_uuid p) C posted) (case e of
          Some err \<Rightarrow> Ret (Some err)
        | None \<Rightarrow> bnd (MarkIntentRefunded (pw_uuid p) (TI_ID (MapIntentModelToIntent (pw_uuid p) r))) (\<lambda>r. Ret (case r of
            Inl err \<Rightarrow> if errors_Is err ErrIntentNotFailed then None else Some err | Inr _ \<Rightarrow> None)))" for e
    by (intro guar_rules guar_marks)
  show "safe (pw_uuid p) C posted (case Inr (MapIntentModelToIntent (pw_uuid p) s) of
      Inl err \<Rightarrow> Ret (if errors_Is err ErrIntentNotFailed then None else Some err)
    | Inr _ \<Rightarrow> bnd (Provider_Refund V (TI_ID (MapIntentModelToIntent (pw_uuid p) r)) (TI_Amount (MapIntentModelToIntent (pw_uuid p) r)))
       (\<lambda>e. case e of
          Some err \<Rightarrow> Ret (Some err)
        | None \<Rightarrow> bnd (MarkIntentRefunded (pw_uuid p) (TI_ID (MapIntentModelToIntent (pw_uuid p) r))) (\<lambda>r. Ret (case r of
            Inl err \<Rightarrow> if errors_Is err ErrIntentNotFailed then None else Some err | Inr _ \<Rightarrow> None)))) v"
    unfolding sum.case Map_sel
    by (rule sys.rg_bnd, rule sys.rg_mono[OF safe_Provider_Refund[OF has_intent_stable[OF v(1) r] v(2) s v(3)]])
      (rule safe_guar, rule rest[unfolded Map_sel])
qed simp

lemma safe_refundLatePayment:
  assumes ok: "env_ok (pw_uuid p) C posted" and r: "has_intent r w"
  shows "safe (pw_uuid p) C posted (refundLatePayment p C (MapIntentModelToIntent (pw_uuid p) r)) w"
proof (cases "pw_Provider p")
  case None
  then show ?thesis by (simp add: refundLatePayment_def)
next
  case (Some V)
  have tb: "tb_ok C posted" using ok by (simp add: env_ok_def)
  have refund: "safe (pw_uuid p) C posted (refund p V (MapIntentModelToIntent (pw_uuid p) r)) v"
    if "sys_rel (pw_uuid p) C posted w v" for v
    by (rule safe_refund[OF ok has_intent_stable[OF that r]])
  have "safe (pw_uuid p) C posted (bnd (Ledger_TransferExists C (ti_ID r)) (\<lambda>res. case res of
        Inl err \<Rightarrow> Ret (Some err)
      | Inr credited \<Rightarrow> if credited then mark_succeeded p (uuid_String (pw_uuid p) (ti_ID r))
          else refund p V (MapIntentModelToIntent (pw_uuid p) r))) w"
  proof (rule sys.rg_bnd, rule rg_TransferExists[OF tb])
    fix v assume "sys_rel (pw_uuid p) C posted w v" "posted (tb v) (TransferID C (ti_ID r)) \<noteq> None"
    then have "safe (pw_uuid p) C posted (mark_succeeded p (uuid_String (pw_uuid p) (ti_ID r))) v"
      by (intro safe_mark_succeeded[OF ok]) (simp add: uuid_round[OF ok])
    then show "safe (pw_uuid p) C posted (case Inr True of
        Inl err \<Rightarrow> Ret (Some err)
      | Inr credited \<Rightarrow> if credited then mark_succeeded p (uuid_String (pw_uuid p) (ti_ID r))
          else refund p V (MapIntentModelToIntent (pw_uuid p) r)) v" by simp
  qed (simp_all add: refund)
  moreover have "safe (pw_uuid p) C posted (refund p V (MapIntentModelToIntent (pw_uuid p) r)) w"
    by (rule refund[OF sys.rely_refl])
  ultimately show ?thesis by (simp add: refundLatePayment_def Some uuid_round[OF ok] cong: if_cong)
qed

lemma safe_settle_pending:
  assumes ok: "env_ok (pw_uuid p) C posted" and r: "has_intent r w"
    and ref: "uuid_Parse (pw_uuid p) reference = Some (ti_ID r)"
  shows "safe (pw_uuid p) C posted
    (settle_pending p C reference currency (MapIntentModelToIntent (pw_uuid p) r)) w"
  unfolding settle_pending_def
proof (rule sys.rg_bnd, rule rg_GetWalletByID)
  fix u v
  assume v: "sys_rel (pw_uuid p) C posted w v" and u: "has_wallet u v"
    and "uuid_Parse (pw_uuid p) (TI_WalletID (MapIntentModelToIntent (pw_uuid p) r)) = Some (w_ID u)"
  then have k: "ti_Wallet r = w_ID u" by (simp add: uuid_round[OF ok])
  have tb: "tb_ok C posted" using ok by (simp add: env_ok_def)
  have "safe (pw_uuid p) C posted (bnd (Ledger_deposit C \<lparr>dp_TransferID = ti_ID r, dp_WalletID = w_ID u,
        dp_Currency = w_Currency u, dp_Amount = ti_Amount r\<rparr>) (\<lambda>e. case e of
      Some err \<Rightarrow> Ret (Some (if errors_Is err ErrRejected then skip_retry '''' err else err))
    | None \<Rightarrow> mark_succeeded p reference)) v"
  proof (rule sys.rg_bnd, rule rg_Ledger_deposit[OF tb has_intent_stable[OF v r] u k])
    fix v1 assume "sys_rel (pw_uuid p) C posted v v1" "posted (tb v1) (TransferID C (ti_ID r)) \<noteq> None"
    then have "safe (pw_uuid p) C posted (mark_succeeded p reference) v1"
      by (intro safe_mark_succeeded[OF ok]) (simp add: ref)
    then show "safe (pw_uuid p) C posted (case None of
        Some err \<Rightarrow> Ret (Some (if errors_Is err ErrRejected then skip_retry '''' err else err))
      | None \<Rightarrow> mark_succeeded p reference) v1" by simp
  qed simp
  then show "safe (pw_uuid p) C posted (case Inr (MapWalletModelToWallet (pw_uuid p) u) of
      Inl err \<Rightarrow> Ret (Some (if errors_Is err ErrNotFound then skip_retry ''wallet for this intent is gone: '' err else err))
    | Inr wallet \<Rightarrow>
        if currency \<noteq> '''' \<and> \<not> EqualFold currency (W_Currency wallet)
        then Ret (Some (skip_retry '''' (Sentinel ErrCurrencyMismatch)))
        else if W_Status wallet \<noteq> WalletActive
        then Ret (Some (skip_retry '''' (Sentinel ErrWalletNotActive)))
        else (case uuid_Parse (pw_uuid p) (TI_ID (MapIntentModelToIntent (pw_uuid p) r)) of
          None \<Rightarrow> Ret (Some (skip_retry '''' (Opaque ''invalid UUID'')))
        | Some intentID \<Rightarrow> (case uuid_Parse (pw_uuid p) (W_ID wallet) of
            None \<Rightarrow> Ret (Some (skip_retry '''' (Opaque ''invalid UUID'')))
          | Some walletID \<Rightarrow>
              bnd (Ledger_deposit C \<lparr>dp_TransferID = intentID, dp_WalletID = walletID,
                    dp_Currency = W_Currency wallet, dp_Amount = TI_Amount (MapIntentModelToIntent (pw_uuid p) r)\<rparr>) (\<lambda>e. case e of
                Some err \<Rightarrow> Ret (Some (if errors_Is err ErrRejected then skip_retry '''' err else err))
              | None \<Rightarrow> mark_succeeded p reference)))) v"
    by (simp add: uuid_round[OF ok])
qed simp

lemma safe_settle:
  assumes ok: "env_ok (pw_uuid p) C posted" and L: "pw_Ledger p \<in> {None, Some C}"
  shows "safe (pw_uuid p) C posted (settle p reference amount currency) w"
proof (cases "pw_Ledger p")
  case None
  then show ?thesis by (simp add: settle_def)
next
  case (Some C')
  with L have p: "pw_Ledger p = Some C" by auto
  show ?thesis
    unfolding settle_def p option.case
  proof (rule sys.rg_bnd, rule rg_GetIntentByReference)
    fix r v
    assume r: "has_intent r v" "uuid_Parse (pw_uuid p) reference = Some (ti_ID r)"
      and "sys_rel (pw_uuid p) C posted w v"
    show "safe (pw_uuid p) C posted (case Inr (MapIntentModelToIntent (pw_uuid p) r) of
        Inl err \<Rightarrow> Ret (Some (if errors_Is err ErrNotFound then skip_retry ''no intent for this reference: '' err else err))
      | Inr intent \<Rightarrow>
          if TI_Status intent = TransactionFailed \<or> TI_Status intent = TransactionRefunding
          then refundLatePayment p C intent
          else if TI_Status intent \<noteq> TransactionPending then Ret None
          else if amount \<noteq> TI_Amount intent then Ret (Some (skip_retry '''' (Sentinel ErrAmountMismatch)))
          else settle_pending p C reference currency intent) v"
      using safe_refundLatePayment[OF ok r(1)] safe_settle_pending[OF ok r] by simp
  qed simp
qed

section \<open>Payment handlers\<close>

lemma safe_HandlePaymentWebhook:
  assumes ok: "env_ok (pw_uuid p) C posted" and L: "pw_Ledger p \<in> {None, Some C}"
  shows "safe (pw_uuid p) C posted (HandlePaymentWebhook p t) w"
proof (cases "decode_payment t")
  case (Inr payload)
  have cancel: "guar (sys_rel (pw_uuid p) C posted) (case e of
      Some err \<Rightarrow> Ret (Some err) | None \<Rightarrow> bnd (cancelPoll p (pp_Reference payload)) (\<lambda>_. Ret None))" for e
    by (intro guar_rules guar_cancelPoll)
  have "safe (pw_uuid p) C posted (bnd (if pp_Status payload = PaymentSuccess
        then settle p (pp_Reference payload) (NewMoneyFromMinor (pp_AmountMinor payload)) (pp_Currency payload)
        else fail p (pp_Reference payload)) (\<lambda>e. case e of
      Some err \<Rightarrow> Ret (Some err) | None \<Rightarrow> bnd (cancelPoll p (pp_Reference payload)) (\<lambda>_. Ret None))) w"
  proof (rule sys.rg_bnd, rule sys.rg_mono[where Q = "\<lambda>_ _. True"])
    show "safe (pw_uuid p) C posted (if pp_Status payload = PaymentSuccess
        then settle p (pp_Reference payload) (NewMoneyFromMinor (pp_AmountMinor payload)) (pp_Currency payload)
        else fail p (pp_Reference payload)) w"
      using safe_settle[OF ok L] by (simp add: safe_guar guar_fail)
  qed (rule safe_guar[OF cancel])
  then show ?thesis by (simp add: HandlePaymentWebhook_def Inr)
qed (simp add: HandlePaymentWebhook_def)

lemma safe_poll_verify:
  assumes ok: "env_ok (pw_uuid p) C posted" and L: "pw_Ledger p \<in> {None, Some C}"
  shows "safe (pw_uuid p) C posted (poll_verify p V reference) w"
  unfolding poll_verify_def
proof (rule rg_guar_then)
  show "guar (sys_rel (pw_uuid p) C posted) (Provider_Verify V reference)"
    unfolding Provider_Verify_def by (rule guar_ext_call) simp
  show "safe (pw_uuid p) C posted (case res of
      Inl err \<Rightarrow> Ret (Some (if errors_Is err ErrReferenceNotFound
          then wrap_text ErrRetryLater ''provider does not know this reference yet'' else err))
    | Inr verification \<Rightarrow>
        if pv_Status verification = PaymentSuccess
        then settle p reference (pv_Amount verification) (pv_Currency verification)
        else if pv_Status verification = PaymentFailed then fail p reference
        else Ret (Some (wrap_text ErrRetryLater (''provider status '' @ pv_Status verification)))) v" for res v
    using safe_settle[OF ok L] by (cases res) (simp_all add: safe_guar guar_fail)
qed

lemma safe_HandlePaymentPoll:
  assumes ok: "env_ok (pw_uuid p) C posted" and L: "pw_Ledger p \<in> {None, Some C}"
  shows "safe (pw_uuid p) C posted (HandlePaymentPoll p t) w"
proof (cases "decode_payment t")
  case (Inr payload)
  have get: "guar (sys_rel (pw_uuid p) C posted) (GetIntentByReference (pw_uuid p) (pp_Reference payload))"
    unfolding GetIntentByReference_def by (intro guar_rules)
  have body: "safe (pw_uuid p) C posted (case res of
        Inl err \<Rightarrow> Ret (Some (if errors_Is err ErrNotFound then skip_retry ''no intent for this reference: '' err else err))
      | Inr intent \<Rightarrow> if TI_Status intent \<noteq> TransactionPending then Ret None
          else poll_verify p V (pp_Reference payload)) v" for res v V
    using safe_poll_verify[OF ok L] by (cases res) simp_all
  show ?thesis
    by (cases "pw_Provider p") (auto simp: HandlePaymentPoll_def Inr intro!: rg_guar_then[OF body get])
qed (simp add: HandlePaymentPoll_def)

section \<open>Transfer handlers\<close>

lemma rg_loadWallets:
  assumes e: "\<And>e v. sys_rel (tw_uuid t) C posted w v \<Longrightarrow> Q (Inl e) v"
    and r: "\<And>u x v. sys_rel (tw_uuid t) C posted w v \<Longrightarrow> has_wallet u v \<Longrightarrow> has_wallet x v \<Longrightarrow>
      uuid_Parse (tw_uuid t) (T_SenderWalletID transfer) = Some (w_ID u) \<Longrightarrow>
      uuid_Parse (tw_uuid t) (T_RecipientWalletID transfer) = Some (w_ID x) \<Longrightarrow>
      Q (Inr (MapWalletModelToWallet (tw_uuid t) u, MapWalletModelToWallet (tw_uuid t) x)) v"
  shows "rg (sys_rel (tw_uuid t) C posted) (loadWallets t transfer) w Q"
  unfolding loadWallets_def
proof (rule sys.rg_bnd, rule rg_GetWalletByID)
  fix u v assume v: "sys_rel (tw_uuid t) C posted w v" "has_wallet u v"
    and u: "uuid_Parse (tw_uuid t) (T_SenderWalletID transfer) = Some (w_ID u)"
  have failed: "rg (sys_rel (tw_uuid t) C posted) (bnd (finalizeFailed t transfer reason) (\<lambda>e. Ret (Inl e))) v' Q"
    if "sys_rel (tw_uuid t) C posted v v'" for reason v'
  proof (rule rg_guar_then[OF _ guar_finalizeFailed], rule sys.rg_Ret)
    fix a v2 v3 assume "sys_rel (tw_uuid t) C posted v' v2" "sys_rel (tw_uuid t) C posted v2 v3"
    then have "sys_rel (tw_uuid t) C posted w v3" using v(1) that sys.rely_trans by blast
    then show "Q (Inl a) v3" by (rule e)
  qed
  show "rg (sys_rel (tw_uuid t) C posted) (case Inr (MapWalletModelToWallet (tw_uuid t) u) of
       Inl err \<Rightarrow> Ret (Inl (Some (if errors_Is err ErrNotFound then skip_retry ''sending wallet is gone: '' err else err)))
     | Inr sender \<Rightarrow>
     bnd (GetWalletByID (tw_uuid t) (T_RecipientWalletID transfer)) (\<lambda>res. case res of
       Inl err \<Rightarrow> Ret (Inl (Some (if errors_Is err ErrNotFound then skip_retry ''receiving wallet is gone: '' err else err)))
     | Inr recipient \<Rightarrow>
         if W_Status sender \<noteq> WalletActive \<or> W_Status recipient \<noteq> WalletActive
         then bnd (finalizeFailed t transfer ''An account involved is not active'') (\<lambda>e. Ret (Inl e))
         else if \<not> EqualFold (W_Currency sender) (W_Currency recipient)
         then bnd (finalizeFailed t transfer ''Cross-currency transfers are not supported'') (\<lambda>e. Ret (Inl e))
         else Ret (Inr (sender, recipient)))) v Q"
    unfolding sum.case
  proof (rule sys.rg_bnd, rule rg_GetWalletByID)
    fix x v' assume v': "sys_rel (tw_uuid t) C posted v v'" "has_wallet x v'"
      and x: "uuid_Parse (tw_uuid t) (T_RecipientWalletID transfer) = Some (w_ID x)"
    have "Q (Inr (MapWalletModelToWallet (tw_uuid t) u, MapWalletModelToWallet (tw_uuid t) x)) v2"
      if "sys_rel (tw_uuid t) C posted v' v2" for v2
    proof (rule r)
      show "has_wallet u v2" "has_wallet x v2"
        using has_wallet_stable[OF sys.rely_trans[OF v'(1) that] v(2)] has_wallet_stable[OF that v'(2)] .
      show "sys_rel (tw_uuid t) C posted w v2" using v(1) v'(1) that sys.rely_trans by blast
    qed (fact u x)+
    then show "rg (sys_rel (tw_uuid t) C posted) (case Inr (MapWalletModelToWallet (tw_uuid t) x) of
       Inl err \<Rightarrow> Ret (Inl (Some (if errors_Is err ErrNotFound then skip_retry ''receiving wallet is gone: '' err else err)))
     | Inr recipient \<Rightarrow>
         if W_Status (MapWalletModelToWallet (tw_uuid t) u) \<noteq> WalletActive \<or> W_Status recipient \<noteq> WalletActive
         then bnd (finalizeFailed t transfer ''An account involved is not active'') (\<lambda>e. Ret (Inl e))
         else if \<not> EqualFold (W_Currency (MapWalletModelToWallet (tw_uuid t) u)) (W_Currency recipient)
         then bnd (finalizeFailed t transfer ''Cross-currency transfers are not supported'') (\<lambda>e. Ret (Inl e))
         else Ret (Inr (MapWalletModelToWallet (tw_uuid t) u, recipient))) v' Q"
      using failed[OF v'(1)] by simp
  qed (use e sys.rely_trans[OF v(1)] in \<open>auto dest: sys.rely_trans\<close>)
qed (use e in \<open>auto dest: sys.rely_trans\<close>)

lemma safe_close_transfer:
  assumes ok: "env_ok (tw_uuid t) C posted" 
    and e: "e = None \<Longrightarrow> posted (tb w) (TransferID C (tr_ID r)) \<noteq> None"
  shows "safe (tw_uuid t) C posted (close_transfer t (MapTransferModelToTransfer (tw_uuid t) r) e) w"
proof (cases e)
  case None
  have "safe (tw_uuid t) C posted (bnd (MarkTransferSucceeded (tw_uuid t) (uuid_String (tw_uuid t) (tr_ID r))) (\<lambda>r. case r of
      Inl err \<Rightarrow> Ret (if errors_Is err ErrTransferNotPending then None else Some err)
    | Inr settled \<Rightarrow> bnd (notify_transfer t settled) (\<lambda>_. Ret None))) w"
  proof (rule sys.rg_bnd, rule rg_MarkTransferSucceeded)
    fix a v
    show "safe (tw_uuid t) C posted (case a of
        Inl err \<Rightarrow> Ret (if errors_Is err ErrTransferNotPending then None else Some err)
      | Inr settled \<Rightarrow> bnd (notify_transfer t settled) (\<lambda>_. Ret None)) v"
      by (intro safe_guar guar_rules guar_notify_transfer)
  qed (use e None uuid_round[OF ok] in simp)
  then show ?thesis by (simp add: close_transfer_def None)
next
  case (Some err)
  have "guar (sys_rel (tw_uuid t) C posted) (close_transfer t (MapTransferModelToTransfer (tw_uuid t) r) (Some err))"
    unfolding close_transfer_def option.case by (intro guar_rules guar_finalizeFailed)
  then show ?thesis by (simp add: Some safe_guar)
qed

lemma safe_execute_pending:
  assumes ok: "env_ok (tw_uuid t) C posted" and r: "has_transfer r w"
  shows "safe (tw_uuid t) C posted (execute_pending t C (MapTransferModelToTransfer (tw_uuid t) r)) w"
  unfolding execute_pending_def
proof (rule sys.rg_bnd, rule rg_loadWallets)
  fix u x v
  assume v: "sys_rel (tw_uuid t) C posted w v" and h: "has_wallet u v" "has_wallet x v"
    and "uuid_Parse (tw_uuid t) (T_SenderWalletID (MapTransferModelToTransfer (tw_uuid t) r)) = Some (w_ID u)"
    and "uuid_Parse (tw_uuid t) (T_RecipientWalletID (MapTransferModelToTransfer (tw_uuid t) r)) = Some (w_ID x)"
  then have k: "tr_SenderWalletID r = w_ID u" "tr_RecipientWalletID r = w_ID x"
    by (simp_all add: uuid_round[OF ok])
  have tb: "tb_ok C posted" using ok by (simp add: env_ok_def)
  have "safe (tw_uuid t) C posted (bnd (Ledger_transfer C \<lparr>tp_TransferID = tr_ID r,
      tp_SenderWalletID = w_ID u, tp_ReceipientWalletID = w_ID x, tp_SenderCurrency = w_Currency u,
      tp_ReceipientsCurrency = w_Currency x, tp_Amount = tr_Amount r\<rparr>)
      (close_transfer t (MapTransferModelToTransfer (tw_uuid t) r))) v"
    by (rule sys.rg_bnd, rule rg_Ledger_transfer[OF tb has_transfer_stable[OF v r] h k])
      (rule safe_close_transfer[OF ok]; simp)+
  then show "safe (tw_uuid t) C posted
     (case Inr (MapWalletModelToWallet (tw_uuid t) u, MapWalletModelToWallet (tw_uuid t) x) of
        Inl e \<Rightarrow> Ret e
      | Inr (sender, recipient) \<Rightarrow> move_money t C (MapTransferModelToTransfer (tw_uuid t) r) sender recipient) v"
    by (simp add: move_money_def uuid_round[OF ok])
qed simp

lemma safe_HandleTransferExecute:
  assumes ok: "env_ok (tw_uuid t) C posted" and L: "tw_Ledger t \<in> {None, Some C}"
  shows "safe (tw_uuid t) C posted (HandleTransferExecute t k) w"
proof (cases "decode_transfer k")
  case (Inr payload)
  have "safe (tw_uuid t) C posted (bnd (GetTransferByID (tw_uuid t) payload) (\<lambda>res. case res of
        Inl err \<Rightarrow> Ret (Some (if errors_Is err ErrNotFound then skip_retry ''no transfer with this id: '' err else err))
      | Inr transfer \<Rightarrow> if T_Status transfer \<noteq> TransactionPending then Ret None
          else execute_pending t C transfer)) w"
    by (rule sys.rg_bnd, rule rg_GetTransferByID) (simp_all add: safe_execute_pending[OF ok])
  with L show ?thesis by (auto simp: HandleTransferExecute_def Inr)
qed (simp add: HandleTransferExecute_def)

lemma safe_HandleTransferExhausted:
  assumes ok: "env_ok (tw_uuid t) C posted" and L: "tw_Ledger t \<in> {None, Some C}"
  shows "safe (tw_uuid t) C posted (HandleTransferExhausted t k cause) w"
proof (cases "decode_transfer k")
  case (Inr payload)
  have tb: "tb_ok C posted" using ok by (simp add: env_ok_def)
  have close: "guar (sys_rel (tw_uuid t) C posted) (bnd (finalizeFailed t transfer reason) (\<lambda>_. Ret ()))" for transfer reason
    by (intro guar_rules guar_finalizeFailed)
  have moved: "safe (tw_uuid t) C posted (bnd (MarkTransferSucceeded (tw_uuid t) (uuid_String (tw_uuid t) a)) (\<lambda>r. case r of
        Inl err \<Rightarrow> Ret () | Inr settled \<Rightarrow> notify_transfer t settled)) v"
    if "posted (tb v) (TransferID C a) \<noteq> None" for a v
  proof (rule sys.rg_bnd, rule rg_MarkTransferSucceeded)
    show "safe (tw_uuid t) C posted (case r of Inl err \<Rightarrow> Ret () | Inr settled \<Rightarrow> notify_transfer t settled) v" for r v
      by (intro safe_guar guar_rules guar_notify_transfer)
  qed (use that uuid_round[OF ok] in simp)
  have check: "safe (tw_uuid t) C posted (bnd (Ledger_TransferExists C (tr_ID r)) (\<lambda>res. case res of
        Inl err \<Rightarrow> Ret ()
      | Inr moved \<Rightarrow>
          if moved then bnd (MarkTransferSucceeded (tw_uuid t) (T_ID (MapTransferModelToTransfer (tw_uuid t) r))) (\<lambda>r. case r of
              Inl err \<Rightarrow> Ret () | Inr settled \<Rightarrow> notify_transfer t settled)
          else bnd (finalizeFailed t (MapTransferModelToTransfer (tw_uuid t) r) ''The transfer could not be completed'') (\<lambda>_. Ret ()))) v"
    for r v
    by (rule sys.rg_bnd, rule rg_TransferExists[OF tb]) (use moved in \<open>simp_all add: safe_guar[OF close]\<close>)
  have "safe (tw_uuid t) C posted (bnd (GetTransferByID (tw_uuid t) payload) (\<lambda>res. case res of
          Inl err \<Rightarrow> Ret ()
        | Inr transfer \<Rightarrow>
            if T_Status transfer \<noteq> TransactionPending then Ret ()
            else (case uuid_Parse (tw_uuid t) (T_ID transfer) of
              None \<Rightarrow> Ret ()
            | Some transferID \<Rightarrow> exhausted_pending t transfer transferID))) w"
    by (rule sys.rg_bnd, rule rg_GetTransferByID)
      (use L in \<open>auto simp: uuid_round[OF ok] exhausted_pending_def safe_guar[OF close] check\<close>)
  then show ?thesis by (simp add: HandleTransferExhausted_def Inr)
qed (simp add: HandleTransferExhausted_def)

section \<open>The task server\<close>

lemma safe_bnd:
  assumes "safe P C posted p w" and "\<And>a v. sys_rel P C posted w v \<Longrightarrow> safe P C posted (k a) v"
  shows "safe P C posted (bnd p k) w"
  by (rule sys.rg_bnd, rule sys.rg_mono[OF assms(1)]) (rule assms(2))

lemma safe_HandlerFunc: "safe P C posted (h t) w \<Longrightarrow> safe P C posted (HandlerFunc h ctx t) w"
  unfolding HandlerFunc_def by (rule safe_bnd) simp_all

lemma safe_OnRetriesExhausted:
  assumes "safe P C posted (next ctx t) w" and "\<And>err v. safe P C posted (fn ctx t err) v"
  shows "safe P C posted (OnRetriesExhausted fn next ctx t) w"
  unfolding OnRetriesExhausted_def
proof (rule safe_bnd[OF assms(1)])
  fix o1 :: outcome and v
  have "safe P C posted (bnd (fn ctx t err) (\<lambda>_. Ret o1)) v" for err
    by (rule safe_bnd[OF assms(2)]) simp
  then show "safe P C posted (case o1 of Panicked r \<Rightarrow> Ret o1 | Returned None \<Rightarrow> Ret o1
      | Returned (Some err) \<Rightarrow> if \<not> errors_Is err asynq_SkipRetry \<and> IsFinalAttempt ctx (Some err)
          then bnd (fn ctx t err) (\<lambda>_. Ret o1) else Ret o1) v"
    by (auto split: outcome.split option.split)
qed

text \<open>All workers parse identifiers with \<open>P\<close> and reach the one ledger \<open>C\<close>, when they have one.\<close>

definition worker_ok :: "uuid_pkg \<Rightarrow> 'tb tb_client \<Rightarrow> ('tb, 'x) AsynqWorker \<Rightarrow> bool" where
  "worker_ok P C W \<longleftrightarrow> pw_uuid (aqw_Payment W) = P \<and> tw_uuid (aqw_Transfer W) = P \<and>
     pw_Ledger (aqw_Payment W) \<in> {None, Some C} \<and> tw_Ledger (aqw_Transfer W) \<in> {None, Some C}"

lemma worker_ok_New:
  "ledger \<in> {None, Some C} \<Longrightarrow> worker_ok P C (NewAsyncWorker ns P client tmpl sender provider ledger iv mr)"
  by (simp add: worker_ok_def NewAsyncWorker_def NewPaymentWorker_def Let_def)

lemma safe_serve:
  assumes ok: "env_ok P C posted" and W: "worker_ok P C W"
  shows "safe P C posted (serve W ctx t) w"
proof -
  let ?p = "aqw_Payment W" and ?t = "aqw_Transfer W"
  have P: "pw_uuid ?p = P" "tw_uuid ?t = P" and L: "pw_Ledger ?p \<in> {None, Some C}" "tw_Ledger ?t \<in> {None, Some C}"
    using W by (auto simp: worker_ok_def)
  have "safe P C posted (payment_webhook_route ?p ctx t) w"
    unfolding payment_webhook_route_def handlePayment_simps Recover_HandlerFunc
    using safe_HandlePaymentWebhook[of ?p C posted t w] ok P L by (simp add: safe_HandlerFunc)
  moreover have "safe P C posted (payment_poll_route ?p ctx t) w"
    unfolding payment_poll_route_def handlePayment_simps Recover_HandlerFunc
    using safe_HandlePaymentPoll[of ?p C posted t w] ok P L
    by (intro safe_OnRetriesExhausted safe_HandlerFunc) (simp_all add: safe_guar guar_HandlePollExhausted)
  moreover have "safe P C posted (transfer_execute_route ?t ctx t) w"
    unfolding transfer_execute_route_def handlePayment_simps Recover_HandlerFunc
    using safe_HandleTransferExecute[of ?t C posted t w] safe_HandleTransferExhausted[of ?t C posted t] ok P L
    by (intro safe_OnRetriesExhausted safe_HandlerFunc) simp_all
  moreover have "safe P C posted (HandleEmailSend (aqw_Email W) t) w"
    by (intro safe_guar guar_HandleEmailSend)
  moreover have "safe P C posted (HandlerFunc (HandleCreateActivity P) ctx t) w"
    by (intro safe_HandlerFunc safe_guar guar_HandleCreateActivity)
  ultimately show ?thesis
    using P by (simp add: serve_def RegisterHandlers_def split: option.split)
qed

section \<open>What the invariant says of a row\<close>

lemma inv_success_intent:
  assumes ok: "env_ok P C posted" and inv: "ledger_inv P C posted w"
    and r: "r \<in> set (intents w)" "posted (tb w) (TransferID C (ti_ID r)) = Some t"
  shows "is_deposit C (wallets w) r t"
proof -
  from inv r(2) consider
      r' where "r' \<in> set (intents w)" "TransferID C (ti_ID r) = TransferID C (ti_ID r')" "is_deposit C (wallets w) r' t"
    | r' where "r' \<in> set (transfers w)" "TransferID C (ti_ID r) = TransferID C (tr_ID r')"
    unfolding ledger_inv_def posted_explained_def by metis
  then show ?thesis
  proof cases
    case 1
    then have "ti_ID r' = ti_ID r" by (simp add: TransferID_inj[OF ok])
    with 1 r(1) inv have "r' = r" by (auto simp: ledger_inv_def db_wf_def dest: distinct_key_unique)
    with 1 show ?thesis by simp
  next
    case 2
    then have "ti_ID r = tr_ID r'" by (simp add: TransferID_inj[OF ok])
    with 2 r(1) inv show ?thesis by (auto simp: ledger_inv_def ids_ok_def)
  qed
qed

lemma inv_success_transfer:
  assumes ok: "env_ok P C posted" and inv: "ledger_inv P C posted w"
    and r: "r \<in> set (transfers w)" "posted (tb w) (TransferID C (tr_ID r)) = Some t"
  shows "is_move C (wallets w) r t"
proof -
  from inv r(2) consider
      r' where "r' \<in> set (transfers w)" "TransferID C (tr_ID r) = TransferID C (tr_ID r')" "is_move C (wallets w) r' t"
    | r' where "r' \<in> set (intents w)" "TransferID C (tr_ID r) = TransferID C (ti_ID r')"
    unfolding ledger_inv_def posted_explained_def by metis
  then show ?thesis
  proof cases
    case 1
    then have "tr_ID r' = tr_ID r" by (simp add: TransferID_inj[OF ok])
    with 1 r(1) inv have "r' = r" by (auto simp: ledger_inv_def db_wf_def dest: distinct_key_unique)
    with 1 show ?thesis by simp
  next
    case 2
    then have "tr_ID r = ti_ID r'" by (simp add: TransferID_inj[OF ok])
    with 2 r(1) inv show ?thesis by (auto simp: ledger_inv_def ids_ok_def)
  qed
qed

end
