(* ===== verification/Sequential.thy ===== *)
theory Sequential
  imports System_Safety
begin

text \<open>
  Reasoning about one handler run alone. \<open>wp p Q w\<close> is total: the handler returns from \<open>w\<close>, and its
  answer and final world satisfy \<open>Q\<close>. There is a rule per construct and per database operation, in
  two forms: with the driver failing anywhere, and, for what the code guarantees to achieve, in a
  \<open>calm\<close> world whose database does not fail. \<open>same_books\<close> is the frame of the operations that
  touch neither the tables of money nor the ledger.
\<close>

section \<open>Weakest preconditions\<close>

definition wp :: "('a, 'w) prog \<Rightarrow> ('a \<Rightarrow> 'w \<Rightarrow> bool) \<Rightarrow> 'w \<Rightarrow> bool" where
  "wp p Q w \<longleftrightarrow> (case run p w of (a, w') \<Rightarrow> Q a w')"

lemma wpI: "(\<And>a w'. run p w = (a, w') \<Longrightarrow> Q a w') \<Longrightarrow> wp p Q w"
  by (simp add: wp_def split: prod.split)

lemma wpD: "wp p Q w \<Longrightarrow> run p w = (a, w') \<Longrightarrow> Q a w'"
  by (simp add: wp_def)

lemma wp_runs: "wp p (\<lambda>a w'. a = x \<and> R w') w \<Longrightarrow> \<exists>w'. run p w = (x, w') \<and> R w'"
  by (cases "run p w") (simp add: wp_def)

lemma wp_Ret: "Q a w \<Longrightarrow> wp (Ret a) Q w"
  by (simp add: wp_def)

lemma wp_bnd: "wp p (\<lambda>a. wp (k a) Q) w \<Longrightarrow> wp (bnd p k) Q w"
  by (simp add: wp_def split: prod.splits)

lemma wp_atom: "(\<And>a w'. f w = (a, w') \<Longrightarrow> Q a w') \<Longrightarrow> wp (atom f) Q w"
  by (simp add: wp_def split: prod.splits)

lemma wp_mono: "wp p Q w \<Longrightarrow> (\<And>a v. Q a v \<Longrightarrow> Q' a v) \<Longrightarrow> wp p Q' w"
  by (simp add: wp_def split: prod.splits)

lemma wp_case:
  "(\<And>e. s = Inl e \<Longrightarrow> wp (f e) Q w) \<Longrightarrow> (\<And>a. s = Inr a \<Longrightarrow> wp (g a) Q w) \<Longrightarrow>
    wp (case s of Inl e \<Rightarrow> f e | Inr a \<Rightarrow> g a) Q w"
  "(x = None \<Longrightarrow> wp n Q w) \<Longrightarrow> (\<And>a. x = Some a \<Longrightarrow> wp (h a) Q w) \<Longrightarrow>
    wp (case x of None \<Rightarrow> n | Some a \<Rightarrow> h a) Q w"
  "(b \<Longrightarrow> wp p Q w) \<Longrightarrow> (\<not> b \<Longrightarrow> wp q Q w) \<Longrightarrow> wp (if b then p else q) Q w"
  by (auto split: sum.split option.split)

lemmas wp_rules = wp_bnd wp_Ret wp_case

lemma wp_tb_call:
  "(\<And>r s. f (tb w) = (r, s) \<Longrightarrow> Q r (w\<lparr>tb := s, trace := trace w @ evs\<rparr>)) \<Longrightarrow> wp (tb_call evs f) Q w"
  unfolding tb_call_def by (rule wp_atom) (auto split: prod.splits)

lemma wp_ext_call:
  "(\<And>r s. f (ext w) = (r, s) \<Longrightarrow> Q r (w\<lparr>ext := s, trace := trace w @ evs\<rparr>)) \<Longrightarrow> wp (ext_call evs f) Q w"
  unfolding ext_call_def by (rule wp_atom) (auto split: prod.splits)

text \<open>A program whose every action stays within a relation.\<close>

context rely_guarantee
begin

lemma wp_guar: "guar R p \<Longrightarrow> (\<And>a v. R w v \<Longrightarrow> Q a v) \<Longrightarrow> wp p Q w"
  by (auto simp: wp_def dest: run_guar split: prod.splits)

end

text \<open>A database statement, failing or not; and in a calm world.\<close>

definition calm :: "('tb, 'x) world \<Rightarrow> bool" where
  "calm w \<longleftrightarrow> db_fault w = (\<lambda>_. None)"

lemma wp_db_call:
  assumes "\<And>a w'. f (w\<lparr>db_n := Suc (db_n w)\<rparr>) = (a, w') \<Longrightarrow> Q a w' \<and> (\<not> calm w \<longrightarrow> (\<forall>m. Q (Inl (Opaque m)) w'))"
    and "\<And>m. \<not> calm w \<Longrightarrow> Q (Inl (Opaque m)) (w\<lparr>db_n := Suc (db_n w)\<rparr>)"
  shows "wp (db_call f) Q w"
proof -
  let ?w = "w\<lparr>db_n := Suc (db_n w)\<rparr>"
  obtain a w' where f: "f ?w = (a, w')" by (rule prod.exhaust)
  show ?thesis
  proof (cases "db_fault w (db_n w)")
    case None
    with f assms(1)[OF f] show ?thesis unfolding db_call_def by (intro wp_atom) (auto simp: Let_def)
  next
    case (Some x)
    then have "\<not> calm w" by (auto simp: calm_def)
    with Some f assms(1)[OF f] assms(2) show ?thesis
      unfolding db_call_def by (intro wp_atom) (auto simp: Let_def split: fault.splits)
  qed
qed

lemma wp_db_calm:
  "calm w \<Longrightarrow> (\<And>a w'. f (w\<lparr>db_n := Suc (db_n w)\<rparr>) = (a, w') \<Longrightarrow> Q a w') \<Longrightarrow> wp (db_call f) Q w"
  unfolding db_call_def by (rule wp_atom) (simp add: calm_def Let_def)

section \<open>The frame\<close>

text \<open>Events that move no money.\<close>

fun moves_money :: "event \<Rightarrow> bool" where
  "moves_money (EvCreateTransfers ts) = True"
| "moves_money (EvRefund ref a) = True"
| "moves_money _ = False"

definition money_events :: "event list \<Rightarrow> event list" where
  "money_events = filter moves_money"

definition same_books :: "('tb, 'x) world \<Rightarrow> ('tb, 'x) world \<Rightarrow> bool" where
  "same_books w w' \<longleftrightarrow> intents w' = intents w \<and> transfers w' = transfers w \<and> wallets w' = wallets w \<and>
     users w' = users w \<and> tb w' = tb w \<and> now w' = now w \<and> db_fault w' = db_fault w \<and>
     money_events (trace w') = money_events (trace w)"

interpretation frame: rely_guarantee same_books
  by unfold_locales (simp_all add: same_books_def)

lemmas wp_frame = frame.wp_guar

lemma frame_reads:
  "guar same_books (first_wallet p)" "guar same_books (first_intent q)" "guar same_books (first_transfer r)"
  "guar same_books (select_wallets f)" "guar same_books (select_intents g)" "guar same_books (select_transfers h)"
  "guar same_books (first_user s)" "guar same_books (select_users k)" "guar same_books (select_activities u l)"
  unfolding first_wallet_def first_intent_def first_transfer_def select_wallets_def select_intents_def
    select_transfers_def first_user_def select_users_def select_activities_def db_call_def
  by (rule guar_atom, simp add: same_books_def Let_def split: option.splits fault.splits)+

lemma frame_ext_call: "\<not> (\<exists>e \<in> set evs. moves_money e) \<Longrightarrow> guar same_books (ext_call evs f)"
  unfolding ext_call_def
  by (rule guar_atom) (auto simp: same_books_def money_events_def filter_empty_conv split: prod.splits)

lemma frame_logged: "guar same_books m \<Longrightarrow> guar same_books (logged m f)"
  unfolding logged_def by (rule guar_bnd) simp_all

lemmas frame_rules = guar_bnd guar_Ret guar_case frame_logged frame_reads

lemma frame_Enqueue: "guar same_books (EnqueueWithContext t q c)"
  unfolding EnqueueWithContext_def by (intro frame_rules frame_ext_call) simp

lemma frame_ops:
  "guar same_books (GetUserByID P u)" "guar same_books (GetIntentByReference P ref)"
  "guar same_books (GetTransferByID P i)" "guar same_books (GetWalletByID P i)"
  "guar same_books (notify p intent)" "guar same_books (cancelPoll p ref)"
  "guar same_books (record_activity t u act)" "guar same_books (notify_transfer t transfer)"
  "guar same_books (Provider_Verify V ref)"
  unfolding GetUserByID_def GetIntentByReference_def GetTransferByID_def GetWalletByID_def notify_def
    Activity_Enqueue_def Email_Enqueue_def cancelPoll_def record_activity_def notify_transfer_def Provider_Verify_def
  by ((intro frame_rules frame_Enqueue frame_ext_call | simp)+)[9]

section \<open>Reading and updating rows\<close>

text \<open>\<open>First\<close> on a table, as every lookup uses it: the driver fails, no row matches, or a row does.\<close>

lemma wp_first:
  assumes "\<And>m. \<not> calm w \<Longrightarrow> Q (Inl (Opaque m)) (w\<lparr>db_n := Suc (db_n w)\<rparr>)"
    and "\<forall>r \<in> set (rows w). \<not> p r \<Longrightarrow> Q (Inl (Sentinel ErrNotFound)) (w\<lparr>db_n := Suc (db_n w)\<rparr>)"
    and "\<And>r. r \<in> set (rows w) \<Longrightarrow> p r \<Longrightarrow> Q (Inr (f r)) (w\<lparr>db_n := Suc (db_n w)\<rparr>)"
    and "\<And>n. rows (w\<lparr>db_n := n\<rparr>) = rows w"
  shows "wp (logged (db_call (\<lambda>w. (found (sql_first key p (rows w)), w))) f) Q w"
  unfolding logged_def using assms
  by (auto simp: found_def sql_first_None split: option.splits dest!: sql_first_Some intro!: wp_rules wp_db_call)

lemma wp_GetIntent:
  assumes fault: "\<And>e n. \<not> calm w \<Longrightarrow> Q (Inl e) (w\<lparr>db_n := n\<rparr>)"
    and none: "\<And>n. \<forall>r \<in> set (intents w). uuid_Parse P ref \<noteq> Some (ti_ID r) \<Longrightarrow>
      Q (Inl (Sentinel ErrNotFound)) (w\<lparr>db_n := n\<rparr>)"
    and row: "\<And>r n. r \<in> set (intents w) \<Longrightarrow> uuid_Parse P ref = Some (ti_ID r) \<Longrightarrow> Q (Inr (MapIntentModelToIntent P r)) (w\<lparr>db_n := n\<rparr>)"
  shows "wp (GetIntentByReference P ref) Q w"
proof (cases "uuid_Parse P ref")
  case None
  then show ?thesis using none[of "db_n w"] by (simp add: GetIntentByReference_def ParseUUID_def wp_Ret)
next
  case (Some u)
  have "wp (logged (first_intent (\<lambda>r. ti_ID r = u)) (MapIntentModelToIntent P)) Q w"
    unfolding first_intent_def by (rule wp_first[where rows = intents]) (use Some in \<open>auto intro!: fault none row\<close>)
  with Some show ?thesis by (simp add: GetIntentByReference_def ParseUUID_def)
qed

lemma wp_GetTransfer:
  assumes fault: "\<And>e n. \<not> calm w \<Longrightarrow> Q (Inl e) (w\<lparr>db_n := n\<rparr>)"
    and none: "\<And>n. \<forall>r \<in> set (transfers w). uuid_Parse P ref \<noteq> Some (tr_ID r) \<Longrightarrow>
      Q (Inl (Sentinel ErrNotFound)) (w\<lparr>db_n := n\<rparr>)"
    and row: "\<And>r n. r \<in> set (transfers w) \<Longrightarrow> uuid_Parse P ref = Some (tr_ID r) \<Longrightarrow> Q (Inr (MapTransferModelToTransfer P r)) (w\<lparr>db_n := n\<rparr>)"
  shows "wp (GetTransferByID P ref) Q w"
proof (cases "uuid_Parse P ref")
  case None
  then show ?thesis using none[of "db_n w"] by (simp add: GetTransferByID_def ParseUUID_def wp_Ret)
next
  case (Some u)
  have "wp (logged (first_transfer (\<lambda>r. tr_ID r = u)) (MapTransferModelToTransfer P)) Q w"
    unfolding first_transfer_def by (rule wp_first[where rows = transfers]) (use Some in \<open>auto intro!: fault none row\<close>)
  with Some show ?thesis by (simp add: GetTransferByID_def ParseUUID_def)
qed

lemma wp_GetWallet:
  assumes fault: "\<And>e n. \<not> calm w \<Longrightarrow> Q (Inl e) (w\<lparr>db_n := n\<rparr>)"
    and none: "\<And>n. \<forall>r \<in> set (wallets w). w_DeletedAt r = None \<longrightarrow> uuid_Parse P ref \<noteq> Some (w_ID r) \<Longrightarrow>
      Q (Inl (Sentinel ErrNotFound)) (w\<lparr>db_n := n\<rparr>)"
    and row: "\<And>r n. r \<in> set (wallets w) \<Longrightarrow> w_DeletedAt r = None \<Longrightarrow> uuid_Parse P ref = Some (w_ID r) \<Longrightarrow> Q (Inr (MapWalletModelToWallet P r)) (w\<lparr>db_n := n\<rparr>)"
  shows "wp (GetWalletByID P ref) Q w"
proof (cases "uuid_Parse P ref")
  case None
  then show ?thesis using none[of "db_n w"] by (simp add: GetWalletByID_def ParseUUID_def wp_Ret)
next
  case (Some u)
  have "wp (logged (first_wallet (\<lambda>r. w_ID r = u)) (MapWalletModelToWallet P)) Q w"
    unfolding first_wallet_def by (rule wp_first[where rows = wallets]) (use Some in \<open>auto intro!: fault none row\<close>)
  with Some show ?thesis by (simp add: GetWalletByID_def ParseUUID_def)
qed

text \<open>The table with one row replaced, found by its key.\<close>

definition put_row :: "('r \<Rightarrow> 'k) \<Rightarrow> 'r \<Rightarrow> 'r list \<Rightarrow> 'r list" where
  "put_row key q rows = map (\<lambda>r. if key r = key q then q else r) rows"

lemma put_row_keys [simp]: "map k (put_row k q rows) = map k rows"
  by (simp add: put_row_def)

lemma put_row_in: "r \<in> set rows \<Longrightarrow> k q = k r \<Longrightarrow> q \<in> set (put_row k q rows)"
  by (auto simp: put_row_def image_iff)

lemma put_row_put [simp]: "k q = k q' \<Longrightarrow> put_row k q (put_row k q' rows) = put_row k q rows"
  by (simp add: put_row_def)

lemma put_row_others: "s \<in> set rows \<Longrightarrow> k s \<noteq> k q \<Longrightarrow> s \<in> set (put_row k q rows)"
  by (force simp: put_row_def image_iff)

lemma keyed_update:
  assumes "distinct (map k rows)" and "r \<in> set rows" and "k r = u"
  shows "p r \<Longrightarrow> sql_returning (\<lambda>s. k s = u \<and> p s) f rows = [f r]"
    and "p r \<Longrightarrow> k (f r) = u \<Longrightarrow> sql_update (\<lambda>s. k s = u \<and> p s) f rows = put_row k (f r) rows"
    and "\<not> p r \<Longrightarrow> sql_returning (\<lambda>s. k s = u \<and> p s) f rows = []"
    and "\<not> p r \<Longrightarrow> sql_update (\<lambda>s. k s = u \<and> p s) f rows = rows"
proof -
  have e: "s = r" if "s \<in> set rows" "k s = u" for s
    using assms that distinct_key_unique by metis
  have "filter (\<lambda>s. k s = u \<and> p s) rows = filter p (filter (\<lambda>s. k s = u) rows)"
    by (simp add: conj_commute)
  also have "\<dots> = filter p [r]" using distinct_map_filter_single[OF assms] by simp
  finally show "p r \<Longrightarrow> sql_returning (\<lambda>s. k s = u \<and> p s) f rows = [f r]"
    and "\<not> p r \<Longrightarrow> sql_returning (\<lambda>s. k s = u \<and> p s) f rows = []"
    by (simp_all add: sql_returning_def)
  show "p r \<Longrightarrow> k (f r) = u \<Longrightarrow> sql_update (\<lambda>s. k s = u \<and> p s) f rows = put_row k (f r) rows"
    using e by (auto simp: sql_update_def put_row_def)
  show "\<not> p r \<Longrightarrow> sql_update (\<lambda>s. k s = u \<and> p s) f rows = rows"
    using e by (auto simp: sql_update_def intro!: map_idI)
qed

section \<open>A database that does not fail\<close>

lemma wp_GetIntent_calm:
  assumes "calm w" "uuid_Parse P ref = Some (ti_ID r)" "distinct (map ti_ID (intents w))" "r \<in> set (intents w)"
    and "Q (Inr (MapIntentModelToIntent P r)) (w\<lparr>db_n := Suc (db_n w)\<rparr>)"
  shows "wp (GetIntentByReference P ref) Q w"
  using assms sql_first_unique[OF assms(3,4), of "ti_ID r" "\<lambda>_. True" ti_ID]
  by (auto simp: GetIntentByReference_def ParseUUID_def logged_def first_intent_def found_def intro!: wp_rules wp_db_calm)

lemma wp_GetTransfer_calm:
  assumes "calm w" "uuid_Parse P ref = Some (tr_ID r)" "distinct (map tr_ID (transfers w))" "r \<in> set (transfers w)"
    and "Q (Inr (MapTransferModelToTransfer P r)) (w\<lparr>db_n := Suc (db_n w)\<rparr>)"
  shows "wp (GetTransferByID P ref) Q w"
  using assms sql_first_unique[OF assms(3,4), of "tr_ID r" "\<lambda>_. True" tr_ID]
  by (auto simp: GetTransferByID_def ParseUUID_def logged_def first_transfer_def found_def intro!: wp_rules wp_db_calm)

lemma wp_GetWallet_calm:
  assumes "calm w" "uuid_Parse P ref = Some (w_ID r)" "distinct (map w_ID (wallets w))" "r \<in> set (wallets w)"
    and "w_DeletedAt r = None" and "Q (Inr (MapWalletModelToWallet P r)) (w\<lparr>db_n := Suc (db_n w)\<rparr>)"
  shows "wp (GetWalletByID P ref) Q w"
  using assms sql_first_unique[OF assms(3,4), of "w_ID r" "\<lambda>r. w_DeletedAt r = None" w_ID]
  by (auto simp: GetWalletByID_def ParseUUID_def logged_def first_wallet_def found_def conj_commute
      intro!: wp_rules wp_db_calm)

text \<open>The guarded updates: the row moves when its status allows it, and the table is unchanged
  when not.\<close>

lemma wp_update_intent_calm:
  assumes "calm w" "distinct (map ti_ID (intents w))" "r \<in> set (intents w)" "ti_ID r = u"
    and "\<And>q. ti_Status r \<in> set from \<Longrightarrow> q = r\<lparr>ti_Status := to, ti_UpdatedAt := now w\<rparr> \<Longrightarrow>
      Q (Inr [q]) (w\<lparr>db_n := Suc (db_n w), intents := put_row ti_ID q (intents w)\<rparr>)"
    and "ti_Status r \<notin> set from \<Longrightarrow> Q (Inr []) (w\<lparr>db_n := Suc (db_n w)\<rparr>)"
  shows "wp (update_intent u from to) Q w"
  unfolding update_intent_def using assms(1)
proof (rule wp_db_calm)
  note k = keyed_update[OF assms(2-4), of "\<lambda>s. ti_Status s \<in> set from" "\<lambda>s. s\<lparr>ti_Status := to, ti_UpdatedAt := now w\<rparr>"]
  fix a :: "go_error + intent_row list" and w' assume e: "(let p = \<lambda>r. ti_ID r = u \<and> ti_Status r \<in> set from;
      f = \<lambda>r. r\<lparr>ti_Status := to, ti_UpdatedAt := now (w\<lparr>db_n := Suc (db_n w)\<rparr>)\<rparr>
    in (Inr (sql_returning p f (intents (w\<lparr>db_n := Suc (db_n w)\<rparr>))),
        w\<lparr>db_n := Suc (db_n w), intents := sql_update p f (intents (w\<lparr>db_n := Suc (db_n w)\<rparr>))\<rparr>)) = (a, w')"
  show "Q a w'"
  proof (cases "ti_Status r \<in> set from")
    case True
    with e assms(4,5) k(1,2) show ?thesis by (auto simp: Let_def)
  next
    case False
    with e assms(6) k(3,4) show ?thesis by (auto simp: Let_def)
  qed
qed

lemma wp_update_transfer_calm:
  assumes "calm w" "distinct (map tr_ID (transfers w))" "r \<in> set (transfers w)" "tr_ID r = u"
    and "\<And>q. tr_Status r = TransactionPending \<Longrightarrow> q = r\<lparr>tr_Status := to, tr_FailureReason := reason, tr_UpdatedAt := now w\<rparr> \<Longrightarrow>
      Q (Inr [q]) (w\<lparr>db_n := Suc (db_n w), transfers := put_row tr_ID q (transfers w)\<rparr>)"
    and "tr_Status r \<noteq> TransactionPending \<Longrightarrow> Q (Inr []) (w\<lparr>db_n := Suc (db_n w)\<rparr>)"
  shows "wp (update_transfer u to reason) Q w"
  unfolding update_transfer_def using assms(1)
proof (rule wp_db_calm)
  note k = keyed_update[OF assms(2-4), of "\<lambda>s. tr_Status s = TransactionPending"
      "\<lambda>s. s\<lparr>tr_Status := to, tr_FailureReason := reason, tr_UpdatedAt := now w\<rparr>"]
  fix a :: "go_error + transfer_row list" and w' assume e: "(let p = \<lambda>r. tr_ID r = u \<and> tr_Status r = TransactionPending;
      f = \<lambda>r. r\<lparr>tr_Status := to, tr_FailureReason := reason, tr_UpdatedAt := now (w\<lparr>db_n := Suc (db_n w)\<rparr>)\<rparr>
    in (Inr (sql_returning p f (transfers (w\<lparr>db_n := Suc (db_n w)\<rparr>))),
        w\<lparr>db_n := Suc (db_n w), transfers := sql_update p f (transfers (w\<lparr>db_n := Suc (db_n w)\<rparr>))\<rparr>)) = (a, w')"
  show "Q a w'"
  proof (cases "tr_Status r = TransactionPending")
    case True
    with e assms(4,5) k(1,2) show ?thesis by (auto simp: Let_def)
  next
    case False
    with e assms(6) k(3,4) show ?thesis by (auto simp: Let_def)
  qed
qed

text \<open>The four moves of an intent, as the answer each gives and the row it leaves.\<close>

lemma wp_mark_intent_calm:
  assumes "calm w" "distinct (map ti_ID (intents w))" "r \<in> set (intents w)" "uuid_Parse P ref = Some (ti_ID r)"
    and "\<And>q. ti_Status r \<in> set from \<Longrightarrow> q = r\<lparr>ti_Status := to, ti_UpdatedAt := now w\<rparr> \<Longrightarrow>
      Q (Inr (MapIntentModelToIntent P q)) (w\<lparr>db_n := Suc (db_n w), intents := put_row ti_ID q (intents w)\<rparr>)"
    and "ti_Status r \<notin> set from \<Longrightarrow> Q (Inl none) (w\<lparr>db_n := Suc (db_n w)\<rparr>)"
  shows "wp (case ParseUUID P ref of Inl err \<Rightarrow> Ret (Inl (LogError err)) | Inr u \<Rightarrow>
      bnd (update_intent u from to) (\<lambda>res. Ret (updated none (MapIntentModelToIntent P) res))) Q w"
  unfolding ParseUUID_def assms(4) option.simps sum.simps
  by (rule wp_bnd, rule wp_update_intent_calm[OF assms(1-3) refl]; rule wp_Ret; simp add: assms(5,6))

lemma wp_mark_transfer_calm:
  assumes "calm w" "distinct (map tr_ID (transfers w))" "r \<in> set (transfers w)" "uuid_Parse P i = Some (tr_ID r)"
    and "\<And>q. tr_Status r = TransactionPending \<Longrightarrow> q = r\<lparr>tr_Status := to, tr_FailureReason := reason, tr_UpdatedAt := now w\<rparr> \<Longrightarrow>
      Q (Inr (MapTransferModelToTransfer P q)) (w\<lparr>db_n := Suc (db_n w), transfers := put_row tr_ID q (transfers w)\<rparr>)"
    and "tr_Status r \<noteq> TransactionPending \<Longrightarrow> Q (Inl (Sentinel ErrTransferNotPending)) (w\<lparr>db_n := Suc (db_n w)\<rparr>)"
  shows "wp (markTransfer P i to reason) Q w"
  unfolding markTransfer_def ParseUUID_def assms(4) option.simps sum.simps
  by (rule wp_bnd, rule wp_update_transfer_calm[OF assms(1-3) refl]; rule wp_Ret; simp add: assms(5,6))

lemmas Mark_defs = MarkIntentFailed_def MarkIntentSucceeded_def MarkIntentRefunding_def MarkIntentRefunded_def moveIntent_def

section \<open>A ledger that answers\<close>

text \<open>\<open>tb_up\<close>: accounts are created or exist already, and lookups answer. \<open>tb_idle C s0\<close>: the states
  the ledger can be in after \<open>s0\<close> while only accounts are created, as the code does before it posts.
  \<open>tb_accepts\<close> and \<open>tb_refuses\<close>: what TigerBeetle answers to one transfer then: that it is created or
  exists, or that the debited account is short of credits.\<close>

definition tb_up :: "'tb tb_client \<Rightarrow> bool" where
  "tb_up C \<longleftrightarrow> (\<forall>as s. \<exists>rs. fst (tb_CreateAccounts C as s) = Inr rs \<and> account_results rs = None) \<and>
     (\<forall>ids s. \<exists>ts. fst (tb_LookupTransfers C ids s) = Inr ts)"

inductive tb_idle :: "'tb tb_client \<Rightarrow> 'tb \<Rightarrow> 'tb \<Rightarrow> bool" for C s0 where
  idle_refl: "tb_idle C s0 s0"
| idle_accounts: "tb_idle C s0 s \<Longrightarrow> tb_idle C s0 (snd (tb_CreateAccounts C as s))"

definition tb_accepts :: "'tb tb_client \<Rightarrow> 'tb \<Rightarrow> tb_transfer \<Rightarrow> bool" where
  "tb_accepts C s0 t \<longleftrightarrow> (\<forall>s. tb_idle C s0 s \<longrightarrow>
     fst (tb_CreateTransfers C [t] s) \<in> {Inr [TransferCreated], Inr [TransferExists]})"

definition tb_refuses :: "'tb tb_client \<Rightarrow> 'tb \<Rightarrow> tb_transfer \<Rightarrow> bool" where
  "tb_refuses C s0 t \<longleftrightarrow> (\<forall>s. tb_idle C s0 s \<longrightarrow> fst (tb_CreateTransfers C [t] s) = Inr [TransferExceedsCredits])"

lemma idle_posted: "tb_idle C s0 s \<Longrightarrow> env_ok P C posted \<Longrightarrow> posted s = posted s0"
  by (induction rule: tb_idle.induct) (simp_all add: env_ok_def tb_ok_def)

lemma idle_trans: "tb_idle C s t \<Longrightarrow> tb_idle C r s \<Longrightarrow> tb_idle C r t"
  by (induction rule: tb_idle.induct) (auto intro: tb_idle.intros)

lemma money_events_simps [simp]:
  "money_events [] = []" "money_events (xs @ ys) = money_events xs @ money_events ys"
  "money_events (e # es) = (if moves_money e then e # money_events es else money_events es)"
  by (simp_all add: money_events_def)

lemma wp_ensureAccounts:
  assumes "env_ok P C posted" and "tb_up C"
    and "\<And>s evs. tb_idle C (tb w) s \<Longrightarrow> money_events evs = [] \<Longrightarrow> Q None (w\<lparr>tb := s, trace := trace w @ evs\<rparr>)"
  shows "wp (ensureAccounts C l u) Q w"
  unfolding ensureAccounts_def createAccounts_def client_CreateAccounts_def
proof (intro wp_bnd wp_tb_call wp_Ret)
  fix r s assume e: "tb_CreateAccounts C [settlement_account C l, wallet_account C l u] (tb w) = (r, s)"
  with assms(2) obtain rs where r: "r = Inr rs" "account_results rs = None" unfolding tb_up_def by (metis fst_conv)
  have "tb_idle C (tb w) s" using tb_idle.intros e by (metis snd_conv)
  with r assms(3) show "Q (case r of Inl m \<Rightarrow> Some (wrap_cause ''create accounts'' (Opaque m)) | Inr rs \<Rightarrow> account_results rs)
      (w\<lparr>tb := s, trace := trace w @ [EvCreateAccounts [settlement_account C l, wallet_account C l u]]\<rparr>)"
    by simp
qed

lemma tb_accepts_post:
  assumes "env_ok P C posted" and "tb_accepts C s0 t" and "tb_idle C s0 s"
    and "tb_CreateTransfers C [t] s = (r, s')"
  shows "posted s' = (posted s0)(t_ID t \<mapsto> t) \<and> (r = Inr [TransferCreated] \<or> r = Inr [TransferExists])"
proof -
  have r: "r = Inr [TransferCreated] \<or> r = Inr [TransferExists]"
    using assms(2-4) unfolding tb_accepts_def by (metis fst_conv insertE singletonD)
  then obtain rs where rs: "tb_CreateTransfers C [t] s = (Inr rs, s')" "rs = [TransferCreated] \<or> rs = [TransferExists]"
    using assms(4) by auto
  have "tb_ok C posted" using assms(1) by (simp add: env_ok_def)
  then obtain st where st: "rs = [st]"
    "if posted s (t_ID t) = Some t then st = TransferExists \<and> posted s' = posted s
     else if st = TransferCreated then posted s (t_ID t) = None \<and> posted s' = (posted s)(t_ID t \<mapsto> t)
     else st \<noteq> TransferExists \<and> posted s' = posted s"
    using rs(1) unfolding tb_ok_def by blast
  then have "posted s' = (posted s)(t_ID t \<mapsto> t)"
    using rs(2) by (auto simp: fun_upd_idem split: if_splits)
  with r idle_posted[OF assms(3,1)] show ?thesis by simp
qed

lemma tb_refuses_post:
  assumes "env_ok P C posted" and "tb_refuses C s0 t" and "tb_idle C s0 s"
    and "tb_CreateTransfers C [t] s = (r, s')"
  shows "posted s' = posted s0 \<and> r = Inr [TransferExceedsCredits]"
proof -
  have r: "r = Inr [TransferExceedsCredits]" using assms(2-4) unfolding tb_refuses_def by (metis fst_conv)
  have "tb_ok C posted" using assms(1) by (simp add: env_ok_def)
  then have "posted s' = posted s" using assms(4) r unfolding tb_ok_def by (metis TransferStatus.distinct(3,7) list.inject)
  with r idle_posted[OF assms(3,1)] show ?thesis by simp
qed

lemma wp_deposit_calm:
  assumes ok: "env_ok P C posted" "tb_up C" and p: "IsPositive (dp_Amount d)" "LedgerForCurrency (dp_Currency d) = Inr l"
    and acc: "tb_accepts C (tb w) (deposit_request C l d)"
    and Q: "\<And>s evs. posted s = (posted (tb w))(TransferID C (dp_TransferID d) \<mapsto> deposit_request C l d) \<Longrightarrow>
      money_events evs = [EvCreateTransfers [deposit_request C l d]] \<Longrightarrow> Q None (w\<lparr>tb := s, trace := trace w @ evs\<rparr>)"
  shows "wp (Ledger_deposit C d) Q w"
  unfolding Ledger_deposit_def p(2) sum.simps if_not_P[OF not_not[THEN iffD2, OF p(1)]] client_CreateTransfers_def
  apply (rule wp_bnd, rule wp_ensureAccounts[OF ok])
  apply (simp only: option.simps, intro wp_bnd wp_tb_call wp_Ret)
  apply (drule tb_accepts_post[OF ok(1) acc, rotated], simp)
  apply (auto intro!: Q simp: deposit_request_def)
  done

text \<open>A transfer the checks let through comes down to three calls.\<close>

definition accepted_order :: "TransferParam \<Rightarrow> LedgerID \<Rightarrow> bool" where
  "accepted_order d l \<longleftrightarrow> IsPositive (tp_Amount d) \<and> tp_SenderWalletID d \<noteq> tp_ReceipientWalletID d \<and>
     EqualFold (tp_SenderCurrency d) (tp_ReceipientsCurrency d) \<and> LedgerForCurrency (tp_SenderCurrency d) = Inr l"

lemma Ledger_transfer_calls:
  assumes "accepted_order d l"
  shows "Ledger_transfer C d = bnd (ensureAccounts C l (tp_SenderWalletID d)) (\<lambda>err. case err of
      Some e \<Rightarrow> Ret (Some e)
    | None \<Rightarrow> bnd (ensureAccounts C l (tp_ReceipientWalletID d)) (\<lambda>err. case err of
        Some e \<Rightarrow> Ret (Some e)
      | None \<Rightarrow> bnd (client_CreateTransfers C [transfer_request C l d]) (\<lambda>results. Ret (case results of
          Inl m \<Rightarrow> Some (wrap_cause ''create transfer'' (Opaque m)) | Inr rs \<Rightarrow> transfer_results rs))))"
  using assms by (simp add: Ledger_transfer_def accepted_order_def)

lemma wp_transfer_calm:
  assumes ok: "env_ok P C posted" "tb_up C" and p: "accepted_order d l"
    and Q: "\<And>s evs r s'. tb_idle C (tb w) s \<Longrightarrow> tb_CreateTransfers C [transfer_request C l d] s = (r, s') \<Longrightarrow>
      money_events evs = [EvCreateTransfers [transfer_request C l d]] \<Longrightarrow>
      Q (case r of Inl m \<Rightarrow> Some (wrap_cause ''create transfer'' (Opaque m)) | Inr rs \<Rightarrow> transfer_results rs)
        (w\<lparr>tb := s', trace := trace w @ evs\<rparr>)"
  shows "wp (Ledger_transfer C d) Q w"
  unfolding Ledger_transfer_calls[OF p] client_CreateTransfers_def
  apply (rule wp_bnd, rule wp_ensureAccounts[OF ok], simp only: option.simps)
  apply (rule wp_bnd, rule wp_ensureAccounts[OF ok], simp only: option.simps)
  apply (intro wp_bnd wp_tb_call wp_Ret)
  subgoal for s evs sa evsa r sb
    using Q[of sa r sb "evs @ evsa @ [EvCreateTransfers [transfer_request C l d]]"] idle_trans[of C s sa "tb w"] by simp
  done

lemma wp_TransferExists_calm:
  assumes ok: "env_ok P C posted" "tb_up C"
    and Q: "\<And>s. posted s = posted (tb w) \<Longrightarrow> Q (Inr (posted (tb w) (TransferID C u) \<noteq> None)) (w\<lparr>tb := s\<rparr>)"
  shows "wp (Ledger_TransferExists C u) Q w"
  unfolding Ledger_TransferExists_def client_LookupTransfers_def
proof (intro wp_bnd wp_tb_call wp_Ret)
  fix r s assume e: "tb_LookupTransfers C [TransferID C u] (tb w) = (r, s)"
  with ok(2) obtain ts where r: "r = Inr ts" unfolding tb_up_def by (metis fst_conv)
  have tb: "tb_ok C posted" using ok(1) by (simp add: env_ok_def)
  from tb e r have "ts = [] \<longleftrightarrow> posted (tb w) (TransferID C u) = None" unfolding tb_ok_def by blast
  moreover from tb e have "posted s = posted (tb w)" unfolding tb_ok_def by (metis snd_conv)
  ultimately show "Q (case r of Inl m \<Rightarrow> Inl (wrap_cause ''lookup transfers'' (Opaque m)) | Inr ts \<Rightarrow> Inr (0 < length ts))
      (w\<lparr>tb := s, trace := trace w @ []\<rparr>)"
    using Q[of s] r by simp
qed

text \<open>\<open>all_up\<close>: the packages behave as documented, and neither the database nor the ledger fails.\<close>

definition all_up ::
  "uuid_pkg \<Rightarrow> 'tb tb_client \<Rightarrow> ('tb \<Rightarrow> u128 \<Rightarrow> tb_transfer option) \<Rightarrow> ('tb, 'x) world \<Rightarrow> bool" where
  "all_up P C posted w \<longleftrightarrow> env_ok P C posted \<and> tb_up C \<and> calm w \<and> db_wf w"

lemma all_upD:
  assumes "all_up P C posted w"
  shows "env_ok P C posted" "tb_up C" "calm w" "distinct (map ti_ID (intents w))"
    "distinct (map tr_ID (transfers w))" "distinct (map w_ID (wallets w))" "uuid_Parse P (uuid_String P u) = Some u"
  using assms by (auto simp: all_up_def db_wf_def env_ok_def uuid_ok_def)

end
