(* ===== verification/Otp_Store.thy ===== *)
theory Otp_Store
  imports World
begin

text \<open>
  \<^verbatim>\<open>src/internal/otp/store.go\<close> and \<^verbatim>\<open>src/shared/otp.go\<close>: one-time codes in Redis. The Redis
  client is a record of functions over the state \<open>'x\<close> of the remote services; SHA-256 is the
  parameter \<open>hash\<close>. What the store relies on of Redis is \<open>redis_ok\<close>, over a view of the stored
  strings and counters.
\<close>

section \<open>Redis\<close>

datatype redis_error = RNil | ROther string

text \<open>\<open>rd_TxSetDel\<close> is the pipeline of \<open>Generate\<close>: set a key with a time to live, delete another
  one, in one transaction. The results of \<open>Expire\<close> and \<open>Del\<close> are not read by the code.\<close>

record 'x redis_client =
  rd_TxSetDel :: "string \<Rightarrow> string \<Rightarrow> int \<Rightarrow> string \<Rightarrow> 'x \<Rightarrow> string option \<times> 'x"
  rd_Incr :: "string \<Rightarrow> 'x \<Rightarrow> (string + int64) \<times> 'x"
  rd_Expire :: "string \<Rightarrow> int \<Rightarrow> 'x \<Rightarrow> unit \<times> 'x"
  rd_Del :: "string list \<Rightarrow> 'x \<Rightarrow> unit \<times> 'x"
  rd_Get :: "string \<Rightarrow> 'x \<Rightarrow> (redis_error + string) \<times> 'x"

section \<open>The store\<close>

record 'x Store =
  os_Client :: "'x redis_client"
  os_hash :: "string \<Rightarrow> string"
  os_Length :: int
  os_TTL :: int
  os_MaxAttempts :: int

definition DefaultOTPLength :: int where "DefaultOTPLength = 6"

definition NewStore :: "'x redis_client \<Rightarrow> (string \<Rightarrow> string) \<Rightarrow> int \<Rightarrow> int \<Rightarrow> int \<Rightarrow> 'x Store" where
  "NewStore client hash len ttl maxAttempts = \<lparr>os_Client = client, os_hash = hash,
     os_Length = (if len \<le> 0 then DefaultOTPLength else len),
     os_TTL = (if ttl \<le> 0 then 10 * 60 * 1000000000 else ttl),
     os_MaxAttempts = (if maxAttempts \<le> 0 then 5 else maxAttempts)\<rparr>"

definition codeKey :: "string \<Rightarrow> string" where
  "codeKey identifier = ''otp:code:'' @ identifier"

definition attemptKey :: "string \<Rightarrow> string" where
  "attemptKey identifier = ''otp:attempts:'' @ identifier"

text \<open>The loop of \<open>GenerateOTP\<close> over the digits still to draw.\<close>

primrec otp_digits :: "nat \<Rightarrow> (go_error + string, ('tb, 'x) world) prog" where
  "otp_digits 0 = Ret (Inr '''')"
| "otp_digits (Suc left) = bnd (rand_Int 10) (\<lambda>r. case r of
     Inl err \<Rightarrow> Ret (Inl (wrap_cause ''generating otp'' err))
   | Inr n \<Rightarrow> bnd (otp_digits left) (\<lambda>rest. Ret (map_sum id (\<lambda>ds. digit n # ds) rest)))"

definition GenerateOTP :: "int \<Rightarrow> (go_error + string, ('tb, 'x) world) prog" where
  "GenerateOTP len = otp_digits (nat (if len \<le> 0 then DefaultOTPLength else len))"

definition Generate :: "'x Store \<Rightarrow> string \<Rightarrow> (go_error + string, ('tb, 'x) world) prog" where
  "Generate s identifier = bnd (GenerateOTP (os_Length s)) (\<lambda>r. case r of
      Inl err \<Rightarrow> Ret (Inl err)
    | Inr code \<Rightarrow>
        bnd (ext_call [] (rd_TxSetDel (os_Client s) (codeKey identifier) (os_hash s code) (os_TTL s) (attemptKey identifier)))
          (\<lambda>e. Ret (case e of Some m \<Rightarrow> Inl (wrap_cause ''storing otp'' (Opaque m)) | None \<Rightarrow> Inr code)))"

definition del_keys :: "'x Store \<Rightarrow> string \<Rightarrow> (unit, ('tb, 'x) world) prog" where
  "del_keys s identifier = ext_call [] (rd_Del (os_Client s) [codeKey identifier, attemptKey identifier])"

text \<open>The part of \<open>Verify\<close> after the attempt was counted and not refused.\<close>

definition check_code :: "'x Store \<Rightarrow> string \<Rightarrow> string \<Rightarrow> (go_error option, ('tb, 'x) world) prog" where
  "check_code s identifier code =
     bnd (ext_call [] (rd_Get (os_Client s) (codeKey identifier))) (\<lambda>r. case r of
       Inl RNil \<Rightarrow> Ret (Some (Sentinel OtpErrNotFound))
     | Inl (ROther m) \<Rightarrow> Ret (Some (wrap_cause ''reading otp'' (Opaque m)))
     | Inr stored \<Rightarrow>
         if stored \<noteq> os_hash s code then Ret (Some (Sentinel OtpErrMismatch))
         else bnd (del_keys s identifier) (\<lambda>_. Ret None))"

definition Verify :: "'x Store \<Rightarrow> string \<Rightarrow> string \<Rightarrow> (go_error option, ('tb, 'x) world) prog" where
  "Verify s identifier code =
     bnd (ext_call [] (rd_Incr (os_Client s) (attemptKey identifier))) (\<lambda>r. case r of
       Inl m \<Rightarrow> Ret (Some (wrap_cause ''counting otp attempt'' (Opaque m)))
     | Inr attempts \<Rightarrow>
         bnd (if attempts = 1
              then ext_call [] (rd_Expire (os_Client s) (attemptKey identifier) (os_TTL s)) else Ret ()) (\<lambda>_.
           if sint attempts > os_MaxAttempts s
           then bnd (del_keys s identifier) (\<lambda>_. Ret (Some (Sentinel OtpErrTooManyTries)))
           else check_code s identifier code))"

section \<open>What the store relies on of Redis\<close>

text \<open>\<open>codes x k\<close> is the string at key \<open>k\<close> and \<open>counts x k\<close> the counter (zero when absent), for calls
  between which no key runs out of time; theory \<open>Otp_Expiry\<close> has the clock. A call that fails may or may
  not have taken effect, and setting the life of a counter may end it at once.\<close>

definition redis_ok ::
  "'x redis_client \<Rightarrow> ('x \<Rightarrow> string \<Rightarrow> string option) \<Rightarrow> ('x \<Rightarrow> string \<Rightarrow> nat) \<Rightarrow> bool" where
  "redis_ok R codes counts \<longleftrightarrow>
     (\<forall>k v ttl d x e x'. rd_TxSetDel R k v ttl d x = (e, x') \<longrightarrow>
        (codes x' = (codes x)(k \<mapsto> v) \<and> counts x' = (counts x)(d := 0)) \<or>
        (e \<noteq> None \<and> codes x' = codes x \<and> counts x' = counts x)) \<and>
     (\<forall>k x n x'. rd_Incr R k x = (Inr n, x') \<longrightarrow>
        sint n = int (Suc (counts x k)) \<and> codes x' = codes x \<and> counts x' = (counts x)(k := Suc (counts x k))) \<and>
     (\<forall>k x m x'. rd_Incr R k x = (Inl m, x') \<longrightarrow>
        codes x' = codes x \<and> counts x' \<in> {counts x, (counts x)(k := Suc (counts x k))}) \<and>
     (\<forall>k ttl x. codes (snd (rd_Expire R k ttl x)) = codes x \<and>
        counts (snd (rd_Expire R k ttl x)) \<in> {counts x, (counts x)(k := 0)}) \<and>
     (\<forall>k x. codes (snd (rd_Get R k x)) = codes x \<and> counts (snd (rd_Get R k x)) = counts x) \<and>
     (\<forall>k x v x'. rd_Get R k x = (Inr v, x') \<longrightarrow> codes x k = Some v) \<and>
     (\<forall>k x x'. rd_Get R k x = (Inl RNil, x') \<longrightarrow> codes x k = None) \<and>
     (\<forall>ks x. (codes (snd (rd_Del R ks x)) = (\<lambda>k. if k \<in> set ks then None else codes x k) \<and>
        counts (snd (rd_Del R ks x)) = (\<lambda>k. if k \<in> set ks then 0 else counts x k)) \<or>
        (codes (snd (rd_Del R ks x)) = codes x \<and> counts (snd (rd_Del R ks x)) = counts x))"

end
