(* ===== verification/Events.thy ===== *)
theory Events
  imports Worker Otp_Store
begin

text \<open>
  \<^verbatim>\<open>src/internal/api/events\<close>: the in-process event bus (\<^verbatim>\<open>events.go\<close>, \<^verbatim>\<open>types.go\<close>) and the
  listeners that turn events into queued tasks. Handlers run one after the other in the
  publisher's goroutine; a panic of one is recovered.
\<close>

section \<open>types.go\<close>

definition EventUserCreated :: string where "EventUserCreated = ''user.created''"
definition EventUserLoggedIn :: string where "EventUserLoggedIn = ''user.loggedIn''"
definition EventPaymentInitialized :: string where "EventPaymentInitialized = ''payment.initialized''"
definition EventPaymentWebhookReceived :: string where "EventPaymentWebhookReceived = ''payment.webhook.received''"
definition EventTransferInitiated :: string where "EventTransferInitiated = ''transfer.initiated''"

record UserCreatedPayload =
  uc_UserID :: string
  uc_Email :: string
  uc_FirstName :: string
  uc_LastName :: string
  uc_CreatedAt :: time

record UserLoggedInPayload =
  ul_FirstName :: string
  ul_LastName :: string
  ul_Email :: string
  ul_UserID :: string

record PaymentInitializedPayload =
  pi_UserID :: string
  pi_Reference :: string
  pi_Provider :: string
  pi_AmountMinor :: int64
  pi_Currency :: string

record TransferInitiatedPayload =
  ip_TransferID :: string
  ip_UserID :: string
  ip_AmountMinor :: int64
  ip_Currency :: string

record PaymentWebhookPayload =
  pk_Reference :: string
  pk_Provider :: string
  pk_Event :: string
  pk_Status :: string
  pk_AmountMinor :: int64
  pk_Currency :: string

text \<open>The dynamic type of an event's payload.\<close>

datatype payload =
    UserCreated UserCreatedPayload
  | UserLoggedIn UserLoggedInPayload
  | PaymentInitialized PaymentInitializedPayload
  | TransferInitiated TransferInitiatedPayload
  | PaymentWebhook PaymentWebhookPayload

section \<open>events.go\<close>

datatype ended = Done | HandlerPanicked string

type_synonym 'w event_handler = "payload \<Rightarrow> (ended, 'w) prog"

type_synonym 'w EventBus = "string \<Rightarrow> 'w event_handler list"

definition NewEventBus :: "'w EventBus" where
  "NewEventBus = (\<lambda>_. [])"

definition Subscribe :: "'w EventBus \<Rightarrow> string \<Rightarrow> 'w event_handler \<Rightarrow> 'w EventBus" where
  "Subscribe b eventName handler = b(eventName := b eventName @ [handler])"

text \<open>\<open>dispatch\<close> recovers a panic, so both endings are the same to the publisher.\<close>

definition dispatch :: "'w event_handler \<Rightarrow> payload \<Rightarrow> (unit, 'w) prog" where
  "dispatch handler p = bnd (handler p) (\<lambda>e. Ret (case e of Done \<Rightarrow> () | HandlerPanicked m \<Rightarrow> ()))"

primrec dispatch_all :: "'w event_handler list \<Rightarrow> payload \<Rightarrow> (unit, 'w) prog" where
  "dispatch_all [] p = Ret ()"
| "dispatch_all (h # hs) p = bnd (dispatch h p) (\<lambda>_. dispatch_all hs p)"

definition Publish :: "'w EventBus \<Rightarrow> string \<Rightarrow> payload \<Rightarrow> (unit, 'w) prog" where
  "Publish b eventName p = dispatch_all (b eventName) p"

section \<open>email_listeners.go\<close>

definition names_data :: "string \<Rightarrow> string \<Rightarrow> (string \<times> string) list" where
  "names_data firstName lastName = [(''first_name'', firstName), (''last_name'', lastName)]"

definition welcome_email :: "UserCreatedPayload \<Rightarrow> string \<Rightarrow> EmailPayload" where
  "welcome_email event code = \<lparr>ep_To = [uc_Email event], ep_Subject = ''Welcome to DigiWallet'',
     ep_Template = EmailWelcome, ep_OTP = code, ep_FirstName = uc_FirstName event, ep_LastName = uc_LastName event,
     ep_Data = names_data (uc_FirstName event) (uc_LastName event)\<rparr>"

definition login_email :: "UserLoggedInPayload \<Rightarrow> EmailPayload" where
  "login_email event = \<lparr>ep_To = [ul_Email event], ep_Subject = ''Logged Into DigiWallet Account'',
     ep_Template = EmailLoginAlert, ep_OTP = '''', ep_FirstName = ul_FirstName event, ep_LastName = ul_LastName event,
     ep_Data = names_data (ul_FirstName event) (ul_LastName event)\<rparr>"

definition on_user_created :: "'x EmailWorker \<Rightarrow> 'x Store \<Rightarrow> ('tb, 'x) world event_handler" where
  "on_user_created E s p = (case p of
      UserCreated event \<Rightarrow>
        bnd (Generate s (uc_Email event)) (\<lambda>r. case r of
          Inl err \<Rightarrow> Ret Done
        | Inr code \<Rightarrow> bnd (Email_Enqueue E (Email_GenerateNewTask TaskTypeEmailSend (welcome_email event code))) (\<lambda>_. Ret Done))
    | _ \<Rightarrow> Ret Done)"

definition on_login_email :: "'x EmailWorker \<Rightarrow> ('tb, 'x) world event_handler" where
  "on_login_email E p = (case p of
      UserLoggedIn event \<Rightarrow>
        bnd (Email_Enqueue E (Email_GenerateNewTask TaskTypeEmailSend (login_email event))) (\<lambda>_. Ret Done)
    | _ \<Rightarrow> Ret Done)"

definition RegisterEmailListeners ::
  "('tb, 'x) world EventBus \<Rightarrow> 'x EmailWorker \<Rightarrow> 'x Store \<Rightarrow> ('tb, 'x) world EventBus" where
  "RegisterEmailListeners b E s =
     Subscribe (Subscribe b EventUserCreated (on_user_created E s)) EventUserLoggedIn (on_login_email E)"

section \<open>activity_listeners.go\<close>

text \<open>Queueing one line of a user's activity feed.\<close>

definition queue_activity :: "'x ActivityWorker \<Rightarrow> string \<Rightarrow> string \<Rightarrow> (ended, ('tb, 'x) world) prog" where
  "queue_activity A userID action =
     bnd (Activity_Enqueue A (Activity_GenerateNewTask UpdateUserActivity \<lparr>ap_UserID = userID, ap_Action = action\<rparr>))
       (\<lambda>_. Ret Done)"

definition on_login_activity :: "'x ActivityWorker \<Rightarrow> ('tb, 'x) world event_handler" where
  "on_login_activity A p = (case p of
      UserLoggedIn event \<Rightarrow> queue_activity A (ul_UserID event) ''Logged Into Account'' | _ \<Rightarrow> Ret Done)"

definition RegisterActivityListeners ::
  "('tb, 'x) world EventBus \<Rightarrow> 'x ActivityWorker \<Rightarrow> ('tb, 'x) world EventBus" where
  "RegisterActivityListeners b A = Subscribe b EventUserLoggedIn (on_login_activity A)"

section \<open>payment_listeners.go\<close>

definition on_payment_webhook :: "('tb, 'x) PaymentWorker \<Rightarrow> ('tb, 'x) world event_handler" where
  "on_payment_webhook w p = (case p of
      PaymentWebhook event \<Rightarrow>
        bnd (Payment_Enqueue w (Payment_GenerateNewTask w TaskTypePaymentWebhook
          \<lparr>pp_Reference = pk_Reference event, pp_Provider = pk_Provider event, pp_Event = pk_Event event,
           pp_Status = pk_Status event, pp_AmountMinor = pk_AmountMinor event, pp_Currency = pk_Currency event\<rparr>))
          (\<lambda>_. Ret Done)
    | _ \<Rightarrow> Ret Done)"

definition on_payment_initialized :: "('tb, 'x) PaymentWorker \<Rightarrow> ('tb, 'x) world event_handler" where
  "on_payment_initialized w p = (case p of
      PaymentInitialized event \<Rightarrow>
        bnd (Payment_Enqueue w (Payment_GenerateNewTask w TaskTypePaymentPoll
          \<lparr>pp_Reference = pi_Reference event, pp_Provider = pi_Provider event, pp_Event = '''',
           pp_Status = '''', pp_AmountMinor = 0, pp_Currency = ''''\<rparr>))
          (\<lambda>_. Ret Done)
    | _ \<Rightarrow> Ret Done)"

definition RegisterPaymentListeners ::
  "('tb, 'x) world EventBus \<Rightarrow> ('tb, 'x) PaymentWorker \<Rightarrow> ('tb, 'x) world EventBus" where
  "RegisterPaymentListeners b w =
     Subscribe (Subscribe b EventPaymentWebhookReceived (on_payment_webhook w))
       EventPaymentInitialized (on_payment_initialized w)"

definition on_payment_activity :: "'x ActivityWorker \<Rightarrow> ('tb, 'x) world event_handler" where
  "on_payment_activity A p = (case p of
      PaymentInitialized event \<Rightarrow> queue_activity A (pi_UserID event) ''Started a deposit'' | _ \<Rightarrow> Ret Done)"

definition RegisterPaymentActivityListeners ::
  "('tb, 'x) world EventBus \<Rightarrow> 'x ActivityWorker \<Rightarrow> ('tb, 'x) world EventBus" where
  "RegisterPaymentActivityListeners b A = Subscribe b EventPaymentInitialized (on_payment_activity A)"

section \<open>transfer_listeners.go\<close>

definition on_transfer_initiated :: "('tb, 'x) TransferWorker \<Rightarrow> ('tb, 'x) world event_handler" where
  "on_transfer_initiated w p = (case p of
      TransferInitiated event \<Rightarrow>
        bnd (Transfer_Enqueue w (Transfer_GenerateNewTask TaskTypeTransferExecute (ip_TransferID event))) (\<lambda>_. Ret Done)
    | _ \<Rightarrow> Ret Done)"

definition RegisterTransferListeners ::
  "('tb, 'x) world EventBus \<Rightarrow> ('tb, 'x) TransferWorker \<Rightarrow> ('tb, 'x) world EventBus" where
  "RegisterTransferListeners b w = Subscribe b EventTransferInitiated (on_transfer_initiated w)"

definition on_transfer_activity :: "'x ActivityWorker \<Rightarrow> ('tb, 'x) world event_handler" where
  "on_transfer_activity A p = (case p of
      TransferInitiated event \<Rightarrow> queue_activity A (ip_UserID event) ''Started a transfer'' | _ \<Rightarrow> Ret Done)"

definition RegisterTransferActivityListeners ::
  "('tb, 'x) world EventBus \<Rightarrow> 'x ActivityWorker \<Rightarrow> ('tb, 'x) world EventBus" where
  "RegisterTransferActivityListeners b A = Subscribe b EventTransferInitiated (on_transfer_activity A)"

section \<open>cmd/main.go\<close>

text \<open>\<open>RegisterListeners\<close>: what the server subscribes at start-up.\<close>

definition RegisterListeners ::
  "('tb, 'x) world EventBus \<Rightarrow> ('tb, 'x) AsynqWorker \<Rightarrow> 'x Store \<Rightarrow> ('tb, 'x) world EventBus" where
  "RegisterListeners b W s =
     RegisterTransferActivityListeners
       (RegisterTransferListeners
         (RegisterPaymentListeners
           (RegisterActivityListeners
             (RegisterEmailListeners b (aqw_Email W) s)
             (aqw_Activity W))
           (aqw_Payment W))
         (aqw_Transfer W))
       (aqw_Activity W)"

end
