(* ===== verification/Float64.thy ===== *)
theory Float64
  imports Money Go_Json "HOL-Library.Log_Nat"
begin

text \<open>
  Go's \<open>float64\<close> and the conversions of \<^verbatim>\<open>src/shared/money.go\<close> that use it. A finite value is the
  rational number it denotes (the two zeros are not told apart), and every operation rounds its
  exact result to nearest, ties to even, in 53 bits, as IEEE 754 binary64 does. The conversion to
  \<open>int64\<close> of a value out of range is left to the implementation by the language; the model takes
  amd64's.
\<close>

section \<open>Rounding\<close>

datatype float64 = Fin rat | Inf bool | NaN  \<comment> \<open>\<open>Inf True\<close> is minus infinity\<close>

definition exponent :: "rat \<Rightarrow> int" where
  "exponent q = (let (a, b) = quotient_of q; k = bitlen a - bitlen b in if 2 powi k \<le> q then k else k - 1)"

definition round_half_even :: "rat \<Rightarrow> int" where
  "round_half_even y = (let f = \<lfloor>y\<rfloor>; d = y - of_int f in
     if d < 1 / 2 then f else if 1 / 2 < d then f + 1 else if even f then f else f + 1)"

definition fl :: "rat \<Rightarrow> float64" where
  "fl x = (if x = 0 then Fin 0 else
     let e = max (exponent \<bar>x\<bar>) (- 1022); ulp = 2 powi (e - 52); r = of_int (round_half_even (x / ulp)) * ulp
     in if \<bar>r\<bar> \<ge> 2 ^ 1024 then Inf (x < 0) else Fin r)"

section \<open>The operations the code uses\<close>

definition of_int64 :: "int64 \<Rightarrow> float64" where
  "of_int64 m = fl (of_int (sint m))"

text \<open>\<open>x * minorUnits\<close> and \<open>x / minorUnits\<close>.\<close>

fun times_100 :: "float64 \<Rightarrow> float64" where
  "times_100 (Fin q) = fl (q * of_int minorUnits)"
| "times_100 x = x"

fun over_100 :: "float64 \<Rightarrow> float64" where
  "over_100 (Fin q) = fl (q / of_int minorUnits)"
| "over_100 x = x"

text \<open>\<open>math.Round\<close>: half away from zero.\<close>

definition round_away :: "rat \<Rightarrow> int" where
  "round_away q = (if 0 \<le> q then \<lfloor>q + 1 / 2\<rfloor> else - \<lfloor>- q + 1 / 2\<rfloor>)"

text \<open>\<open>Money(math.Round(x))\<close>.\<close>

fun round_to_int64 :: "float64 \<Rightarrow> int64" where
  "round_to_int64 (Fin q) = (let i = round_away q in
     if - (2 ^ 63) \<le> i \<and> i < 2 ^ 63 then word_of_int i else word_of_int (- (2 ^ 63)))"
| "round_to_int64 _ = word_of_int (- (2 ^ 63))"

definition NewMoney :: "float64 \<Rightarrow> Money" where
  "NewMoney major = round_to_int64 (times_100 major)"

definition Major :: "Money \<Rightarrow> float64" where
  "Major m = over_100 (of_int64 m)"

section \<open>Parsing\<close>

text \<open>\<open>strconv.ParseFloat(s, 64)\<close> on decimal literals: sign, digits with an optional point, and an
  optional exponent. Infinities, \<open>NaN\<close> and hexadecimal literals are not modelled; a value that
  overflows is an error.\<close>

fun span_digits :: "string \<Rightarrow> string \<times> string" where
  "span_digits [] = ([], [])"
| "span_digits (c # cs) = (if is_digit c then (case span_digits cs of (ds, rest) \<Rightarrow> (c # ds, rest)) else ([], c # cs))"

definition digits_value :: "string \<Rightarrow> nat" where
  "digits_value ds = (case undec_from 0 ds of None \<Rightarrow> 0 | Some n \<Rightarrow> n)"

definition parse_sign :: "string \<Rightarrow> bool \<times> string" where
  "parse_sign s = (case s of [] \<Rightarrow> (False, [])
     | c # cs \<Rightarrow> if c = CHR ''-'' then (True, cs) else if c = CHR ''+'' then (False, cs) else (False, s))"

definition parse_exponent :: "string \<Rightarrow> int option" where
  "parse_exponent s = (case s of [] \<Rightarrow> Some 0
     | c # cs \<Rightarrow> if c = CHR ''e'' \<or> c = CHR ''E''
         then (let (neg, ds) = parse_sign cs in
               map_option (\<lambda>n. if neg then - int n else int n) (undec ds))
         else None)"

definition parse_decimal :: "string \<Rightarrow> rat option" where
  "parse_decimal s =
     (let (neg, s1) = parse_sign s; (whole, s2) = span_digits s1;
          (frac, s3) = (case s2 of c # cs \<Rightarrow> if c = CHR ''.'' then span_digits cs else ([], s2) | [] \<Rightarrow> ([], []))
      in if whole = [] \<and> frac = [] then None
         else map_option (\<lambda>e. (if neg then - 1 else 1) *
              of_nat (digits_value (whole @ frac)) * 10 powi (e - int (length frac)))
            (parse_exponent s3))"

definition ParseFloat :: "string \<Rightarrow> float64 option" where
  "ParseFloat s = (case parse_decimal s of None \<Rightarrow> None
     | Some q \<Rightarrow> (case fl q of Inf b \<Rightarrow> None | x \<Rightarrow> Some x))"

definition ParseMoney :: "string \<Rightarrow> go_error + Money" where
  "ParseMoney s = (case ParseFloat s of
      None \<Rightarrow> Inl (wrap_cause (''invalid amount '' @ s) (Opaque ''strconv.ParseFloat''))
    | Some major \<Rightarrow> Inr (NewMoney major))"

text \<open>\<open>UnmarshalJSON\<close>: a number, \<open>null\<close> (which leaves the zero value), or a string with a number.\<close>

fun UnmarshalJSON :: "json \<Rightarrow> go_error + Money" where
  "UnmarshalJSON (JNum lit) = (case ParseFloat lit of
      Some major \<Rightarrow> Inr (NewMoney major)
    | None \<Rightarrow> Inl (wrap_cause ''unmarshal money'' (Opaque ''json: cannot unmarshal number'')))"
| "UnmarshalJSON JNull = Inr (NewMoney (Fin 0))"
| "UnmarshalJSON (JStr s) = ParseMoney s"
| "UnmarshalJSON _ = Inl (wrap_cause ''unmarshal money'' (Opaque ''json: cannot unmarshal''))"

section \<open>The error of rounding\<close>

lemma bitlen_powi:
  assumes "0 < a"
  shows "(2::rat) powi (bitlen a - 1) \<le> of_int a" "of_int a < (2::rat) powi (bitlen a)"
proof -
  have pos: "1 \<le> bitlen a" using assms by (simp add: bitlen_alt_def)
  have "of_int (2 ^ nat (bitlen a - 1)) \<le> (of_int a :: rat)" "(of_int a :: rat) < of_int (2 ^ nat (bitlen a))"
    using bitlen_bounds[OF assms] by (simp_all only: of_int_le_iff of_int_less_iff)
  then show "(2::rat) powi (bitlen a - 1) \<le> of_int a" "of_int a < (2::rat) powi (bitlen a)"
    using pos by (simp_all add: power_int_nonneg_exp)
qed

lemma exponent_bounds:
  assumes "0 < q"
  shows "2 powi exponent q \<le> q" "q < 2 powi (exponent q + 1)"
proof -
  obtain a b where ab: "quotient_of q = (a, b)" by fastforce
  then have b: "0 < b" and q: "q = of_int a / of_int b"
    by (rule quotient_of_denom_pos, rule quotient_of_div)
  with assms have a: "0 < a" by (simp add: zero_less_divide_iff)
  define k where "k = bitlen a - bitlen b"
  note A = bitlen_powi[OF a] and B = bitlen_powi[OF b]
  have b': "(0::rat) < of_int b" using b by simp
  have "(2::rat) powi (k - 1) * of_int b \<le> 2 powi (k - 1) * 2 powi (bitlen b)"
    using B(2) by (intro mult_left_mono) simp_all
  also have "\<dots> = 2 powi (bitlen a - 1)" by (simp add: k_def flip: power_int_add)
  finally have lo: "2 powi (k - 1) \<le> q" using A(1) b' by (simp add: q pos_le_divide_eq)
  have "of_int a < (2::rat) powi (k + 1) * 2 powi (bitlen b - 1)"
    using A(2) by (simp add: k_def flip: power_int_add)
  also have "\<dots> \<le> 2 powi (k + 1) * of_int b" using B(1) by (intro mult_left_mono) simp_all
  finally have hi: "q < 2 powi (k + 1)" using b' by (simp add: q pos_divide_less_eq)
  have e: "exponent q = (if 2 powi k \<le> q then k else k - 1)"
    by (simp add: exponent_def ab k_def Let_def)
  show "2 powi exponent q \<le> q" using lo by (simp add: e)
  show "q < 2 powi (exponent q + 1)" using hi by (simp add: e)
qed

lemma round_half_even_error: "\<bar>of_int (round_half_even y) - y\<bar> \<le> 1 / 2"
proof -
  have "of_int \<lfloor>y\<rfloor> \<le> y" "y < of_int \<lfloor>y\<rfloor> + 1" by linarith+
  then show ?thesis by (auto simp: round_half_even_def Let_def abs_le_iff)
qed

lemma fl_error:
  assumes "2 powi (- 1022) \<le> \<bar>x\<bar>" "\<bar>x\<bar> \<le> 2 ^ 1000"
  shows "\<exists>r. fl x = Fin r \<and> \<bar>r - x\<bar> \<le> \<bar>x\<bar> / 2 ^ 53"
proof -
  define e where "e = exponent \<bar>x\<bar>"
  have x0: "0 < \<bar>x\<bar>" using assms(1) by (rule less_le_trans[rotated]) simp
  note b = exponent_bounds[OF x0, folded e_def]
  have e: "- 1022 \<le> e"
  proof (rule ccontr)
    assume "\<not> - 1022 \<le> e"
    then have "(2::rat) powi (e + 1) \<le> 2 powi (- 1022)" by (intro power_int_increasing) simp_all
    with b(2) assms(1) show False by linarith
  qed
  define ulp where "ulp = (2::rat) powi (e - 52)"
  define r where "r = of_int (round_half_even (x / ulp)) * ulp"
  have ulp: "0 < ulp" by (simp add: ulp_def)
  have "(of_int (round_half_even (x / ulp)) - x / ulp) * ulp = r - x"
    using ulp by (simp add: r_def left_diff_distrib)
  then have "\<bar>r - x\<bar> = \<bar>of_int (round_half_even (x / ulp)) - x / ulp\<bar> * ulp"
    using ulp by (metis abs_mult abs_of_pos)
  also have "\<dots> \<le> 1 / 2 * ulp" using round_half_even_error[of "x / ulp"] ulp by (intro mult_right_mono) simp_all
  also have "\<dots> = 2 powi e / 2 ^ 53"
    by (simp add: ulp_def power_int_diff)
  also have "\<dots> \<le> \<bar>x\<bar> / 2 ^ 53" using b(1) by (intro divide_right_mono) simp_all
  finally have err: "\<bar>r - x\<bar> \<le> \<bar>x\<bar> / 2 ^ 53" .
  have "\<bar>r\<bar> \<le> \<bar>x\<bar> + \<bar>x\<bar> / 2 ^ 53" using err abs_triangle_ineq[of x "r - x"] by simp
  also have "\<dots> \<le> 2 * 2 ^ 1000" using assms(2) by simp
  also have "\<dots> < (2::rat) ^ 1024" by simp
  finally have "\<bar>r\<bar> < 2 ^ 1024" .
  then have "fl x = Fin r"
    using e x0 by (simp add: fl_def Let_def r_def ulp_def e_def max_absorb1)
  with err show ?thesis by blast
qed

lemma round_half_even_int: "round_half_even (of_int i) = i"
  by (simp add: round_half_even_def)

lemma fl_int:
  assumes "\<bar>v\<bar> < 2 ^ 53"
  shows "fl (of_int v) = Fin (of_int v)"
proof (cases "v = 0")
  case False
  define e where "e = exponent \<bar>of_int v\<bar>"
  have x0: "0 < \<bar>of_int v :: rat\<bar>" and x1: "1 \<le> \<bar>of_int v :: rat\<bar>" using False by simp_all
  note b = exponent_bounds[OF x0, folded e_def]
  have e0: "0 \<le> e"
  proof (rule ccontr)
    assume "\<not> 0 \<le> e"
    then have "(2::rat) powi (e + 1) \<le> 2 powi 0" by (intro power_int_increasing) simp_all
    with b(2) x1 show False by simp
  qed
  have e53: "e < 53"
  proof (rule ccontr)
    assume "\<not> e < 53"
    then have "(2::rat) powi 53 \<le> 2 powi e" by (intro power_int_increasing) simp_all
    with b(1) have "of_int (2 ^ 53) \<le> \<bar>of_int v :: rat\<bar>" by (simp add: power_int_def)
    with assms show False by (simp flip: of_int_abs del: of_int_power)
  qed
  have "of_int v / (2::rat) powi (e - 52) = of_int (v * 2 ^ nat (52 - e))"
    using e53 by (simp add: power_int_diff power_int_def nat_diff_distrib' divide_simps flip: power_add)
  then have "round_half_even (of_int v / 2 powi (e - 52)) = v * 2 ^ nat (52 - e)"
    by (simp only: round_half_even_int)
  moreover have "of_int (v * 2 ^ nat (52 - e)) * (2::rat) powi (e - 52) = of_int v"
    using \<open>of_int v / (2::rat) powi (e - 52) = of_int (v * 2 ^ nat (52 - e))\<close>
    by (metis nonzero_eq_divide_eq power_int_not_zero zero_neq_numeral)
  moreover have "\<bar>of_int v :: rat\<bar> < 2 ^ 1024"
  proof -
    have "\<bar>of_int v :: rat\<bar> < of_int (2 ^ 53)" using assms by (simp only: of_int_less_iff flip: of_int_abs)
    also have "\<dots> < (2::rat) ^ 1024" by simp
    finally show ?thesis .
  qed
  ultimately show ?thesis
    using False e0 by (simp add: fl_def Let_def max_absorb1 del: of_int_mult of_int_power flip: e_def)
qed (simp add: fl_def)

lemma round_away_near:
  assumes "\<bar>q - of_int v\<bar> < 1 / 2"
  shows "round_away q = v"
proof (cases "0 \<le> q")
  case True
  have "of_int v \<le> q + 1 / 2" "q + 1 / 2 < of_int v + 1" using assms by linarith+
  then have "\<lfloor>q + 1 / 2\<rfloor> = v" by (rule floor_unique)
  with True show ?thesis by (simp add: round_away_def)
next
  case False
  have "of_int (- v) \<le> - q + 1 / 2" "- q + 1 / 2 < of_int (- v) + 1" unfolding of_int_minus using assms by linarith+
  then have "\<lfloor>- q + 1 / 2\<rfloor> = - v" by (rule floor_unique)
  with False show ?thesis by (simp add: round_away_def)
qed

section \<open>Round trips\<close>

text \<open>An amount below \<open>2 ^ 50\<close> minor units survives the division by 100, the rounding of the
  quotient, the multiplication by 100 and its rounding.\<close>

lemma NewMoney_hundredths:
  assumes "\<bar>v\<bar> < 2 ^ 50"
  shows "\<exists>q. fl (of_int v / 100) = Fin q \<and> NewMoney (Fin q) = word_of_int v"
proof (cases "v = 0")
  case True
  have "round_away 0 = 0" by (rule round_away_near) simp
  with True show ?thesis by (simp add: fl_def NewMoney_def Let_def)
next
  case False
  let ?v = "of_int v :: rat"
  have v: "1 \<le> \<bar>?v\<bar>" "\<bar>?v\<bar> < 2 ^ 50"
  proof -
    show "1 \<le> \<bar>?v\<bar>" using False by simp
    have "\<bar>?v\<bar> < of_int (2 ^ 50)" using assms by (simp only: of_int_less_iff flip: of_int_abs)
    then show "\<bar>?v\<bar> < 2 ^ 50" by simp
  qed
  have small: "(2::rat) powi (- 1022) \<le> 1 / 200"
  proof -
    have "(2::rat) powi (- 1022) \<le> 2 powi (- 8)" by (rule power_int_increasing) simp_all
    also have "(2::rat) powi (- 8) \<le> 1 / 200" by (simp add: power_int_def power_one_over)
    finally show ?thesis .
  qed
  have big: "(2::rat) ^ 60 \<le> 2 ^ 1000" by (rule power_increasing) simp_all
  have "\<bar>?v / 100\<bar> = \<bar>?v\<bar> / 100" by simp
  then obtain q where q: "fl (?v / 100) = Fin q" "\<bar>q - ?v / 100\<bar> \<le> \<bar>?v\<bar> / 100 / 2 ^ 53"
    using fl_error[of "?v / 100"] v small big by fastforce
  have near: "\<bar>q * 100 - ?v\<bar> \<le> \<bar>?v\<bar> / 2 ^ 53"
  proof -
    have "q * 100 - ?v = (q - ?v / 100) * 100" by (simp add: left_diff_distrib)
    then have "\<bar>q * 100 - ?v\<bar> = \<bar>q - ?v / 100\<bar> * 100" by (simp only: abs_mult)
    with q(2) show ?thesis by simp
  qed
  have "\<bar>?v\<bar> / 2 ^ 53 \<le> \<bar>?v\<bar> / 2" by (intro divide_left_mono) simp_all
  with near have half: "\<bar>q * 100 - ?v\<bar> \<le> \<bar>?v\<bar> / 2" by linarith
  have q1: "1 / 2 \<le> \<bar>q * 100\<bar>" using half v(1) by linarith
  have q2: "\<bar>q * 100\<bar> \<le> 2 * \<bar>?v\<bar>" using half by linarith
  have range: "2 powi (- 1022) \<le> \<bar>q * 100\<bar>" "\<bar>q * 100\<bar> \<le> 2 ^ 1000"
  proof -
    show "2 powi (- 1022) \<le> \<bar>q * 100\<bar>" using small q1 by linarith
    have "\<bar>q * 100\<bar> \<le> 2 ^ 60" using q2 v(2) by simp
    then show "\<bar>q * 100\<bar> \<le> 2 ^ 1000" using big by (rule order.trans)
  qed
  from fl_error[OF range] obtain b where b: "fl (q * 100) = Fin b" "\<bar>b - q * 100\<bar> \<le> \<bar>q * 100\<bar> / 2 ^ 53" by blast
  have "\<bar>q * 100\<bar> / 2 ^ 53 \<le> 2 * \<bar>?v\<bar> / 2 ^ 53" using q2 by (intro divide_right_mono) simp_all
  with b(2) near have "\<bar>b - ?v\<bar> \<le> 3 * (\<bar>?v\<bar> / 2 ^ 53)" by linarith
  also have "\<dots> < 1 / 2" using v(2) by simp
  finally have "\<bar>b - ?v\<bar> < 1 / 2" .
  then have "round_away b = v" by (rule round_away_near)
  then have "NewMoney (Fin q) = word_of_int v"
    using b(1) assms by (simp add: NewMoney_def minorUnits_def Let_def abs_less_iff)
  with q(1) show ?thesis by blast
qed

lemma word_of_sint: "word_of_int (sint (m :: int64)) = m"
  by simp

lemma NewMoney_Major:
  assumes "\<bar>sint m\<bar> < 2 ^ 50"
  shows "NewMoney (Major m) = m"
proof -
  have "of_int64 m = Fin (of_int (sint m))" using assms fl_int[of "sint m"] by (simp add: of_int64_def)
  then have "Major m = fl (of_int (sint m) / 100)" by (simp add: Major_def minorUnits_def)
  with NewMoney_hundredths[OF assms] show ?thesis by auto
qed

lemma span_digits_app:
  "(\<And>c. c \<in> set ds \<Longrightarrow> is_digit c) \<Longrightarrow> rest = [] \<or> \<not> is_digit (hd rest) \<Longrightarrow>
   span_digits (ds @ rest) = (ds, rest)"
proof (induction ds)
  case Nil
  then show ?case by (cases rest) auto
qed auto

lemma digits_value_dec:
  "a < 10 \<Longrightarrow> b < 10 \<Longrightarrow> digits_value (dec n @ [digit a, digit b]) = 100 * n + 10 * a + b"
  by (simp add: digits_value_def undec_from_append undec_from_dec is_digit_digit digit_code)

lemma parse_decimal_dec:
  assumes "a < 10" "b < 10"
  shows "parse_decimal ((if neg then ''-'' else '''') @ dec n @ ''.'' @ [digit a, digit b]) =
    Some ((if neg then - 1 else 1) * of_nat (100 * n + 10 * a + b) / 100)"
proof -
  let ?tail = "''.'' @ [digit a, digit b]"
  have sign: "parse_sign ((if neg then ''-'' else '''') @ dec n @ ?tail) = (neg, dec n @ ?tail)"
    using hd_dec_not_sign[of n] by (cases "dec n") (auto simp: parse_sign_def)
  have dot: "\<not> is_digit (CHR ''.'')" by (simp add: is_digit_def code_of_def)
  have whole: "span_digits (dec n @ ?tail) = (dec n, ?tail)"
    by (rule span_digits_app) (auto simp: dot dest: dec_digits)
  have frac: "span_digits [digit a, digit b] = ([digit a, digit b], [])"
    using assms by (simp add: is_digit_digit)
  have "parse_decimal ((if neg then ''-'' else '''') @ dec n @ ?tail) =
      Some ((if neg then - 1 else 1) * of_nat (digits_value (dec n @ [digit a, digit b])) * 10 powi (0 - int 2))"
    unfolding parse_decimal_def sign Let_def prod.case whole
    using frac by (simp add: parse_exponent_def)
  then show ?thesis by (simp add: digits_value_dec assms power_int_def power2_eq_square)
qed

lemma UnmarshalJSON_MarshalJSON:
  assumes "\<bar>sint m\<bar> < 2 ^ 50"
  shows "UnmarshalJSON (JNum (MarshalJSON m)) = Inr m" "ParseMoney (Money_String m) = Inr m"
proof -
  define n where "n = nat \<bar>sint m\<bar>"
  have n: "100 * (n div 100) + 10 * (n mod 100 div 10) + n mod 10 = n"
  proof -
    have "n mod 100 mod 10 = n mod 10" by (simp add: mod_mod_cancel)
    then show ?thesis using div_mult_mod_eq[of n 100] div_mult_mod_eq[of "n mod 100" 10] by linarith
  qed
  have v: "(if sint m < 0 then - 1 else 1) * of_nat n / 100 = of_int (sint m) / (100 :: rat)"
    unfolding n_def by (cases "sint m < 0") simp_all
  have "sint m \<noteq> - (2 ^ 63)" using assms by auto
  then have "parse_decimal (Money_String m) = Some (of_int (sint m) / 100)"
    using parse_decimal_dec[of "n mod 100 div 10" "n mod 10" "sint m < 0" "n div 100"]
    by (simp add: Money_String_digits n v flip: n_def)
  moreover obtain q where "fl (of_int (sint m) / 100) = Fin q" "NewMoney (Fin q) = m"
    using NewMoney_hundredths[OF assms] by auto
  ultimately have "ParseFloat (Money_String m) = Some (Fin q)" "NewMoney (Fin q) = m"
    by (simp_all add: ParseFloat_def)
  then show "UnmarshalJSON (JNum (MarshalJSON m)) = Inr m" "ParseMoney (Money_String m) = Inr m"
    by (simp_all add: MarshalJSON_def ParseMoney_def)
qed

end
