(* ===== verification/Service_Base.thy ===== *)
theory Service_Base
  imports Events Float64
begin

text \<open>
  \<^verbatim>\<open>src/internal/api/services/services.go\<close>, \<^verbatim>\<open>utils.go\<close>, \<^verbatim>\<open>jwt.go\<close>, \<^verbatim>\<open>types.go\<close> and
  \<^verbatim>\<open>activity-service.go\<close>: what every service operation uses. An operation returns an
  \<^typ>\<open>AppError\<close> or its result; \<open>caller\<close> is the \<open>user_id\<close> the middleware put on the context, when
  there is one. bcrypt and the JWT library are records of functions.
\<close>

section \<open>Packages\<close>

record 'x bcrypt_pkg =
  bc_GenerateFromPassword :: "string \<Rightarrow> 'x \<Rightarrow> (go_error + string) \<times> 'x"
  bc_CompareHashAndPassword :: "string \<Rightarrow> string \<Rightarrow> go_error option"

record jwt_claims =
  jc_sub :: "string option"
  jc_email :: string
  jc_first_name :: string
  jc_last_name :: string
  jc_is_verified :: bool
  jc_token_type :: "string option"
  jc_exp :: int  \<comment> \<open>seconds since the Unix epoch\<close>

text \<open>\<open>jw_VerifyToken\<close> checks the signature, and the expiry against the given instant.\<close>

record jwt_pkg =
  jw_Encode :: "jwt_claims \<Rightarrow> go_error + string"
  jw_VerifyToken :: "string \<Rightarrow> time \<Rightarrow> go_error + jwt_claims"

section \<open>The service\<close>

record ('tb, 'x) Service =
  sv_uuid :: uuid_pkg
  sv_Bus :: "('tb, 'x) world EventBus option"
  sv_Store :: "'x Store"
  sv_bcrypt :: "'x bcrypt_pkg"
  sv_jwt :: jwt_pkg
  sv_AccessTokenExpiry :: uint64
  sv_RefreshTokenExpiry :: uint64
  sv_Provider :: "'x PaymentProvider option"
  sv_CallbackURL :: string
  sv_Ledger :: "'tb tb_client option"

text \<open>\<open>NewService\<close>: the expiries default to 1 and 24 hours.\<close>

definition NewService :: "('tb, 'x) Service \<Rightarrow> ('tb, 'x) Service" where
  "NewService cfg = cfg\<lparr>
     sv_AccessTokenExpiry := (if sv_AccessTokenExpiry cfg < 1 then 1 else sv_AccessTokenExpiry cfg),
     sv_RefreshTokenExpiry := (if sv_RefreshTokenExpiry cfg < 1 then 24 else sv_RefreshTokenExpiry cfg)\<rparr>"

definition PublishEvent :: "('tb, 'x) Service \<Rightarrow> string \<Rightarrow> payload \<Rightarrow> (unit, ('tb, 'x) world) prog" where
  "PublishEvent s eventName p = (case sv_Bus s of None \<Rightarrow> Ret () | Some b \<Rightarrow> Publish b eventName p)"

definition app_fail :: "int \<Rightarrow> string \<Rightarrow> go_error \<Rightarrow> (AppError + 'a, 'w) prog" where
  "app_fail code msg err = Ret (Inl (app_error code msg (Some err)))"

definition CallerID :: "string option \<Rightarrow> AppError + string" where
  "CallerID caller = (case caller of
      None \<Rightarrow> Inl (app_error StatusUnauthorized ''Unauthorized'' (Some (Opaque ''no user_id on request context'')))
    | Some userid \<Rightarrow>
        if userid = '''' then Inl (app_error StatusUnauthorized ''Unauthorized'' (Some (Opaque ''no user_id on request context'')))
        else Inr userid)"

text \<open>An operation for the authenticated caller.\<close>

definition as_caller ::
  "string option \<Rightarrow> (string \<Rightarrow> (AppError + 'a, 'w) prog) \<Rightarrow> (AppError + 'a, 'w) prog" where
  "as_caller caller op = (case CallerID caller of Inl e \<Rightarrow> Ret (Inl e) | Inr userID \<Rightarrow> op userID)"

section \<open>The service's own types\<close>

record ServiceUser =
  su_ID :: string
  su_FirstName :: string
  su_LastName :: string
  su_Email :: string
  su_PhoneNumber :: "string option"
  su_DateOfBirth :: "time option"
  su_ProfilePhotoURL :: "string option"
  su_Gender :: string
  su_IsVerified :: bool

definition MapUserToServiceDomain :: "User \<Rightarrow> ServiceUser" where
  "MapUserToServiceDomain user = \<lparr>su_ID = U_ID user, su_FirstName = U_FirstName user, su_LastName = U_LastName user,
     su_Email = U_Email user, su_PhoneNumber = U_PhoneNumber user, su_DateOfBirth = U_DateOfBirth user,
     su_ProfilePhotoURL = U_ProfilePhotoURL user, su_Gender = U_Gender user, su_IsVerified = U_IsVerified user\<rparr>"

record ServiceActivity =
  sa_ID :: nat
  sa_UserID :: string
  sa_Action :: string
  sa_CreatedAt :: string

definition MapActivityToServiceDomain :: "Activity \<Rightarrow> ServiceActivity" where
  "MapActivityToServiceDomain activity = \<lparr>sa_ID = A_Id activity, sa_UserID = A_UserID activity,
     sa_Action = A_Action activity, sa_CreatedAt = A_CreatedAt activity\<rparr>"

record ActivityList =
  al_Activities :: "ServiceActivity list"
  al_Total :: int64
  al_Limit :: int64
  al_Offset :: int64

section \<open>utils.go\<close>

definition HashPassword :: "('tb, 'x) Service \<Rightarrow> string \<Rightarrow> (go_error + string, ('tb, 'x) world) prog" where
  "HashPassword s password = ext_call [] (bc_GenerateFromPassword (sv_bcrypt s) password)"

definition CompareHash :: "('tb, 'x) Service \<Rightarrow> string \<Rightarrow> string \<Rightarrow> go_error option" where
  "CompareHash s hash password = bc_CompareHashAndPassword (sv_bcrypt s) hash password"

definition ValidatOwner ::
  "('tb, 'x) Service \<Rightarrow> string \<Rightarrow> string \<Rightarrow> (AppError + ServiceUser, ('tb, 'x) world) prog" where
  "ValidatOwner s accountid userid =
     (if accountid \<noteq> userid
      then app_fail StatusForbidden ''User cant delete another account'' (Opaque ''UserId and Account Id dont match'')
      else bnd (GetUserByID (sv_uuid s) accountid) (\<lambda>r. case r of
          Inl err \<Rightarrow> app_fail StatusForbidden ''Account Doesnt Exist'' (Opaque ''Account Id not found'')
        | Inr user \<Rightarrow> Ret (Inr (MapUserToServiceDomain user))))"

section \<open>jwt.go\<close>

definition TokenTypeAccess :: string where "TokenTypeAccess = ''access''"
definition TokenTypeRefresh :: string where "TokenTypeRefresh = ''refresh''"

text \<open>\<open>time.Hour * time.Duration(hours)\<close> in 64-bit arithmetic, and the expiry in seconds.\<close>

definition token_exp :: "time \<Rightarrow> uint64 \<Rightarrow> int" where
  "token_exp t hours = (t + sint (3600000000000 * hours)) div 1000000000"

definition token_claims :: "User \<Rightarrow> string \<Rightarrow> int \<Rightarrow> jwt_claims" where
  "token_claims user kind expiry = \<lparr>jc_sub = Some (U_ID user), jc_email = U_Email user,
     jc_first_name = U_FirstName user, jc_last_name = U_LastName user, jc_is_verified = U_IsVerified user,
     jc_token_type = Some kind, jc_exp = expiry\<rparr>"

definition GenerateAccessToken :: "('tb, 'x) Service \<Rightarrow> User \<Rightarrow> (AppError + string, ('tb, 'x) world) prog" where
  "GenerateAccessToken s user = bnd time_Now (\<lambda>t.
     case jw_Encode (sv_jwt s) (token_claims user TokenTypeAccess (token_exp t (sv_AccessTokenExpiry s))) of
       Inl err \<Rightarrow> app_fail StatusInternalServerError ''Failed To generate Access token'' err
     | Inr token \<Rightarrow> Ret (Inr token))"

definition GenerateRefreshToken :: "('tb, 'x) Service \<Rightarrow> User \<Rightarrow> (AppError + string, ('tb, 'x) world) prog" where
  "GenerateRefreshToken s user = bnd time_Now (\<lambda>t.
     case jw_Encode (sv_jwt s) (token_claims user TokenTypeRefresh (token_exp t (sv_RefreshTokenExpiry s))) of
       Inl err \<Rightarrow> app_fail StatusInternalServerError ''Failed To generate Refresh token'' err
     | Inr token \<Rightarrow> Ret (Inr token))"

definition ParseRefreshToken :: "('tb, 'x) Service \<Rightarrow> string \<Rightarrow> (AppError + string, ('tb, 'x) world) prog" where
  "ParseRefreshToken s tokenString = bnd time_Now (\<lambda>t.
     let unauthorized = app_fail StatusUnauthorized ''Invalid Or Expired Refresh Token'' in
     case jw_VerifyToken (sv_jwt s) tokenString t of
       Inl err \<Rightarrow> unauthorized err
     | Inr token \<Rightarrow>
         if jc_token_type token \<noteq> Some TokenTypeRefresh then unauthorized (Opaque ''token is not a refresh token'')
         else (case jc_sub token of
           None \<Rightarrow> unauthorized (Opaque ''refresh token has no subject'')
         | Some subject \<Rightarrow>
             if subject = '''' then unauthorized (Opaque ''refresh token has no subject'')
             else Ret (Inr subject)))"

section \<open>Paging and the activity feed\<close>

definition DefaultActivityLimit :: int64 where "DefaultActivityLimit = 20"
definition MaxActivityLimit :: int64 where "MaxActivityLimit = 100"

record ActivityPageParam =
  pg_Limit :: "int64 option"
  pg_Offset :: "int64 option"

text \<open>\<open>Normalise\<close>, also of a nil pointer.\<close>

definition Normalise :: "ActivityPageParam option \<Rightarrow> int64 \<times> int64" where
  "Normalise p =
     (let limit0 = (case p of None \<Rightarrow> DefaultActivityLimit | Some q \<Rightarrow>
            (case pg_Limit q of None \<Rightarrow> DefaultActivityLimit | Some l \<Rightarrow> l));
          limit1 = (if sint limit0 < 1 then DefaultActivityLimit else limit0);
          limit = (if sint limit1 > sint MaxActivityLimit then MaxActivityLimit else limit1);
          offset = (case p of None \<Rightarrow> 0 | Some q \<Rightarrow> (case pg_Offset q of None \<Rightarrow> 0
            | Some off \<Rightarrow> if sint off > 0 then off else 0))
      in (limit, offset))"

definition GetMyActivities ::
  "('tb, 'x) Service \<Rightarrow> string option \<Rightarrow> ActivityPageParam option \<Rightarrow>
   (AppError + ActivityList, ('tb, 'x) world) prog" where
  "GetMyActivities s caller page = as_caller caller (\<lambda>userID.
     let (limit, offset) = Normalise page in
     bnd (GetUserActivities (sv_uuid s) userID limit offset) (\<lambda>r. case r of
       Inl err \<Rightarrow>
         if errors_Is err ErrNotFound then app_fail StatusNotFound ''User Not Found'' err
         else app_fail StatusInternalServerError ''Could Not Load Activities'' err
     | Inr (acts, n) \<Rightarrow> Ret (Inr \<lparr>al_Activities = map MapActivityToServiceDomain acts, al_Total = n, al_Limit = limit,
         al_Offset = offset\<rparr>)))"

lemma Normalise_bounds:
  assumes "Normalise p = (limit, offset)"
  shows "1 \<le> sint limit" "sint limit \<le> 100" "0 \<le> sint offset"
proof -
  define l where "l = (case p of None \<Rightarrow> DefaultActivityLimit | Some q \<Rightarrow>
      (case pg_Limit q of None \<Rightarrow> DefaultActivityLimit | Some l \<Rightarrow> l))"
  have "limit = (let limit1 = (if sint l < 1 then DefaultActivityLimit else l)
      in if sint limit1 > sint MaxActivityLimit then MaxActivityLimit else limit1)"
    using assms unfolding Normalise_def Let_def l_def[symmetric] by simp
  then show "1 \<le> sint limit" "sint limit \<le> 100"
    by (auto simp: Let_def DefaultActivityLimit_def MaxActivityLimit_def)
  show "0 \<le> sint offset"
    using assms by (auto simp: Normalise_def Let_def split: option.splits if_splits)
qed

end
