(* ===== verification/User_Service.thy ===== *)
theory User_Service
  imports Service_Base
begin

text \<open>
  \<^verbatim>\<open>src/internal/api/services/user-service.go\<close>: registration, one-time codes, login, token
  renewal, update and deletion.
\<close>

record UserInput =
  in_FirstName :: string
  in_LastName :: string
  in_Email :: string
  in_Password :: string
  in_PhoneNumber :: "string option"
  in_DateOfBirth :: "string option"
  in_ProfilePhotoURL :: "string option"
  in_Gender :: "string option"

record UpdateUserParam =
  up_FirstName :: "string option"
  up_LastName :: "string option"
  up_PhoneNumber :: "string option"
  up_ProfilePhotoURL :: "string option"
  up_Gender :: "string option"

record LoginSuccessful =
  lo_AccessToken :: string
  lo_RefreshToken :: string
  lo_User :: ServiceUser

text \<open>The two tokens, as registration, login and renewal issue them.\<close>

definition issue_tokens ::
  "('tb, 'x) Service \<Rightarrow> User \<Rightarrow> (AppError + LoginSuccessful, ('tb, 'x) world) prog" where
  "issue_tokens s user =
     bnd (GenerateAccessToken s user) (\<lambda>a. case a of
       Inl e \<Rightarrow> Ret (Inl e)
     | Inr accessToken \<Rightarrow>
         bnd (GenerateRefreshToken s user) (\<lambda>r. case r of
           Inl e \<Rightarrow> Ret (Inl e)
         | Inr refreshToken \<Rightarrow>
             Ret (Inr \<lparr>lo_AccessToken = accessToken, lo_RefreshToken = refreshToken, lo_User = MapUserToServiceDomain user\<rparr>)))"

definition publish_created :: "('tb, 'x) Service \<Rightarrow> User \<Rightarrow> (unit, ('tb, 'x) world) prog" where
  "publish_created s user = bnd time_Now (\<lambda>t. PublishEvent s EventUserCreated (UserCreated
     \<lparr>uc_UserID = U_ID user, uc_Email = U_Email user, uc_FirstName = U_FirstName user,
      uc_LastName = U_LastName user, uc_CreatedAt = t\<rparr>))"

definition new_user :: "UserInput \<Rightarrow> string \<Rightarrow> time \<Rightarrow> UserInputParam" where
  "new_user userInput hash dob = \<lparr>UI_ID = None, UI_FirstName = Some (in_FirstName userInput),
     UI_LastName = Some (in_LastName userInput), UI_Email = Some (in_Email userInput),
     UI_Passwordhash = Some hash, UI_PhoneNumber = in_PhoneNumber userInput, UI_DateOfBirth = Some dob,
     UI_ProfilePhotoURL = in_ProfilePhotoURL userInput, UI_Gender = in_Gender userInput, UI_IsVerified = None\<rparr>"

text \<open>Registration from the insert on.\<close>

definition register ::
  "('tb, 'x) Service \<Rightarrow> UserInputParam \<Rightarrow> (AppError + LoginSuccessful, ('tb, 'x) world) prog" where
  "register s param =
     bnd (Repository_User.CreateUser (sv_uuid s) param) (\<lambda>r. case r of
       Inl err \<Rightarrow> app_fail StatusInternalServerError ''Error Registering User'' err
     | Inr user \<Rightarrow>
         bnd (issue_tokens s user) (\<lambda>t. case t of
           Inl e \<Rightarrow> Ret (Inl e)
         | Inr login \<Rightarrow> bnd (publish_created s user) (\<lambda>_. Ret (Inr login))))"

definition Service_CreateUser ::
  "('tb, 'x) Service \<Rightarrow> UserInput \<Rightarrow> (AppError + LoginSuccessful, ('tb, 'x) world) prog" where
  "Service_CreateUser s userInput =
     bnd (UserEmailExists (in_Email userInput)) (\<lambda>r. case r of
       Inl err \<Rightarrow> app_fail StatusInternalServerError (Error err) err
     | Inr exists \<Rightarrow>
         if exists then Ret (Inl (app_error StatusConflict ''User With This Email Already Exists'' None))
         else bnd (HashPassword s (in_Password userInput)) (\<lambda>h. case h of
           Inl err \<Rightarrow> app_fail StatusInternalServerError ''Error Registering User'' err
         | Inr hash \<Rightarrow> (case in_DateOfBirth userInput of
             None \<Rightarrow> register s (new_user userInput hash zero_time)
           | Some text \<Rightarrow> (case parse_birth text of
               None \<Rightarrow> app_fail StatusInternalServerError ''Error Registering User'' (Opaque ''parsing time'')
             | Some dob \<Rightarrow> register s (new_user userInput hash dob)))))"

definition otp_resent :: string where
  "otp_resent = ''Otp Resent You Should Recieve it If Your Account Exists''"

definition ResendUserOtp :: "('tb, 'x) Service \<Rightarrow> string \<Rightarrow> (AppError + string, ('tb, 'x) world) prog" where
  "ResendUserOtp s email =
     bnd (UserEmailExists email) (\<lambda>r. case r of
       Inl err \<Rightarrow> app_fail StatusInternalServerError ''Couldnt Verify User'' err
     | Inr exists \<Rightarrow>
         if \<not> exists then Ret (Inr otp_resent)
         else bnd (GetUserByEmail (sv_uuid s) email) (\<lambda>r. case r of
           Inl err \<Rightarrow> app_fail StatusInternalServerError ''Couldnt Verify User'' err
         | Inr user \<Rightarrow> bnd (publish_created s user) (\<lambda>_. Ret (Inr otp_resent))))"

text \<open>The error of the update is assigned and never looked at.\<close>

definition VerifyOtp :: "('tb, 'x) Service \<Rightarrow> string \<Rightarrow> string \<Rightarrow> (AppError + string, ('tb, 'x) world) prog" where
  "VerifyOtp s email otpInput =
     bnd (UserEmailExists email) (\<lambda>r. case r of
       Inl err \<Rightarrow> app_fail StatusInternalServerError ''Couldnt Verify User'' err
     | Inr exists \<Rightarrow>
         if \<not> exists then Ret (Inl (app_error StatusBadRequest ''Couldnt Verify User'' None))
         else bnd (Verify (sv_Store s) email otpInput) (\<lambda>e. case e of
           Some err \<Rightarrow> app_fail StatusBadRequest ''Couldnt Verify User'' err
         | None \<Rightarrow>
             bnd (Repository_User.UpdateUser (sv_uuid s) \<lparr>UI_ID = None, UI_FirstName = None, UI_LastName = None,
               UI_Email = Some email, UI_Passwordhash = None, UI_PhoneNumber = None, UI_DateOfBirth = None,
               UI_ProfilePhotoURL = None, UI_Gender = None, UI_IsVerified = Some True\<rparr>) (\<lambda>_.
             Ret (Inr ''Account Verified Successfully''))))"

definition LoginUser ::
  "('tb, 'x) Service \<Rightarrow> string \<Rightarrow> string \<Rightarrow> (AppError + LoginSuccessful, ('tb, 'x) world) prog" where
  "LoginUser s email password =
     bnd (GetUserCredentialsByEmail (sv_uuid s) email) (\<lambda>r. case r of
       Inl err \<Rightarrow>
         if errors_Is err ErrNotFound then app_fail StatusUnauthorized ''Invalid Email Or Password'' err
         else app_fail StatusInternalServerError ''Could Not Log User In'' err
     | Inr (user, passwordHash) \<Rightarrow> (case CompareHash s passwordHash password of
         Some err \<Rightarrow> app_fail StatusUnauthorized ''Invalid Email Or Password'' err
       | None \<Rightarrow>
           if \<not> U_IsActive user then app_fail StatusForbidden ''Account Was Deleted'' (Opaque ''account is not active'')
           else bnd (issue_tokens s user) (\<lambda>t. case t of
             Inl e \<Rightarrow> Ret (Inl e)
           | Inr login \<Rightarrow>
               bnd (PublishEvent s EventUserLoggedIn (UserLoggedIn \<lparr>ul_FirstName = U_FirstName user,
                 ul_LastName = U_LastName user, ul_Email = U_Email user, ul_UserID = U_ID user\<rparr>)) (\<lambda>_.
               Ret (Inr login)))))"

definition RefreshUserToken ::
  "('tb, 'x) Service \<Rightarrow> string \<Rightarrow> (AppError + LoginSuccessful, ('tb, 'x) world) prog" where
  "RefreshUserToken s refreshToken =
     bnd (ParseRefreshToken s refreshToken) (\<lambda>r. case r of
       Inl e \<Rightarrow> Ret (Inl e)
     | Inr userID \<Rightarrow>
         bnd (GetUserByID (sv_uuid s) userID) (\<lambda>r. case r of
           Inl err \<Rightarrow>
             if errors_Is err ErrNotFound then app_fail StatusUnauthorized ''Invalid Or Expired Refresh Token'' err
             else app_fail StatusInternalServerError ''Could Not Refresh Token'' err
         | Inr user \<Rightarrow> issue_tokens s user))"

text \<open>\<open>UpdateUser\<close> and \<open>DeleteUser\<close> assert that the context carries a \<open>user_id\<close>; without one they
  panic, which the model returns as an error without a status.\<close>

definition no_user_id :: AppError where
  "no_user_id = app_error 0 ''panic: interface conversion'' None"

definition Service_UpdateUser ::
  "('tb, 'x) Service \<Rightarrow> string option \<Rightarrow> string \<Rightarrow> UpdateUserParam \<Rightarrow> (AppError + ServiceUser, ('tb, 'x) world) prog" where
  "Service_UpdateUser s caller account input = (case caller of None \<Rightarrow> Ret (Inl no_user_id) | Some userid \<Rightarrow>
     bnd (ValidatOwner s account userid) (\<lambda>r. case r of
       Inl e \<Rightarrow> Ret (Inl e)
     | Inr val_user \<Rightarrow>
         bnd (Repository_User.UpdateUser (sv_uuid s) \<lparr>UI_ID = Some (su_ID val_user), UI_FirstName = up_FirstName input,
           UI_LastName = up_LastName input, UI_Email = None, UI_Passwordhash = None,
           UI_PhoneNumber = up_PhoneNumber input, UI_DateOfBirth = None,
           UI_ProfilePhotoURL = up_ProfilePhotoURL input, UI_Gender = up_Gender input, UI_IsVerified = None\<rparr>) (\<lambda>r. case r of
             Inl err \<Rightarrow>
               if errors_Is err ErrNotFound then app_fail StatusNotFound ''User Not Found'' err
               else if errors_Is err ErrNothingToUpdate then app_fail StatusBadRequest ''No Fields To Update'' err
               else if errors_Is err ErrAlreadyExists then app_fail StatusConflict ''Phone Number Already In Use'' err
               else app_fail StatusInternalServerError ''Could Not Update User'' err
           | Inr user \<Rightarrow> Ret (Inr (MapUserToServiceDomain user)))))"

definition Service_DeleteUser ::
  "('tb, 'x) Service \<Rightarrow> string option \<Rightarrow> string \<Rightarrow> (AppError + unit, ('tb, 'x) world) prog" where
  "Service_DeleteUser s caller account = (case caller of None \<Rightarrow> Ret (Inl no_user_id) | Some userid \<Rightarrow>
     bnd (ValidatOwner s account userid) (\<lambda>r. case r of
       Inl e \<Rightarrow> Ret (Inl e)
     | Inr val_user \<Rightarrow>
         bnd (Repository_User.DeleteUser (sv_uuid s) (su_ID val_user)) (\<lambda>r. case r of
           Some err \<Rightarrow>
             if errors_Is err ErrNotFound then app_fail StatusNotFound ''User Not Found'' err
             else app_fail StatusInternalServerError ''Could Not Delete User'' err
         | None \<Rightarrow> Ret (Inr ()))))"

end
