(* ===== verification/Wallet_Service.thy ===== *)
theory Wallet_Service
  imports Service_Base
begin

text \<open>
  \<^verbatim>\<open>src/internal/api/services/wallet-service.go\<close>, \<^verbatim>\<open>transfer-service.go\<close> and
  \<^verbatim>\<open>payment-service.go\<close>: opening and reading wallets, starting transfers and deposits, accepting
  the provider's webhook, and reading one transaction.
\<close>

section \<open>Wallets\<close>

record ServiceWallet =
  sw_ID :: string
  sw_AccountNumber :: string
  sw_Currency :: string
  sw_Status :: WalletStatus
  sw_Balance :: Money

definition DefaultDepositCurrency :: string where "DefaultDepositCurrency = ''NGN''"

definition service_wallet :: "Wallet \<Rightarrow> Money \<Rightarrow> ServiceWallet" where
  "service_wallet w balance = \<lparr>sw_ID = W_ID w, sw_AccountNumber = W_AccountNumber w,
     sw_Currency = W_Currency w, sw_Status = W_Status w, sw_Balance = balance\<rparr>"

text \<open>All outcomes are only logged.\<close>

definition ensureLedgerAccount :: "('tb, 'x) Service \<Rightarrow> Wallet \<Rightarrow> (unit, ('tb, 'x) world) prog" where
  "ensureLedgerAccount s wallet = (case sv_Ledger s of
      None \<Rightarrow> Ret ()
    | Some C \<Rightarrow> (case uuid_Parse (sv_uuid s) (W_ID wallet) of
        None \<Rightarrow> Ret ()
      | Some walletID \<Rightarrow> bnd (EnsureWalletAccount C walletID (W_Currency wallet)) (\<lambda>_. Ret ())))"

definition wallet_currency :: "string \<Rightarrow> string" where
  "wallet_currency currency = (let c = ToUpper (TrimSpace currency) in if c = '''' then DefaultDepositCurrency else c)"

definition Service_CreateWallet ::
  "('tb, 'x) Service \<Rightarrow> string option \<Rightarrow> string \<Rightarrow> (AppError + ServiceWallet, ('tb, 'x) world) prog" where
  "Service_CreateWallet s caller currency0 = as_caller caller (\<lambda>userID.
     let currency = wallet_currency currency0 in
     case LedgerForCurrency currency of
       Inl err \<Rightarrow> app_fail StatusBadRequest ''Unsupported Currency'' err
     | Inr _ \<Rightarrow>
         bnd (GetWalletByUser (sv_uuid s) userID currency) (\<lambda>r. case r of
           Inr _ \<Rightarrow> app_fail StatusConflict (''You Already Have A '' @ currency @ '' Wallet'')
               (Opaque ''wallet already exists for currency'')
         | Inl err \<Rightarrow>
             if \<not> errors_Is err ErrNotFound then app_fail StatusInternalServerError ''Could Not Create Wallet'' err
             else bnd (CreateWallet (sv_uuid s) userID currency) (\<lambda>r. case r of
               Inl err \<Rightarrow> app_fail StatusInternalServerError ''Could Not Create Wallet'' err
             | Inr wallet \<Rightarrow> bnd (ensureLedgerAccount s wallet) (\<lambda>_. Ret (Inr (service_wallet wallet 0))))))"

text \<open>Parsing every wallet's identifier, in order.\<close>

fun parse_all :: "uuid_pkg \<Rightarrow> string list \<Rightarrow> uuid list option" where
  "parse_all P [] = Some []"
| "parse_all P (i # is) = (case uuid_Parse P i of None \<Rightarrow> None | Some u \<Rightarrow> map_option ((#) u) (parse_all P is))"

definition balance_at :: "(uuid \<rightharpoonup> Money) \<Rightarrow> uuid \<Rightarrow> Money" where
  "balance_at balances u = (case balances u of None \<Rightarrow> 0 | Some m \<Rightarrow> m)"

definition withBalances ::
  "('tb, 'x) Service \<Rightarrow> Wallet list \<Rightarrow> (AppError + ServiceWallet list, ('tb, 'x) world) prog" where
  "withBalances s ws = (case parse_all (sv_uuid s) (map W_ID ws) of
      None \<Rightarrow> app_fail StatusInternalServerError ''Could Not Load Wallets'' (Opaque ''invalid UUID'')
    | Some ids \<Rightarrow>
        let result = (\<lambda>balances. map (\<lambda>(w, u). service_wallet w (balance_at balances u)) (zip ws ids)) in
        case sv_Ledger s of
          None \<Rightarrow> Ret (Inr (result Map.empty))
        | Some C \<Rightarrow> bnd (Balances C ids) (\<lambda>r. case r of
            Inl err \<Rightarrow> app_fail StatusBadGateway ''Could Not Load Wallet Balance'' err
          | Inr balances \<Rightarrow> Ret (Inr (result balances))))"

definition ListMyWallets ::
  "('tb, 'x) Service \<Rightarrow> string option \<Rightarrow> (AppError + ServiceWallet list, ('tb, 'x) world) prog" where
  "ListMyWallets s caller = as_caller caller (\<lambda>userID.
     bnd (ListWalletsByUser (sv_uuid s) userID) (\<lambda>r. case r of
       Inl err \<Rightarrow> app_fail StatusInternalServerError ''Could Not Load Wallets'' err
     | Inr ws \<Rightarrow> withBalances s ws))"

definition not_found_or :: "string \<Rightarrow> string \<Rightarrow> go_error \<Rightarrow> (AppError + 'a, 'w) prog" where
  "not_found_or missing failed err =
     (if errors_Is err ErrNotFound then app_fail StatusNotFound missing err
      else app_fail StatusInternalServerError failed err)"

text \<open>Loading a wallet the caller must own.\<close>

definition own_wallet ::
  "('tb, 'x) Service \<Rightarrow> string \<Rightarrow> string \<Rightarrow> (Wallet \<Rightarrow> (AppError + 'a, ('tb, 'x) world) prog) \<Rightarrow>
   (AppError + 'a, ('tb, 'x) world) prog" where
  "own_wallet s userID walletID k =
     bnd (GetWalletByID (sv_uuid s) walletID) (\<lambda>r. case r of
       Inl err \<Rightarrow> not_found_or ''Wallet Not Found'' ''Could Not Load Wallet'' err
     | Inr wallet \<Rightarrow>
         if W_UserID wallet \<noteq> userID
         then app_fail StatusNotFound ''Wallet Not Found'' (Opaque ''caller does not own this wallet'')
         else k wallet)"

definition GetWallet ::
  "('tb, 'x) Service \<Rightarrow> string option \<Rightarrow> string \<Rightarrow> (AppError + ServiceWallet, ('tb, 'x) world) prog" where
  "GetWallet s caller walletID = as_caller caller (\<lambda>userID.
     own_wallet s userID walletID (\<lambda>wallet.
       bnd (withBalances s [wallet]) (\<lambda>r. Ret (case r of Inl e \<Rightarrow> Inl e | Inr ws \<Rightarrow> Inr (hd ws)))))"

section \<open>Transfers\<close>

definition MinTransferMinor :: int where "MinTransferMinor = 100"
definition MaxTransferMinor :: int where "MaxTransferMinor = 100000000"

record InitiateTransferParam =
  it_SenderWalletID :: string
  it_RecipientAccountNumber :: string
  it_Amount :: float64

record ServiceTransfer =
  sx_ID :: string
  sx_SenderWalletID :: string
  sx_RecipientWalletID :: string
  sx_Amount :: Money
  sx_Currency :: string
  sx_Status :: TransactionStatus
  sx_FailureReason :: string
  sx_CreatedAt :: string

definition MapTransferToServiceDomain :: "Transfer \<Rightarrow> ServiceTransfer" where
  "MapTransferToServiceDomain transfer = \<lparr>sx_ID = T_ID transfer, sx_SenderWalletID = T_SenderWalletID transfer,
     sx_RecipientWalletID = T_RecipientWalletID transfer, sx_Amount = T_Amount transfer,
     sx_Currency = T_Currency transfer, sx_Status = T_Status transfer,
     sx_FailureReason = T_FailureReason transfer, sx_CreatedAt = format_RFC3339 (T_CreatedAt transfer)\<rparr>"

definition checkSufficientBalance ::
  "('tb, 'x) Service \<Rightarrow> string \<Rightarrow> Money \<Rightarrow> (AppError option, ('tb, 'x) world) prog" where
  "checkSufficientBalance s walletID amount = (case sv_Ledger s of
      None \<Rightarrow> Ret None
    | Some C \<Rightarrow> (case uuid_Parse (sv_uuid s) walletID of
        None \<Rightarrow> Ret (Some (app_error StatusInternalServerError ''Could Not Load Wallet Balance'' (Some (Opaque ''invalid UUID''))))
      | Some parsed \<Rightarrow> bnd (Balances C [parsed]) (\<lambda>r. Ret (case r of
          Inl err \<Rightarrow> None
        | Inr balances \<Rightarrow>
            if sint (balance_at balances parsed) < sint amount
            then Some (app_error StatusUnprocessableEntity ''Insufficient Funds''
              (Some (Opaque ''sender balance is below the transfer amount'')))
            else None))))"

text \<open>\<open>InitiateTransfer\<close> from the recipient on.\<close>

definition start_transfer ::
  "('tb, 'x) Service \<Rightarrow> string \<Rightarrow> Money \<Rightarrow> Wallet \<Rightarrow> Wallet \<Rightarrow> (AppError + ServiceTransfer, ('tb, 'x) world) prog" where
  "start_transfer s userID amount sender recipient =
     bnd (checkSufficientBalance s (W_ID sender) amount) (\<lambda>e. case e of
       Some e \<Rightarrow> Ret (Inl e)
     | None \<Rightarrow>
         bnd (CreateTransfer (sv_uuid s) \<lparr>CT_SenderUserID = userID, CT_SenderWalletID = W_ID sender,
           CT_RecipientUserID = W_UserID recipient, CT_RecipientWalletID = W_ID recipient,
           CT_Amount = amount, CT_Currency = W_Currency sender\<rparr>) (\<lambda>r. case r of
             Inl err \<Rightarrow> app_fail StatusInternalServerError ''Could Not Start Transfer'' err
           | Inr transfer \<Rightarrow>
               bnd (PublishEvent s EventTransferInitiated (TransferInitiated \<lparr>ip_TransferID = T_ID transfer,
                 ip_UserID = userID, ip_AmountMinor = Minor amount, ip_Currency = W_Currency sender\<rparr>)) (\<lambda>_.
               Ret (Inr (MapTransferToServiceDomain transfer)))))"

definition InitiateTransfer ::
  "('tb, 'x) Service \<Rightarrow> string option \<Rightarrow> InitiateTransferParam \<Rightarrow> (AppError + ServiceTransfer, ('tb, 'x) world) prog" where
  "InitiateTransfer s caller param = as_caller caller (\<lambda>userID.
     let amount = NewMoney (it_Amount param) in
     if sint (Minor amount) < MinTransferMinor \<or> sint (Minor amount) > MaxTransferMinor
     then app_fail StatusUnprocessableEntity ''Transfer Amount Is Out Of Range'' (Opaque ''transfer amount out of range'')
     else own_wallet s userID (it_SenderWalletID param) (\<lambda>sender.
       if W_Status sender \<noteq> WalletActive
       then app_fail StatusUnprocessableEntity ''Wallet Is Not Active'' (Opaque ''sending wallet is not active'')
       else bnd (GetWalletByAccountNumber (sv_uuid s) (TrimSpace (it_RecipientAccountNumber param))) (\<lambda>r. case r of
         Inl err \<Rightarrow> not_found_or ''Account Not Found'' ''Could Not Load Account'' err
       | Inr recipient \<Rightarrow>
           if W_ID recipient = W_ID sender
           then app_fail StatusBadRequest ''You Cannot Transfer To The Same Wallet''
             (Opaque ''sender and recipient are the same wallet'')
           else if \<not> EqualFold (W_Currency recipient) (W_Currency sender)
           then app_fail StatusBadRequest ''Cross-Currency Transfers Are Not Supported Yet''
             (Opaque ''sender and recipient wallets hold different currencies'')
           else if W_Status recipient \<noteq> WalletActive
           then app_fail StatusUnprocessableEntity ''That Account Cannot Receive Money'' (Opaque ''recipient wallet is not active'')
           else start_transfer s userID amount sender recipient)))"

definition party_to :: "Transfer \<Rightarrow> string \<Rightarrow> bool" where
  "party_to transfer userID \<longleftrightarrow> T_SenderUserID transfer = userID \<or> T_RecipientUserID transfer = userID"

definition GetTransfer ::
  "('tb, 'x) Service \<Rightarrow> string option \<Rightarrow> string \<Rightarrow> (AppError + ServiceTransfer, ('tb, 'x) world) prog" where
  "GetTransfer s caller transferID = as_caller caller (\<lambda>userID.
     bnd (GetTransferByID (sv_uuid s) transferID) (\<lambda>r. case r of
       Inl err \<Rightarrow> not_found_or ''Transfer Not Found'' ''Could Not Load Transfer'' err
     | Inr transfer \<Rightarrow>
         if \<not> party_to transfer userID
         then app_fail StatusNotFound ''Transfer Not Found'' (Opaque ''caller is not party to this transfer'')
         else Ret (Inr (MapTransferToServiceDomain transfer))))"

section \<open>Deposits\<close>

definition MinDepositMinor :: int where "MinDepositMinor = 100"
definition MaxDepositMinor :: int where "MaxDepositMinor = 100000000"

record DepositInitialized =
  di_Reference :: string
  di_AuthorizationURL :: string
  di_AccessCode :: string
  di_Amount :: Money
  di_Currency :: string
  di_Status :: TransactionStatus

text \<open>\<open>InitializeDeposit\<close> once the intent is recorded: the checkout, and the intent marked failed
  when the provider refuses it.\<close>

definition start_checkout ::
  "('tb, 'x) Service \<Rightarrow> 'x PaymentProvider \<Rightarrow> string \<Rightarrow> Money \<Rightarrow> User \<Rightarrow> Wallet \<Rightarrow> TransactionIntent \<Rightarrow>
   (AppError + DepositInitialized, ('tb, 'x) world) prog" where
  "start_checkout s V userID amount user wallet intent =
     bnd (Provider_Initialize V \<lparr>ipr_Reference = TI_ID intent, ipr_Amount = amount, ipr_Currency = W_Currency wallet,
         ipr_Email = U_Email user, ipr_CallbackURL = sv_CallbackURL s,
         ipr_Metadata = [(''user_id'', userID), (''wallet_id'', W_ID wallet)]\<rparr>) (\<lambda>r. case r of
       Inl err \<Rightarrow>
         bnd (MarkIntentFailed (sv_uuid s) (TI_ID intent)) (\<lambda>_.
           app_fail (if errors_Is err ErrProviderUnavailable then StatusServiceUnavailable else StatusBadGateway)
             ''Could Not Start Deposit'' err)
     | Inr initialized \<Rightarrow>
         bnd (PublishEvent s EventPaymentInitialized (PaymentInitialized \<lparr>pi_UserID = userID,
           pi_Reference = TI_ID intent, pi_Provider = prov_Name V, pi_AmountMinor = Minor amount,
           pi_Currency = W_Currency wallet\<rparr>)) (\<lambda>_.
         Ret (Inr \<lparr>di_Reference = TI_ID intent, di_AuthorizationURL = ips_AuthorizationURL initialized,
           di_AccessCode = ips_AccessCode initialized, di_Amount = amount, di_Currency = W_Currency wallet,
           di_Status = TI_Status intent\<rparr>)))"

definition InitializeDeposit ::
  "('tb, 'x) Service \<Rightarrow> string option \<Rightarrow> float64 \<Rightarrow> string \<Rightarrow> (AppError + DepositInitialized, ('tb, 'x) world) prog" where
  "InitializeDeposit s caller major walletID = (case sv_Provider s of
      None \<Rightarrow> app_fail StatusServiceUnavailable ''Payments Are Unavailable'' (Opaque ''no payment provider configured'')
    | Some V \<Rightarrow> as_caller caller (\<lambda>userID.
        let amount = NewMoney major in
        if sint (Minor amount) < MinDepositMinor \<or> sint (Minor amount) > MaxDepositMinor
        then app_fail StatusUnprocessableEntity ''Deposit Amount Is Out Of Range'' (Opaque ''deposit amount out of range'')
        else bnd (GetUserByID (sv_uuid s) userID) (\<lambda>r. case r of
          Inl err \<Rightarrow> not_found_or ''User Not Found'' ''Could Not Load User'' err
        | Inr user \<Rightarrow>
            own_wallet s userID walletID (\<lambda>wallet.
              if W_Status wallet \<noteq> WalletActive
              then app_fail StatusUnprocessableEntity ''Wallet Is Not Active'' (Opaque ''wallet is not active'')
              else bnd (CreateIntent (sv_uuid s) \<lparr>CI_UserID = userID, CI_WalletID = W_ID wallet, CI_Amount = amount,
                CI_Provider = prov_Name V\<rparr>) (\<lambda>r. case r of
                  Inl err \<Rightarrow> app_fail StatusInternalServerError ''Could Not Start Deposit'' err
                | Inr intent \<Rightarrow> start_checkout s V userID amount user wallet intent)))))"

definition Service_HandlePaymentWebhook ::
  "('tb, 'x) Service \<Rightarrow> string \<Rightarrow> string \<Rightarrow> (AppError + unit, ('tb, 'x) world) prog" where
  "Service_HandlePaymentWebhook s signature body = (case sv_Provider s of
      None \<Rightarrow> app_fail StatusServiceUnavailable ''Payments Are Unavailable'' (Opaque ''no payment provider configured'')
    | Some V \<Rightarrow> (case prov_VerifyWebhookSignature V signature body of
        Some err \<Rightarrow> app_fail StatusUnauthorized ''Invalid Signature'' err
      | None \<Rightarrow> (case prov_ParseWebhook V body of
          Inl err \<Rightarrow>
            if errors_Is err ErrUnhandledWebhook then Ret (Inr ())
            else app_fail StatusBadRequest ''Unprocessable Webhook'' err
        | Inr event \<Rightarrow>
            bnd (PublishEvent s EventPaymentWebhookReceived (PaymentWebhook \<lparr>pk_Reference = we_Reference event,
              pk_Provider = prov_Name V, pk_Event = we_Event event, pk_Status = we_Status event,
              pk_AmountMinor = Minor (we_Amount event), pk_Currency = we_Currency event\<rparr>)) (\<lambda>_. Ret (Inr ())))))"

section \<open>One transaction\<close>

datatype TransactionKind = TransactionKindDeposit | TransactionKindTransfer

definition ProviderInternal :: string where "ProviderInternal = ''wallet''"

record Transaction =
  tx_Reference :: string
  tx_UserID :: string
  tx_WalletID :: string
  tx_Amount :: Money
  tx_Status :: TransactionStatus
  tx_Provider :: string
  tx_Kind :: TransactionKind
  tx_Direction :: Direction
  tx_CreatedAt :: string

definition MapIntentToServiceDomain :: "TransactionIntent \<Rightarrow> Transaction" where
  "MapIntentToServiceDomain intent = \<lparr>tx_Reference = TI_ID intent, tx_UserID = TI_UserID intent,
     tx_WalletID = TI_WalletID intent, tx_Amount = TI_Amount intent, tx_Status = TI_Status intent,
     tx_Provider = TI_Provider intent, tx_Kind = TransactionKindDeposit, tx_Direction = DirectionCredit,
     tx_CreatedAt = format_RFC3339 (TI_CreatedAt intent)\<rparr>"

definition transfer_transaction :: "string \<Rightarrow> Transfer \<Rightarrow> Transaction" where
  "transfer_transaction userID transfer =
     (let credit = (T_RecipientUserID transfer = userID)
      in \<lparr>tx_Reference = T_ID transfer, tx_UserID = userID,
          tx_WalletID = (if credit then T_RecipientWalletID transfer else T_SenderWalletID transfer),
          tx_Amount = T_Amount transfer, tx_Status = T_Status transfer, tx_Provider = ProviderInternal,
          tx_Kind = TransactionKindTransfer, tx_Direction = (if credit then DirectionCredit else DirectionDebit),
          tx_CreatedAt = format_RFC3339 (T_CreatedAt transfer)\<rparr>)"

definition transferAsTransaction ::
  "('tb, 'x) Service \<Rightarrow> string \<Rightarrow> string \<Rightarrow> (AppError + Transaction, ('tb, 'x) world) prog" where
  "transferAsTransaction s userID reference =
     bnd (GetTransferByID (sv_uuid s) reference) (\<lambda>r. case r of
       Inl err \<Rightarrow> not_found_or ''Transaction Not Found'' ''Could Not Load Transaction'' err
     | Inr transfer \<Rightarrow>
         if \<not> party_to transfer userID
         then app_fail StatusNotFound ''Transaction Not Found'' (Opaque ''caller is not party to this transfer'')
         else Ret (Inr (transfer_transaction userID transfer)))"

definition GetTransaction ::
  "('tb, 'x) Service \<Rightarrow> string option \<Rightarrow> string \<Rightarrow> (AppError + Transaction, ('tb, 'x) world) prog" where
  "GetTransaction s caller reference = as_caller caller (\<lambda>userID.
     bnd (GetIntentByReference (sv_uuid s) reference) (\<lambda>r. case r of
       Inl err \<Rightarrow>
         if errors_Is err ErrNotFound then transferAsTransaction s userID reference
         else app_fail StatusInternalServerError ''Could Not Load Transaction'' err
     | Inr intent \<Rightarrow>
         if TI_UserID intent \<noteq> userID
         then app_fail StatusNotFound ''Transaction Not Found'' (Opaque ''caller does not own this transaction'')
         else Ret (Inr (MapIntentToServiceDomain intent))))"

end
