(* ===== verification/History_Service.thy ===== *)
theory History_Service
  imports Wallet_Service
begin

text \<open>
  \<^verbatim>\<open>src/internal/api/services/transaction-history.go\<close>: the caller's transactions, merged from the
  ledger (what settled) and the database (what did not), newest first.
\<close>

definition MaxHistoryScan :: int64 where "MaxHistoryScan = 500"

record sortedTransaction =
  st_Tx :: Transaction
  st_key :: time

section \<open>Settled transactions\<close>

text \<open>A movement as a transaction: a deposit carries the provider of its intent, when found.\<close>

definition movement_transaction ::
  "uuid_pkg \<Rightarrow> string \<Rightarrow> (string \<rightharpoonup> TransactionIntent) \<Rightarrow> Movement \<Rightarrow> sortedTransaction" where
  "movement_transaction P userID found_intents m =
     (let reference = uuid_String P (mv_TransferID m); deposit = (mv_Code m = TransferDeposit)
      in \<lparr>st_Tx = \<lparr>tx_Reference = reference, tx_UserID = userID, tx_WalletID = uuid_String P (mv_WalletID m),
            tx_Amount = mv_Amount m, tx_Status = TransactionSuccess,
            tx_Provider = (if deposit then (case found_intents reference of Some intent \<Rightarrow> TI_Provider intent | None \<Rightarrow> '''')
              else ProviderInternal),
            tx_Kind = (if deposit then TransactionKindDeposit else TransactionKindTransfer),
            tx_Direction = mv_Direction m, tx_CreatedAt = format_RFC3339 (Movement_Time m)\<rparr>,
          st_key = Movement_Time m\<rparr>)"

definition deposit_ids :: "uuid_pkg \<Rightarrow> Movement list \<Rightarrow> string list" where
  "deposit_ids P ms = map (\<lambda>m. uuid_String P (mv_TransferID m)) (filter (\<lambda>m. mv_Code m = TransferDeposit) ms)"

definition settledTransactions ::
  "('tb, 'x) Service \<Rightarrow> string \<Rightarrow> int64 \<Rightarrow> (AppError + sortedTransaction list, ('tb, 'x) world) prog" where
  "settledTransactions s userID scan = (case sv_Ledger s of
      None \<Rightarrow> Ret (Inr [])
    | Some C \<Rightarrow>
        bnd (ListWalletsByUser (sv_uuid s) userID) (\<lambda>r. case r of
          Inl err \<Rightarrow> app_fail StatusInternalServerError ''Could Not Load Transactions'' err
        | Inr ws \<Rightarrow>
            if ws = [] then Ret (Inr [])
            else (case parse_all (sv_uuid s) (map W_ID ws) of
              None \<Rightarrow> app_fail StatusInternalServerError ''Could Not Load Transactions'' (Opaque ''invalid UUID'')
            | Some walletIDs \<Rightarrow>
                bnd (WalletMovements C walletIDs (ucast scan)) (\<lambda>r. case r of
                  Inl err \<Rightarrow> app_fail StatusBadGateway ''Could Not Load Transactions'' err
                | Inr ms \<Rightarrow>
                    bnd (GetIntentsByIDs (sv_uuid s) (deposit_ids (sv_uuid s) ms)) (\<lambda>r. case r of
                      Inl err \<Rightarrow> app_fail StatusInternalServerError ''Could Not Load Transactions'' err
                    | Inr found_intents \<Rightarrow>
                        Ret (Inr (map (movement_transaction (sv_uuid s) userID found_intents) ms)))))))"

section \<open>Unsettled transactions\<close>

definition intent_transaction :: "TransactionIntent \<Rightarrow> sortedTransaction" where
  "intent_transaction intent = \<lparr>st_Tx = MapIntentToServiceDomain intent, st_key = TI_CreatedAt intent\<rparr>"

definition unsettled_transfer :: "string \<Rightarrow> Transfer \<Rightarrow> sortedTransaction" where
  "unsettled_transfer userID transfer =
     \<lparr>st_Tx = transfer_transaction userID transfer, st_key = T_CreatedAt transfer\<rparr>"

definition unsettledTransactions ::
  "('tb, 'x) Service \<Rightarrow> string \<Rightarrow> int64 \<Rightarrow> (AppError + sortedTransaction list, ('tb, 'x) world) prog" where
  "unsettledTransactions s userID scan =
     bnd (ListUnsettledIntents (sv_uuid s) userID scan) (\<lambda>r. case r of
       Inl err \<Rightarrow> app_fail StatusInternalServerError ''Could Not Load Transactions'' err
     | Inr is \<Rightarrow>
         bnd (ListUnsettledTransfers (sv_uuid s) userID scan) (\<lambda>r. case r of
           Inl err \<Rightarrow> app_fail StatusInternalServerError ''Could Not Load Transactions'' err
         | Inr ts \<Rightarrow> Ret (Inr (map intent_transaction is @ map (unsettled_transfer userID) ts))))"

section \<open>The page\<close>

text \<open>\<open>sort.SliceStable\<close> by descending time.\<close>

definition newest :: "sortedTransaction list \<Rightarrow> sortedTransaction list" where
  "newest = sort_key (\<lambda>t. - st_key t)"

text \<open>The loop that cuts the page out: from index \<open>offset\<close>, while there are fewer than \<open>limit\<close>.\<close>

function page_loop :: "sortedTransaction list \<Rightarrow> int \<Rightarrow> int \<Rightarrow> Transaction list \<Rightarrow> Transaction list" where
  "page_loop merged limit i acc =
     (if 0 \<le> i \<and> i < int (length merged) \<and> int (length acc) < limit
      then page_loop merged limit (i + 1) (acc @ [st_Tx (merged ! nat i)]) else acc)"
  by pat_completeness auto
termination
  by (relation "measure (\<lambda>(merged, limit, i, acc). nat (int (length merged) - i))") auto

declare page_loop.simps [simp del]

record TransactionList =
  tl_Transactions :: "Transaction list"
  tl_Total :: int
  tl_Limit :: int64
  tl_Offset :: int64

definition history_scan :: "int64 \<Rightarrow> int64 \<Rightarrow> int64" where
  "history_scan limit offset =
     (let scan = offset + limit in if sint scan > sint MaxHistoryScan then MaxHistoryScan else scan)"

definition ListMyTransactions ::
  "('tb, 'x) Service \<Rightarrow> string option \<Rightarrow> ActivityPageParam option \<Rightarrow> (AppError + TransactionList, ('tb, 'x) world) prog" where
  "ListMyTransactions s caller page = as_caller caller (\<lambda>userID.
     let (limit, offset) = Normalise page; scan = history_scan limit offset in
     bnd (settledTransactions s userID scan) (\<lambda>r. case r of
       Inl e \<Rightarrow> Ret (Inl e)
     | Inr settled \<Rightarrow>
         bnd (unsettledTransactions s userID scan) (\<lambda>r. case r of
           Inl e \<Rightarrow> Ret (Inl e)
         | Inr unsettled \<Rightarrow>
             let merged = newest (settled @ unsettled) in
             Ret (Inr \<lparr>tl_Transactions = page_loop merged (sint limit) (sint offset) [],
               tl_Total = int (length merged), tl_Limit = limit, tl_Offset = offset\<rparr>))))"

text \<open>The loop takes the slice \<open>[offset, offset + limit)\<close>.\<close>

lemma page_loop_slice:
  "0 \<le> i \<Longrightarrow> page_loop merged limit i acc =
     acc @ map st_Tx (take (nat (limit - int (length acc))) (drop (nat i) merged))"
proof (induction merged limit i acc rule: page_loop.induct)
  case (1 merged limit i acc)
  show ?case
  proof (cases "i < int (length merged) \<and> int (length acc) < limit")
    case True
    then have "nat i < length merged" using "1.prems" by (simp add: nat_less_iff)
    from Cons_nth_drop_Suc[OF this] have "drop (nat i) merged = merged ! nat i # drop (nat (i + 1)) merged"
      using "1.prems" by (simp add: nat_add_distrib)
    moreover have "nat (limit - int (length acc)) = Suc (nat (limit - int (length (acc @ [st_Tx (merged ! nat i)]))))"
      using True unfolding length_append by (simp add: Suc_nat_eq_nat_zadd1)
    ultimately show ?thesis
      using "1.IH" "1.prems" True by (subst page_loop.simps) simp
  next
    case False
    with "1.prems" show ?thesis by (subst page_loop.simps) auto
  qed
qed

end
