(* ===== verification/System_Jobs.thy ===== *)
theory System_Jobs
  imports System_Safety User_Service History_Service
begin

text \<open>
  The whole running program: a pool of jobs, each one attempt at a queued task or one HTTP
  request, interleaved at every database statement and every remote call. Every job stays within
  \<open>sys_rel\<close>, so the invariant holds in every interleaving (\<open>jobs_safe\<close>).
\<close>

section \<open>Jobs\<close>

text \<open>The requests the routes of \<^verbatim>\<open>src/internal/api/routes\<close> turn into service calls; a
  \<^typ>\<open>string option\<close> is the \<open>user_id\<close> of the token.\<close>

datatype request =
    PostUser UserInput
  | PostResendOtp string
  | PostVerifyOtp string string
  | PostLogin string string
  | PostRefresh string
  | PatchUser "string option" string UpdateUserParam
  | RemoveUser "string option" string
  | GetActivities "string option" "ActivityPageParam option"
  | PostWallet "string option" string
  | GetWallets "string option"
  | GetOneWallet "string option" string
  | PostTransfer "string option" InitiateTransferParam
  | GetOneTransfer "string option" string
  | PostDeposit "string option" float64 string
  | PostWebhook string string
  | GetOneTransaction "string option" string
  | GetTransactions "string option" "ActivityPageParam option"

definition quiet :: "('a, 'w) prog \<Rightarrow> (unit, 'w) prog" where
  "quiet p = bnd p (\<lambda>_. Ret ())"

fun request_prog :: "('tb, 'x) Service \<Rightarrow> request \<Rightarrow> (unit, ('tb, 'x) world) prog" where
  "request_prog s (PostUser u) = quiet (Service_CreateUser s u)"
| "request_prog s (PostResendOtp e) = quiet (ResendUserOtp s e)"
| "request_prog s (PostVerifyOtp e c) = quiet (VerifyOtp s e c)"
| "request_prog s (PostLogin e pw) = quiet (LoginUser s e pw)"
| "request_prog s (PostRefresh t) = quiet (RefreshUserToken s t)"
| "request_prog s (PatchUser c a u) = quiet (Service_UpdateUser s c a u)"
| "request_prog s (RemoveUser c a) = quiet (Service_DeleteUser s c a)"
| "request_prog s (GetActivities c pg) = quiet (GetMyActivities s c pg)"
| "request_prog s (PostWallet c cur) = quiet (Service_CreateWallet s c cur)"
| "request_prog s (GetWallets c) = quiet (ListMyWallets s c)"
| "request_prog s (GetOneWallet c i) = quiet (GetWallet s c i)"
| "request_prog s (PostTransfer c p) = quiet (InitiateTransfer s c p)"
| "request_prog s (GetOneTransfer c i) = quiet (GetTransfer s c i)"
| "request_prog s (PostDeposit c m i) = quiet (InitializeDeposit s c m i)"
| "request_prog s (PostWebhook sg b) = quiet (Service_HandlePaymentWebhook s sg b)"
| "request_prog s (GetOneTransaction c r) = quiet (GetTransaction s c r)"
| "request_prog s (GetTransactions c pg) = quiet (ListMyTransactions s c pg)"

datatype job = Attempt TaskCtx task | Request request

fun job_prog :: "('tb, 'x) AsynqWorker \<Rightarrow> ('tb, 'x) Service \<Rightarrow> job \<Rightarrow> (unit, ('tb, 'x) world) prog" where
  "job_prog W s (Attempt ctx t) = quiet (serve W ctx t)"
| "job_prog W s (Request r) = request_prog s r"

section \<open>Users\<close>

lemma sys_rel_users:
  assumes "distinct (map u_ID (users w)) \<Longrightarrow> distinct (map u_ID us)" and "distinct (map u_Email (users w)) \<Longrightarrow> distinct (map u_Email us)"
    and "uuid_n w \<le> n"
  shows "sys_rel P C posted w (w\<lparr>uuid_n := n, users := us\<rparr>)" (is "sys_rel P C posted w ?w'")
proof (rule sys_rel_db)
  show "evolves w ?w'"
    using assms(3) by (simp add: evolves_def intent_rows.evolve_refl transfer_rows.evolve_refl wallet_rows.evolve_refl)
  show "db_wf ?w' \<and> ids_ok ?w'" if "db_wf w \<and> ids_ok w" "uuids_fresh ?w'"
    using that assms by (auto simp: db_wf_def ids_ok_def intro: less_le_trans)
  show "success_posted C posted w \<Longrightarrow> success_posted C posted ?w'"
    by (simp add: success_posted_def)
qed simp_all

lemma sys_rel_users_only:
  assumes "distinct (map u_ID (users w)) \<Longrightarrow> distinct (map u_ID us)" and "distinct (map u_Email us)"
  shows "sys_rel P C posted w (w\<lparr>users := us\<rparr>)"
  using sys_rel_users[of w us "uuid_n w" P C posted] assms by simp

lemma guar_insert_user:
  assumes "\<And>u t. u_ID (mk u t) = u"
  shows "guar (sys_rel P C posted) (insert_user mk :: (_, ('tb, 'x) world) prog)"
  unfolding insert_user_def uuid_New_def
proof (rule guar_db_call)
  fix w :: "('tb, 'x) world"
  let ?row = "mk (uuid_src w (uuid_n w)) (now w)"
  have "sys_rel P C posted w (w\<lparr>uuid_n := Suc (uuid_n w), users := users w @ [?row]\<rparr>)"
    if "uuid_src w (uuid_n w) \<notin> u_ID ` set (users w)" "u_Email ?row \<notin> u_Email ` set (users w)"
    using that assms by (intro sys_rel_users) auto
  then show "sys_rel P C posted w (snd (case (uuid_src w (uuid_n w), w\<lparr>uuid_n := Suc (uuid_n w)\<rparr>) of (u, w1) \<Rightarrow>
      let row = mk u (now w) in
      if u_Passwordhash row = None then (Inl (Opaque ''null value in column passwordhash''), w1)
      else if u \<in> u_ID ` set (users w) \<or> u_Email row \<in> u_Email ` set (users w)
      then (Inl (Sentinel gorm_ErrDuplicatedKey), w1)
      else (Inr row, w1\<lparr>users := users w @ [row]\<rparr>)))"
    by (simp add: Let_def sys_rel_uuid_n)
qed

lemma set_column_ID [simp]: "u_ID (set_column cv r) = u_ID r"
  by (induction cv r rule: set_column.induct) auto

lemma fold_set_column_ID [simp]: "u_ID (fold set_column cvs r) = u_ID r"
  by (induction cvs arbitrary: r) simp_all

lemma guar_update_users: "guar (sys_rel P C posted) (update_users p (fold set_column cvs) :: (_, ('tb, 'x) world) prog)"
  unfolding update_users_def
proof (rule guar_db_call)
  fix w :: "('tb, 'x) world"
  let ?rows = "sql_update (\<lambda>r. live_user r \<and> p r) (\<lambda>r. fold set_column cvs r\<lparr>u_UpdatedAt := now w\<rparr>) (users w)"
  have "map u_ID ?rows = map u_ID (users w)" by (simp add: sql_update_def)
  then have "sys_rel P C posted w (w\<lparr>users := ?rows\<rparr>)" if "distinct (map u_Email ?rows)"
    using that by (intro sys_rel_users_only) simp_all
  then show "sys_rel P C posted w (snd (let q = \<lambda>r. live_user r \<and> p r; g = \<lambda>r. fold set_column cvs r\<lparr>u_UpdatedAt := now w\<rparr>;
      rows = sql_update q g (users w)
    in if distinct (map u_Email rows) then (Inr (sql_returning q g (users w)), w\<lparr>users := rows\<rparr>)
       else (Inl (Sentinel gorm_ErrDuplicatedKey), w)))"
    by (simp add: Let_def sys.rely_refl)
qed

lemma guar_save_user: "guar (sys_rel P C posted) (save_user m :: (_, ('tb, 'x) world) prog)"
  unfolding save_user_def
proof (rule guar_db_call)
  fix w :: "('tb, 'x) world"
  let ?row = "m\<lparr>u_UpdatedAt := now w\<rparr>"
  let ?rows = "if u_ID m \<in> u_ID ` set (users w) then sql_update (\<lambda>r. u_ID r = u_ID m) (\<lambda>r. ?row) (users w)
      else users w @ [?row]"
  have "map u_ID (sql_update (\<lambda>r. u_ID r = u_ID m) (\<lambda>r. ?row) (users w)) = map u_ID (users w)"
    by (simp add: sql_update_def)
  then have "sys_rel P C posted w (w\<lparr>users := ?rows\<rparr>)" if "distinct (map u_Email ?rows)"
    using that by (intro sys_rel_users_only) auto
  then show "sys_rel P C posted w (snd (let row = m\<lparr>u_UpdatedAt := now w\<rparr>;
      rows = (if u_ID m \<in> u_ID ` set (users w) then sql_update (\<lambda>r. u_ID r = u_ID m) (\<lambda>r. row) (users w) else users w @ [row])
    in if distinct (map u_Email rows) then (Inr (), w\<lparr>users := rows\<rparr>) else (Inl (Sentinel gorm_ErrDuplicatedKey), w)))"
    by (simp add: Let_def sys.rely_refl)
qed

lemma guar_user_ops:
  "guar (sys_rel P C posted) (Repository_User.CreateUser P' u)" "guar (sys_rel P C posted) (GetUserByEmail P' e)"
  "guar (sys_rel P C posted) (GetUserCredentialsByEmail P' e)" "guar (sys_rel P C posted) (Repository_User.UpdateUser P' u)"
  "guar (sys_rel P C posted) (UserEmailExists e)" "guar (sys_rel P C posted) (Repository_User.DeleteUser P' i)"
  "guar (sys_rel P C posted) (GetUserActivities P' i l off)"
proof -
  show "guar (sys_rel P C posted) (Repository_User.CreateUser P' u)"
    unfolding Repository_User.CreateUser_def
    by (auto split: option.split intro!: guar_rules guar_insert_user)
  show "guar (sys_rel P C posted) (Repository_User.UpdateUser P' u)"
    unfolding Repository_User.UpdateUser_def update_where_def
    by (intro guar_rules guar_update_users)
qed (unfold GetUserByEmail_def GetUserCredentialsByEmail_def UserEmailExists_def Repository_User.DeleteUser_def
      GetUserActivities_def, (intro guar_rules guar_save_user)+)

section \<open>Wallets, intents, transfers\<close>

lemma guar_CreateWallet: "guar (sys_rel P C posted) (CreateWallet P' u c)"
proof -
  have "guar (sys_rel P C posted) (CreateWallet_loop P' a c n)" for a n
    by (induction n) (auto simp: NewAccountNumber_def intro!: guar_rules guar_insert_wallet)
  then show ?thesis unfolding CreateWallet_def by (intro guar_rules)
qed

lemma guar_tx_reads:
  "guar (sys_rel P C posted) (GetWalletByID P' i)" "guar (sys_rel P C posted) (GetWalletByUser P' u c)"
  "guar (sys_rel P C posted) (ListWalletsByUser P' u)" "guar (sys_rel P C posted) (GetWalletByAccountNumber P' n)"
  "guar (sys_rel P C posted) (GetIntentByReference P' r)" "guar (sys_rel P C posted) (GetTransferByID P' t)"
  "guar (sys_rel P C posted) (ListUnsettledIntents P' u l)" "guar (sys_rel P C posted) (ListUnsettledTransfers P' u l)"
  "guar (sys_rel P C posted) (GetIntentsByIDs P' is)"
  unfolding GetWalletByID_def GetWalletByUser_def ListWalletsByUser_def GetWalletByAccountNumber_def
    GetIntentByReference_def GetTransferByID_def ListUnsettledIntents_def ListUnsettledTransfers_def GetIntentsByIDs_def
  by (intro guar_rules)+

lemma guar_CreateIntent: "guar (sys_rel P C posted) (CreateIntent P' param)"
  unfolding CreateIntent_def by (intro guar_rules guar_insert_intent) simp

lemma guar_CreateTransfer: "guar (sys_rel P C posted) (CreateTransfer P' param)"
  unfolding CreateTransfer_def by (intro guar_rules guar_insert_transfer) simp

lemma guar_ledger_reads:
  assumes "tb_ok C posted"
  shows "guar (sys_rel P C posted) (Balances C us)" "guar (sys_rel P C posted) (WalletMovements C us n)"
    "guar (sys_rel P C posted) (EnsureWalletAccount C u c)"
proof -
  have "guar (sys_rel P C posted) (movements_loop C n vs)" for vs
    by (induction vs) (auto intro!: guar_rules guar_clients assms)
  then show "guar (sys_rel P C posted) (WalletMovements C us n)"
    unfolding WalletMovements_def by (intro guar_rules)
  show "guar (sys_rel P C posted) (Balances C us)" unfolding Balances_def by (intro guar_rules guar_clients assms)
  show "guar (sys_rel P C posted) (EnsureWalletAccount C u c)"
    unfolding EnsureWalletAccount_def by (intro guar_rules guar_ensureAccounts assms)
qed

section \<open>Events\<close>

lemma guar_Generate: "guar (sys_rel P C posted) (Generate st e)"
proof -
  have "guar (sys_rel P C posted) (otp_digits n)" for n
    by (induction n) (auto intro!: guar_rules)
  note digits = this
  show ?thesis unfolding Generate_def GenerateOTP_def
    by (intro guar_rules guar_ext_call digits guar_bnd[OF digits]; simp add: digits)
qed

lemma guar_Verify: "guar (sys_rel P C posted) (Verify st e c)"
  unfolding Verify_def check_code_def del_keys_def
  by (auto split: redis_error.split intro!: guar_bnd guar_Ret guar_case guar_ext_call)

lemma guar_listeners:
  "guar (sys_rel P C posted) (on_user_created E st p)" "guar (sys_rel P C posted) (on_login_email E p)"
  "guar (sys_rel P C posted) (on_login_activity A p)" "guar (sys_rel P C posted) (on_payment_webhook w p)"
  "guar (sys_rel P C posted) (on_payment_initialized w p)" "guar (sys_rel P C posted) (on_transfer_initiated v p)"
  "guar (sys_rel P C posted) (on_transfer_activity A p)"
  unfolding on_user_created_def on_login_email_def on_login_activity_def on_payment_webhook_def
    on_payment_initialized_def on_transfer_initiated_def on_transfer_activity_def queue_activity_def
    Email_Enqueue_def Activity_Enqueue_def Payment_Enqueue_def Transfer_Enqueue_def
  by (cases p; auto intro!: guar_rules guar_Enqueue guar_Generate)+

lemma guar_dispatch_all:
  "(\<And>h. h \<in> set hs \<Longrightarrow> guar R (h p)) \<Longrightarrow> guar R (dispatch_all hs p)"
  by (induction hs) (auto simp: dispatch_def intro!: guar_bnd guar_Ret)

text \<open>The bus as \<open>RegisterListeners\<close> leaves it.\<close>

definition service_ok ::
  "uuid_pkg \<Rightarrow> 'tb tb_client \<Rightarrow> ('tb, 'x) AsynqWorker \<Rightarrow> ('tb, 'x) Service \<Rightarrow> bool" where
  "service_ok P C W s \<longleftrightarrow> sv_uuid s = P \<and> sv_Ledger s \<in> {None, Some C} \<and>
     (sv_Bus s = None \<or> sv_Bus s = Some (RegisterListeners NewEventBus W (sv_Store s)))"

lemma guar_Publish: "guar (sys_rel P C posted) (Publish (RegisterListeners NewEventBus W st) name p)"
  unfolding Publish_def
  by (rule guar_dispatch_all)
    (auto simp: RegisterListeners_def RegisterTransferActivityListeners_def RegisterTransferListeners_def
      RegisterPaymentListeners_def RegisterActivityListeners_def RegisterEmailListeners_def Subscribe_def
      NewEventBus_def guar_listeners split: if_splits)

lemma guar_PublishEvent:
  assumes "service_ok P C W s"
  shows "guar (sys_rel P C posted) (PublishEvent s name p)"
proof (cases "sv_Bus s")
  case (Some b)
  then have "b = RegisterListeners NewEventBus W (sv_Store s)" using assms by (simp add: service_ok_def)
  then show ?thesis using Some guar_Publish[of P C posted W "sv_Store s"] by (simp add: PublishEvent_def)
qed (simp add: PublishEvent_def)

section \<open>Requests\<close>

lemma guar_as_caller: "(\<And>u. guar R (op1 u)) \<Longrightarrow> guar R (as_caller c op1)"
  unfolding as_caller_def by (intro guar_case guar_Ret)

lemma guar_app_fail: "guar R (app_fail c m e)" "guar R (not_found_or a b e)"
  by (simp_all add: app_fail_def not_found_or_def)

lemma guar_own_wallet: "(\<And>w. guar (sys_rel P C posted) (k w)) \<Longrightarrow> guar (sys_rel P C posted) (own_wallet s u i k)"
  unfolding own_wallet_def by (intro guar_rules guar_app_fail guar_tx_reads)

lemma guar_issue_tokens: "guar (sys_rel P C posted) (issue_tokens s u)"
  unfolding issue_tokens_def GenerateAccessToken_def GenerateRefreshToken_def
  by (intro guar_rules guar_app_fail)

lemma guar_ValidatOwner: "guar (sys_rel P C posted) (ValidatOwner s a u)"
  unfolding ValidatOwner_def by (intro guar_rules guar_app_fail guar_GetUserByID)

lemma guar_user_requests:
  assumes s: "service_ok P C W s"
  shows "guar (sys_rel P C posted) (Service_CreateUser s u)" "guar (sys_rel P C posted) (ResendUserOtp s e)"
    "guar (sys_rel P C posted) (VerifyOtp s e c)" "guar (sys_rel P C posted) (LoginUser s e pw)"
    "guar (sys_rel P C posted) (RefreshUserToken s t)" "guar (sys_rel P C posted) (Service_UpdateUser s cl a up)"
    "guar (sys_rel P C posted) (Service_DeleteUser s cl a)" "guar (sys_rel P C posted) (GetMyActivities s cl pg)"
  unfolding Service_CreateUser_def ResendUserOtp_def VerifyOtp_def LoginUser_def RefreshUserToken_def
    Service_UpdateUser_def Service_DeleteUser_def GetMyActivities_def register_def publish_created_def
    HashPassword_def ParseRefreshToken_def Let_def
  by (intro guar_rules guar_app_fail guar_as_caller guar_user_ops guar_ValidatOwner guar_issue_tokens guar_GetUserByID
      guar_Verify guar_PublishEvent[OF s] guar_ext_call; simp)+

lemma guar_initialize: "guar (sys_rel P C posted) (Provider_Initialize V req)"
  unfolding Provider_Initialize_def by (rule guar_ext_call) simp

lemma guar_wallet_requests:
  assumes s: "service_ok P C W s" and ok: "tb_ok C posted"
  shows "guar (sys_rel P C posted) (Service_CreateWallet s c cur)" "guar (sys_rel P C posted) (ListMyWallets s c)"
    "guar (sys_rel P C posted) (GetWallet s c i)" "guar (sys_rel P C posted) (InitiateTransfer s c p)"
    "guar (sys_rel P C posted) (GetTransfer s c i)" "guar (sys_rel P C posted) (InitializeDeposit s c m i)"
    "guar (sys_rel P C posted) (Service_HandlePaymentWebhook s sg b)" "guar (sys_rel P C posted) (GetTransaction s c r)"
    "guar (sys_rel P C posted) (ListMyTransactions s c pg)"
proof -
  have ledger: "sv_Ledger s = None \<or> sv_Ledger s = Some C" using s by (auto simp: service_ok_def)
  have account: "guar (sys_rel P C posted) (ensureLedgerAccount s w)" for w
    by (rule disjE[OF ledger]) (simp_all add: ensureLedgerAccount_def, intro guar_rules guar_ledger_reads ok)
  have balances: "guar (sys_rel P C posted) (withBalances s ws)" for ws
    using ledger by (auto simp: withBalances_def Let_def intro!: guar_rules guar_app_fail guar_ledger_reads ok split: option.split)
  have check: "guar (sys_rel P C posted) (checkSufficientBalance s i a)" for i a
    by (rule disjE[OF ledger]) (simp_all add: checkSufficientBalance_def, intro guar_rules guar_ledger_reads ok)
  have settled: "guar (sys_rel P C posted) (settledTransactions s u n)" for u n
    by (rule disjE[OF ledger])
      (simp_all add: settledTransactions_def, (intro guar_rules guar_app_fail guar_tx_reads guar_ledger_reads ok)+)
  have unsettled: "guar (sys_rel P C posted) (unsettledTransactions s u n)" for u n
    unfolding unsettledTransactions_def by (intro guar_rules guar_app_fail guar_tx_reads)
  note rules = guar_rules guar_app_fail guar_as_caller guar_own_wallet guar_tx_reads guar_GetUserByID
    guar_CreateWallet guar_CreateIntent guar_CreateTransfer guar_marks guar_PublishEvent[OF s] guar_initialize
    account balances check settled unsettled
  show "guar (sys_rel P C posted) (Service_CreateWallet s c cur)"
    unfolding Service_CreateWallet_def by (intro rules)
  show "guar (sys_rel P C posted) (ListMyWallets s c)" "guar (sys_rel P C posted) (GetWallet s c i)"
    unfolding ListMyWallets_def GetWallet_def by (intro rules)+
  show "guar (sys_rel P C posted) (InitiateTransfer s c p)"
    unfolding InitiateTransfer_def start_transfer_def by (intro rules)
  show "guar (sys_rel P C posted) (GetTransfer s c i)" "guar (sys_rel P C posted) (GetTransaction s c r)"
    unfolding GetTransfer_def GetTransaction_def transferAsTransaction_def by (intro rules)+
  show "guar (sys_rel P C posted) (InitializeDeposit s c m i)"
    unfolding InitializeDeposit_def start_checkout_def by (intro rules)
  show "guar (sys_rel P C posted) (Service_HandlePaymentWebhook s sg b)"
    unfolding Service_HandlePaymentWebhook_def by (intro rules)
  show "guar (sys_rel P C posted) (ListMyTransactions s c pg)"
    unfolding ListMyTransactions_def by (intro rules)
qed

lemma guar_request:
  assumes "service_ok P C W s" and "tb_ok C posted"
  shows "guar (sys_rel P C posted) (request_prog s r)"
  by (cases r) (simp_all add: quiet_def guar_bnd guar_user_requests[OF assms(1)] guar_wallet_requests[OF assms])

lemma safe_job:
  assumes "env_ok P C posted" "worker_ok P C W" "service_ok P C W s"
  shows "safe P C posted (job_prog W s j) w"
proof (cases j)
  case (Attempt ctx t)
  have "safe P C posted (bnd (serve W ctx t) (\<lambda>_. Ret ())) w"
    by (rule safe_bnd[OF safe_serve[OF assms(1,2)]]) simp
  then show ?thesis by (simp add: Attempt quiet_def)
next
  case (Request r)
  then show ?thesis using guar_request[OF assms(3)] assms(1) by (simp add: safe_guar env_ok_def)
qed

section \<open>Every interleaving\<close>

lemma jobs_rel:
  assumes ok: "env_ok P C posted" "worker_ok P C W" "service_ok P C W s"
    and run: "interleave\<^sup>*\<^sup>* (map (job_prog W s) jobs, w) (ps, w')"
  shows "sys_rel P C posted w w'"
  using sys.rg_pool[OF run, of P C posted "\<lambda>_ _ _. True"] safe_job[OF ok] by simp

lemma jobs_safe:
  assumes "env_ok P C posted" "worker_ok P C W" "service_ok P C W s"
    and "ledger_inv P C posted w" and "uuids_fresh w'"
    and "interleave\<^sup>*\<^sup>* (map (job_prog W s) jobs, w) (ps, w')"
  shows "ledger_inv P C posted w'"
  using jobs_rel[OF assms(1-3,6)] assms(4,5) by (simp add: sys_rel_def)

end
