(* ===== verification/System_Machine.thy ===== *)
theory System_Machine
  imports System_Jobs
begin

text \<open>
  The program as a state machine. A configuration is the pool of jobs under way and the world;
  a step is a job arriving, one atomic action of one job, a job dying where it is (a crash, a
  timeout, a shutdown), the clock moving on, or an operator changing the status of a wallet.
  \<open>reachable\<close> is every configuration the running program can come to, and \<open>reachable_rel\<close> is the
  invariant it keeps.
\<close>

section \<open>Steps\<close>

type_synonym ('tb, 'x) config = "(unit, ('tb, 'x) world) prog list \<times> ('tb, 'x) world"

inductive system_step ::
  "('tb, 'x) AsynqWorker \<Rightarrow> ('tb, 'x) Service \<Rightarrow> ('tb, 'x) config \<Rightarrow> ('tb, 'x) config \<Rightarrow> bool"
  for W s where
  arrive: "system_step W s (ps, w) (ps @ [job_prog W s j], w)"
| act: "interleave (ps, w) (ps', w') \<Longrightarrow> system_step W s (ps, w) (ps', w')"
| crash: "system_step W s (ps @ p # qs, w) (ps @ qs, w)"
| clock: "now w \<le> t \<Longrightarrow> system_step W s (ps, w) (ps, w\<lparr>now := t\<rparr>)"
| operator: "system_step W s (ps, w)
    (ps, w\<lparr>wallets := sql_update (\<lambda>r. w_ID r = u) (\<lambda>r. r\<lparr>w_Status := st, w_UpdatedAt := now w\<rparr>) (wallets w)\<rparr>)"

inductive_cases system_stepE: "system_step W s (ps, w) c"

definition reachable ::
  "('tb, 'x) AsynqWorker \<Rightarrow> ('tb, 'x) Service \<Rightarrow> ('tb, 'x) world \<Rightarrow> ('tb, 'x) world \<Rightarrow> bool" where
  "reachable W s w w' \<longleftrightarrow> (\<exists>ps. (system_step W s)\<^sup>*\<^sup>* ([], w) (ps, w'))"

text \<open>What the program is started with: packages that behave as documented, one ledger behind the
  workers and the services, and tables that agree with it.\<close>

definition system_ok ::
  "uuid_pkg \<Rightarrow> 'tb tb_client \<Rightarrow> ('tb \<Rightarrow> u128 \<Rightarrow> tb_transfer option) \<Rightarrow> ('tb, 'x) AsynqWorker \<Rightarrow>
   ('tb, 'x) Service \<Rightarrow> ('tb, 'x) world \<Rightarrow> bool" where
  "system_ok P C posted W s w \<longleftrightarrow>
     env_ok P C posted \<and> worker_ok P C W \<and> service_ok P C W s \<and> ledger_inv P C posted w"

section \<open>The invariant\<close>

lemma sys_rel_now: "sys_rel P C posted w (w\<lparr>now := t\<rparr>)"
  by (rule sys_rel_frame[where evs = "[]"]) simp_all

lemma sys_rel_operator:
  "sys_rel P C posted w
    (w\<lparr>wallets := sql_update (\<lambda>r. w_ID r = u) (\<lambda>r. r\<lparr>w_Status := st, w_UpdatedAt := now w\<rparr>) (wallets w)\<rparr>)"
    (is "sys_rel P C posted w ?w'")
proof (rule sys_rel_db)
  show "evolves w ?w'"
    by (auto simp: evolves_def intent_rows.evolve_refl transfer_rows.evolve_refl wallet_le_def
        intro!: wallet_rows.evolve_update)
  have "map w_ID (wallets ?w') = map w_ID (wallets w)" "map w_AccountNumber (wallets ?w') = map w_AccountNumber (wallets w)"
    by (simp_all add: sql_update_def)
  then show "db_wf ?w' \<and> ids_ok ?w'" if "db_wf w \<and> ids_ok w" "uuids_fresh ?w'"
    using that by (simp add: db_wf_def ids_ok_def)
  show "success_posted C posted w \<Longrightarrow> success_posted C posted ?w'"
    by (simp add: success_posted_def)
qed simp_all

definition pool_safe ::
  "uuid_pkg \<Rightarrow> 'tb tb_client \<Rightarrow> ('tb \<Rightarrow> u128 \<Rightarrow> tb_transfer option) \<Rightarrow> ('tb, 'x) config \<Rightarrow> bool" where
  "pool_safe P C posted c \<longleftrightarrow> (\<forall>p \<in> set (fst c). safe P C posted p (snd c))"

lemma pool_env:
  "pool_safe P C posted (ps, w) \<Longrightarrow> sys_rel P C posted w w' \<Longrightarrow> pool_safe P C posted (ps, w')"
  by (auto simp: pool_safe_def intro: sys.rg_env)

lemma system_step_safe:
  assumes ok: "env_ok P C posted" "worker_ok P C W" "service_ok P C W s"
    and "system_step W s c c'" and "pool_safe P C posted c"
  shows "sys_rel P C posted (snd c) (snd c') \<and> pool_safe P C posted c'"
  using assms(4,5)
proof (cases rule: system_step.cases)
  case (arrive ps w j)
  then show ?thesis using assms(5) safe_job[OF ok, of j w] by (auto simp: pool_safe_def sys.rely_refl)
next
  case (act ps w ps' w')
  from act assms(5) have "\<forall>i < length ps. safe P C posted (ps ! i) w" by (simp add: pool_safe_def)
  with sys.rg_step[of ps w ps' w' P C posted "\<lambda>_ _ _. True"] act(3)
  have "sys_rel P C posted w w' \<and> (\<forall>i < length ps'. safe P C posted (ps' ! i) w')" by blast
  with act show ?thesis by (auto simp: pool_safe_def in_set_conv_nth)
next
  case (crash ps p qs w)
  then show ?thesis using assms(5) by (auto simp: pool_safe_def sys.rely_refl)
next
  case (clock w t ps)
  then show ?thesis using assms(5) sys_rel_now[of P C posted w t] pool_env by auto
next
  case (operator ps w u st)
  then show ?thesis using assms(5) sys_rel_operator[of P C posted w u st] pool_env by auto
qed

lemma reachable_rel:
  assumes "system_ok P C posted W s w0" and "reachable W s w0 w'"
  shows "sys_rel P C posted w0 w'"
proof -
  from assms(1) have ok: "env_ok P C posted" "worker_ok P C W" "service_ok P C W s"
    by (simp_all add: system_ok_def)
  from assms(2) obtain ps where "(system_step W s)\<^sup>*\<^sup>* ([], w0) (ps, w')" by (auto simp: reachable_def)
  then have "sys_rel P C posted w0 w' \<and> pool_safe P C posted (ps, w')"
  proof (induction "(ps, w')" arbitrary: ps w' rule: rtranclp_induct)
    case base
    then show ?case by (simp add: pool_safe_def sys.rely_refl)
  next
    case (step c)
    then show ?case using system_step_safe[OF ok step.hyps(2)] sys.rely_trans
      by (cases c) (fastforce simp: pool_safe_def)
  qed
  then show ?thesis by simp
qed

lemma reachable_inv:
  assumes "system_ok P C posted W s w" and "reachable W s w w'" and "uuids_fresh w'"
  shows "ledger_inv P C posted w'"
  using reachable_rel[OF assms(1,2)] assms(1,3) by (simp add: sys_rel_def system_ok_def)

text \<open>What is reachable from a reachable world is reachable: jobs under way may die.\<close>

lemma crash_all: "(system_step W s)\<^sup>*\<^sup>* (ps, w) ([], w)"
proof (induction ps)
  case (Cons p ps)
  have "system_step W s (p # ps, w) (ps, w)" using system_step.crash[of W s "[]" p ps w] by simp
  then show ?case using Cons by (rule converse_rtranclp_into_rtranclp)
qed simp

lemma reachable_trans: "reachable W s u v \<Longrightarrow> reachable W s v w \<Longrightarrow> reachable W s u w"
  unfolding reachable_def by (meson crash_all rtranclp_trans)

lemma reachable_refl: "reachable W s w w"
  unfolding reachable_def by blast

section \<open>Executions\<close>

lemma arrive_all: "(system_step W s)\<^sup>*\<^sup>* (ps, w) (ps @ map (job_prog W s) js, w)"
proof (induction js arbitrary: ps)
  case (Cons j js)
  have "system_step W s (ps, w) (ps @ [job_prog W s j], w)" by (rule system_step.arrive)
  then show ?case using Cons[of "ps @ [job_prog W s j]"] by (simp add: converse_rtranclp_into_rtranclp)
qed simp

lemma act_all: "interleave\<^sup>*\<^sup>* c c' \<Longrightarrow> (system_step W s)\<^sup>*\<^sup>* c c'"
proof (induction rule: rtranclp_induct)
  case (step c1 c2)
  then have "system_step W s c1 c2" by (cases c1; cases c2) (simp add: system_step.act)
  with step show ?case by (simp add: rtranclp.rtrancl_into_rtrancl)
qed simp

lemma reachable_schedule: "reachable W s w (snd (schedule is (map (job_prog W s) js, w)))"
proof -
  have "(system_step W s)\<^sup>*\<^sup>* ([], w) (map (job_prog W s) js, w)" using arrive_all[of W s "[]"] by simp
  moreover have "(system_step W s)\<^sup>*\<^sup>* (map (job_prog W s) js, w) (schedule is (map (job_prog W s) js, w))"
    by (rule act_all[OF schedule_interleave])
  ultimately have "(system_step W s)\<^sup>*\<^sup>* ([], w) (schedule is (map (job_prog W s) js, w))"
    by (rule rtranclp_trans)
  then show ?thesis unfolding reachable_def
    by (intro exI[of _ "fst (schedule is (map (job_prog W s) js, w))"]) (simp only: prod.collapse)
qed

lemma run_interleave: "run p w = (a, w') \<Longrightarrow> interleave\<^sup>*\<^sup>* ([p], w) ([Ret a], w')"
proof (induction p arbitrary: w rule: prog_induct)
  case (Atom f)
  obtain p' v where f: "f w = (p', v)" by fastforce
  with Atom.prems have "run p' v = (a, w')" by simp
  with Atom.IH[of w v] f have "interleave\<^sup>*\<^sup>* ([p'], v) ([Ret a], w')" by simp
  moreover have "interleave ([Atom f], w) ([p'], v)"
    using interleave.step[of 0 "[Atom f]" f w p' v] f by simp
  ultimately show ?case by (rule converse_rtranclp_into_rtranclp[rotated])
qed simp

text \<open>A job run to its end with no other in between.\<close>

lemma reachable_run: "reachable W s w (snd (run (job_prog W s j) w))"
proof -
  obtain a w' where r: "run (job_prog W s j) w = (a, w')" by (rule prod.exhaust)
  have "(system_step W s)\<^sup>*\<^sup>* ([], w) ([job_prog W s j], w)" using arrive_all[of W s "[]" w "[j]"] by simp
  with act_all[OF run_interleave[OF r], of W s] r show ?thesis
    unfolding reachable_def by (auto intro: rtranclp_trans)
qed

lemma reachable_runs: "reachable W s w (foldl (\<lambda>v j. snd (run (job_prog W s j) v)) w js)"
proof (induction js arbitrary: w)
  case (Cons j js)
  show ?case unfolding foldl_Cons by (rule reachable_trans[OF reachable_run Cons.IH])
qed (simp add: reachable_refl)

lemma reachable_operator:
  "reachable W s w (w\<lparr>wallets := sql_update (\<lambda>r. w_ID r = u) (\<lambda>r. r\<lparr>w_Status := st, w_UpdatedAt := now w\<rparr>) (wallets w)\<rparr>)"
  unfolding reachable_def by (intro exI[of _ "[]"] r_into_rtranclp system_step.operator)

end
