(* ===== verification/Example_Env.thy ===== *)
theory Example_Env
  imports System_Machine
begin

text \<open>
  A concrete environment: one of the functions the packages may be. The ledger is a list of posted
  transfers with TigerBeetle's rules for ids and balances, the queue is a list of tasks with unique
  ids, the provider verifies every payment, and identifiers are written in decimal. It satisfies
  the hypotheses the properties make of the packages (\<open>ex_env_ok\<close>), and the properties are
  exercised in it.
\<close>

section \<open>Identifiers\<close>

definition ex_uuid :: uuid_pkg where
  "ex_uuid = \<lparr>uuid_Parse = (\<lambda>s. map_option of_nat (undec s)), uuid_String = (\<lambda>u. dec (unat u))\<rparr>"

lemma ex_uuid_sel [simp]:
  "uuid_Parse ex_uuid s = map_option of_nat (undec s)" "uuid_String ex_uuid u = dec (unat u)"
  by (simp_all add: ex_uuid_def)

lemma ex_uuid_ok: "uuid_ok ex_uuid"
  by (simp add: uuid_ok_def)

section \<open>The ledger\<close>

type_synonym book = "tb_transfer list"

definition ex_posted :: "book \<Rightarrow> u128 \<Rightarrow> tb_transfer option" where
  "ex_posted s i = List.find (\<lambda>t. t_ID t = i) s"

definition book_sum :: "(tb_transfer \<Rightarrow> u128) \<Rightarrow> u128 \<Rightarrow> book \<Rightarrow> int" where
  "book_sum side a s = sum_list (map (\<lambda>t. uint (t_Amount t)) (filter (\<lambda>t. side t = a) s))"

definition book_status :: "book \<Rightarrow> tb_transfer \<Rightarrow> TransferStatus" where
  "book_status s t = (case ex_posted s (t_ID t) of
      Some u \<Rightarrow> if u = t then TransferExists else TransferOther ''exists_with_different_fields''
    | None \<Rightarrow>
        if t_Code t = TransferInternal \<and> book_sum t_CreditAccountID (t_DebitAccountID t) s <
             book_sum t_DebitAccountID (t_DebitAccountID t) s + uint (t_Amount t)
        then TransferExceedsCredits else TransferCreated)"

fun book_create :: "tb_transfer list \<Rightarrow> book \<Rightarrow> TransferStatus list \<times> book" where
  "book_create [] s = ([], s)"
| "book_create (t # ts) s = (let st = book_status s t;
     (sts, s') = book_create ts (if st = TransferCreated then s @ [t] else s) in (st # sts, s'))"

definition as_posted :: "nat \<Rightarrow> tb_transfer \<Rightarrow> tb_posted" where
  "as_posted n t = \<lparr>t_ID = t_ID t, t_DebitAccountID = t_DebitAccountID t, t_CreditAccountID = t_CreditAccountID t,
     t_Amount = t_Amount t, t_Ledger = t_Ledger t, t_Code = t_Code t, t_Timestamp = of_nat n\<rparr>"

definition book_entries :: "book \<Rightarrow> tb_posted list" where
  "book_entries s = map (\<lambda>(n, t). as_posted n t) (List.enumerate 1 s)"

definition ex_ledger :: "book tb_client" where
  "ex_ledger = \<lparr>tb_BytesToUint128 = (\<lambda>u. u), tb_Bytes = (\<lambda>u. u), tb_ToUint128 = ucast, tb_BigInt = uint,
     tb_CreateAccounts = (\<lambda>as s. (Inr (map (\<lambda>_. AccountExists) as), s)),
     tb_CreateTransfers = (\<lambda>ts s. case book_create ts s of (sts, s') \<Rightarrow> (Inr sts, s')),
     tb_LookupTransfers = (\<lambda>is s. (Inr (concat (map (\<lambda>i. filter (\<lambda>t. t_ID t = i) (book_entries s)) is)), s)),
     tb_LookupAccounts = (\<lambda>is s. (Inr (map (\<lambda>i. \<lparr>bal_ID = i,
        bal_DebitsPosted = word_of_int (book_sum t_DebitAccountID i s),
        bal_CreditsPosted = word_of_int (book_sum t_CreditAccountID i s)\<rparr>) is), s)),
     tb_GetAccountTransfers = (\<lambda>a n s. (Inr (take (unat n)
        (filter (\<lambda>t. t_DebitAccountID t = a \<or> t_CreditAccountID t = a) (rev (book_entries s)))), s))\<rparr>"

lemma find_append: "List.find p (xs @ ys) = (case List.find p xs of None \<Rightarrow> List.find p ys | Some x \<Rightarrow> Some x)"
  by (induction xs) auto

lemma ex_posted_snoc: "ex_posted s (t_ID t) = None \<Longrightarrow> ex_posted (s @ [t]) = (ex_posted s)(t_ID t \<mapsto> t)"
  by (auto simp: ex_posted_def find_append split: option.split)

lemma book_entry_ids: "map t_ID (book_entries s) = map t_ID s"
proof -
  have "map t_ID (map (\<lambda>(n, t). as_posted n t) (List.enumerate k s)) = map t_ID s" for k
    by (induction s arbitrary: k) (simp_all add: as_posted_def)
  then show ?thesis by (simp add: book_entries_def)
qed

lemma book_entries_none: "filter (\<lambda>t. t_ID t = i) (book_entries s) = [] \<longleftrightarrow> ex_posted s i = None"
proof -
  have "filter (\<lambda>t. t_ID t = i) (book_entries s) = [] \<longleftrightarrow> i \<notin> set (map t_ID (book_entries s))"
    by (auto simp: filter_empty_conv)
  then show ?thesis
    by (auto simp: book_entry_ids ex_posted_def find_None_iff)
qed

lemma book_create_one:
  "book_create [t] s = ([book_status s t], if book_status s t = TransferCreated then s @ [t] else s)"
  by simp

lemma ex_tb_ok: "tb_ok ex_ledger ex_posted"
proof -
  have same: "book_status s t = TransferExists \<longleftrightarrow> ex_posted s (t_ID t) = Some t" for s t
    by (auto simp: book_status_def split: option.splits if_splits)
  have new: "book_status s t = TransferCreated \<Longrightarrow> ex_posted s (t_ID t) = None" for s t
    by (auto simp: book_status_def split: option.splits if_splits)
  have one: "(\<exists>st. rs = [st] \<and> (if ex_posted s (t_ID t) = Some t then st = TransferExists \<and> ex_posted s' = ex_posted s
       else if st = TransferCreated then ex_posted s (t_ID t) = None \<and> ex_posted s' = (ex_posted s)(t_ID t \<mapsto> t)
       else st \<noteq> TransferExists \<and> ex_posted s' = ex_posted s))"
    if "rs = [book_status s t]" "s' = (if book_status s t = TransferCreated then s @ [t] else s)" for rs s s' t
    using that same[of s t] new[of s t] by (auto simp: ex_posted_snoc)
  show ?thesis
    unfolding tb_ok_def ex_ledger_def tb_client.select_convs book_create_one prod.case
    using one by (auto simp: book_entries_none)
qed

lemma ex_tb_ids_ok: "tb_ids_ok ex_ledger"
  by (simp add: tb_ids_ok_def ex_ledger_def uint_up_ucast is_up)

lemma ex_env_ok: "env_ok ex_uuid ex_ledger ex_posted"
  by (simp add: env_ok_def ex_uuid_ok ex_tb_ids_ok ex_tb_ok)

section \<open>Queue and provider\<close>

definition ex_queue :: "task list asynq_client" where
  "ex_queue = \<lparr>
     aq_Enqueue = (\<lambda>t q x. if task_TaskID t \<noteq> None \<and> (\<exists>u \<in> set x. task_TaskID u = task_TaskID t)
       then (Some ATaskIDConflict, x) else (None, x @ [t])),
     aq_DeleteTask = (\<lambda>q i x. if \<exists>u \<in> set x. task_TaskID u = Some i
       then (None, filter (\<lambda>u. task_TaskID u \<noteq> Some i) x) else (Some ATaskNotFound, x))\<rparr>"

definition ex_provider :: "task list PaymentProvider" where
  "ex_provider = \<lparr>prov_Name = ''example'',
     prov_Initialize = (\<lambda>req x. (Inr \<lparr>ips_Reference = ipr_Reference req, ips_AuthorizationURL = ''https://pay'',
        ips_AccessCode = '''', ips_Raw = None\<rparr>, x)),
     prov_Verify = (\<lambda>ref x. (Inr \<lparr>pv_Reference = ref, pv_Status = PaymentSuccess, pv_Amount = 500,
        pv_Currency = ''NGN'', pv_ProviderRef = '''', pv_Raw = None\<rparr>, x)),
     prov_VerifyWebhookSignature = (\<lambda>sg b. if sg = ''ok'' then None else Some (Sentinel ErrInvalidSignature)),
     prov_ParseWebhook = (\<lambda>b. Inl (Sentinel ErrUnhandledWebhook)),
     prov_Refund = (\<lambda>ref a x. (None, x))\<rparr>"

definition ex_worker :: "(book, task list) AsynqWorker" where
  "ex_worker = NewAsyncWorker '''' ex_uuid ex_queue (\<lambda>_. None) (Some (\<lambda>p b x. (None, x))) (Some ex_provider)
     (Some ex_ledger) 0 0"

lemma ex_worker_ok: "worker_ok ex_uuid ex_ledger ex_worker"
  unfolding ex_worker_def by (rule worker_ok_New) simp

section \<open>A world\<close>

text \<open>Wallets 10 and 11 in naira of users 1 and 2, a pending deposit of 5.00 (number 20) into the
  first and a pending transfer of 2.00 (number 30) to the second.\<close>

definition ex_wallet :: "uuid \<Rightarrow> uuid \<Rightarrow> string \<Rightarrow> wallet_row" where
  "ex_wallet i u n = \<lparr>w_ID = i, w_AccountNumber = n, w_UserID = u, w_Currency = ''NGN'', w_Status = WalletActive,
     w_CreatedAt = 0, w_UpdatedAt = 0, w_DeletedAt = None\<rparr>"

definition ex_intent :: "TransactionStatus \<Rightarrow> intent_row" where
  "ex_intent s = \<lparr>ti_ID = 20, ti_UserID = 1, ti_Amount = 500, ti_Status = s, ti_Wallet = 10, ti_Provider = ''example'',
     ti_CreatedAt = 0, ti_UpdatedAt = 0\<rparr>"

definition ex_transfer :: "TransactionStatus \<Rightarrow> transfer_row" where
  "ex_transfer s = \<lparr>tr_ID = 30, tr_SenderUserID = 1, tr_SenderWalletID = 10, tr_RecipientUserID = 2,
     tr_RecipientWalletID = 11, tr_Amount = 200, tr_Currency = ''NGN'', tr_Status = s, tr_FailureReason = '''',
     tr_CreatedAt = 0, tr_UpdatedAt = 0\<rparr>"

definition ex_world :: "(book, task list) world" where
  "ex_world = \<lparr>users = [], wallets = [ex_wallet 10 1 ''1000000010'', ex_wallet 11 2 ''1000000011''], activities = [],
     transfers = [ex_transfer TransactionPending], intents = [ex_intent TransactionPending], now = 1,
     db_fault = (\<lambda>_. None), db_n = 0, uuid_src = (\<lambda>n. of_nat (10 * n + 20)), uuid_n = 2, rand_src = (\<lambda>_. None), rand_n = 0,
     tb = [], ext = [], trace = []\<rparr>"

lemma ex_fresh:
  assumes "uuid_src w = (\<lambda>n. of_nat (10 * n + 20))" and "uuid_n w \<le> 9"
  shows "uuids_fresh w"
proof -
  have "inj_on (\<lambda>n. of_nat (10 * n + 20) :: 128 word) {..<9}"
  proof (rule inj_onI)
    fix x y :: nat
    assume b: "x \<in> {..<9}" "y \<in> {..<9}" "(of_nat (10 * x + 20) :: 128 word) = of_nat (10 * y + 20)"
    then have "unat (of_nat (10 * x + 20) :: 128 word) = unat (of_nat (10 * y + 20) :: 128 word)" by simp
    moreover have "(10 * x + 20) mod 2 ^ 128 = 10 * x + 20" "(10 * y + 20) mod 2 ^ 128 = 10 * y + 20" using b by simp_all
    ultimately show "x = y" by (simp only: unat_of_nat) simp
  qed
  then show ?thesis using assms unfolding uuids_fresh_def by (metis inj_on_subset lessThan_subset_iff)
qed

lemma ex_drawn:
  "20 \<in> (\<lambda>n. 10 * of_nat n + 20 :: 128 word) ` {..<2}" "30 \<in> (\<lambda>n. 10 * of_nat n + 20 :: 128 word) ` {..<2}"
  by (rule image_eqI[of _ _ 0]; simp) (rule image_eqI[of _ _ 1]; simp)

lemma ex_inv: "ledger_inv ex_uuid ex_ledger ex_posted ex_world"
  by (auto simp: ledger_inv_def db_wf_def ids_ok_def posted_explained_def success_posted_def refunds_recorded_def
      ex_world_def ex_wallet_def ex_intent_def ex_transfer_def ex_posted_def
      intro!: ex_drawn)

section \<open>A service and jobs\<close>

definition ex_redis :: "task list redis_client" where
  "ex_redis = \<lparr>rd_TxSetDel = (\<lambda>k v t d x. (None, x)), rd_Incr = (\<lambda>k x. (Inr 1, x)), rd_Expire = (\<lambda>k t x. ((), x)),
     rd_Del = (\<lambda>ks x. ((), x)), rd_Get = (\<lambda>k x. (Inl RNil, x))\<rparr>"

definition ex_service :: "(book, task list) Service" where
  "ex_service = NewService \<lparr>sv_uuid = ex_uuid,
     sv_Bus = Some (RegisterListeners NewEventBus ex_worker (NewStore ex_redis (\<lambda>c. c) 0 0 0)),
     sv_Store = NewStore ex_redis (\<lambda>c. c) 0 0 0,
     sv_bcrypt = \<lparr>bc_GenerateFromPassword = (\<lambda>p x. (Inr p, x)),
       bc_CompareHashAndPassword = (\<lambda>h p. if h = p then None else Some (Opaque ''mismatch''))\<rparr>,
     sv_jwt = \<lparr>jw_Encode = (\<lambda>c. Inr ''token''), jw_VerifyToken = (\<lambda>t n. Inl (Opaque ''invalid''))\<rparr>,
     sv_AccessTokenExpiry = 0, sv_RefreshTokenExpiry = 0, sv_Provider = Some ex_provider, sv_CallbackURL = '''',
     sv_Ledger = Some ex_ledger\<rparr>"

lemma ex_service_ok: "service_ok ex_uuid ex_ledger ex_worker ex_service"
  by (simp add: service_ok_def ex_service_def NewService_def)

lemma ex_system_ok: "system_ok ex_uuid ex_ledger ex_posted ex_worker ex_service ex_world"
  by (simp add: system_ok_def ex_env_ok ex_worker_ok ex_service_ok ex_inv)

definition ex_ctx :: "int \<Rightarrow> TaskCtx" where
  "ex_ctx n = \<lparr>tc_Retried = Some n, tc_MaxRetry = Some 3\<rparr>"

definition ex_webhook :: "int64 \<Rightarrow> job" where
  "ex_webhook amount = Attempt (ex_ctx 0) (Payment_GenerateNewTask (aqw_Payment ex_worker) TaskTypePaymentWebhook
     \<lparr>pp_Reference = ''20'', pp_Provider = ''example'', pp_Event = ''charge.success'', pp_Status = ''SUCCESS'',
      pp_AmountMinor = amount, pp_Currency = ''NGN''\<rparr>)"

definition ex_failed :: job where
  "ex_failed = Attempt (ex_ctx 0) (Payment_GenerateNewTask (aqw_Payment ex_worker) TaskTypePaymentWebhook
     \<lparr>pp_Reference = ''20'', pp_Provider = ''example'', pp_Event = ''charge.failed'', pp_Status = ''FAILED'',
      pp_AmountMinor = 500, pp_Currency = ''NGN''\<rparr>)"

definition ex_execute :: job where
  "ex_execute = Attempt (ex_ctx 0) (Transfer_GenerateNewTask TaskTypeTransferExecute ''30'')"

text \<open>The world after jobs run one after another, and after an interleaving of some.\<close>

definition ex_after :: "job list \<Rightarrow> (book, task list) world" where
  "ex_after js = foldl (\<lambda>v j. snd (run (job_prog ex_worker ex_service j) v)) ex_world js"

definition ex_interleaved :: "nat list \<Rightarrow> job list \<Rightarrow> (book, task list) world" where
  "ex_interleaved is js = snd (schedule is (map (job_prog ex_worker ex_service) js, ex_world))"

lemma ex_reachable:
  "reachable ex_worker ex_service ex_world (ex_after js)"
  "reachable ex_worker ex_service ex_world (ex_interleaved is js)"
  by (simp_all only: ex_after_def ex_interleaved_def reachable_runs reachable_schedule)

lemma ex_reachable_fresh: "reachable ex_worker ex_service ex_world w \<Longrightarrow> uuid_n w \<le> 9 \<Longrightarrow> uuids_fresh w"
  using reachable_rel[OF ex_system_ok] by (auto simp: sys_rel_def evolves_def ex_world_def intro: ex_fresh)

section \<open>Evaluated runs\<close>

text \<open>The deposit and the transfer as the ledger holds them, and what is left of a world when only
  its tables, ledger and trace are looked at.\<close>

definition ex_deposit_entry :: tb_transfer where
  "ex_deposit_entry = \<lparr>t_ID = 20, t_DebitAccountID = 1, t_CreditAccountID = 10, t_Amount = 500, t_Ledger = 1, t_Code = 1\<rparr>"

definition ex_move_entry :: tb_transfer where
  "ex_move_entry = \<lparr>t_ID = 30, t_DebitAccountID = 10, t_CreditAccountID = 11, t_Amount = 200, t_Ledger = 1, t_Code = 2\<rparr>"

definition ex_view :: "(book, task list) world \<Rightarrow> intent_row list \<times> transfer_row list \<times> book \<times> bool" where
  "ex_view w = (intents w, transfers w, tb w, uuid_n w \<le> 9)"

definition ex_refunds :: "(book, task list) world \<Rightarrow> (string \<times> Money) list" where
  "ex_refunds w = List.map_filter (\<lambda>e. case e of EvRefund ref a \<Rightarrow> Some (ref, a) | _ \<Rightarrow> None) (trace w)"

lemma ex_refundsD: "(ref, a) \<in> set (ex_refunds w) \<Longrightarrow> EvRefund ref a \<in> set (trace w)"
  by (auto simp: ex_refunds_def List.map_filter_def split: event.splits)

lemma ex_settled: "ex_view (ex_after [ex_webhook 500]) =
    ([(ex_intent TransactionSuccess)\<lparr>ti_UpdatedAt := 1\<rparr>], [ex_transfer TransactionPending], [ex_deposit_entry], True)"
  by code_simp

lemma ex_moved: "ex_view (ex_after [ex_webhook 500, ex_execute]) =
    ([(ex_intent TransactionSuccess)\<lparr>ti_UpdatedAt := 1\<rparr>], [(ex_transfer TransactionSuccess)\<lparr>tr_UpdatedAt := 1\<rparr>],
     [ex_deposit_entry, ex_move_entry], True)"
  by code_simp

lemma ex_refunded: "(\<lambda>w. (ex_view w, ex_refunds w)) (ex_after [ex_failed, ex_webhook 500]) =
    (([(ex_intent TransactionRefunded)\<lparr>ti_UpdatedAt := 1\<rparr>], [ex_transfer TransactionPending], [], True), [(''20'', 500)])"
  by code_simp

lemma ex_viewD:
  assumes "ex_view w = (is, ts, b, True)" and "reachable ex_worker ex_service ex_world w"
  shows "intents w = is" "transfers w = ts" "tb w = b" "uuids_fresh w"
  using assms(1) ex_reachable_fresh[OF assms(2)] by (simp_all add: ex_view_def)

lemmas ex_settledD = ex_viewD[OF ex_settled ex_reachable(1)]
lemmas ex_movedD = ex_viewD[OF ex_moved ex_reachable(1)]

section \<open>Two interleavings\<close>

text \<open>A webhook is suspended after reading the intent as PENDING; a failure webhook fails the intent,
  a second success webhook finds nothing in the ledger and refunds; the first goes on.\<close>

definition ex_race :: "(book, task list) world" where
  "ex_race = ex_interleaved ([0] @ replicate 2 1 @ replicate 6 2 @ replicate 5 0) [ex_webhook 500, ex_failed, ex_webhook 500]"

lemma ex_race: "(\<lambda>w. (ex_view w, ex_refunds w)) ex_race =
    (([(ex_intent TransactionRefunded)\<lparr>ti_UpdatedAt := 1\<rparr>], [ex_transfer TransactionPending], [ex_deposit_entry], True),
     [(''20'', 500)])"
  by code_simp

text \<open>The worker dies right after the ledger moved the money of transfer 30; before the retry an
  operator freezes the receiving wallet.\<close>

definition ex_moved_unmarked :: "(book, task list) world" where
  "ex_moved_unmarked = snd (schedule (replicate 6 0) ([job_prog ex_worker ex_service ex_execute], ex_after [ex_webhook 500]))"

definition ex_frozen :: "(book, task list) world" where
  "ex_frozen = (let w = ex_moved_unmarked in
     w\<lparr>wallets := sql_update (\<lambda>r. w_ID r = 11) (\<lambda>r. r\<lparr>w_Status := WallteFrozen, w_UpdatedAt := now w\<rparr>) (wallets w)\<rparr>)"

definition ex_retried :: "(book, task list) world" where
  "ex_retried = snd (run (job_prog ex_worker ex_service ex_execute) ex_frozen)"

lemma ex_retried: "ex_view ex_retried =
    ([(ex_intent TransactionSuccess)\<lparr>ti_UpdatedAt := 1\<rparr>],
     [(ex_transfer TransactionFailed)\<lparr>tr_FailureReason := ''An account involved is not active'', tr_UpdatedAt := 1\<rparr>],
     [ex_deposit_entry, ex_move_entry], True)"
  by code_simp

lemma ex_race_reachable: "reachable ex_worker ex_service ex_world ex_race"
  unfolding ex_race_def by (rule ex_reachable)

lemma ex_retried_reachable: "reachable ex_worker ex_service ex_world ex_retried"
proof -
  have "reachable ex_worker ex_service (ex_after [ex_webhook 500]) ex_moved_unmarked"
    unfolding ex_moved_unmarked_def using reachable_schedule[of ex_worker ex_service _ _ "[ex_execute]"] by simp
  moreover have "reachable ex_worker ex_service ex_moved_unmarked ex_frozen"
    unfolding ex_frozen_def Let_def by (rule reachable_operator)
  moreover have "reachable ex_worker ex_service ex_frozen ex_retried"
    unfolding ex_retried_def by (rule reachable_run)
  ultimately show ?thesis using ex_reachable(1) reachable_trans by metis
qed

end
