(* ===== verification/Example_Worlds.thy ===== *)
theory Example_Worlds
  imports Sequential Example_Env
begin

text \<open>
  The worlds and messages the properties of single runs are exercised on: the example environment
  with one deposit intent in a given status and a ledger holding given transfers.
\<close>

text \<open>The world of the examples with one intent in status \<open>s\<close> and the ledger holding \<open>b\<close>.\<close>

definition ex_with :: "TransactionStatus \<Rightarrow> book \<Rightarrow> (book, task list) world" where
  "ex_with s b = ex_world\<lparr>intents := [ex_intent s], tb := b\<rparr>"

definition ex_message :: "string \<Rightarrow> int64 \<Rightarrow> PaymentPayload" where
  "ex_message s a = \<lparr>pp_Reference = ''20'', pp_Provider = ''example'', pp_Event = ''charge'', pp_Status = s,
     pp_AmountMinor = a, pp_Currency = ''NGN''\<rparr>"

lemma ex_message_sel [simp]:
  "pp_Reference (ex_message s a) = ''20''" "pp_Status (ex_message s a) = s" "pp_AmountMinor (ex_message s a) = a"
  "pp_Currency (ex_message s a) = ''NGN''"
  by (simp_all add: ex_message_def)

lemma ex_with_sel [simp]:
  "intents (ex_with s b) = [ex_intent s]" "tb (ex_with s b) = b" "now (ex_with s b) = 1" "trace (ex_with s b) = []"
  "transfers (ex_with s b) = [ex_transfer TransactionPending]" "ext (ex_with s b) = []"
  "wallets (ex_with s b) = [ex_wallet 10 1 ''1000000010'', ex_wallet 11 2 ''1000000011'']"
  by (simp_all add: ex_with_def ex_world_def)

lemma ex_rows [simp]:
  "ti_ID (ex_intent s) = 20" "ti_Status (ex_intent s) = s" "ti_Amount (ex_intent s) = 500" "ti_Wallet (ex_intent s) = 10"
  "w_ID (ex_wallet i u n) = i" "w_DeletedAt (ex_wallet i u n) = None" "w_Status (ex_wallet i u n) = WalletActive"
  "w_Currency (ex_wallet i u n) = ''NGN''"
  by (simp_all add: ex_intent_def ex_wallet_def)

lemma ex_text: "uuid_String ex_uuid 20 = ''20''" "uuid_String ex_uuid 30 = ''30''" by code_simp+

lemma ex_payment [simp]:
  "pw_uuid (aqw_Payment ex_worker) = ex_uuid" "pw_Ledger (aqw_Payment ex_worker) = Some ex_ledger"
  "pw_Provider (aqw_Payment ex_worker) = Some ex_provider"
  by (simp_all add: ex_worker_def NewAsyncWorker_def NewPaymentWorker_def Let_def)

lemma ex_account_results: "account_results (map (\<lambda>_. AccountExists) xs) = None"
  by (induction xs) auto

lemma ex_tb_up: "tb_up ex_ledger"
  by (auto simp: tb_up_def ex_ledger_def ex_account_results)

lemma ex_up: "all_up ex_uuid ex_ledger ex_posted (ex_with s b)"
  by (simp add: all_up_def ex_env_ok ex_tb_up calm_def db_wf_def ex_with_def ex_world_def ex_wallet_def)

lemma ex_provider_refunds: "fst (prov_Refund ex_provider ref a x) = None"
  by (simp add: ex_provider_def)

lemma ex_answer: "fst (tb_CreateTransfers ex_ledger [t] s) = Inr [book_status s t]"
  by (simp add: ex_ledger_def Let_def)

lemma ex_idle: "tb_idle ex_ledger s0 s \<Longrightarrow> s = s0"
  by (induction rule: tb_idle.induct) (simp_all add: ex_ledger_def)

lemma ex_status:
  "book_status s t \<in> {TransferCreated, TransferExists} \<Longrightarrow> tb_accepts ex_ledger s t"
  "book_status s t = TransferExceedsCredits \<Longrightarrow> tb_refuses ex_ledger s t"
  by (auto simp: tb_accepts_def tb_refuses_def ex_answer dest: ex_idle)

lemma ex_accepts: "tb_accepts ex_ledger [] ex_deposit_entry"
  by (rule ex_status) (simp add: book_status_def ex_posted_def ex_deposit_entry_def TransferInternal_def)

lemma ex_moves: "tb_accepts ex_ledger [ex_deposit_entry] ex_move_entry" "tb_refuses ex_ledger [] ex_move_entry"
  by (rule ex_status; code_simp)+

lemma ex_ids: "TransferID ex_ledger u = u" "AccountID ex_ledger u = u"
  by (simp_all add: TransferID_def AccountID_def ex_ledger_def)

lemma ex_naira: "LedgerForCurrency ''NGN'' = Inr 1"
  by (simp add: LedgerForCurrency_def currencyLedgers_def)

end
