(* ===== verification/Deposit_Properties.thy ===== *)
theory Deposit_Properties
  imports Example_Worlds
begin

text \<open>
  What one run of the payment worker's handlers achieves: a deposit is settled, a late payment is
  settled or refunded, a resolved intent is left alone, a payment that does not match its intent
  moves no money, and a poll asks the provider again until its attempts are used up.
\<close>

section \<open>Running settle\<close>

text \<open>The transfer that settles an intent into a wallet of ledger \<open>l\<close>.\<close>

definition deposit_entry :: "'tb tb_client \<Rightarrow> LedgerID \<Rightarrow> intent_row \<Rightarrow> tb_transfer" where
  "deposit_entry C l r = \<lparr>t_ID = TransferID C (ti_ID r), t_DebitAccountID = SettlementAccountID C l,
     t_CreditAccountID = AccountID C (ti_Wallet r), t_Amount = tb_ToUint128 C (Minor (ti_Amount r)), t_Ledger = l,
     t_Code = TransferDeposit\<rparr>"

text \<open>How a world differs from an earlier one: one intent replaced, the ledger's transfers, and the
  calls that move money.\<close>

definition only_changed ::
  "('tb \<Rightarrow> u128 \<Rightarrow> tb_transfer option) \<Rightarrow> intent_row \<Rightarrow> (u128 \<Rightarrow> tb_transfer option) \<Rightarrow> event list \<Rightarrow>
   ('tb, 'x) world \<Rightarrow> ('tb, 'x) world \<Rightarrow> bool" where
  "only_changed posted q book evs w w' \<longleftrightarrow> intents w' = put_row ti_ID q (intents w) \<and>
     transfers w' = transfers w \<and> wallets w' = wallets w \<and> posted (tb w') = book \<and>
     money_events (trace w') = money_events (trace w) @ evs"

lemma only_changed_frame: "only_changed posted q book evs w v \<Longrightarrow> same_books v v' \<Longrightarrow> only_changed posted q book evs w v'"
  by (simp add: only_changed_def same_books_def)

lemma wp_mark_succeeded:
  assumes "calm w" "distinct (map ti_ID (intents w))" "r \<in> set (intents w)" "uuid_Parse (pw_uuid p) ref = Some (ti_ID r)"
    and "ti_Status r \<in> {TransactionPending, TransactionFailed}"
    and "\<And>w' q. q = r\<lparr>ti_Status := TransactionSuccess, ti_UpdatedAt := now w\<rparr> \<Longrightarrow>
      same_books (w\<lparr>intents := put_row ti_ID q (intents w)\<rparr>) w' \<Longrightarrow> Q None w'"
  shows "wp (mark_succeeded p ref) Q w"
  unfolding mark_succeeded_def MarkIntentSucceeded_def
proof (rule wp_bnd, rule wp_mark_intent_calm[OF assms(1-4)])
  fix q assume q: "q = r\<lparr>ti_Status := TransactionSuccess, ti_UpdatedAt := now w\<rparr>"
  let ?v = "w\<lparr>db_n := Suc (db_n w), intents := put_row ti_ID q (intents w)\<rparr>"
  have "wp (bnd (notify p (MapIntentModelToIntent (pw_uuid p) q)) (\<lambda>_. Ret None)) Q ?v"
    by (rule wp_bnd, rule wp_frame[OF frame_ops(5)], rule wp_Ret, rule assms(6)[OF q]) (simp add: same_books_def)
  then show "wp (case Inr (MapIntentModelToIntent (pw_uuid p) q) of
      Inl err \<Rightarrow> Ret (if errors_Is err ErrIntentSucceeded then None else Some err)
    | Inr settled \<Rightarrow> bnd (notify p settled) (\<lambda>_. Ret None)) Q ?v" by simp
qed (use assms(5) in auto)

lemma wp_settle_pending:
  assumes up: "all_up P C posted w" "pw_uuid p = P"
    and r: "r \<in> set (intents w)" "ti_Status r = TransactionPending" "IsPositive (ti_Amount r)"
    and v: "v \<in> set (wallets w)" "w_ID v = ti_Wallet r" "w_DeletedAt v = None" "w_Status v = WalletActive"
      "cur = '''' \<or> EqualFold cur (w_Currency v)" "LedgerForCurrency (w_Currency v) = Inr l"
    and acc: "tb_accepts C (tb w) (deposit_entry C l r)"
    and Q: "\<And>w'. only_changed posted (r\<lparr>ti_Status := TransactionSuccess, ti_UpdatedAt := now w\<rparr>)
      ((posted (tb w))(TransferID C (ti_ID r) \<mapsto> deposit_entry C l r)) [EvCreateTransfers [deposit_entry C l r]] w w' \<Longrightarrow> Q None w'"
  shows "wp (settle_pending p C (uuid_String P (ti_ID r)) cur (MapIntentModelToIntent P r)) Q w"
proof -
  note u = all_upD[OF up(1)]
  let ?d = "\<lparr>dp_TransferID = ti_ID r, dp_WalletID = w_ID v, dp_Currency = w_Currency v, dp_Amount = ti_Amount r\<rparr>"
  have d: "deposit_request C l ?d = deposit_entry C l r" by (simp add: deposit_request_def deposit_entry_def v(2))
  have fin: "wp (mark_succeeded p (uuid_String P (ti_ID r))) Q (w\<lparr>db_n := n, tb := s, trace := trace w @ evs\<rparr>)"
    if s: "posted s = (posted (tb w))(TransferID C (ti_ID r) \<mapsto> deposit_entry C l r)"
      "money_events evs = [EvCreateTransfers [deposit_entry C l r]]" for n s evs
    by (rule wp_mark_succeeded)
      (use u r up(2) s in \<open>auto simp: calm_def same_books_def only_changed_def intro!: Q\<close>)
  have cur: "(cur \<noteq> '''' \<and> \<not> EqualFold cur (w_Currency v)) = False" using v(5) by blast
  show ?thesis
    unfolding settle_pending_def up(2)
    apply (rule wp_bnd, rule wp_GetWallet_calm[OF u(3) _ u(6) v(1) v(3)])
     apply (simp add: v(2) u(7))
    apply (simp only: sum.simps Map_sel cur if_False v(4) not_False_eq_True simp_thms option.simps u(7))
    apply (rule wp_bnd, rule wp_deposit_calm[OF u(1,2), where l = l])
       apply (simp_all add: r(3) v(6) d acc fin)
    done
qed

lemma decode_generated_payment: "decode_payment (Payment_GenerateNewTask p n m) = Inr m"
  by (simp add: decode_payment_def Payment_GenerateNewTask_def GenerateNewTask_def payment_round_trip)

lemma wp_refund:
  assumes up: "all_up P C posted w" "pw_uuid p = P" and r: "r \<in> set (intents w)"
    and st: "ti_Status r \<in> {TransactionFailed, TransactionRefunding}"
    and V: "\<And>x. fst (prov_Refund V (uuid_String P (ti_ID r)) (ti_Amount r) x) = None"
    and Q: "\<And>w'. only_changed posted (r\<lparr>ti_Status := TransactionRefunded, ti_UpdatedAt := now w\<rparr>) (posted (tb w))
      [EvRefund (uuid_String P (ti_ID r)) (ti_Amount r)] w w' \<Longrightarrow> Q None w'"
  shows "wp (refund p V (MapIntentModelToIntent P r)) Q w"
proof -
  note u = all_upD[OF up(1)]
  let ?q = "r\<lparr>ti_Status := TransactionRefunding, ti_UpdatedAt := now w\<rparr>"
  have fin: "wp (bnd (MarkIntentRefunded P (uuid_String P (ti_ID r))) (\<lambda>x. Ret (case x of
      Inl err \<Rightarrow> if errors_Is err ErrIntentNotFailed then None else Some err | Inr _ \<Rightarrow> None))) Q
      (w\<lparr>db_n := n, intents := put_row ti_ID ?q (intents w), ext := x, trace := trace w @ [EvRefund (uuid_String P (ti_ID r)) (ti_Amount r)]\<rparr>)"
    for n x
    unfolding MarkIntentRefunded_def moveIntent_def
    by (rule wp_bnd, rule wp_mark_intent_calm[where r = ?q]; (rule wp_Ret)?)
      (use u r in \<open>auto simp: calm_def only_changed_def put_row_in intro!: Q\<close>)
  show ?thesis
    unfolding refund_def up(2) Map_sel
  proof (rule wp_bnd, unfold MarkIntentRefunding_def moveIntent_def,
      rule wp_mark_intent_calm[OF u(3,4) r u(7)], goal_cases)
    case (1 q)
    show ?case unfolding sum.simps Provider_Refund_def
    proof (rule wp_bnd, rule wp_ext_call, goal_cases)
      case (1 e x)
      then have "e = None" using V by (metis fst_conv)
      then show ?case using fin \<open>q = ?q\<close> by simp
    qed
  qed (use st in auto)
qed

lemma wp_settle_late:
  assumes up: "all_up P C posted w" "pw_uuid p = P" "pw_Ledger p = Some C" "pw_Provider p = Some V"
    and r: "r \<in> set (intents w)" "ti_Status r = TransactionFailed"
    and credited: "posted (tb w) (TransferID C (ti_ID r)) \<noteq> None \<Longrightarrow>
      (\<And>w'. only_changed posted (r\<lparr>ti_Status := TransactionSuccess, ti_UpdatedAt := now w\<rparr>) (posted (tb w)) [] w w' \<Longrightarrow> Q None w')"
    and V: "posted (tb w) (TransferID C (ti_ID r)) = None \<Longrightarrow>
      (\<And>x. fst (prov_Refund V (uuid_String P (ti_ID r)) (ti_Amount r) x) = None)"
    and refunded: "posted (tb w) (TransferID C (ti_ID r)) = None \<Longrightarrow>
      (\<And>w'. only_changed posted (r\<lparr>ti_Status := TransactionRefunded, ti_UpdatedAt := now w\<rparr>) (posted (tb w))
        [EvRefund (uuid_String P (ti_ID r)) (ti_Amount r)] w w' \<Longrightarrow> Q None w')"
  shows "wp (settle p (uuid_String P (ti_ID r)) amount cur) Q w"
proof -
  note u = all_upD[OF up(1)]
  have step: "wp (if posted (tb w) (TransferID C (ti_ID r)) \<noteq> None then mark_succeeded p (uuid_String P (ti_ID r))
      else refund p V (MapIntentModelToIntent P r)) Q (w\<lparr>db_n := n, tb := s\<rparr>)" if s: "posted s = posted (tb w)" for n s
  proof (cases "posted (tb w) (TransferID C (ti_ID r)) = None")
    case True
    have "all_up P C posted (w\<lparr>db_n := n, tb := s\<rparr>)" using up(1) by (simp add: all_up_def calm_def db_wf_def)
    from wp_refund[OF this up(2), of r V Q] r s V[OF True] refunded[OF True] True show ?thesis
      by (simp add: only_changed_def)
  next
    case False
    have "wp (mark_succeeded p (uuid_String P (ti_ID r))) Q (w\<lparr>db_n := n, tb := s\<rparr>)"
      by (rule wp_mark_succeeded)
        (use u r up(2) s in \<open>auto simp: calm_def same_books_def only_changed_def intro!: credited[OF False]\<close>)
    with False show ?thesis by simp
  qed
  show ?thesis
    unfolding settle_def up(2,3) option.simps
    apply (rule wp_bnd, rule wp_GetIntent_calm[OF u(3,7,4) r(1)])
    apply (simp add: r(2) refundLatePayment_def up(2,4) u(7))
    apply (rule wp_bnd, rule wp_TransferExists_calm[OF u(1,2)])
    subgoal for s using step[of s "Suc (db_n w)"] by (cases "posted (tb w) (TransferID C (ti_ID r))") simp_all
    done
qed

lemma wp_settle_match:
  assumes up: "all_up P C posted w" "pw_uuid p = P" "pw_Ledger p = Some C"
    and r: "r \<in> set (intents w)" "ti_Status r = TransactionPending" "IsPositive (ti_Amount r)"
    and v: "v \<in> set (wallets w)" "w_ID v = ti_Wallet r" "w_DeletedAt v = None" "w_Status v = WalletActive"
      "cur = '''' \<or> EqualFold cur (w_Currency v)" "LedgerForCurrency (w_Currency v) = Inr l"
    and acc: "tb_accepts C (tb w) (deposit_entry C l r)"
    and Q: "\<And>w'. only_changed posted (r\<lparr>ti_Status := TransactionSuccess, ti_UpdatedAt := now w\<rparr>)
      ((posted (tb w))(TransferID C (ti_ID r) \<mapsto> deposit_entry C l r)) [EvCreateTransfers [deposit_entry C l r]] w w' \<Longrightarrow> Q None w'"
  shows "wp (settle p (uuid_String P (ti_ID r)) (ti_Amount r) cur) Q w"
proof -
  note u = all_upD[OF up(1)]
  let ?v = "w\<lparr>db_n := Suc (db_n w)\<rparr>"
  have "all_up P C posted ?v" using up(1) by (simp add: all_up_def calm_def db_wf_def)
  from wp_settle_pending[OF this up(2), of r v cur l Q] have
    "wp (settle_pending p C (uuid_String P (ti_ID r)) cur (MapIntentModelToIntent P r)) Q ?v"
    using r v acc Q by (simp add: only_changed_def)
  then show ?thesis
    unfolding settle_def up(2,3) option.simps
    by (intro wp_bnd wp_GetIntent_calm[OF u(3,7,4) r(1)]) (simp add: r(2))
qed

text \<open>A webhook that reports a payment: what \<open>settle\<close> does, then the poll is cancelled.\<close>

lemma wp_webhook:
  assumes "pp_Status m = PaymentSuccess"
    and "wp (settle p (pp_Reference m) (pp_AmountMinor m) (pp_Currency m)) (\<lambda>e v. \<forall>v'. same_books v v' \<longrightarrow> Q e v') w"
  shows "wp (HandlePaymentWebhook p (Payment_GenerateNewTask p n m)) Q w"
proof -
  have *: "wp (case e of Some err \<Rightarrow> Ret (Some err) | None \<Rightarrow> bnd (cancelPoll p (pp_Reference m)) (\<lambda>_. Ret None)) Q v"
    if "\<forall>v'. same_books v v' \<longrightarrow> Q e v'" for e v
    using that frame.rely_refl[of v]
    by (cases e) (auto intro!: wp_Ret wp_bnd wp_frame[OF frame_ops(6)])
  show ?thesis
    unfolding HandlePaymentWebhook_def decode_generated_payment sum.simps
    using assms(1) wp_mono[OF assms(2) *]
    by (auto simp: NewMoneyFromMinor_def intro!: wp_bnd)
qed

section \<open>What the handlers achieve\<close>

lemma ex_deposit: "deposit_entry ex_ledger 1 (ex_intent s) = ex_deposit_entry"
  by (simp add: deposit_entry_def ex_deposit_entry_def ex_intent_def ex_ledger_def TransferID_def AccountID_def
      SettlementAccountID_def TransferDeposit_def Minor_def)

text \<open>When the database and the ledger answer, a webhook that reports a payment of exactly the
  intent's amount settles a PENDING intent in one run: the handler returns nil, the intent is
  SUCCESS, the ledger holds the deposit, one transfer was sent to it and no refund, and no other row
  changed. It does not matter whether an earlier attempt had already posted the deposit.\<close>

theorem webhook_settles_deposit:
  assumes "all_up P C posted w" and "pw_uuid p = P" and "pw_Ledger p = Some C"
    and "pp_Status m = PaymentSuccess" and "pp_Reference m = uuid_String P (ti_ID r)" and "pp_AmountMinor m = ti_Amount r"
    and "r \<in> set (intents w)" and "ti_Status r = TransactionPending" and "IsPositive (ti_Amount r)"
    and "v \<in> set (wallets w)" and "w_ID v = ti_Wallet r" and "w_DeletedAt v = None" and "w_Status v = WalletActive"
    and "pp_Currency m = '''' \<or> EqualFold (pp_Currency m) (w_Currency v)" and "LedgerForCurrency (w_Currency v) = Inr l"
    and "tb_accepts C (tb w) (deposit_entry C l r)"
  shows "\<exists>w'. run (HandlePaymentWebhook p (Payment_GenerateNewTask p TaskTypePaymentWebhook m)) w = (None, w') \<and>
    only_changed posted (r\<lparr>ti_Status := TransactionSuccess, ti_UpdatedAt := now w\<rparr>)
      ((posted (tb w))(TransferID C (ti_ID r) \<mapsto> deposit_entry C l r)) [EvCreateTransfers [deposit_entry C l r]] w w'"
proof -
  have "wp (HandlePaymentWebhook p (Payment_GenerateNewTask p TaskTypePaymentWebhook m)) (\<lambda>e w'. e = None \<and>
      only_changed posted (r\<lparr>ti_Status := TransactionSuccess, ti_UpdatedAt := now w\<rparr>)
      ((posted (tb w))(TransferID C (ti_ID r) \<mapsto> deposit_entry C l r)) [EvCreateTransfers [deposit_entry C l r]] w w') w"
    by (rule wp_webhook[OF assms(4)], unfold assms(5,6), rule wp_settle_match[OF assms(1-3,7-16)])
      (use only_changed_frame in blast)
  then show ?thesis by (rule wp_runs)
qed

lemma webhook_settles_deposit_witness:
  "\<exists>w'. run (HandlePaymentWebhook (aqw_Payment ex_worker)
      (Payment_GenerateNewTask (aqw_Payment ex_worker) TaskTypePaymentWebhook (ex_message PaymentSuccess 500)))
      (ex_with TransactionPending []) = (None, w') \<and>
    only_changed ex_posted ((ex_intent TransactionPending)\<lparr>ti_Status := TransactionSuccess, ti_UpdatedAt := 1\<rparr>)
      ((ex_posted [])(20 \<mapsto> ex_deposit_entry)) [EvCreateTransfers [ex_deposit_entry]] (ex_with TransactionPending []) w'"
proof -
  let ?r = "ex_intent TransactionPending" and ?v = "ex_wallet 10 1 ''1000000010''" and ?m = "ex_message PaymentSuccess 500"
  have "?v \<in> set (wallets (ex_with TransactionPending []))" "?r \<in> set (intents (ex_with TransactionPending []))" by simp_all
  from webhook_settles_deposit[OF ex_up ex_payment(1,2) _ _ _ this(2) _ _ this(1), of ?m 1] show ?thesis
    by (simp add: ex_text ex_deposit ex_accepts ex_ids ex_naira IsPositive_def del: ex_uuid_sel)
qed

text \<open>C13. A payment reported after its intent was marked FAILED, whose deposit the ledger already
  holds, makes the intent SUCCESS and is not refunded: no transfer and no refund is asked for.\<close>

theorem late_payment_credited:
  assumes "all_up P C posted w" and "pw_uuid p = P" and "pw_Ledger p = Some C" and "pw_Provider p = Some V"
    and "pp_Status m = PaymentSuccess" and "pp_Reference m = uuid_String P (ti_ID r)"
    and "r \<in> set (intents w)" and "ti_Status r = TransactionFailed"
    and "posted (tb w) (TransferID C (ti_ID r)) \<noteq> None"
  shows "\<exists>w'. run (HandlePaymentWebhook p (Payment_GenerateNewTask p TaskTypePaymentWebhook m)) w = (None, w') \<and>
    only_changed posted (r\<lparr>ti_Status := TransactionSuccess, ti_UpdatedAt := now w\<rparr>) (posted (tb w)) [] w w'"
proof -
  have "wp (HandlePaymentWebhook p (Payment_GenerateNewTask p TaskTypePaymentWebhook m)) (\<lambda>e w'. e = None \<and>
      only_changed posted (r\<lparr>ti_Status := TransactionSuccess, ti_UpdatedAt := now w\<rparr>) (posted (tb w)) [] w w') w"
    by (rule wp_webhook[OF assms(5)], unfold assms(6), rule wp_settle_late[OF assms(1-4,7,8)])
      (use only_changed_frame assms(9) in blast)+
  then show ?thesis by (rule wp_runs)
qed

lemma late_payment_credited_witness:
  "\<exists>w'. run (HandlePaymentWebhook (aqw_Payment ex_worker)
      (Payment_GenerateNewTask (aqw_Payment ex_worker) TaskTypePaymentWebhook (ex_message PaymentSuccess 500)))
      (ex_with TransactionFailed [ex_deposit_entry]) = (None, w') \<and>
    only_changed ex_posted ((ex_intent TransactionFailed)\<lparr>ti_Status := TransactionSuccess, ti_UpdatedAt := 1\<rparr>)
      (ex_posted [ex_deposit_entry]) [] (ex_with TransactionFailed [ex_deposit_entry]) w'"
proof -
  have "ex_intent TransactionFailed \<in> set (intents (ex_with TransactionFailed [ex_deposit_entry]))"
    "ex_posted [ex_deposit_entry] 20 \<noteq> None" by (simp_all add: ex_posted_def ex_deposit_entry_def)
  from late_payment_credited[OF ex_up ex_payment _ _ this(1), of "ex_message PaymentSuccess 500"] this(2) show ?thesis
    by (simp add: ex_text ex_ids del: ex_uuid_sel)
qed

text \<open>C14. A payment reported after its intent was marked FAILED, with nothing in the ledger for it, is
  given back: when the provider takes the refund, the intent is REFUNDED and exactly one refund, of
  the intent's amount, was asked for.\<close>

theorem late_payment_refunded:
  assumes "all_up P C posted w" and "pw_uuid p = P" and "pw_Ledger p = Some C" and "pw_Provider p = Some V"
    and "pp_Status m = PaymentSuccess" and "pp_Reference m = uuid_String P (ti_ID r)"
    and "r \<in> set (intents w)" and "ti_Status r = TransactionFailed"
    and "posted (tb w) (TransferID C (ti_ID r)) = None"
    and "\<And>x. fst (prov_Refund V (uuid_String P (ti_ID r)) (ti_Amount r) x) = None"
  shows "\<exists>w'. run (HandlePaymentWebhook p (Payment_GenerateNewTask p TaskTypePaymentWebhook m)) w = (None, w') \<and>
    only_changed posted (r\<lparr>ti_Status := TransactionRefunded, ti_UpdatedAt := now w\<rparr>) (posted (tb w))
      [EvRefund (uuid_String P (ti_ID r)) (ti_Amount r)] w w'"
proof -
  have "wp (HandlePaymentWebhook p (Payment_GenerateNewTask p TaskTypePaymentWebhook m)) (\<lambda>e w'. e = None \<and>
      only_changed posted (r\<lparr>ti_Status := TransactionRefunded, ti_UpdatedAt := now w\<rparr>) (posted (tb w))
      [EvRefund (uuid_String P (ti_ID r)) (ti_Amount r)] w w') w"
    by (rule wp_webhook[OF assms(5)], unfold assms(6), rule wp_settle_late[OF assms(1-4,7,8)])
      (use only_changed_frame assms(9,10) in blast)+
  then show ?thesis by (rule wp_runs)
qed

lemma late_payment_refunded_witness:
  "\<exists>w'. run (HandlePaymentWebhook (aqw_Payment ex_worker)
      (Payment_GenerateNewTask (aqw_Payment ex_worker) TaskTypePaymentWebhook (ex_message PaymentSuccess 500)))
      (ex_with TransactionFailed []) = (None, w') \<and>
    only_changed ex_posted ((ex_intent TransactionFailed)\<lparr>ti_Status := TransactionRefunded, ti_UpdatedAt := 1\<rparr>)
      (ex_posted []) [EvRefund ''20'' 500] (ex_with TransactionFailed []) w'"
proof -
  have "ex_intent TransactionFailed \<in> set (intents (ex_with TransactionFailed []))" "ex_posted [] 20 = None"
    by (simp_all add: ex_posted_def)
  from late_payment_refunded[OF ex_up ex_payment _ _ this(1), of "ex_message PaymentSuccess 500"] this(2) show ?thesis
    by (simp add: ex_text ex_ids ex_provider_refunds del: ex_uuid_sel)
qed

lemma wp_update_intent_idle:
  assumes "distinct (map ti_ID (intents w))" "r \<in> set (intents w)" "ti_ID r = u" "ti_Status r \<notin> set from"
    and "\<And>x. same_books w x \<Longrightarrow> Q (Inr []) x" and "\<And>m x. \<not> calm w \<Longrightarrow> same_books w x \<Longrightarrow> Q (Inl (Opaque m)) x"
  shows "wp (update_intent u from to) Q w"
  unfolding update_intent_def
  using keyed_update(3,4)[OF assms(1-3), of "\<lambda>s. ti_Status s \<in> set from"] assms(4-6)
  by (intro wp_db_call) (auto simp: Let_def same_books_def)

lemma wp_fail_idle:
  assumes "uuid_Parse (pw_uuid p) ref = Some (ti_ID r)" "distinct (map ti_ID (intents w))" "r \<in> set (intents w)"
    and "ti_Status r \<noteq> TransactionPending" and "\<And>e v. same_books w v \<Longrightarrow> Q e v"
  shows "wp (fail p ref) Q w"
  unfolding fail_def MarkIntentFailed_def ParseUUID_def assms(1) option.simps sum.simps
  apply (rule wp_bnd, rule wp_bnd, rule wp_update_intent_idle[OF assms(2,3) refl])
  using assms(4,5) by (auto intro!: wp_Ret)

lemma wp_webhook_frame:
  assumes "wp (if pp_Status m = PaymentSuccess then settle p (pp_Reference m) (pp_AmountMinor m) (pp_Currency m)
      else fail p (pp_Reference m)) (\<lambda>e v. same_books w v) w"
  shows "wp (HandlePaymentWebhook p (Payment_GenerateNewTask p n m)) (\<lambda>e v. same_books w v) w"
  unfolding HandlePaymentWebhook_def decode_generated_payment sum.simps NewMoneyFromMinor_def
proof (rule wp_case, rule wp_Ret, rule frame.rely_refl, rule wp_bnd, rule wp_mono[OF assms], intro wp_case wp_bnd wp_Ret)
  fix e v assume "same_books w v"
  then show "wp (cancelPoll p (pp_Reference m)) (\<lambda>_. wp (Ret None) (\<lambda>e v. same_books w v)) v"
    by (intro wp_frame[OF frame_ops(6)] wp_Ret) (rule frame.rely_trans)
qed

lemma intent_by_ref:
  assumes "uuid_ok P" "distinct (map ti_ID (intents w))" "r \<in> set (intents w)" "s \<in> set (intents w)"
    "uuid_Parse P (uuid_String P (ti_ID r)) = Some (ti_ID s)"
  shows "s = r"
  using assms distinct_key_unique[OF assms(2,4,3)] by (simp add: uuid_ok_def)

lemma wp_settle_resolved:
  assumes "uuid_ok P" "pw_uuid p = P" "distinct (map ti_ID (intents w))" "r \<in> set (intents w)"
    and "ti_Status r \<in> {TransactionSuccess, TransactionRefunded}"
  shows "wp (settle p (uuid_String P (ti_ID r)) a c) (\<lambda>e v. same_books w v) w"
  unfolding settle_def assms(2)
  apply (intro wp_case wp_Ret frame.rely_refl wp_bnd wp_GetIntent)
    apply (simp_all add: same_books_def)
  using assms(5) intent_by_ref[OF assms(1,3,4)] by (auto intro!: wp_Ret)

text \<open>An intent that is SUCCESS or REFUNDED is left alone: whatever a webhook reports of it and
  whatever the provider would answer a poll, and with the database failing anywhere, no row changes,
  nothing is sent to the ledger and nothing is refunded.\<close>

theorem resolved_intent_left_alone:
  assumes "uuid_ok P" and "pw_uuid p = P" and "distinct (map ti_ID (intents w))" and "r \<in> set (intents w)"
    and "ti_Status r \<in> {TransactionSuccess, TransactionRefunded}" and "pp_Reference m = uuid_String P (ti_ID r)"
    and "h = HandlePaymentWebhook p \<or> h = HandlePaymentPoll p"
    and "run (h (Payment_GenerateNewTask p n m)) w = (e, w')"
  shows "same_books w w'"
proof -
  have ref: "uuid_Parse (pw_uuid p) (uuid_String P (ti_ID r)) = Some (ti_ID r)" using assms(1,2) by (simp add: uuid_ok_def)
  have "wp (HandlePaymentWebhook p (Payment_GenerateNewTask p n m)) (\<lambda>e v. same_books w v) w"
    unfolding assms(6)
    by (rule wp_webhook_frame, unfold assms(6))
      (use wp_settle_resolved[OF assms(1-5)] wp_fail_idle[OF ref assms(3,4)] assms(5) in auto)
  moreover have "wp (HandlePaymentPoll p (Payment_GenerateNewTask p n m)) (\<lambda>e v. same_books w v) w"
    unfolding HandlePaymentPoll_def decode_generated_payment sum.simps assms(2,6)
    apply (intro wp_case wp_Ret frame.rely_refl wp_bnd wp_GetIntent)
      apply (simp_all add: same_books_def)
    using assms(5) intent_by_ref[OF assms(1,3,4)] by (auto intro!: wp_Ret)
  ultimately have "wp (h (Payment_GenerateNewTask p n m)) (\<lambda>e v. same_books w v) w"
    using assms(7) by blast
  then show ?thesis using assms(8) by (rule wpD)
qed

lemma ex_with_run:
  "run p (ex_with s b) = (fst (run p (ex_with s b)), snd (run p (ex_with s b)))"
  by simp

lemma resolved_intent_left_alone_witness:
  "same_books (ex_with TransactionRefunded []) (snd (run (HandlePaymentWebhook (aqw_Payment ex_worker)
      (Payment_GenerateNewTask (aqw_Payment ex_worker) TaskTypePaymentWebhook (ex_message PaymentSuccess 500)))
      (ex_with TransactionRefunded [])))"
  using resolved_intent_left_alone[OF ex_uuid_ok ex_payment(1), of "ex_with TransactionRefunded []" "ex_intent TransactionRefunded"
      "ex_message PaymentSuccess 500" _ TaskTypePaymentWebhook, OF _ _ _ _ disjI1[OF refl] ex_with_run]
  by (simp add: ex_text del: ex_uuid_sel)

text \<open>C11. A payment that does not fit its PENDING intent moves no money. When the amount differs, or
  the wallet is not active or in another currency, the handler returns an error, nothing is sent to
  the ledger, nothing is refunded and no row changes; and when the database does not fail the error
  is one that asynq does not retry.\<close>

theorem unfit_payment_refused:
  assumes "uuid_ok P" and "pw_uuid p = P" and "distinct (map ti_ID (intents w))" and "r \<in> set (intents w)"
    and "ti_Status r = TransactionPending" and "pp_Reference m = uuid_String P (ti_ID r)" and "pp_Status m = PaymentSuccess"
    and "pp_AmountMinor m \<noteq> ti_Amount r \<or> (\<forall>v \<in> set (wallets w). w_ID v = ti_Wallet r \<longrightarrow>
      w_Status v \<noteq> WalletActive \<or> pp_Currency m \<noteq> '''' \<and> \<not> EqualFold (pp_Currency m) (w_Currency v))"
    and "run (HandlePaymentWebhook p (Payment_GenerateNewTask p n m)) w = (e, w')"
  shows "same_books w w' \<and> (\<exists>err. e = Some err \<and> (calm w \<longrightarrow> errors_Is err asynq_SkipRetry))"
proof -
  let ?Q = "\<lambda>e v. same_books w v \<and> (\<exists>err. e = Some err \<and> (calm w \<longrightarrow> errors_Is err asynq_SkipRetry))"
  have wallet: "wp (settle_pending p C ref c (MapIntentModelToIntent P r)) ?Q (w\<lparr>db_n := k\<rparr>)"
    if "pp_AmountMinor m = ti_Amount r" "c = pp_Currency m" for C ref c k
    unfolding settle_pending_def assms(2)
    apply (rule wp_bnd, rule wp_GetWallet)
    using assms(1,8) that by (auto simp: same_books_def calm_def skip_retry_def uuid_ok_def intro!: wp_Ret wp_case)
  have "wp (settle p (uuid_String P (ti_ID r)) (pp_AmountMinor m) (pp_Currency m)) ?Q w"
    unfolding settle_def assms(2)
    apply (intro wp_case, rule wp_Ret, simp add: frame.rely_refl, rule wp_bnd, rule wp_GetIntent)
    using wallet intent_by_ref[OF assms(1,3,4)] assms(1,4,5)
    by (auto simp: same_books_def calm_def skip_retry_def uuid_ok_def intro!: wp_Ret wp_case)
  then have "wp (HandlePaymentWebhook p (Payment_GenerateNewTask p n m)) ?Q w"
    by (intro wp_webhook[OF assms(7)], unfold assms(6)) (auto elim!: wp_mono intro: frame.rely_trans)
  then show ?thesis using assms(9) by (rule wpD)
qed

lemma unfit_payment_refused_witness:
  "\<exists>e w'. run (HandlePaymentWebhook (aqw_Payment ex_worker)
      (Payment_GenerateNewTask (aqw_Payment ex_worker) TaskTypePaymentWebhook (ex_message PaymentSuccess 499)))
      (ex_with TransactionPending []) = (e, w') \<and>
    same_books (ex_with TransactionPending []) w' \<and> (\<exists>err. e = Some err \<and> errors_Is err asynq_SkipRetry)"
proof -
  let ?w = "ex_with TransactionPending []"
  obtain e w' where run: "run (HandlePaymentWebhook (aqw_Payment ex_worker)
      (Payment_GenerateNewTask (aqw_Payment ex_worker) TaskTypePaymentWebhook (ex_message PaymentSuccess 499))) ?w = (e, w')"
    by (rule prod.exhaust)
  have "calm ?w" using ex_up[of TransactionPending "[]"] by (simp add: all_up_def)
  with unfit_payment_refused[OF ex_uuid_ok ex_payment(1) _ _ _ _ _ _ run, of "ex_intent TransactionPending"] run
  show ?thesis by (intro exI[of _ e] exI[of _ w']) (simp add: ex_text del: ex_uuid_sel)
qed

section \<open>Marked once\<close>

lemma sql_returning_Cons: "sql_returning p f xs = y # ys \<Longrightarrow> \<exists>x \<in> set xs. p x \<and> y = f x \<and> f x \<in> set (sql_update p f xs)"
proof -
  assume e: "sql_returning p f xs = y # ys"
  then have "y \<in> set (sql_returning p f xs)" by simp
  then obtain x where "x \<in> set xs" "p x" "y = f x" by (auto simp: sql_returning_def)
  then show ?thesis by (auto simp: sql_update_def image_iff)
qed

lemma wp_updated:
  assumes "\<And>e v. Q (Inl e) v" and "\<And>a v. a \<in> set (xs v) \<Longrightarrow> k a = u \<Longrightarrow> st a = to \<Longrightarrow> Q (Inr (g a)) v"
    and "wp m (\<lambda>r v. \<forall>a as. r = Inr (a # as) \<longrightarrow> a \<in> set (xs v) \<and> k a = u \<and> st a = to) w"
  shows "wp (bnd m (\<lambda>res. Ret (updated none g res))) Q w"
  by (rule wp_bnd, rule wp_mono[OF assms(3)]) (auto simp: updated_def intro!: wp_Ret assms(1,2) split: sum.splits list.splits)

lemma wp_MarkIntentSucceeded:
  "wp (MarkIntentSucceeded P ref) (\<lambda>r v. \<forall>m. r = Inr m \<longrightarrow>
    (\<exists>q \<in> set (intents v). uuid_Parse P ref = Some (ti_ID q) \<and> ti_Status q = TransactionSuccess)) w"
proof (cases "uuid_Parse P ref")
  case (Some u)
  have "wp (update_intent u [TransactionPending, TransactionFailed] TransactionSuccess)
    (\<lambda>r v. \<forall>a as. r = Inr (a # as) \<longrightarrow> a \<in> set (intents v) \<and> ti_ID a = u \<and> ti_Status a = TransactionSuccess) w"
    unfolding update_intent_def by (rule wp_db_call) (auto simp: Let_def dest!: sql_returning_Cons)
  from wp_updated[OF _ _ this, of "\<lambda>r v. \<forall>m. r = Inr m \<longrightarrow> (\<exists>q \<in> set (intents v). uuid_Parse P ref = Some (ti_ID q) \<and>
      ti_Status q = TransactionSuccess)"] Some show ?thesis
    by (auto simp: MarkIntentSucceeded_def ParseUUID_def)
qed (simp add: MarkIntentSucceeded_def ParseUUID_def wp_Ret)

lemma wp_MarkTransferSucceeded:
  "wp (MarkTransferSucceeded P i) (\<lambda>r v. \<forall>m. r = Inr m \<longrightarrow>
    (\<exists>q \<in> set (transfers v). uuid_Parse P i = Some (tr_ID q) \<and> tr_Status q = TransactionSuccess)) w"
proof (cases "uuid_Parse P i")
  case (Some u)
  have "wp (update_transfer u TransactionSuccess '''')
    (\<lambda>r v. \<forall>a as. r = Inr (a # as) \<longrightarrow> a \<in> set (transfers v) \<and> tr_ID a = u \<and> tr_Status a = TransactionSuccess) w"
    unfolding update_transfer_def by (rule wp_db_call) (auto simp: Let_def dest!: sql_returning_Cons)
  from wp_updated[OF _ _ this, of "\<lambda>r v. \<forall>m. r = Inr m \<longrightarrow> (\<exists>q \<in> set (transfers v). uuid_Parse P i = Some (tr_ID q) \<and>
      tr_Status q = TransactionSuccess)"] Some show ?thesis
    by (auto simp: MarkTransferSucceeded_def markTransfer_def ParseUUID_def)
qed (simp add: MarkTransferSucceeded_def markTransfer_def ParseUUID_def wp_Ret)

lemma wp_update_transfer_idle:
  assumes "distinct (map tr_ID (transfers w))" "r \<in> set (transfers w)" "tr_ID r = u" "tr_Status r \<noteq> TransactionPending"
    and "\<And>x. Q (Inr []) x" and "\<And>m x. Q (Inl (Opaque m)) x"
  shows "wp (update_transfer u to reason) Q w"
  unfolding update_transfer_def
  using keyed_update(3)[OF assms(1-3), of "\<lambda>s. tr_Status s = TransactionPending"] assms(4-6)
  by (intro wp_db_call) (auto simp: Let_def)

text \<open>Settling a deposit or a transfer is reported once. After one task's update answered with the
  settled row, the one that goes on to notify the users, no later update of that row does, whatever the
  program and the database did in between.\<close>

theorem settled_once:
  assumes "evolves v v'" and "distinct (map ti_ID (intents v'))" and "distinct (map tr_ID (transfers v'))"
  shows "(run (MarkIntentSucceeded P ref) w = (Inr m, v) \<longrightarrow> isl (fst (run (MarkIntentSucceeded P ref) v'))) \<and>
    (run (MarkTransferSucceeded P i) w = (Inr x, v) \<longrightarrow> isl (fst (run (MarkTransferSucceeded P i) v')))"
proof (intro conjI impI)
  assume "run (MarkIntentSucceeded P ref) w = (Inr m, v)"
  then obtain r where r: "r \<in> set (intents v)" "uuid_Parse P ref = Some (ti_ID r)" "ti_Status r = TransactionSuccess"
    using wpD[OF wp_MarkIntentSucceeded] by blast
  then obtain q where q: "q \<in> set (intents v')" "intent_le r q"
    using assms(1) unfolding evolves_def rows_evolve_def by blast
  then have "ti_ID q = ti_ID r" "ti_Status q = TransactionSuccess" using r(3) by (auto simp: intent_le_def)
  then have "wp (MarkIntentSucceeded P ref) (\<lambda>r v. isl r) v'"
    unfolding MarkIntentSucceeded_def ParseUUID_def r(2) option.simps sum.simps
    by (intro wp_bnd, intro wp_update_intent_idle[OF assms(2) q(1)]) (auto intro!: wp_Ret)
  then show "isl (fst (run (MarkIntentSucceeded P ref) v'))" by (simp add: wp_def split: prod.splits)
next
  assume "run (MarkTransferSucceeded P i) w = (Inr x, v)"
  then obtain r where r: "r \<in> set (transfers v)" "uuid_Parse P i = Some (tr_ID r)" "tr_Status r = TransactionSuccess"
    using wpD[OF wp_MarkTransferSucceeded] by blast
  then obtain q where q: "q \<in> set (transfers v')" "transfer_le r q"
    using assms(1) unfolding evolves_def rows_evolve_def by blast
  then have "tr_ID q = tr_ID r" "tr_Status q \<noteq> TransactionPending" using r(3) by (auto simp: transfer_le_def)
  then have "wp (MarkTransferSucceeded P i) (\<lambda>r v. isl r) v'"
    unfolding MarkTransferSucceeded_def markTransfer_def ParseUUID_def r(2) option.simps sum.simps
    by (intro wp_bnd, intro wp_update_transfer_idle[OF assms(3) q(1)]) (auto intro!: wp_Ret)
  then show "isl (fst (run (MarkTransferSucceeded P i) v'))" by (simp add: wp_def split: prod.splits)
qed

lemma settled_once_witness:
  "let v = snd (run (MarkIntentSucceeded ex_uuid ''20'') (ex_with TransactionPending [])) in
   fst (run (MarkIntentSucceeded ex_uuid ''20'') (ex_with TransactionPending [])) =
     Inr (MapIntentModelToIntent ex_uuid ((ex_intent TransactionSuccess)\<lparr>ti_UpdatedAt := 1\<rparr>)) \<and>
   isl (fst (run (MarkIntentSucceeded ex_uuid ''20'') v))"
proof -
  let ?p = "run (MarkIntentSucceeded ex_uuid ''20'') (ex_with TransactionPending [])"
  let ?m = "MapIntentModelToIntent ex_uuid ((ex_intent TransactionSuccess)\<lparr>ti_UpdatedAt := 1\<rparr>)"
  have "fst ?p = Inr ?m" "map ti_ID (intents (snd ?p)) = [20]" "map tr_ID (transfers (snd ?p)) = [30]"
    by code_simp+
  then have r: "?p = (Inr ?m, snd ?p)" "map ti_ID (intents (snd ?p)) = [20]" "map tr_ID (transfers (snd ?p)) = [30]"
    by (metis prod.collapse)+
  have "isl (fst (run (MarkIntentSucceeded ex_uuid ''20'') (snd ?p)))"
    using settled_once[OF evolves_refl, of "snd ?p" ex_uuid "''20''" "ex_with TransactionPending []" ?m] r
    by (simp del: ex_uuid_sel)
  then show ?thesis unfolding Let_def using r(1) by (metis fst_conv)
qed

end
