(* ===== verification/Transfer_Properties.thy ===== *)
theory Transfer_Properties
  imports Example_Worlds
begin

text \<open>
  What one run of the transfer worker's handlers achieves: a transfer is executed, refused for
  want of funds, left to be retried when the ledger is away, closed by what the ledger holds when the
  retries are used up, and left alone once it is closed.
\<close>

section \<open>Running the handlers\<close>

definition move_entry :: "'tb tb_client \<Rightarrow> LedgerID \<Rightarrow> transfer_row \<Rightarrow> tb_transfer" where
  "move_entry C l r = \<lparr>t_ID = TransferID C (tr_ID r), t_DebitAccountID = AccountID C (tr_SenderWalletID r),
     t_CreditAccountID = AccountID C (tr_RecipientWalletID r), t_Amount = tb_ToUint128 C (Minor (tr_Amount r)),
     t_Ledger = l, t_Code = TransferInternal\<rparr>"

text \<open>How a world differs from an earlier one: one transfer replaced, the ledger's transfers, and the
  calls that move money.\<close>

definition only_moved ::
  "('tb \<Rightarrow> u128 \<Rightarrow> tb_transfer option) \<Rightarrow> transfer_row \<Rightarrow> (u128 \<Rightarrow> tb_transfer option) \<Rightarrow> event list \<Rightarrow>
   ('tb, 'x) world \<Rightarrow> ('tb, 'x) world \<Rightarrow> bool" where
  "only_moved posted q book evs w w' \<longleftrightarrow> transfers w' = put_row tr_ID q (transfers w) \<and>
     intents w' = intents w \<and> wallets w' = wallets w \<and> posted (tb w') = book \<and>
     money_events (trace w') = money_events (trace w) @ evs"

text \<open>The two wallets of a transfer, both active and of one currency with ledger \<open>l\<close>.\<close>

definition can_move :: "transfer_row \<Rightarrow> LedgerID \<Rightarrow> ('tb, 'x) world \<Rightarrow> bool" where
  "can_move r l w \<longleftrightarrow> IsPositive (tr_Amount r) \<and> tr_SenderWalletID r \<noteq> tr_RecipientWalletID r \<and>
     (\<exists>v \<in> set (wallets w). \<exists>v' \<in> set (wallets w). w_ID v = tr_SenderWalletID r \<and> w_ID v' = tr_RecipientWalletID r \<and>
        w_DeletedAt v = None \<and> w_DeletedAt v' = None \<and> w_Status v = WalletActive \<and> w_Status v' = WalletActive \<and>
        EqualFold (w_Currency v) (w_Currency v') \<and> LedgerForCurrency (w_Currency v) = Inr l)"

lemma decode_generated_transfer: "decode_transfer (Transfer_GenerateNewTask n i) = Inr i"
  by (simp add: decode_transfer_def Transfer_GenerateNewTask_def transfer_round_trip)

lemma wp_finalizeFailed:
  assumes "calm w" "distinct (map tr_ID (transfers w))" "r \<in> set (transfers w)" "tr_Status r = TransactionPending"
    and "uuid_Parse (tw_uuid t) (T_ID m) = Some (tr_ID r)"
    and "\<And>w'. same_books (w\<lparr>transfers := put_row tr_ID (r\<lparr>tr_Status := TransactionFailed, tr_FailureReason := reason,
      tr_UpdatedAt := now w\<rparr>) (transfers w)\<rparr>) w' \<Longrightarrow> Q None w'"
  shows "wp (finalizeFailed t m reason) Q w"
  unfolding finalizeFailed_def MarkTransferFailed_def
  apply (rule wp_bnd, rule wp_mark_transfer_calm[OF assms(1-3,5)])
   apply (simp, rule wp_bnd, rule wp_frame[OF frame_ops(7)], rule wp_Ret, rule assms(6))
  using assms(4) by (auto simp: same_books_def)

lemma wp_close_succeeded:
  assumes "calm w" "distinct (map tr_ID (transfers w))" "r \<in> set (transfers w)" "tr_Status r = TransactionPending"
    and "uuid_Parse (tw_uuid t) (T_ID m) = Some (tr_ID r)"
    and "\<And>a w'. same_books (w\<lparr>transfers := put_row tr_ID (r\<lparr>tr_Status := TransactionSuccess, tr_FailureReason := '''',
      tr_UpdatedAt := now w\<rparr>) (transfers w)\<rparr>) w' \<Longrightarrow> wp (k a) Q w'"
  shows "wp (bnd (MarkTransferSucceeded (tw_uuid t) (T_ID m)) (\<lambda>r. case r of
      Inl err \<Rightarrow> f err | Inr settled \<Rightarrow> bnd (notify_transfer t settled) k)) Q w"
  unfolding MarkTransferSucceeded_def
  apply (rule wp_bnd, rule wp_mark_transfer_calm[OF assms(1-3,5)])
   apply (simp, rule wp_bnd, rule wp_frame[OF frame_ops(8)], rule assms(6))
  using assms(4) by (auto simp: same_books_def)

lemma wp_loadWallets:
  assumes "calm w" "\<And>u. uuid_Parse (tw_uuid t) (uuid_String (tw_uuid t) u) = Some u" "distinct (map w_ID (wallets w))"
    and v: "v \<in> set (wallets w)" "w_ID v = tr_SenderWalletID r" "w_DeletedAt v = None" "w_Status v = WalletActive"
    and v': "v' \<in> set (wallets w)" "w_ID v' = tr_RecipientWalletID r" "w_DeletedAt v' = None" "w_Status v' = WalletActive"
    and "EqualFold (w_Currency v) (w_Currency v')"
    and Q: "\<And>n. Q (Inr (MapWalletModelToWallet (tw_uuid t) v, MapWalletModelToWallet (tw_uuid t) v')) (w\<lparr>db_n := n\<rparr>)"
  shows "wp (loadWallets t (MapTransferModelToTransfer (tw_uuid t) r)) Q w"
proof -
  have second: "wp (GetWalletByID (tw_uuid t) (uuid_String (tw_uuid t) (tr_RecipientWalletID r))) Q' (w\<lparr>db_n := k\<rparr>)"
    if "Q' (Inr (MapWalletModelToWallet (tw_uuid t) v')) (w\<lparr>db_n := Suc k\<rparr>)" for k Q'
    by (rule wp_GetWallet_calm[where r = v']) (use assms that in \<open>auto simp: calm_def\<close>)
  show ?thesis
    unfolding loadWallets_def Map_sel
    apply (rule wp_bnd, rule wp_GetWallet_calm[OF assms(1) _ assms(3) v(1) v(3)])
     apply (simp add: assms(2) v(2))
    apply (simp only: sum.simps, rule wp_bnd, rule second)
    using assms by (auto intro!: wp_Ret)
qed

text \<open>Up to the ledger: what the worker asks it for, once the transfer and its wallets are read.\<close>

lemma wp_execute_ledger:
  assumes ok: "env_ok P C posted" "calm w" "db_wf w" "tw_uuid t = P" "tw_Ledger t = Some C"
    and r: "r \<in> set (transfers w)" "tr_Status r = TransactionPending" "can_move r l w"
    and Q: "\<And>n d. accepted_order d l \<Longrightarrow> transfer_request C l d = move_entry C l r \<Longrightarrow>
      tp_SenderWalletID d = tr_SenderWalletID r \<Longrightarrow> tp_ReceipientWalletID d = tr_RecipientWalletID r \<Longrightarrow>
      wp (Ledger_transfer C d) (\<lambda>e. wp (close_transfer t (MapTransferModelToTransfer P r) e) Q) (w\<lparr>db_n := n\<rparr>)"
  shows "wp (HandleTransferExecute t (Transfer_GenerateNewTask n (uuid_String P (tr_ID r)))) Q w"
proof -
  have u: "uuid_Parse P (uuid_String P u) = Some u" for u using ok(1) by (simp add: env_ok_def uuid_ok_def)
  have ids: "distinct (map tr_ID (transfers w))" "distinct (map w_ID (wallets w))" using ok(3) by (simp_all add: db_wf_def)
  from r(3) obtain v v' where c: "IsPositive (tr_Amount r)" "tr_SenderWalletID r \<noteq> tr_RecipientWalletID r"
      "v \<in> set (wallets w)" "v' \<in> set (wallets w)" "w_ID v = tr_SenderWalletID r" "w_ID v' = tr_RecipientWalletID r"
      "w_DeletedAt v = None" "w_DeletedAt v' = None" "w_Status v = WalletActive" "w_Status v' = WalletActive"
      "EqualFold (w_Currency v) (w_Currency v')" "LedgerForCurrency (w_Currency v) = Inr l"
    unfolding can_move_def by blast
  let ?d = "\<lparr>tp_TransferID = tr_ID r, tp_SenderWalletID = tr_SenderWalletID r, tp_ReceipientWalletID = tr_RecipientWalletID r,
    tp_SenderCurrency = w_Currency v, tp_ReceipientsCurrency = w_Currency v', tp_Amount = tr_Amount r\<rparr>"
  have d: "transfer_request C l ?d = move_entry C l r" "accepted_order ?d l"
    using c by (simp_all add: transfer_request_def move_entry_def accepted_order_def)
  have move: "wp (move_money t C (MapTransferModelToTransfer P r) (MapWalletModelToWallet P v) (MapWalletModelToWallet P v')) Q
      (w\<lparr>db_n := k\<rparr>)" for k
    unfolding move_money_def ok(4)
    by (simp add: u c(5,6)) (rule wp_bnd, rule Q[OF d(2,1)], simp_all)
  show ?thesis
    unfolding HandleTransferExecute_def decode_generated_transfer ok(4,5) sum.simps option.simps
    apply (rule wp_bnd, rule wp_GetTransfer_calm[OF ok(2) u ids(1) r(1)])
    apply (simp add: r(2) execute_pending_def)
    apply (rule wp_bnd, rule wp_loadWallets[of _ t v r v', unfolded ok(4)])
    using u c move ids ok(2) by (auto simp: calm_def)
qed

lemma wp_execute:
  assumes up: "all_up P C posted w" "tw_uuid t = P" "tw_Ledger t = Some C"
    and r: "r \<in> set (transfers w)" "tr_Status r = TransactionPending" "can_move r l w"
    and Q: "\<And>n s evs a s'. tb_idle C (tb w) s \<Longrightarrow> tb_CreateTransfers C [move_entry C l r] s = (a, s') \<Longrightarrow>
      money_events evs = [EvCreateTransfers [move_entry C l r]] \<Longrightarrow>
      wp (close_transfer t (MapTransferModelToTransfer P r)
          (case a of Inl m \<Rightarrow> Some (wrap_cause ''create transfer'' (Opaque m)) | Inr rs \<Rightarrow> transfer_results rs)) Q
        (w\<lparr>db_n := n, tb := s', trace := trace w @ evs\<rparr>)"
  shows "wp (HandleTransferExecute t (Transfer_GenerateNewTask n (uuid_String P (tr_ID r)))) Q w"
proof (rule wp_execute_ledger[OF all_upD(1)[OF up(1)] _ _ up(2,3) r])
  fix n d assume d: "accepted_order d l" "transfer_request C l d = move_entry C l r"
  show "wp (Ledger_transfer C d) (\<lambda>e. wp (close_transfer t (MapTransferModelToTransfer P r) e) Q) (w\<lparr>db_n := n\<rparr>)"
    by (rule wp_transfer_calm[OF all_upD(1,2)[OF up(1)] d(1)]) (simp add: d(2) Q)
qed (use up(1) in \<open>simp_all add: all_up_def\<close>)

section \<open>What the handlers achieve\<close>

lemma wp_executes:
  assumes up: "all_up P C posted w" "tw_uuid t = P" "tw_Ledger t = Some C"
    and r: "r \<in> set (transfers w)" "tr_Status r = TransactionPending" "can_move r l w"
    and acc: "tb_accepts C (tb w) (move_entry C l r)"
  shows "wp (HandleTransferExecute t (Transfer_GenerateNewTask TaskTypeTransferExecute (uuid_String P (tr_ID r))))
    (\<lambda>e w'. e = None \<and> only_moved posted (r\<lparr>tr_Status := TransactionSuccess, tr_FailureReason := '''', tr_UpdatedAt := now w\<rparr>)
      ((posted (tb w))(TransferID C (tr_ID r) \<mapsto> move_entry C l r)) [EvCreateTransfers [move_entry C l r]] w w') w"
proof (rule wp_execute[OF up r], goal_cases)
  case (1 n s evs a s')
  note u = all_upD[OF up(1)]
  have a: "posted s' = (posted (tb w))(TransferID C (tr_ID r) \<mapsto> move_entry C l r)"
      "a = Inr [TransferCreated] \<or> a = Inr [TransferExists]"
    using tb_accepts_post[OF u(1) acc 1(1,2)] by (simp_all add: move_entry_def)
  then have "(case a of Inl m \<Rightarrow> Some (wrap_cause ''create transfer'' (Opaque m)) | Inr rs \<Rightarrow> transfer_results rs) = None"
    by auto
  moreover have "wp (close_transfer t (MapTransferModelToTransfer P r) None) (\<lambda>e w'. e = None \<and>
    only_moved posted (r\<lparr>tr_Status := TransactionSuccess, tr_FailureReason := '''', tr_UpdatedAt := now w\<rparr>)
      ((posted (tb w))(TransferID C (tr_ID r) \<mapsto> move_entry C l r)) [EvCreateTransfers [move_entry C l r]] w w')
      (w\<lparr>db_n := n, tb := s', trace := trace w @ evs\<rparr>)"
    unfolding close_transfer_def option.simps
    by (rule wp_close_succeeded[where r = r])
      (use u up r a 1(3) in \<open>auto simp: calm_def same_books_def only_moved_def intro!: wp_Ret\<close>)
  ultimately show ?case by simp
qed

text \<open>When the database and the ledger answer, one run of the worker executes a PENDING transfer
  between two different active wallets of one currency: the handler returns nil, the transfer is
  SUCCESS with no failure reason, the ledger holds the transfer, and no other row changed; also when
  an earlier attempt had moved the money already.\<close>

theorem transfer_executes:
  assumes "all_up P C posted w" and "tw_uuid t = P" and "tw_Ledger t = Some C"
    and "r \<in> set (transfers w)" and "tr_Status r = TransactionPending" and "can_move r l w"
    and "tb_accepts C (tb w) (move_entry C l r)"
  shows "\<exists>w'. run (HandleTransferExecute t (Transfer_GenerateNewTask TaskTypeTransferExecute (uuid_String P (tr_ID r)))) w =
      (None, w') \<and>
    only_moved posted (r\<lparr>tr_Status := TransactionSuccess, tr_FailureReason := '''', tr_UpdatedAt := now w\<rparr>)
      ((posted (tb w))(TransferID C (tr_ID r) \<mapsto> move_entry C l r)) [EvCreateTransfers [move_entry C l r]] w w'"
  by (rule wp_runs, rule wp_executes[OF assms])

text \<open>C12. When the sender's account is short of credits the transfer is closed, not retried: the
  handler returns nil, the row is FAILED with the reason, and the ledger holds what it held.\<close>

theorem insufficient_funds_fail_transfer:
  assumes "all_up P C posted w" and "tw_uuid t = P" and "tw_Ledger t = Some C"
    and "r \<in> set (transfers w)" and "tr_Status r = TransactionPending" and "can_move r l w"
    and "tb_refuses C (tb w) (move_entry C l r)"
  shows "\<exists>w'. run (HandleTransferExecute t (Transfer_GenerateNewTask TaskTypeTransferExecute (uuid_String P (tr_ID r)))) w =
      (None, w') \<and>
    only_moved posted (r\<lparr>tr_Status := TransactionFailed, tr_FailureReason := ''Insufficient funds'', tr_UpdatedAt := now w\<rparr>)
      (posted (tb w)) [EvCreateTransfers [move_entry C l r]] w w'"
proof (rule wp_runs, rule wp_execute[OF assms(1-6)], goal_cases)
  case (1 n s evs a s')
  note u = all_upD[OF assms(1)]
  have a: "posted s' = posted (tb w)" "a = Inr [TransferExceedsCredits]"
    using tb_refuses_post[OF u(1) assms(7) 1(1,2)] by simp_all
  have "wp (finalizeFailed t (MapTransferModelToTransfer P r) ''Insufficient funds'') (\<lambda>e w'. e = None \<and>
    only_moved posted (r\<lparr>tr_Status := TransactionFailed, tr_FailureReason := ''Insufficient funds'', tr_UpdatedAt := now w\<rparr>)
      (posted (tb w)) [EvCreateTransfers [move_entry C l r]] w w') (w\<lparr>db_n := n, tb := s', trace := trace w @ evs\<rparr>)"
    by (rule wp_finalizeFailed[where r = r])
      (use u assms a 1(3) in \<open>auto simp: calm_def same_books_def only_moved_def\<close>)
  then show ?case by (simp add: a(2) close_transfer_def)
qed

text \<open>The ledger goes out of reach during an attempt at the transfer: the client reports an error on
  the account calls for the sender's or the receiver's wallet, or when it is asked to move the money;
  the calls before that one succeeded.\<close>

definition wallet_accounts :: "'tb tb_client \<Rightarrow> LedgerID \<Rightarrow> uuid \<Rightarrow> tb_account list" where
  "wallet_accounts C l u = [settlement_account C l, wallet_account C l u]"

definition unreachable :: "'tb tb_client \<Rightarrow> LedgerID \<Rightarrow> transfer_row \<Rightarrow> 'tb \<Rightarrow> bool" where
  "unreachable C l r s \<longleftrightarrow> (case tb_CreateAccounts C (wallet_accounts C l (tr_SenderWalletID r)) s of
      (Inl m, s1) \<Rightarrow> True
    | (Inr rs, s1) \<Rightarrow> account_results rs = None \<and>
        (case tb_CreateAccounts C (wallet_accounts C l (tr_RecipientWalletID r)) s1 of
          (Inl m, s2) \<Rightarrow> True
        | (Inr rs, s2) \<Rightarrow> account_results rs = None \<and> isl (fst (tb_CreateTransfers C [move_entry C l r] s2))))"

lemma wp_unreachable:
  assumes "tb_ok C posted" and "accepted_order d l" and "transfer_request C l d = move_entry C l r"
    and "tp_SenderWalletID d = tr_SenderWalletID r" and "tp_ReceipientWalletID d = tr_RecipientWalletID r"
    and away: "unreachable C l r (tb w)"
    and Q: "\<And>m what s evs. posted s \<in> {posted (tb w), (posted (tb w))(TransferID C (tr_ID r) \<mapsto> move_entry C l r)} \<Longrightarrow>
      Q (Some (wrap_cause what (Opaque m))) (w\<lparr>tb := s, trace := evs\<rparr>)"
  shows "wp (Ledger_transfer C d) Q w"
proof -
  have posts: "posted (snd (tb_CreateTransfers C [move_entry C l r] s)) \<in>
      {posted s, (posted s)(TransferID C (tr_ID r) \<mapsto> move_entry C l r)}"
    if "isl (fst (tb_CreateTransfers C [move_entry C l r] s))" for s
  proof -
    from that obtain m s' where a: "tb_CreateTransfers C [move_entry C l r] s = (Inl m, s')" by (metis isl_def prod.collapse)
    with assms(1) have "posted s' = posted s \<or> posted s' = (posted s)(t_ID (move_entry C l r) \<mapsto> move_entry C l r)"
      unfolding tb_ok_def by blast
    then show ?thesis using a by (simp add: move_entry_def)
  qed
  have accounts: "posted s' = posted s" if "tb_CreateAccounts C as s = (a, s')" for as s a s'
    using assms(1) that unfolding tb_ok_def by (metis snd_conv)
  have ensure: "wp (ensureAccounts C l u) Q' v"
    if "tb_CreateAccounts C (wallet_accounts C l u) (tb v) = (a, s)"
      and "Q' (case a of Inl m \<Rightarrow> Some (wrap_cause ''create accounts'' (Opaque m)) | Inr rs \<Rightarrow> account_results rs)
        (v\<lparr>tb := s, trace := trace v @ [EvCreateAccounts (wallet_accounts C l u)]\<rparr>)" for u v a s Q'
    unfolding ensureAccounts_def createAccounts_def client_CreateAccounts_def wallet_accounts_def[symmetric]
    using that by (intro wp_bnd wp_tb_call wp_Ret) simp
  obtain a1 s1 where 1: "tb_CreateAccounts C (wallet_accounts C l (tr_SenderWalletID r)) (tb w) = (a1, s1)" by (rule prod.exhaust)
  obtain a2 s2 where 2: "tb_CreateAccounts C (wallet_accounts C l (tr_RecipientWalletID r)) s1 = (a2, s2)" by (rule prod.exhaust)
  note same = accounts[OF 1] accounts[OF 2]
  show ?thesis
    unfolding Ledger_transfer_calls[OF assms(2)] assms(3-5)
  proof (rule wp_bnd, rule ensure[OF 1], cases a1, goal_cases)
    case (2 rs1)
    with away 1 have ok1: "account_results rs1 = None" by (simp add: unreachable_def)
    show ?case
      unfolding 2 sum.simps ok1 option.simps
    proof (rule wp_bnd, rule ensure, simp add: \<open>tb_CreateAccounts C (wallet_accounts C l (tr_RecipientWalletID r)) s1 = (a2, s2)\<close>,
        cases a2, goal_cases)
      case (2 rs2)
      with away 1 \<open>a1 = Inr rs1\<close> \<open>tb_CreateAccounts C (wallet_accounts C l (tr_RecipientWalletID r)) s1 = (a2, s2)\<close>
      have ok2: "account_results rs2 = None" "isl (fst (tb_CreateTransfers C [move_entry C l r] s2))"
        by (simp_all add: unreachable_def)
      from posts[OF ok2(2)] ok2(2) show ?case
        unfolding 2 sum.simps ok2(1) option.simps client_CreateTransfers_def
        by (intro wp_bnd wp_tb_call wp_Ret) (auto simp: same isl_def intro!: Q)
    qed (auto simp: same intro!: wp_Ret Q)
  qed (auto simp: same intro!: wp_Ret Q)
qed

text \<open>C16. When the ledger cannot be reached, at whichever of the attempt's calls it stops answering,
  the transfer stays PENDING and the handler returns an error that asynq counts and retries, whether or
  not the ledger took the transfer before the connection broke; no row changes.\<close>

theorem unreachable_ledger_is_retried:
  assumes "env_ok P C posted" and "calm w" and "db_wf w" and "tw_uuid t = P" and "tw_Ledger t = Some C"
    and "r \<in> set (transfers w)" and "tr_Status r = TransactionPending" and "can_move r l w"
    and "unreachable C l r (tb w)"
  shows "\<exists>err w'. run (HandleTransferExecute t (Transfer_GenerateNewTask TaskTypeTransferExecute (uuid_String P (tr_ID r)))) w =
      (Some err, w') \<and> IsFailure err \<and> \<not> errors_Is err asynq_SkipRetry \<and>
    transfers w' = transfers w \<and> intents w' = intents w \<and> wallets w' = wallets w \<and>
    posted (tb w') \<in> {posted (tb w), (posted (tb w))(TransferID C (tr_ID r) \<mapsto> move_entry C l r)}"
proof -
  let ?Q = "\<lambda>e w'. (\<exists>err. e = Some err \<and> IsFailure err \<and> \<not> errors_Is err asynq_SkipRetry) \<and>
    transfers w' = transfers w \<and> intents w' = intents w \<and> wallets w' = wallets w \<and>
    posted (tb w') \<in> {posted (tb w), (posted (tb w))(TransferID C (tr_ID r) \<mapsto> move_entry C l r)}"
  have "wp (HandleTransferExecute t (Transfer_GenerateNewTask TaskTypeTransferExecute (uuid_String P (tr_ID r)))) ?Q w"
  proof (rule wp_execute_ledger[OF assms(1-8)], rule wp_unreachable)
    show "tb_ok C posted" using assms(1) by (simp add: env_ok_def)
    show "unreachable C l r (tb (w\<lparr>db_n := n\<rparr>))" for n using assms(9) by simp
  qed (auto simp: close_transfer_def wrap_cause_def IsFailure_def intro!: wp_Ret)
  then show ?thesis by (auto simp: wp_def split: prod.splits)
qed

text \<open>C15. When the retries of a transfer are used up the ledger decides: a PENDING transfer whose money
  has moved becomes SUCCESS, any other becomes FAILED with the reason, and nothing is posted or
  refunded in either case.\<close>

theorem exhausted_transfer_follows_ledger:
  assumes "all_up P C posted w" and "tw_uuid t = P" and "tw_Ledger t = Some C"
    and "r \<in> set (transfers w)" and "tr_Status r = TransactionPending"
  shows "\<exists>w'. run (HandleTransferExhausted t (Transfer_GenerateNewTask TaskTypeTransferExecute (uuid_String P (tr_ID r))) cause) w =
      ((), w') \<and>
    only_moved posted (if posted (tb w) (TransferID C (tr_ID r)) \<noteq> None
      then r\<lparr>tr_Status := TransactionSuccess, tr_FailureReason := '''', tr_UpdatedAt := now w\<rparr>
      else r\<lparr>tr_Status := TransactionFailed, tr_FailureReason := ''The transfer could not be completed'', tr_UpdatedAt := now w\<rparr>)
      (posted (tb w)) [] w w'"
proof -
  note u = all_upD[OF assms(1)]
  let ?q = "if posted (tb w) (TransferID C (tr_ID r)) \<noteq> None
      then r\<lparr>tr_Status := TransactionSuccess, tr_FailureReason := '''', tr_UpdatedAt := now w\<rparr>
      else r\<lparr>tr_Status := TransactionFailed, tr_FailureReason := ''The transfer could not be completed'', tr_UpdatedAt := now w\<rparr>"
  define Q :: "unit \<Rightarrow> _ \<Rightarrow> bool" where "Q = (\<lambda>_. only_moved posted ?q (posted (tb w)) [] w)"
  let ?m = "MapTransferModelToTransfer P r"
  have failed: "wp (bnd (finalizeFailed t ?m ''The transfer could not be completed'') (\<lambda>_. Ret ())) Q (w\<lparr>db_n := n, tb := s\<rparr>)"
    if "posted s = posted (tb w)" "posted (tb w) (TransferID C (tr_ID r)) = None" for n s
    by (rule wp_bnd, rule wp_finalizeFailed[where r = r])
      (use u assms that in \<open>auto simp: calm_def same_books_def only_moved_def Q_def intro!: wp_Ret\<close>)
  have succeeded: "wp (bnd (MarkTransferSucceeded (tw_uuid t) (T_ID ?m)) (\<lambda>r. case r of
      Inl err \<Rightarrow> Ret () | Inr settled \<Rightarrow> bnd (notify_transfer t settled) Ret)) Q (w\<lparr>db_n := n, tb := s\<rparr>)"
    if "posted s = posted (tb w)" "posted (tb w) (TransferID C (tr_ID r)) \<noteq> None" for n s
    by (rule wp_close_succeeded[where r = r])
      (use u assms that in \<open>auto simp: calm_def same_books_def only_moved_def Q_def intro!: wp_Ret\<close>)
  have "wp (HandleTransferExhausted t (Transfer_GenerateNewTask TaskTypeTransferExecute (uuid_String P (tr_ID r))) cause) Q w"
    unfolding HandleTransferExhausted_def decode_generated_transfer sum.simps assms(2)
    apply (rule wp_bnd, rule wp_GetTransfer_calm[OF u(3,7,5) assms(4)])
    apply (simp add: assms(5) u(7) exhausted_pending_def assms(3))
    apply (rule wp_bnd, rule wp_TransferExists_calm[OF u(1,2)])
    subgoal for s
      using failed[of s "Suc (db_n w)"] succeeded[of s "Suc (db_n w)"]
      by (cases "posted (tb w) (TransferID C (tr_ID r))") (simp_all add: assms(2) bnd_Ret_right)
    done
  then show ?thesis by (auto simp: wp_def Q_def split: prod.splits)
qed

lemma transfer_by_ref:
  assumes "uuid_ok P" "distinct (map tr_ID (transfers w))" "r \<in> set (transfers w)" "s \<in> set (transfers w)"
    "uuid_Parse P (uuid_String P (tr_ID r)) = Some (tr_ID s)"
  shows "s = r"
  using assms distinct_key_unique[OF assms(2,4,3)] by (simp add: uuid_ok_def)

text \<open>A transfer that is SUCCESS or FAILED is left alone by both handlers, with the database
  failing anywhere: no row changes and nothing is sent to the ledger.\<close>

theorem closed_transfer_left_alone:
  assumes "uuid_ok P" and "tw_uuid t = P" and "distinct (map tr_ID (transfers w))" and "r \<in> set (transfers w)"
    and "tr_Status r \<noteq> TransactionPending"
  shows "same_books w (snd (run (HandleTransferExecute t (Transfer_GenerateNewTask n (uuid_String P (tr_ID r)))) w)) \<and>
    same_books w (snd (run (HandleTransferExhausted t (Transfer_GenerateNewTask n (uuid_String P (tr_ID r))) cause) w))"
proof (rule conjI)
  have "wp (HandleTransferExecute t (Transfer_GenerateNewTask n (uuid_String P (tr_ID r)))) (\<lambda>_. same_books w) w"
    unfolding HandleTransferExecute_def decode_generated_transfer sum.simps assms(2)
    apply (intro wp_case wp_Ret frame.rely_refl wp_bnd wp_GetTransfer)
      apply (simp_all add: same_books_def)
    using assms(5) transfer_by_ref[OF assms(1,3,4)] by (auto intro!: wp_Ret)
  then show "same_books w (snd (run (HandleTransferExecute t (Transfer_GenerateNewTask n (uuid_String P (tr_ID r)))) w))"
    by (simp add: wp_def split: prod.splits)
  have "wp (HandleTransferExhausted t (Transfer_GenerateNewTask n (uuid_String P (tr_ID r))) cause) (\<lambda>_. same_books w) w"
    unfolding HandleTransferExhausted_def decode_generated_transfer sum.simps assms(2)
    apply (intro wp_case wp_Ret frame.rely_refl wp_bnd wp_GetTransfer)
      apply (simp_all add: same_books_def)
    using assms(5) transfer_by_ref[OF assms(1,3,4)] by (auto intro!: wp_Ret)
  then show "same_books w (snd (run (HandleTransferExhausted t (Transfer_GenerateNewTask n (uuid_String P (tr_ID r))) cause) w))"
    by (simp add: wp_def split: prod.splits)
qed

section \<open>At concrete inputs\<close>

lemma ex_transfer_worker [simp]:
  "tw_uuid (aqw_Transfer ex_worker) = ex_uuid" "tw_Ledger (aqw_Transfer ex_worker) = Some ex_ledger"
  by (simp_all add: ex_worker_def NewAsyncWorker_def Let_def)

lemma ex_transfer_sel [simp]:
  "tr_ID (ex_transfer s) = 30" "tr_Status (ex_transfer s) = s" "tr_SenderWalletID (ex_transfer s) = 10"
  "tr_RecipientWalletID (ex_transfer s) = 11" "tr_Amount (ex_transfer s) = 200"
  by (simp_all add: ex_transfer_def)

lemma ex_can_move: "can_move (ex_transfer TransactionPending) 1 (ex_with s b)"
  by (simp add: can_move_def IsPositive_def ex_naira)

lemma ex_move: "move_entry ex_ledger 1 (ex_transfer s) = ex_move_entry"
  by (simp add: move_entry_def ex_move_entry_def ex_ledger_def TransferID_def AccountID_def TransferInternal_def Minor_def)

lemma ex_transfer_in: "ex_transfer TransactionPending \<in> set (transfers (ex_with s b))" by simp

lemma transfer_executes_witness:
  "\<exists>w'. run (HandleTransferExecute (aqw_Transfer ex_worker) (Transfer_GenerateNewTask TaskTypeTransferExecute ''30''))
      (ex_with TransactionSuccess [ex_deposit_entry]) = (None, w') \<and>
    only_moved ex_posted ((ex_transfer TransactionPending)\<lparr>tr_Status := TransactionSuccess, tr_FailureReason := '''', tr_UpdatedAt := 1\<rparr>)
      ((ex_posted [ex_deposit_entry])(30 \<mapsto> ex_move_entry)) [EvCreateTransfers [ex_move_entry]]
      (ex_with TransactionSuccess [ex_deposit_entry]) w'"
  using transfer_executes[OF ex_up ex_transfer_worker ex_transfer_in _ ex_can_move]
  by (simp add: ex_text ex_ids ex_move ex_moves del: ex_uuid_sel)

lemma insufficient_funds_fail_transfer_witness:
  "\<exists>w'. run (HandleTransferExecute (aqw_Transfer ex_worker) (Transfer_GenerateNewTask TaskTypeTransferExecute ''30''))
      (ex_with TransactionPending []) = (None, w') \<and>
    only_moved ex_posted ((ex_transfer TransactionPending)\<lparr>tr_Status := TransactionFailed,
        tr_FailureReason := ''Insufficient funds'', tr_UpdatedAt := 1\<rparr>)
      (ex_posted []) [EvCreateTransfers [ex_move_entry]] (ex_with TransactionPending []) w'"
  using insufficient_funds_fail_transfer[OF ex_up ex_transfer_worker ex_transfer_in _ ex_can_move]
  by (simp add: ex_text ex_ids ex_move ex_moves del: ex_uuid_sel)

lemma exhausted_transfer_follows_ledger_witness:
  "\<exists>w'. run (HandleTransferExhausted (aqw_Transfer ex_worker) (Transfer_GenerateNewTask TaskTypeTransferExecute ''30'') (Opaque ''''))
      (ex_with TransactionSuccess [ex_move_entry]) = ((), w') \<and>
    only_moved ex_posted ((ex_transfer TransactionPending)\<lparr>tr_Status := TransactionSuccess, tr_FailureReason := '''', tr_UpdatedAt := 1\<rparr>)
      (ex_posted [ex_move_entry]) [] (ex_with TransactionSuccess [ex_move_entry]) w'"
proof -
  have "ex_posted [ex_move_entry] 30 = Some ex_move_entry" by (simp add: ex_posted_def ex_move_entry_def)
  then show ?thesis
    using exhausted_transfer_follows_ledger[OF ex_up ex_transfer_worker ex_transfer_in,
        of "Opaque ''''" TransactionSuccess "[ex_move_entry]"]
    by (simp add: ex_text ex_ids del: ex_uuid_sel)
qed

definition ex_ledger_away :: "book tb_client" where
  "ex_ledger_away = ex_ledger\<lparr>tb_CreateTransfers := \<lambda>ts s. (Inl ''timeout'', s)\<rparr>"

definition ex_ledger_down :: "book tb_client" where
  "ex_ledger_down = ex_ledger_away\<lparr>tb_CreateAccounts := \<lambda>as s. (Inl ''connection refused'', s),
     tb_LookupTransfers := \<lambda>ids s. (Inl ''connection refused'', s)\<rparr>"

lemma ex_down:
  "env_ok ex_uuid ex_ledger_away ex_posted" "env_ok ex_uuid ex_ledger_down ex_posted"
  "unreachable ex_ledger_away 1 r s" "unreachable ex_ledger_down 1 r s"
proof -
  have "tb_ok ex_ledger_away ex_posted" "tb_ids_ok ex_ledger_away" "tb_ok ex_ledger_down ex_posted" "tb_ids_ok ex_ledger_down"
    using ex_tb_ok ex_tb_ids_ok by (auto simp: tb_ok_def tb_ids_ok_def ex_ledger_away_def ex_ledger_down_def)
  then show "env_ok ex_uuid ex_ledger_away ex_posted" "env_ok ex_uuid ex_ledger_down ex_posted"
    using ex_env_ok by (simp_all add: env_ok_def)
  have "tb_CreateAccounts ex_ledger_away as s = (Inr (map (\<lambda>_. AccountExists) as), s)"
      "tb_CreateTransfers ex_ledger_away ts s = (Inl ''timeout'', s)" for as ts s
    by (simp_all add: ex_ledger_away_def ex_ledger_def)
  then have "unreachable ex_ledger_away 1 r s"
    by (simp add: unreachable_def ex_account_results)
  then show "unreachable ex_ledger_away 1 r s" "unreachable ex_ledger_down 1 r s"
    by (auto simp: unreachable_def ex_ledger_down_def)
qed

lemma unreachable_ledger_is_retried_witness:
  "let w = ex_with TransactionPending [] in \<forall>C \<in> {ex_ledger_away, ex_ledger_down}.
   \<exists>err w'. run (HandleTransferExecute ((aqw_Transfer ex_worker)\<lparr>tw_Ledger := Some C\<rparr>)
       (Transfer_GenerateNewTask TaskTypeTransferExecute ''30'')) w = (Some err, w') \<and>
     IsFailure err \<and> \<not> errors_Is err asynq_SkipRetry \<and> transfers w' = transfers w \<and> intents w' = intents w \<and>
     wallets w' = wallets w \<and> ex_posted (tb w') \<in> {ex_posted [], (ex_posted [])(30 \<mapsto> ex_move_entry)}"
proof -
  have "move_entry C 1 (ex_transfer TransactionPending) = ex_move_entry" "TransferID C u = u"
    if "C \<in> {ex_ledger_away, ex_ledger_down}" for u C
    using that ex_move ex_ids by (auto simp: ex_ledger_away_def ex_ledger_down_def move_entry_def TransferID_def AccountID_def)
  moreover have "calm (ex_with TransactionPending [])" "db_wf (ex_with TransactionPending [])"
    using ex_up[of TransactionPending "[]"] by (simp_all add: all_up_def)
  ultimately show ?thesis
    using unreachable_ledger_is_retried[OF ex_down(1) _ _ _ _ ex_transfer_in _ ex_can_move ex_down(3),
        where t = "(aqw_Transfer ex_worker)\<lparr>tw_Ledger := Some ex_ledger_away\<rparr>"]
      unreachable_ledger_is_retried[OF ex_down(2) _ _ _ _ ex_transfer_in _ ex_can_move ex_down(4),
        where t = "(aqw_Transfer ex_worker)\<lparr>tw_Ledger := Some ex_ledger_down\<rparr>"]
    by (simp add: ex_text Let_def del: ex_uuid_sel)
qed

lemma closed_transfer_left_alone_witness:
  "let t = aqw_Transfer ex_worker; w = ex_world\<lparr>transfers := [ex_transfer TransactionFailed]\<rparr> in
   same_books w (snd (run (HandleTransferExecute t (Transfer_GenerateNewTask TaskTypeTransferExecute ''30'')) w)) \<and>
   same_books w (snd (run (HandleTransferExhausted t (Transfer_GenerateNewTask TaskTypeTransferExecute ''30'') (Opaque '''')) w))"
  using closed_transfer_left_alone[OF ex_uuid_ok ex_transfer_worker(1),
      of "ex_world\<lparr>transfers := [ex_transfer TransactionFailed]\<rparr>" "ex_transfer TransactionFailed" TaskTypeTransferExecute "Opaque ''''"]
  by (simp add: ex_text Let_def del: ex_uuid_sel)

end
