(* ===== verification/Value_Properties.thy ===== *)
theory Value_Properties
  imports Float64 Notify_Workers Payment_Worker Transfer_Worker
begin

text \<open>
  The values the program exchanges with the outside: amounts as text, JSON, floating point and
  database values, and the payloads of queued tasks.
\<close>

section \<open>Amounts\<close>

text \<open>C31. An amount below 2 ^ 50 minor units (more than eleven trillion major units) survives every
  conversion: written as JSON and read back through \<open>float64\<close>, converted to major units and back, and
  stored in and scanned from the database.\<close>

theorem amounts_survive_conversions:
  assumes "\<bar>sint m\<bar> < 2 ^ 50"
  shows "UnmarshalJSON (JNum (MarshalJSON m)) = Inr m \<and> UnmarshalJSON (JStr (MarshalJSON m)) = Inr m \<and>
    NewMoney (Major m) = m \<and> Scan (Money_Value m) = Inr m"
  using UnmarshalJSON_MarshalJSON[OF assms] NewMoney_Major[OF assms]
  by (simp add: Money_Value_def MarshalJSON_def)

lemma amounts_survive_conversions_witness:
  "UnmarshalJSON (JNum (MarshalJSON (- 1999))) = Inr (- 1999) \<and> UnmarshalJSON (JStr (MarshalJSON (- 1999))) = Inr (- 1999) \<and>
    NewMoney (Major (- 1999)) = - 1999 \<and> Scan (Money_Value (- 1999)) = Inr (- 1999)"
  by (rule amounts_survive_conversions) simp

definition decimal_text :: "int \<Rightarrow> string" where
  "decimal_text v = (if v < 0 then ''-'' else '''') @ dec (nat (\<bar>v\<bar> div 100)) @ ''.'' @
     [digit (nat (\<bar>v\<bar> mod 100 div 10)), digit (nat (\<bar>v\<bar> mod 10))]"

text \<open>The text of an amount is its exact decimal value with two digits after the point, computed
  without machine arithmetic, for every amount but the smallest \<open>int64\<close>; for that one the negation
  wraps and the text is \<open>--92233720368547758.-8\<close>.\<close>

theorem amount_text_is_decimal:
  "Money_String m = (if sint m = - (2 ^ 63) then ''--92233720368547758.-8'' else decimal_text (sint m))"
proof (cases "sint m = - (2 ^ 63)")
  case True
  have b: "sint (0x8000000000000000 :: int64) = - (2 ^ 63)" "sint (- 0x8000000000000000 :: int64) = - (2 ^ 63)" by code_simp+
  with True have "m = 0x8000000000000000" by (metis word_of_sint)
  with b(2) have "sint (- m) = - (2 ^ 63)" by (simp only:)
  with True have "Money_String m = ''-'' @ fmt_d ((- (2 ^ 63)) sdiv 100) @ ''.'' @ fmt_02d ((- (2 ^ 63)) smod 100)"
    by (simp add: Money_String_def minorUnits_def)
  also have "\<dots> = ''--92233720368547758.-8''"
    by (simp add: fmt_d_def fmt_02d_def signed_divide_int_def signed_modulo_int_def dec.simps digit_def char_of_eq_iff)
  finally show ?thesis using True by simp
next
  case False
  then show ?thesis
    using Money_String_digits[OF False]
    by (simp add: decimal_text_def nat_div_distrib nat_mod_distrib)
qed

section \<open>Task payloads\<close>

text \<open>What a handler decodes from a task the program generated is the payload the task was
  generated from, for the four kinds of payload.\<close>

theorem generated_tasks_decode:
  "decode_payment (Payment_GenerateNewTask p n1 m) = Inr m \<and>
   decode_transfer (Transfer_GenerateNewTask n2 i) = Inr i \<and>
   unmarshal_activity (task_Payload (Activity_GenerateNewTask n3 a)) = Some a \<and>
   unmarshal_email (task_Payload (Email_GenerateNewTask n4 e)) = Some e"
  by (simp add: decode_payment_def Payment_GenerateNewTask_def decode_transfer_def Transfer_GenerateNewTask_def
      Activity_GenerateNewTask_def Email_GenerateNewTask_def payment_round_trip transfer_round_trip
      activity_round_trip email_round_trip)

section \<open>Times in mails\<close>

text \<open>The clock of \<open>FormatTime\<close> names every hour of the day differently; midnight is 12 AM.\<close>

lemma clock12_unambiguous: "inj_on clock12 {0..23}"
proof (rule inj_onI)
  fix a b :: int
  assume h: "a \<in> {0..23}" "b \<in> {0..23}" and "clock12 a = clock12 b"
  then have "a mod 12 = b mod 12" "12 \<le> a \<longleftrightarrow> 12 \<le> b" by (auto simp: clock12_def split: if_splits)
  moreover have "a = a mod 12 + (if 12 \<le> a then 12 else 0)" using h(1) by auto presburger+
  moreover have "b = b mod 12 + (if 12 \<le> b then 12 else 0)" using h(2) by auto presburger+
  ultimately show "a = b" by metis
qed

lemma email_time: "FormatTime (day_of_civil 2026 9 12 * 86400000000000 + 870 * 60000000000) = ''Sep 12, 2026 at 2:30 PM UTC''"
proof -
  have "day_of_civil 2026 9 12 = 20708" by (simp add: day_of_civil_def)
  moreover have "civil_of_day 20708 = (2026, 9, 12)" by code_simp
  moreover have "clock12 14 = (2, ''PM'')" "month_abbr 9 = ''Sep''" by (simp_all add: clock12_def month_abbr_def)
  moreover have "fmt_d 12 = ''12''" "fmt_d 2 = ''2''" "fmt_pad 4 2026 = ''2026''" "fmt_pad 2 30 = ''30''"
    by (simp add: fmt_d_def fmt_pad_def pad_left_def dec.simps digit_def, code_simp?)+
  ultimately show ?thesis by (simp add: FormatTime_def)
qed

end
