(* ===== verification/Ledger_Properties.thy ===== *)
theory Ledger_Properties
  imports Example_Worlds
begin

text \<open>
  The ledger component against its contract: \<open>Deposit\<close> and \<open>Transfer\<close> refine one step of an
  abstract book of transfers, invalid requests never reach TigerBeetle, balances are the accounts'
  and movements come newest first and complete.
\<close>

section \<open>The abstract book\<close>

text \<open>The contract of posting one transfer: on success the book holds it; a definite refusal leaves the
  book as it is; any other error leaves it as it is or with the transfer added.\<close>

type_synonym abstract_book = "u128 \<rightharpoonup> tb_transfer"

definition refusal :: "go_error \<Rightarrow> bool" where
  "refusal e \<longleftrightarrow> errors_Is e ErrRejected \<or> errors_Is e ErrInsufficientFunds \<or> errors_Is e ErrCrossCurrency"

definition book_step :: "abstract_book \<Rightarrow> tb_transfer \<Rightarrow> go_error option \<Rightarrow> abstract_book \<Rightarrow> bool" where
  "book_step b t e b' \<longleftrightarrow> (case e of
      None \<Rightarrow> b (t_ID t) \<in> {None, Some t} \<and> b' = b(t_ID t \<mapsto> t)
    | Some err \<Rightarrow> b' = b \<or> \<not> refusal err \<and> b (t_ID t) = None \<and> b' = b(t_ID t \<mapsto> t))"

lemma wp_ensure_any:
  assumes "env_ok P C posted" and "\<And>e s evs. posted s = posted (tb w) \<Longrightarrow> Q e (w\<lparr>tb := s, trace := trace w @ evs\<rparr>)"
  shows "wp (ensureAccounts C l u) Q w"
  unfolding ensureAccounts_def createAccounts_def client_CreateAccounts_def
proof (intro wp_bnd wp_tb_call wp_Ret)
  fix r s assume "tb_CreateAccounts C [settlement_account C l, wallet_account C l u] (tb w) = (r, s)"
  then have "posted s = posted (tb w)" using assms(1) unfolding env_ok_def tb_ok_def by (metis snd_conv)
  with assms(2) show "Q (case r of Inl m \<Rightarrow> Some (wrap_cause ''create accounts'' (Opaque m)) | Inr rs \<Rightarrow> account_results rs)
      (w\<lparr>tb := s, trace := trace w @ [EvCreateAccounts [settlement_account C l, wallet_account C l u]]\<rparr>)"
    by simp
qed

lemma create_one:
  assumes "env_ok P C posted" and "tb_CreateTransfers C [t] s = (a, s')"
  shows "a = Inl m \<Longrightarrow> posted s' = posted s \<or> (posted s (t_ID t) = None \<and> posted s' = (posted s)(t_ID t \<mapsto> t))"
    and "a = Inr rs \<Longrightarrow> \<exists>st. rs = [st] \<and> (if st = TransferCreated \<or> st = TransferExists
      then posted s (t_ID t) \<in> {None, Some t} \<and> posted s' = (posted s)(t_ID t \<mapsto> t) else posted s' = posted s)"
proof -
  have tb: "tb_ok C posted" using assms(1) by (simp add: env_ok_def)
  with assms(2) show "a = Inl m \<Longrightarrow> posted s' = posted s \<or> (posted s (t_ID t) = None \<and> posted s' = (posted s)(t_ID t \<mapsto> t))"
    unfolding tb_ok_def by blast
  assume "a = Inr rs"
  with tb assms(2) obtain st where "rs = [st]"
    "if posted s (t_ID t) = Some t then st = TransferExists \<and> posted s' = posted s
     else if st = TransferCreated then posted s (t_ID t) = None \<and> posted s' = (posted s)(t_ID t \<mapsto> t)
     else st \<noteq> TransferExists \<and> posted s' = posted s"
    unfolding tb_ok_def by blast
  then show "\<exists>st. rs = [st] \<and> (if st = TransferCreated \<or> st = TransferExists
      then posted s (t_ID t) \<in> {None, Some t} \<and> posted s' = (posted s)(t_ID t \<mapsto> t) else posted s' = posted s)"
    by (auto simp: fun_upd_idem split: if_splits)
qed

lemma post_one:
  assumes ok: "env_ok P C posted" and "tb_CreateTransfers C [t] s = (a, s')"
    and "results = deposit_results \<or> results = transfer_results"
  shows "book_step (posted s) t (case a of Inl m \<Rightarrow> Some (wrap_cause ''create transfer'' (Opaque m)) | Inr rs \<Rightarrow> results rs)
    (posted s')"
proof (cases a)
  case (Inl m)
  with create_one(1)[OF assms(1,2)] show ?thesis by (auto simp: book_step_def refusal_def)
next
  case (Inr rs)
  with create_one(2)[OF assms(1,2)] obtain st where "rs = [st]" "if st = TransferCreated \<or> st = TransferExists
      then posted s (t_ID t) \<in> {None, Some t} \<and> posted s' = (posted s)(t_ID t \<mapsto> t) else posted s' = posted s" by blast
  with Inr assms(3) show ?thesis by (cases st) (auto simp: book_step_def)
qed

lemma book_same: "book_step b t (Some e) b"
  by (simp add: book_step_def)

text \<open>C17. \<open>Deposit\<close> and \<open>Transfer\<close> refine the contract of the abstract book, whatever TigerBeetle
  answers and in whatever state it is: nil means the book holds exactly the requested transfer,
  in the ledger of the currency, for a positive amount; a refusal means the book did not change.\<close>

theorem ledger_refines_book:
  assumes "env_ok P C posted"
  shows "(case run (Ledger_deposit C d) w of (e, w') \<Rightarrow> \<exists>l. book_step (posted (tb w)) (deposit_request C l d) e (posted (tb w')) \<and>
      (e = None \<longrightarrow> LedgerForCurrency (dp_Currency d) = Inr l \<and> IsPositive (dp_Amount d))) \<and>
    (case run (Ledger_transfer C t) w of (e, w') \<Rightarrow> \<exists>l. book_step (posted (tb w)) (transfer_request C l t) e (posted (tb w')) \<and>
      (e = None \<longrightarrow> LedgerForCurrency (tp_SenderCurrency t) = Inr l \<and> IsPositive (tp_Amount t) \<and>
        tp_SenderWalletID t \<noteq> tp_ReceipientWalletID t \<and> EqualFold (tp_SenderCurrency t) (tp_ReceipientsCurrency t)))"
  unfolding wp_def[symmetric]
proof (rule conjI)
  note same = exI[of _ 0]
  show "wp (Ledger_deposit C d) (\<lambda>e w'. \<exists>l. book_step (posted (tb w)) (deposit_request C l d) e (posted (tb w')) \<and>
      (e = None \<longrightarrow> LedgerForCurrency (dp_Currency d) = Inr l \<and> IsPositive (dp_Amount d))) w"
    unfolding Ledger_deposit_def client_CreateTransfers_def
    apply (intro wp_case wp_Ret wp_bnd wp_ensure_any[OF assms] wp_tb_call)
       apply (simp_all add: book_same)
    subgoal for l e s r s'
      using post_one[OF assms, of "deposit_request C l d" s r s' deposit_results] by (intro exI[of _ l]) simp
    done
  show "wp (Ledger_transfer C t) (\<lambda>e w'. \<exists>l. book_step (posted (tb w)) (transfer_request C l t) e (posted (tb w')) \<and>
      (e = None \<longrightarrow> LedgerForCurrency (tp_SenderCurrency t) = Inr l \<and> IsPositive (tp_Amount t) \<and>
        tp_SenderWalletID t \<noteq> tp_ReceipientWalletID t \<and> EqualFold (tp_SenderCurrency t) (tp_ReceipientsCurrency t))) w"
    unfolding Ledger_transfer_def client_CreateTransfers_def
    apply (intro wp_case wp_Ret wp_bnd wp_ensure_any[OF assms] wp_tb_call)
          apply (simp_all add: book_same)
    subgoal for l e s ea sa r s'
      using post_one[OF assms, of "transfer_request C l t" sa r s' transfer_results] by (intro exI[of _ l]) simp
    done
qed

lemma ledger_refines_book_witness:
  "let d = \<lparr>dp_TransferID = 20, dp_WalletID = 10, dp_Currency = ''NGN'', dp_Amount = 500\<rparr> in
   case run (Ledger_deposit ex_ledger d) ex_world of (e, w') \<Rightarrow>
     \<exists>l. book_step (ex_posted (tb ex_world)) (deposit_request ex_ledger l d) e (ex_posted (tb w')) \<and>
      (e = None \<longrightarrow> LedgerForCurrency (dp_Currency d) = Inr l \<and> IsPositive (dp_Amount d))"
  unfolding Let_def by (rule conjunct1[OF ledger_refines_book[OF ex_env_ok]])

section \<open>Invalid requests\<close>

text \<open>A request that cannot be valid is refused before the ledger is asked for anything: an amount
  that is not positive, a currency without a ledger, and for a transfer also a wallet that would send
  to itself or two currencies. The world is unchanged, and the refusal is final for the callers.\<close>

theorem invalid_requests_refused:
  shows "(\<not> IsPositive (dp_Amount d) \<or> LedgerForCurrency (dp_Currency d) = Inl m \<longrightarrow>
      (\<exists>e. run (Ledger_deposit C d) w = (Some e, w) \<and> errors_Is e ErrRejected)) \<and>
    (\<not> IsPositive (tp_Amount t) \<or> tp_SenderWalletID t = tp_ReceipientWalletID t \<or>
        \<not> EqualFold (tp_SenderCurrency t) (tp_ReceipientsCurrency t) \<or> LedgerForCurrency (tp_SenderCurrency t) = Inl m' \<longrightarrow>
      (\<exists>e. run (Ledger_transfer C t) w = (Some e, w) \<and> (errors_Is e ErrRejected \<or> errors_Is e ErrCrossCurrency)))"
  by (auto simp: Ledger_deposit_def Ledger_transfer_def)

lemma invalid_requests_refused_witness:
  "(\<exists>e. run (Ledger_deposit ex_ledger \<lparr>dp_TransferID = 20, dp_WalletID = 10, dp_Currency = ''XOF'', dp_Amount = 5\<rparr>) ex_world =
      (Some e, ex_world) \<and> errors_Is e ErrRejected) \<and>
   (\<exists>e. run (Ledger_transfer ex_ledger \<lparr>tp_TransferID = 30, tp_SenderWalletID = 10, tp_ReceipientWalletID = 10,
      tp_SenderCurrency = ''NGN'', tp_ReceipientsCurrency = ''NGN'', tp_Amount = 5\<rparr>) ex_world =
      (Some e, ex_world) \<and> (errors_Is e ErrRejected \<or> errors_Is e ErrCrossCurrency))"
  using invalid_requests_refused[of "\<lparr>dp_TransferID = 20, dp_WalletID = 10, dp_Currency = ''XOF'', dp_Amount = 5\<rparr>"
      "Opaque ''no ledger for currency XOF''" ex_ledger ex_world
      "\<lparr>tp_TransferID = 30, tp_SenderWalletID = 10, tp_ReceipientWalletID = 10, tp_SenderCurrency = ''NGN'',
        tp_ReceipientsCurrency = ''NGN'', tp_Amount = 5\<rparr>"]
  by (simp add: LedgerForCurrency_def currencyLedgers_def)

section \<open>Balances\<close>

lemma foldl_upd:
  "foldl (\<lambda>m x. m(k x \<mapsto> f x)) m0 xs = m0 ++ map_of (rev (map (\<lambda>x. (k x, f x)) xs))"
  by (induction xs arbitrary: m0) simp_all

lemma byAccount_id:
  assumes "tb_ids_ok C" and "u \<in> set ids"
  shows "byAccount C ids (AccountID C u) = u"
proof -
  have inj: "AccountID C a = AccountID C b \<longleftrightarrow> a = b" for a b
    using assms(1) unfolding tb_ids_ok_def AccountID_def by metis
  have "map_of (rev (map (\<lambda>x. (AccountID C x, x)) xs)) (AccountID C u) = (if u \<in> set xs then Some u else None)" for xs
  proof (induction xs)
    case (Cons a xs)
    then show ?case using inj by (auto simp: map_add_def split: option.splits)
  qed simp
  then show ?thesis using assms(2) by (simp add: byAccount_def foldl_upd)
qed

text \<open>The balances of a user's wallets are the posted credits less the posted debits of exactly
  their accounts, zero for a wallet whose account does not exist yet, and nothing else is in the
  result.\<close>

theorem balances_of_accounts:
  assumes "tb_ids_ok C" and "ids \<noteq> []"
    and "\<And>is s. tb_LookupAccounts C is s = (Inr (List.map_filter (acct s) is), s)"
    and "\<forall>i a s. acct s i = Some a \<longrightarrow> bal_ID a = i"
  shows "\<exists>b w'. run (Balances C ids) w = (Inr b, w') \<and> tb w' = tb w \<and>
    b = (\<lambda>u. if u \<in> set ids then Some (case acct (tb w) (AccountID C u) of None \<Rightarrow> 0
      | Some a \<Rightarrow> NewMoneyFromMinor (word_of_int (tb_BigInt C (bal_CreditsPosted a) - tb_BigInt C (bal_DebitsPosted a)))) else None)"
proof -
  define as where "as = List.map_filter (acct (tb w)) (map (AccountID C) ids)"
  define key where "key a = byAccount C ids (bal_ID a)" for a :: tb_balance
  have as: "as = map (\<lambda>u. the (acct (tb w) (AccountID C u))) (filter (\<lambda>u. acct (tb w) (AccountID C u) \<noteq> None) ids)"
    unfolding as_def List.map_filter_def by (simp add: filter_map comp_def)
  have key: "key (the (acct (tb w) (AccountID C u))) = u" if "u \<in> set ids" "acct (tb w) (AccountID C u) \<noteq> None" for u
    using that assms(4) byAccount_id[OF assms(1)] by (force simp: key_def)
  have zero: "foldl (\<lambda>m walletID. m(walletID \<mapsto> 0)) Map.empty ids u = (if u \<in> set ids then Some (0::Money) else None)" for u
    by (induction ids rule: rev_induct) auto
  have found: "map_of (rev (map (\<lambda>a. (key a, balance_of C a)) as)) u =
      (if u \<in> set ids then map_option (balance_of C) (acct (tb w) (AccountID C u)) else None)" for u
  proof -
    have "map_of (rev (map (\<lambda>a. (key a, balance_of C a)) (map (\<lambda>u. the (acct (tb w) (AccountID C u)))
        (filter (\<lambda>u. acct (tb w) (AccountID C u) \<noteq> None) us)))) u =
      (if u \<in> set us then map_option (balance_of C) (acct (tb w) (AccountID C u)) else None)" if "set us \<subseteq> set ids" for us
      using that
    proof (induction us)
      case (Cons a us)
      then show ?case using key[of a] by (cases "acct (tb w) (AccountID C a)") (auto simp: map_add_def split: option.splits)
    qed simp
    then show ?thesis unfolding as by simp
  qed
  have "run (Balances C ids) w = (Inr (foldl (\<lambda>m a. m(key a \<mapsto> balance_of C a)) (foldl (\<lambda>m walletID. m(walletID \<mapsto> 0)) Map.empty ids) as),
      w\<lparr>tb := tb w, trace := trace w @ []\<rparr>)"
    using assms(2,3) by (simp add: Balances_def client_LookupAccounts_def tb_call_def key_def as_def)
  moreover have "foldl (\<lambda>m a. m(key a \<mapsto> balance_of C a)) (foldl (\<lambda>m walletID. m(walletID \<mapsto> 0)) Map.empty ids) as =
      (\<lambda>u. if u \<in> set ids then Some (case acct (tb w) (AccountID C u) of None \<Rightarrow> 0 | Some a \<Rightarrow> balance_of C a) else None)"
  proof (rule ext)
    fix u show "foldl (\<lambda>m a. m(key a \<mapsto> balance_of C a)) (foldl (\<lambda>m walletID. m(walletID \<mapsto> 0)) Map.empty ids) as u =
      (if u \<in> set ids then Some (case acct (tb w) (AccountID C u) of None \<Rightarrow> 0 | Some a \<Rightarrow> balance_of C a) else None)"
      unfolding foldl_upd[of key "balance_of C"] map_add_def found
      using zero[of u] by (cases "acct (tb w) (AccountID C u)") simp_all
  qed
  ultimately show ?thesis by (simp only: balance_of_def) simp
qed

definition ex_account :: "book \<Rightarrow> u128 \<Rightarrow> tb_balance option" where
  "ex_account s i = Some \<lparr>bal_ID = i, bal_DebitsPosted = word_of_int (book_sum t_DebitAccountID i s),
     bal_CreditsPosted = word_of_int (book_sum t_CreditAccountID i s)\<rparr>"

lemma ex_lookup: "tb_LookupAccounts ex_ledger is s = (Inr (List.map_filter (ex_account s) is), s)"
  by (simp add: ex_ledger_def ex_account_def List.map_filter_def comp_def)

lemma balances_of_accounts_witness:
  "\<exists>b w'. run (Balances ex_ledger [10, 11]) (ex_with TransactionSuccess [ex_deposit_entry]) = (Inr b, w') \<and>
    b 10 = Some 500 \<and> b 11 = Some 0 \<and> b 12 = None"
proof -
  have id: "\<forall>i a s. ex_account s i = Some a \<longrightarrow> bal_ID a = i" by (auto simp: ex_account_def)
  have v: "(case ex_account [ex_deposit_entry] 10 of None \<Rightarrow> 0 | Some a \<Rightarrow>
      NewMoneyFromMinor (word_of_int (tb_BigInt ex_ledger (bal_CreditsPosted a) - tb_BigInt ex_ledger (bal_DebitsPosted a)))) = 500"
    "(case ex_account [ex_deposit_entry] 11 of None \<Rightarrow> 0 | Some a \<Rightarrow>
      NewMoneyFromMinor (word_of_int (tb_BigInt ex_ledger (bal_CreditsPosted a) - tb_BigInt ex_ledger (bal_DebitsPosted a)))) = 0"
    by (simp_all add: ex_account_def ex_ledger_def book_sum_def ex_deposit_entry_def NewMoneyFromMinor_def)
  have "[10, 11 :: uuid] \<noteq> []" by simp
  from balances_of_accounts[of ex_ledger "[10, 11]" ex_account "ex_with TransactionSuccess [ex_deposit_entry]",
      OF ex_tb_ids_ok this ex_lookup id]
  obtain b w' where run: "run (Balances ex_ledger [10, 11]) (ex_with TransactionSuccess [ex_deposit_entry]) = (Inr b, w')"
    and b: "b = (\<lambda>u. if u \<in> set [10, 11] then Some (case ex_account (tb (ex_with TransactionSuccess [ex_deposit_entry]))
        (AccountID ex_ledger u) of None \<Rightarrow> 0 | Some a \<Rightarrow> NewMoneyFromMinor (word_of_int
          (tb_BigInt ex_ledger (bal_CreditsPosted a) - tb_BigInt ex_ledger (bal_DebitsPosted a)))) else None)"
    by blast
  have "b 10 = Some 500 \<and> b 11 = Some 0 \<and> b 12 = None" using v unfolding b by (simp add: ex_ids)
  with run show ?thesis by blast
qed

section \<open>Movements\<close>

lemma run_movements_loop:
  assumes "\<And>a s. tb_GetAccountTransfers C a limit s = (Inr (hist s a), s)"
  shows "run (movements_loop C limit ids) w = (Inr (concat (map (\<lambda>u. map (movement C u) (hist (tb w) (AccountID C u))) ids)), w)"
  by (induction ids) (simp_all add: client_GetAccountTransfers_def tb_call_def assms)

lemma sorted_key_rel: "sorted_wrt (\<lambda>x y. f x \<le> f y) (sort_key f xs)"
  using sorted_sort_key[of f xs] by (simp add: sorted_map)

text \<open>C37. The movements of a user's wallets are, for each wallet in the order given, the transfers
  TigerBeetle returned for its account, each as a debit or credit of that wallet, rearranged so that
  they come newest first: none is lost or repeated, and those of one instant keep their order.\<close>

theorem movements_newest_first:
  assumes "\<And>a s. tb_GetAccountTransfers C a limit s = (Inr (hist s a), s)" and "limit \<noteq> 0"
  shows "\<exists>ms. run (WalletMovements C ids limit) w = (Inr ms, w) \<and>
    mset ms = mset (concat (map (\<lambda>u. map (movement C u) (hist (tb w) (AccountID C u))) ids)) \<and>
    sorted_wrt (\<lambda>a b. mv_Timestamp b \<le> mv_Timestamp a) ms \<and>
    (\<forall>n. filter (\<lambda>m. mv_Timestamp m = n) ms =
       filter (\<lambda>m. mv_Timestamp m = n) (concat (map (\<lambda>u. map (movement C u) (hist (tb w) (AccountID C u))) ids)))"
proof -
  let ?all = "concat (map (\<lambda>u. map (movement C u) (hist (tb w) (AccountID C u))) ids)"
  have run: "run (WalletMovements C ids limit) w = (Inr (newest_first ?all), w)"
    using assms(2) by (simp add: WalletMovements_def run_movements_loop[OF assms(1)] newest_first_def)
  have "sorted_wrt (\<lambda>a b. mv_Timestamp b \<le> mv_Timestamp a) (newest_first ?all)"
    using sorted_key_rel[of "\<lambda>m. - uint (mv_Timestamp m)" ?all] by (simp add: newest_first_def word_le_def)
  moreover have "filter (\<lambda>m. mv_Timestamp m = n) (newest_first ?all) = filter (\<lambda>m. mv_Timestamp m = n) ?all" for n
    using sort_key_stable[of "\<lambda>m. - uint (mv_Timestamp m)" "- uint n" ?all]
    by (simp add: newest_first_def word_uint_eq_iff)
  moreover have "mset (newest_first ?all) = mset ?all" by (simp add: newest_first_def)
  ultimately show ?thesis using run by blast
qed

lemma movements_newest_first_witness:
  "\<exists>ms. run (WalletMovements ex_ledger [10, 11] 5) (ex_with TransactionSuccess [ex_deposit_entry, ex_move_entry]) =
      (Inr ms, ex_with TransactionSuccess [ex_deposit_entry, ex_move_entry]) \<and> length ms = 3 \<and>
    sorted_wrt (\<lambda>a b. mv_Timestamp b \<le> mv_Timestamp a) ms"
proof -
  let ?hist = "\<lambda>s a. take (unat (5 :: uint32)) (filter (\<lambda>t. t_DebitAccountID t = a \<or> t_CreditAccountID t = a) (rev (book_entries s)))"
  let ?w = "ex_with TransactionSuccess [ex_deposit_entry, ex_move_entry]"
  have h: "tb_GetAccountTransfers ex_ledger a 5 s = (Inr (?hist s a), s)" for a s by (simp add: ex_ledger_def)
  have n: "length (concat (map (\<lambda>u. map (movement ex_ledger u) (?hist (tb ?w) (AccountID ex_ledger u))) [10, 11])) = 3"
    by (simp add: ex_ids book_entries_def as_posted_def ex_deposit_entry_def ex_move_entry_def)
  have "(5 :: uint32) \<noteq> 0" by simp
  from movements_newest_first[of ex_ledger 5 ?hist, OF h this, of "[10, 11]" ?w]
  obtain ms where ms: "run (WalletMovements ex_ledger [10, 11] 5) ?w = (Inr ms, ?w)"
    "mset ms = mset (concat (map (\<lambda>u. map (movement ex_ledger u) (?hist (tb ?w) (AccountID ex_ledger u))) [10, 11]))"
    "sorted_wrt (\<lambda>a b. mv_Timestamp b \<le> mv_Timestamp a) ms" by blast
  from arg_cong[OF ms(2), of size] n have "length ms = 3" by (simp only: size_mset)
  with ms show ?thesis by blast
qed

end
