(* ===== verification/Queue_Properties.thy ===== *)
theory Queue_Properties
  imports Example_Worlds
begin

text \<open>
  The middleware every payment and transfer task runs behind, the queue's use of task identifiers,
  and the event bus.
\<close>

section \<open>Middleware\<close>

text \<open>C18. A task's handler never brings the worker down, and its exhaustion hook runs exactly when the
  attempt is one the log calls out of retries: a panic becomes an error, the outcome reported to
  asynq is the handler's, and the hook runs once after it, only on an error on the last attempt that
  does not already say \<open>SkipRetry\<close>.\<close>

theorem attempt_outcome:
  "run (handlePayment h [OnRetriesExhausted fn] ctx t) w =
    (let (o1, v) = run (h ctx t) w;
         err = (case o1 of Returned e \<Rightarrow> e | Panicked r \<Rightarrow> Some (Opaque (''task handler panicked: '' @ r)))
     in (Returned err, if attempt_log ctx err = RetriesExhausted then snd (run (fn ctx t (the err)) v) else v))"
proof -
  obtain o1 v where r: "run (h ctx t) w = (o1, v)" by (rule prod.exhaust)
  let ?err = "case o1 of Returned e \<Rightarrow> e | Panicked r \<Rightarrow> Some (Opaque (''task handler panicked: '' @ r))"
  have "run (RecoverMiddleware h ctx t) w = (Returned ?err, v)"
    using r by (cases o1) (simp_all add: RecoverMiddleware_def)
  then show ?thesis
    using r by (cases ?err) (auto simp: handlePayment_simps OnRetriesExhausted_def attempt_log_def IsFinalAttempt_def
        Let_def split: prod.splits option.splits)
qed

section \<open>Task identifiers\<close>

text \<open>What the code relies on of asynq: a task whose identifier is in the queue is refused with a
  conflict, and any other is added.\<close>

definition queue_ok :: "'x asynq_client \<Rightarrow> ('x \<Rightarrow> task list) \<Rightarrow> bool" where
  "queue_ok A tasks \<longleftrightarrow> (\<forall>t q x.
     if task_TaskID t \<noteq> None \<and> task_TaskID t \<in> task_TaskID ` set (tasks x)
     then fst (aq_Enqueue A t q x) = Some ATaskIDConflict \<and> tasks (snd (aq_Enqueue A t q x)) = tasks x
     else fst (aq_Enqueue A t q x) = None \<and> tasks (snd (aq_Enqueue A t q x)) = tasks x @ [t])"

primrec repeat :: "nat \<Rightarrow> ('a, 'w) prog \<Rightarrow> ('a list, 'w) prog" where
  "repeat 0 p = Ret []"
| "repeat (Suc n) p = bnd p (\<lambda>a. bnd (repeat n p) (\<lambda>as. Ret (a # as)))"

lemma enqueue_runs:
  assumes "queue_ok A tasks"
  shows "\<exists>w'. run (EnqueueWithContext t q A) w = (None, w') \<and> tasks (ext w') =
    (if task_TaskID t \<noteq> None \<and> task_TaskID t \<in> task_TaskID ` set (tasks (ext w)) then tasks (ext w) else tasks (ext w) @ [t])"
proof -
  let ?q = "if q = '''' then None else Some q"
  obtain e x where x: "aq_Enqueue A t ?q (ext w) = (e, x)" by (rule prod.exhaust)
  have "if task_TaskID t \<noteq> None \<and> task_TaskID t \<in> task_TaskID ` set (tasks (ext w))
     then e = Some ATaskIDConflict \<and> tasks x = tasks (ext w) else e = None \<and> tasks x = tasks (ext w) @ [t]"
    using assms x unfolding queue_ok_def by (metis fst_conv snd_conv)
  then show ?thesis
    using x by (auto simp: EnqueueWithContext_def ext_call_def Let_def split: if_splits)
qed

lemma enqueue_repeated:
  assumes "queue_ok A tasks" and "task_TaskID t = Some i" and "Some i \<in> task_TaskID ` set (tasks (ext w))"
  shows "\<exists>w'. run (repeat n (EnqueueWithContext t q A)) w = (replicate n None, w') \<and> tasks (ext w') = tasks (ext w)"
  using assms(3)
proof (induction n arbitrary: w)
  case (Suc n)
  from enqueue_runs[OF assms(1), of t q w] Suc.prems assms(2)
  obtain v where v: "run (EnqueueWithContext t q A) w = (None, v)" "tasks (ext v) = tasks (ext w)" by auto
  with Suc.IH[of v] Suc.prems show ?case by auto
qed simp

text \<open>A transfer is queued for execution once, and a deposit for polling once, however often the
  event that queues it is delivered: each enqueue answers nil, and the queue gains exactly one task
  with the transfer's (the reference's) identifier when it had none.\<close>

theorem queued_once:
  assumes "queue_ok (tw_Client t) tasks" and "queue_ok (pw_Client p) tasks"
    and "Some (ExecuteTaskID i) \<notin> task_TaskID ` set (tasks (ext w))"
    and "Some (PollTaskID (pp_Reference m)) \<notin> task_TaskID ` set (tasks (ext w))"
  shows "(\<exists>w'. run (repeat (Suc n) (Transfer_Enqueue t (Transfer_GenerateNewTask TaskTypeTransferExecute i))) w =
        (replicate (Suc n) None, w') \<and>
      tasks (ext w') = tasks (ext w) @ [Transfer_GenerateNewTask TaskTypeTransferExecute i]) \<and>
    (\<exists>w'. run (repeat (Suc n) (Payment_Enqueue p (Payment_GenerateNewTask p TaskTypePaymentPoll m))) w =
        (replicate (Suc n) None, w') \<and>
      tasks (ext w') = tasks (ext w) @ [Payment_GenerateNewTask p TaskTypePaymentPoll m])"
proof -
  have once: "\<exists>w'. run (repeat (Suc n) (EnqueueWithContext k q A)) w = (replicate (Suc n) None, w') \<and>
      tasks (ext w') = tasks (ext w) @ [k]"
    if ok: "queue_ok A tasks" and id: "task_TaskID k = Some j" "Some j \<notin> task_TaskID ` set (tasks (ext w))" for k q A j
  proof -
    from enqueue_runs[OF ok, of k q w] id obtain v where
      v: "run (EnqueueWithContext k q A) w = (None, v)" "tasks (ext v) = tasks (ext w) @ [k]" by auto
    with enqueue_repeated[OF ok id(1), of v n q] id(1) show ?thesis by auto
  qed
  have ids: "task_TaskID (Transfer_GenerateNewTask TaskTypeTransferExecute i) = Some (ExecuteTaskID i)"
    "task_TaskID (Payment_GenerateNewTask p TaskTypePaymentPoll m) = Some (PollTaskID (pp_Reference m))"
    by (simp_all add: Transfer_GenerateNewTask_def Payment_GenerateNewTask_def GenerateNewTask_def NewTask_def)
  show ?thesis
    unfolding Transfer_Enqueue_def Payment_Enqueue_def
    using once[OF assms(1) ids(1) assms(3)] once[OF assms(2) ids(2) assms(4)] by blast
qed

lemma queued_once_witness:
  "\<exists>w'. run (repeat 3 (Transfer_Enqueue (aqw_Transfer ex_worker) (Transfer_GenerateNewTask TaskTypeTransferExecute ''30'')))
      (ex_with TransactionPending []) = ([None, None, None], w') \<and>
    ext w' = [Transfer_GenerateNewTask TaskTypeTransferExecute ''30'']"
proof -
  have q: "queue_ok ex_queue id" by (auto simp: queue_ok_def ex_queue_def image_iff) metis+
  have c: "tw_Client (aqw_Transfer ex_worker) = ex_queue" "pw_Client (aqw_Payment ex_worker) = ex_queue"
    by (simp_all add: ex_worker_def NewAsyncWorker_def NewPaymentWorker_def Let_def)
  have "queue_ok (tw_Client (aqw_Transfer ex_worker)) id" "queue_ok (pw_Client (aqw_Payment ex_worker)) id"
    unfolding c by (rule q)+
  from queued_once[OF this, of "''30''" "ex_with TransactionPending []" "ex_message '''' 0" 2] show ?thesis
    by (simp add: numeral_3_eq_3 del: repeat.simps)
qed

section \<open>The event bus\<close>

text \<open>Publishing an event runs every handler subscribed to its name, each once, in the order of
  subscription, each in the world the one before left; a handler that panics does not keep the
  later ones from running, nor reach the publisher.\<close>

theorem publish_runs_every_handler:
  "run (Publish (foldl (\<lambda>b (name, h). Subscribe b name h) NewEventBus subs) n p) w =
    ((), foldl (\<lambda>v h. snd (run (h p) v)) w (map snd (filter (\<lambda>(name, h). name = n) subs)))"
proof -
  have all: "run (dispatch_all hs p) w = ((), foldl (\<lambda>v h. snd (run (h p) v)) w hs)" for hs
    by (induction hs arbitrary: w) (simp_all add: dispatch_def split: prod.splits)
  have "foldl (\<lambda>b (name, h). Subscribe b name h) NewEventBus subs n = map snd (filter (\<lambda>(name, h). name = n) subs)"
    by (induction subs rule: rev_induct) (auto simp: Subscribe_def NewEventBus_def)
  then show ?thesis by (simp add: Publish_def all)
qed

end
