(* ===== verification/Otp_Properties.thy ===== *)
theory Otp_Properties
  imports Example_Worlds
begin

text \<open>
  One-time codes: what a generated code looks like, and that it verifies.
\<close>

section \<open>Redis\<close>

lemma redis_okD:
  assumes "redis_ok R codes counts"
  shows redis_set: "rd_TxSetDel R k v ttl d x = (e, x') \<Longrightarrow> (codes x' = (codes x)(k \<mapsto> v) \<and> counts x' = (counts x)(d := 0)) \<or>
      (e \<noteq> None \<and> codes x' = codes x \<and> counts x' = counts x)"
    and redis_incr: "rd_Incr R k x = (Inr n, x') \<Longrightarrow>
      sint n = int (Suc (counts x k)) \<and> codes x' = codes x \<and> counts x' = (counts x)(k := Suc (counts x k))"
    and redis_expire: "rd_Expire R k ttl x = (u, x') \<Longrightarrow> codes x' = codes x"
proof goal_cases
  note R = assms[unfolded redis_ok_def]
  case 1 then show ?case by (rule R[THEN conjunct1, rule_format])
next
  note R = assms[unfolded redis_ok_def]
  case 2 then show ?case by (rule R[THEN conjunct2, THEN conjunct1, rule_format])
next
  case 3 then show ?case using assms unfolding redis_ok_def by (metis snd_conv)
qed

section \<open>Codes\<close>

lemma run_otp_digits:
  "run (otp_digits n) w = (Inr code, w') \<Longrightarrow>
    length code = n \<and> (\<forall>c \<in> set code. is_digit c) \<and> ext w' = ext w"
proof (induction n arbitrary: w code w')
  case (Suc n)
  obtain r v where r: "run (rand_Int 10) w = (r, v)" by (rule prod.exhaust)
  then have v: "ext v = ext w" and d: "\<And>k. r = Inr k \<Longrightarrow> k < 10"
    by (auto simp: rand_Int_def split: option.splits)
  show ?case
  proof (cases r)
    case (Inl e)
    with Suc.prems r show ?thesis by simp
  next
    case (Inr k)
    obtain rest u where rest: "run (otp_digits n) v = (rest, u)" by (rule prod.exhaust)
    with Suc.prems r Inr obtain ds where "rest = Inr ds" "code = digit k # ds" "w' = u" by (cases rest) auto
    with Suc.IH[of v ds u] rest v d Inr show ?thesis by (simp add: is_digit_digit)
  qed
qed simp

text \<open>C39. A generated code has the configured number of decimal digits and verifies: when Redis
  answers, the same code is accepted and any text with another hash is a mismatch.\<close>

theorem generated_code_verifies:
  assumes "redis_ok (os_Client s) codes counts" and "1 \<le> os_MaxAttempts s" and "1 \<le> os_Length s"
    and "run (Generate s i) w = (Inr code, w1)"
    and "\<And>k x. counts x k = 0 \<Longrightarrow> \<exists>n. fst (rd_Incr (os_Client s) k x) = Inr n"
    and "\<And>k x v. codes x k = Some v \<Longrightarrow> fst (rd_Get (os_Client s) k x) = Inr v"
  shows "int (length code) = os_Length s \<and> (\<forall>c \<in> set code. is_digit c) \<and>
    fst (run (Verify s i g) w1) = (if os_hash s g = os_hash s code then None else Some (Sentinel OtpErrMismatch))"
proof -
  note R = assms(1)
  obtain r v where r: "run (otp_digits (nat (os_Length s))) w = (r, v)" by (rule prod.exhaust)
  with assms(3,4) have "r = Inr code" by (cases r) (auto simp: Generate_def GenerateOTP_def split: prod.splits option.splits sum.splits)
  with run_otp_digits[OF r[unfolded this]] assms(3) have d: "int (length code) = os_Length s \<and> (\<forall>c \<in> set code. is_digit c)" by simp
  obtain e x where x: "rd_TxSetDel (os_Client s) (codeKey i) (os_hash s code) (os_TTL s) (attemptKey i) (ext v) = (e, x)"
    by (rule prod.exhaust)
  with assms(3,4) r \<open>r = Inr code\<close> have "e = None" "ext w1 = x"
    by (auto simp: Generate_def GenerateOTP_def ext_call_def split: option.splits)
  with redis_set[OF R x] have w1: "codes (ext w1) (codeKey i) = Some (os_hash s code)" "counts (ext w1) (attemptKey i) = 0"
    by auto
  obtain answer where answer: "answer = (if os_hash s g = os_hash s code then None else Some (Sentinel OtpErrMismatch))" by simp
  have "wp (Verify s i g) (\<lambda>r _. r = answer) w1"
    unfolding Verify_def
  proof (rule wp_bnd, rule wp_ext_call, goal_cases)
    case (1 r y)
    with assms(5)[of "ext w1" "attemptKey i"] w1(2) obtain n where n: "r = Inr n" by auto
    with redis_incr[OF R] 1 w1 have y: "sint n = 1" "codes y (codeKey i) = Some (os_hash s code)" by (metis One_nat_def of_nat_1)+
    have chk: "wp (check_code s i g) (\<lambda>r _. r = answer) u"
      if "codes (ext u) (codeKey i) = Some (os_hash s code)" for u
      unfolding check_code_def del_keys_def
      using assms(6)[OF that] by (intro wp_bnd wp_ext_call) (auto simp: answer intro!: wp_Ret wp_bnd wp_ext_call)
    show ?case
      unfolding n sum.simps using y assms(2)
      by (intro wp_bnd wp_case wp_ext_call wp_Ret) (auto intro!: chk wp_Ret dest: redis_expire[OF R])
  qed
  with d show ?thesis by (simp add: wp_def answer split: prod.splits)
qed

section \<open>At concrete inputs\<close>

text \<open>Redis as two maps; a counter that would leave the range of \<open>int64\<close> is an error, as it is there.\<close>

type_synonym redis_state = "(string \<rightharpoonup> string) \<times> (string \<Rightarrow> nat)"

definition map_redis :: "redis_state redis_client" where
  "map_redis = \<lparr>rd_TxSetDel = (\<lambda>k v t d x. (None, ((fst x)(k \<mapsto> v), (snd x)(d := 0)))),
     rd_Incr = (\<lambda>k x. if snd x k < 1000 then (Inr (of_nat (Suc (snd x k))), (fst x, (snd x)(k := Suc (snd x k))))
       else (Inl ''ERR increment would overflow'', x)),
     rd_Expire = (\<lambda>k t x. ((), x)),
     rd_Del = (\<lambda>ks x. ((), ((\<lambda>k. if k \<in> set ks then None else fst x k), (\<lambda>k. if k \<in> set ks then 0 else snd x k)))),
     rd_Get = (\<lambda>k x. (case fst x k of None \<Rightarrow> Inl RNil | Some v \<Rightarrow> Inr v, x))\<rparr>"

lemma sint_of_nat: "n \<le> 1000 \<Longrightarrow> sint (of_nat n :: int64) = int n"
  by (simp add: signed_of_nat signed_take_bit_int_eq_self)

lemma map_redis_ok: "redis_ok map_redis fst snd"
  unfolding redis_ok_def map_redis_def redis_client.select_convs
  by (auto simp: sint_of_nat simp del: of_nat_Suc split: if_splits option.splits)

definition ex_store :: "redis_state Store" where
  "ex_store = NewStore map_redis (\<lambda>c. ''#'' @ c) 4 0 2"

definition ex_redis_world :: "(unit, redis_state) world" where
  "ex_redis_world = \<lparr>users = [], wallets = [], activities = [], transfers = [], intents = [], now = 0,
     db_fault = (\<lambda>_. None), db_n = 0, uuid_src = (\<lambda>_. 0), uuid_n = 0, rand_src = (\<lambda>n. Some n), rand_n = 7,
     tb = (), ext = (Map.empty, \<lambda>_. 0), trace = []\<rparr>"

lemma ex_store_sel: "os_Client ex_store = map_redis" "os_MaxAttempts ex_store = 2" "os_Length ex_store = 4"
  "os_hash ex_store = (\<lambda>c. ''#'' @ c)"
  by (simp_all add: ex_store_def NewStore_def)

lemma generated_code_verifies_witness:
  "\<exists>w1. run (Generate ex_store ''a@b.c'') ex_redis_world = (Inr ''7890'', w1) \<and>
    fst (run (Verify ex_store ''a@b.c'' ''7890'') w1) = None \<and>
    fst (run (Verify ex_store ''a@b.c'' ''1234'') w1) = Some (Sentinel OtpErrMismatch)"
proof -
  have "fst (run (Generate ex_store ''a@b.c'') ex_redis_world) = Inr ''7890''" by code_simp
  then obtain w1 where r: "run (Generate ex_store ''a@b.c'') ex_redis_world = (Inr ''7890'', w1)"
    by (metis prod.collapse)
  have R: "redis_ok (os_Client ex_store) fst snd" by (simp add: ex_store_sel map_redis_ok)
  have i: "\<exists>n. fst (rd_Incr (os_Client ex_store) k x) = Inr n" if "snd x k = 0" for k x
    using that by (simp add: ex_store_sel map_redis_def)
  have g: "fst (rd_Get (os_Client ex_store) k x) = Inr v" if "fst x k = Some v" for k x v
    using that by (simp add: ex_store_sel map_redis_def)
  have "fst (run (Verify ex_store ''a@b.c'' c) w1) = (if os_hash ex_store c = os_hash ex_store ''7890'' then None
      else Some (Sentinel OtpErrMismatch))" for c
    using generated_code_verifies[OF R _ _ r i g, of c] by (simp add: ex_store_sel)
  from this[of "''7890''"] this[of "''1234''"] r show ?thesis by (simp add: ex_store_sel)
qed

end
