(* ===== verification/Otp_Expiry.thy ===== *)
theory Otp_Expiry
  imports Otp_Properties
begin

text \<open>
  How many guesses anyone gets at a one-time code when keys expire and verifications overlap: the
  counter of attempts must outlive the code it protects.
\<close>

section \<open>Redis with a clock\<close>

text \<open>A view of a state of Redis: its clock in nanoseconds, the strings and the counters it stores, each
  with the time it expires at, if any. \<open>live t m\<close> is what of \<open>m\<close> can still be seen at time \<open>t\<close>.\<close>

record 'x redis_view =
  rv_clock :: "'x \<Rightarrow> int"
  rv_codes :: "'x \<Rightarrow> string \<Rightarrow> (string \<times> int option) option"
  rv_counts :: "'x \<Rightarrow> string \<Rightarrow> (nat \<times> int option) option"

definition live :: "int \<Rightarrow> (string \<Rightarrow> ('v \<times> int option) option) \<Rightarrow> string \<Rightarrow> ('v \<times> int option) option" where
  "live t m k = (case m k of Some (v, Some d) \<Rightarrow> if d \<le> t then None else m k | e \<Rightarrow> e)"

text \<open>A call happens at or after the time of the one before, on what is live then.\<close>

definition moves ::
  "'x redis_view \<Rightarrow> 'x \<Rightarrow> 'x \<Rightarrow>
   (int \<Rightarrow> (string \<Rightarrow> (string \<times> int option) option) \<Rightarrow> string \<Rightarrow> (string \<times> int option) option) \<Rightarrow>
   (int \<Rightarrow> (string \<Rightarrow> (nat \<times> int option) option) \<Rightarrow> string \<Rightarrow> (nat \<times> int option) option) \<Rightarrow> bool" where
  "moves V x x' f g \<longleftrightarrow> rv_clock V x \<le> rv_clock V x' \<and>
     rv_codes V x' = f (rv_clock V x') (live (rv_clock V x') (rv_codes V x)) \<and>
     rv_counts V x' = g (rv_clock V x') (live (rv_clock V x') (rv_counts V x))"

abbreviation keep :: "int \<Rightarrow> 'm \<Rightarrow> 'm" where
  "keep \<equiv> \<lambda>_ m. m"

text \<open>One more on a counter, which keeps the time it expires at; a new time for a key that is there; and
  keys removed.\<close>

definition bump :: "string \<Rightarrow> int \<Rightarrow> (string \<Rightarrow> (nat \<times> int option) option) \<Rightarrow> string \<Rightarrow> (nat \<times> int option) option" where
  "bump k t m = m(k \<mapsto> (case m k of None \<Rightarrow> (1, None) | Some (c, d) \<Rightarrow> (Suc c, d)))"

definition expire_at :: "string \<Rightarrow> int \<Rightarrow> int \<Rightarrow> (string \<Rightarrow> ('v \<times> int option) option) \<Rightarrow> string \<Rightarrow> ('v \<times> int option) option" where
  "expire_at k ttl t m = m(k := map_option (\<lambda>(v, _). (v, Some (t + ttl))) (m k))"

definition without :: "string list \<Rightarrow> int \<Rightarrow> (string \<Rightarrow> 'v option) \<Rightarrow> string \<Rightarrow> 'v option" where
  "without ks t m = (\<lambda>k. if k \<in> set ks then None else m k)"

text \<open>Documented behaviour of Redis and its client for positive times to live of whole seconds, which the
  client passes on exactly. A call that fails, or whose result the code does not read, may or may not
  have taken effect.\<close>

definition whole_seconds :: "int \<Rightarrow> bool" where
  "whole_seconds ttl \<longleftrightarrow> 0 < ttl \<and> 1000000000 dvd ttl"

definition redis_expires :: "'x redis_client \<Rightarrow> 'x redis_view \<Rightarrow> bool" where
  "redis_expires R V \<longleftrightarrow>
     (\<forall>k v ttl d x e x'. rd_TxSetDel R k v ttl d x = (e, x') \<longrightarrow> whole_seconds ttl \<longrightarrow>
        moves V x x' (\<lambda>t m. m(k \<mapsto> (v, Some (t + ttl)))) (without [d]) \<or> (e \<noteq> None \<and> moves V x x' keep keep)) \<and>
     (\<forall>k x n x'. rd_Incr R k x = (Inr n, x') \<longrightarrow>
        moves V x x' keep (bump k) \<and> sint n = int (fst (the (rv_counts V x' k)))) \<and>
     (\<forall>k x m x'. rd_Incr R k x = (Inl m, x') \<longrightarrow> moves V x x' keep (bump k) \<or> moves V x x' keep keep) \<and>
     (\<forall>k ttl x u x'. rd_Expire R k ttl x = (u, x') \<longrightarrow> whole_seconds ttl \<longrightarrow>
        moves V x x' (expire_at k ttl) (expire_at k ttl) \<or> moves V x x' keep keep) \<and>
     (\<forall>k x r x'. rd_Get R k x = (r, x') \<longrightarrow> moves V x x' keep keep \<and>
        (\<forall>v. r = Inr v \<longrightarrow> (\<exists>d. rv_codes V x' k = Some (v, d))) \<and> (r = Inl RNil \<longrightarrow> rv_codes V x' k = None)) \<and>
     (\<forall>ks x u x'. rd_Del R ks x = (u, x') \<longrightarrow> moves V x x' (without ks) (without ks) \<or> moves V x x' keep keep)"

lemma redis_expiresD:
  assumes "redis_expires R V"
  shows timed_set: "rd_TxSetDel R k v ttl d x = (e, x') \<Longrightarrow> whole_seconds ttl \<Longrightarrow>
      moves V x x' (\<lambda>t m. m(k \<mapsto> (v, Some (t + ttl)))) (without [d]) \<or> (e \<noteq> None \<and> moves V x x' keep keep)"
    and timed_incr: "rd_Incr R k x = (Inr n, x') \<Longrightarrow> moves V x x' keep (bump k) \<and> sint n = int (fst (the (rv_counts V x' k)))"
    and timed_incr_fails: "rd_Incr R k x = (Inl m, x') \<Longrightarrow> moves V x x' keep (bump k) \<or> moves V x x' keep keep"
    and timed_expire: "rd_Expire R k ttl x = (u, x') \<Longrightarrow> whole_seconds ttl \<Longrightarrow>
      moves V x x' (expire_at k ttl) (expire_at k ttl) \<or> moves V x x' keep keep"
    and timed_get: "rd_Get R k x = (r, x') \<Longrightarrow> moves V x x' keep keep \<and>
      (\<forall>v. r = Inr v \<longrightarrow> (\<exists>d. rv_codes V x' k = Some (v, d))) \<and> (r = Inl RNil \<longrightarrow> rv_codes V x' k = None)"
    and timed_del: "rd_Del R ks x = (u, x') \<Longrightarrow> moves V x x' (without ks) (without ks) \<or> moves V x x' keep keep"
proof goal_cases
  note R = assms[unfolded redis_expires_def] note C = conjunct1 note D = conjunct2
  case 1 then show ?case by (rule R[THEN C, rule_format])
next
  note R = assms[unfolded redis_expires_def] note C = conjunct1 note D = conjunct2
  case 2 then show ?case by (rule R[THEN D, THEN C, rule_format])
next
  note R = assms[unfolded redis_expires_def] note C = conjunct1 note D = conjunct2
  case 3 then show ?case by (rule R[THEN D, THEN D, THEN C, rule_format])
next
  note R = assms[unfolded redis_expires_def] note C = conjunct1 note D = conjunct2
  case 4 then show ?case by (rule R[THEN D, THEN D, THEN D, THEN C, rule_format])
next
  note R = assms[unfolded redis_expires_def] note C = conjunct1 note D = conjunct2
  case 5 then show ?case using R[THEN D, THEN D, THEN D, THEN D, THEN C] by blast
next
  note R = assms[unfolded redis_expires_def] note C = conjunct1 note D = conjunct2
  case 6 then show ?case by (rule R[THEN D, THEN D, THEN D, THEN D, THEN D, rule_format])
qed

section \<open>The invariant\<close>

lemma otp_keys [simp]:
  "codeKey i \<noteq> attemptKey j" "attemptKey i \<noteq> codeKey j" "codeKey i = codeKey j \<longleftrightarrow> i = j" "attemptKey i = attemptKey j \<longleftrightarrow> i = j"
  by (simp_all add: codeKey_def attemptKey_def)

text \<open>\<open>told\<close> verifications have revealed whether the guess was the code, and \<open>due\<close> were counted as
  allowed and have not read the code yet. While the code is there, both together are within the count and
  within what is allowed, and the counter lives at least as long as the code, which in turn expires no
  later than a counter whose time to live begins now.\<close>

definition guards ::
  "'x Store \<Rightarrow> string \<Rightarrow> nat \<Rightarrow> nat \<Rightarrow> int \<Rightarrow> (string \<Rightarrow> (string \<times> int option) option) \<Rightarrow>
   (string \<Rightarrow> (nat \<times> int option) option) \<Rightarrow> bool" where
  "guards s i told due t codes counts \<longleftrightarrow> told \<le> nat (os_MaxAttempts s) \<and>
     (\<forall>v e. codes (codeKey i) = Some (v, e) \<longrightarrow>
        (\<exists>d. e = Some d \<and> d \<le> t + os_TTL s \<and> told + due \<le> nat (os_MaxAttempts s) \<and>
          (counts (attemptKey i) = None \<longrightarrow> told + due = 0) \<and>
          (\<forall>c e'. counts (attemptKey i) = Some (c, e') \<longrightarrow> told + due \<le> c \<and> (\<forall>d'. e' = Some d' \<longrightarrow> d \<le> d'))))"

definition guarded :: "'x Store \<Rightarrow> 'x redis_view \<Rightarrow> string \<Rightarrow> nat \<Rightarrow> nat \<Rightarrow> 'x \<Rightarrow> bool" where
  "guarded s V i told due x \<longleftrightarrow> guards s i told due (rv_clock V x) (rv_codes V x) (rv_counts V x)"

lemma live_Some: "live t m k = Some (v, e) \<longleftrightarrow> m k = Some (v, e) \<and> (\<forall>d. e = Some d \<longrightarrow> t < d)"
  by (auto simp: live_def split: option.splits)

lemma live_None: "live t m k = None \<longleftrightarrow> m k = None \<or> (\<exists>v d. m k = Some (v, Some d) \<and> d \<le> t)"
  by (auto simp: live_def split: option.splits)

lemma guards_time: "guards s i told due t codes counts \<Longrightarrow> t \<le> t' \<Longrightarrow> guards s i told due t' (live t' codes) (live t' counts)"
  unfolding guards_def by (auto simp: live_Some live_None)

lemma guarded_moves:
  assumes "guarded s V i told due x" and "moves V x x' f g"
    and "\<And>codes counts. guards s i told due (rv_clock V x') codes counts \<Longrightarrow> rv_codes V x' = f (rv_clock V x') codes \<Longrightarrow>
      rv_counts V x' = g (rv_clock V x') counts \<Longrightarrow>
      guards s i told' due' (rv_clock V x') (f (rv_clock V x') codes) (g (rv_clock V x') counts)"
  shows "guarded s V i told' due' x'"
  using assms unfolding guarded_def moves_def by (metis guards_time)

lemma guarded_time: "guarded s V i told due x \<Longrightarrow> moves V x x' keep keep \<Longrightarrow> guarded s V i told due x'"
  by (erule guarded_moves) simp_all

lemma guarded_less: "guarded s V i told due x \<Longrightarrow> due' \<le> due \<Longrightarrow> guarded s V i told due' x"
  by (fastforce simp: guarded_def guards_def)

lemma guarded_bump:
  "guarded s V i told due x \<Longrightarrow> moves V x x' keep (bump (attemptKey j)) \<Longrightarrow> guarded s V i told due x'"
  by (erule guarded_moves, assumption) (fastforce simp: guards_def bump_def split: option.splits)

text \<open>A counted attempt that is allowed becomes due.\<close>

lemma guarded_counted:
  assumes "guarded s V i told due x" and "moves V x x' keep (bump (attemptKey i))"
    and "int (fst (the (rv_counts V x' (attemptKey i)))) \<le> os_MaxAttempts s"
  shows "guarded s V i told (Suc due) x'"
  by (rule guarded_moves[OF assms(1,2)]) (use assms(3) in \<open>fastforce simp: guards_def bump_def split: option.splits\<close>)

lemma guarded_expire:
  "guarded s V i told due x \<Longrightarrow> moves V x x' (expire_at (attemptKey j) (os_TTL s)) (expire_at (attemptKey j) (os_TTL s)) \<Longrightarrow>
    guarded s V i told due x'"
  by (erule guarded_moves, assumption) (fastforce simp: guards_def expire_at_def)

lemma guarded_del:
  "guarded s V i told due x \<Longrightarrow> moves V x x' (without [codeKey j, attemptKey j]) (without [codeKey j, attemptKey j]) \<Longrightarrow>
    guarded s V i told due x'"
  by (erule guarded_moves, assumption) (fastforce simp: guards_def without_def)

text \<open>Only while the code is there can a due verification reveal anything.\<close>

lemma guarded_read:
  "guarded s V i told (Suc due) x \<Longrightarrow> rv_codes V x (codeKey i) = Some (v, d) \<Longrightarrow> guarded s V i (Suc told) due x"
  by (fastforce simp: guarded_def guards_def)

text \<open>A new code starts with no guess made at it.\<close>

lemma guarded_set:
  assumes "moves V x x' (\<lambda>t m. m(codeKey i \<mapsto> (v, Some (t + os_TTL s)))) (without [attemptKey i])"
  shows "guarded s V i 0 0 x'"
  using assms by (simp add: guarded_def guards_def moves_def without_def)

section \<open>A verification, step by step\<close>

text \<open>The answers that reveal whether the guess was the code.\<close>

definition compared :: "go_error option \<Rightarrow> bool" where
  "compared r \<longleftrightarrow> r = None \<or> r = Some (Sentinel OtpErrMismatch)"

text \<open>The points between two calls a verification can be at: not begun, to set the life of the counter,
  to read the code, to drop a code guessed at too often, to remove a code that matched, and done.\<close>

datatype phase = Begun string | First string | Checking string | Dropping | Matched | Done "go_error option"

definition after_first :: "'x Store \<Rightarrow> string \<Rightarrow> string \<Rightarrow> (go_error option, ('tb, 'x) world) prog" where
  "after_first s j g = (if 1 > os_MaxAttempts s
     then bnd (del_keys s j) (\<lambda>_. Ret (Some (Sentinel OtpErrTooManyTries))) else check_code s j g)"

fun residual :: "'x Store \<Rightarrow> string \<Rightarrow> phase \<Rightarrow> (go_error option, ('tb, 'x) world) prog" where
  "residual s j (Begun g) = Verify s j g"
| "residual s j (First g) = bnd (ext_call [] (rd_Expire (os_Client s) (attemptKey j) (os_TTL s))) (\<lambda>_. after_first s j g)"
| "residual s j (Checking g) = check_code s j g"
| "residual s j Dropping = bnd (del_keys s j) (\<lambda>_. Ret (Some (Sentinel OtpErrTooManyTries)))"
| "residual s j Matched = bnd (del_keys s j) (\<lambda>_. Ret None)"
| "residual s j (Done r) = Ret r"

fun phase_told :: "phase \<Rightarrow> nat" where
  "phase_told Matched = 1"
| "phase_told (Done r) = (if compared r then 1 else 0)"
| "phase_told _ = 0"

fun phase_due :: "'x Store \<Rightarrow> phase \<Rightarrow> nat" where
  "phase_due s (First g) = (if 1 > os_MaxAttempts s then 0 else 1)"
| "phase_due s (Checking g) = 1"
| "phase_due s _ = 0"

lemma ext_call_bnd:
  "bnd (ext_call [] f) k = Atom (\<lambda>w. case f (ext w) of (r, x) \<Rightarrow> (k r, w\<lparr>ext := x, trace := trace w @ []\<rparr>))"
  by (simp add: ext_call_def atom_def fun_eq_iff split: prod.splits)

text \<open>The two numbers as far as identifier \<open>i\<close> is concerned.\<close>

definition told_of :: "string \<Rightarrow> string \<times> phase \<Rightarrow> nat" where
  "told_of i = (\<lambda>(j, ph). if j = i then phase_told ph else 0)"

definition due_of :: "'x Store \<Rightarrow> string \<Rightarrow> string \<times> phase \<Rightarrow> nat" where
  "due_of s i = (\<lambda>(j, ph). if j = i then phase_due s ph else 0)"

lemma phase_step:
  assumes R: "redis_expires (os_Client s) V" and ttl: "whole_seconds (os_TTL s)"
    and "residual s j ph = Atom f" and "f w = (p, w')"
    and inv: "guarded s V i (b + told_of i (j, ph)) (q + due_of s i (j, ph)) (ext w)"
  shows "\<exists>ph'. p = residual s j ph' \<and> guarded s V i (b + told_of i (j, ph')) (q + due_of s i (j, ph')) (ext w')"
proof (cases ph)
  case (Begun g)
  obtain r x where r: "rd_Incr (os_Client s) (attemptKey j) (ext w) = (r, x)" by (rule prod.exhaust)
  have inv0: "guarded s V i b q (ext w)" using inv by (simp add: Begun told_of_def due_of_def cong: if_cong)
  show ?thesis
  proof (cases r)
    case (Inl m)
    have p: "p = residual s j (Done (Some (wrap_cause ''counting otp attempt'' (Opaque m))))" "ext w' = x"
      using assms(3,4) r Inl by (auto simp: Begun Verify_def ext_call_bnd)
    have "guarded s V i b q x"
      using timed_incr_fails[OF R r[unfolded Inl]] inv0 by (auto intro: guarded_bump guarded_time)
    with p show ?thesis
      by (intro exI[of _ "Done (Some (wrap_cause ''counting otp attempt'' (Opaque m)))"])
        (simp add: told_of_def due_of_def compared_def wrap_cause_def)
  next
    case (Inr n)
    let ?ph = "if n = 1 then First g else if sint n > os_MaxAttempts s then Dropping else Checking g"
    have p: "p = residual s j ?ph" "ext w' = x"
      using assms(3,4) r Inr by (auto simp: Begun Verify_def ext_call_bnd after_first_def)
    note n = timed_incr[OF R r[unfolded Inr]]
    have "guarded s V i b q x" using n inv0 by (auto intro: guarded_bump)
    moreover have "guarded s V i b (Suc q) x" if "j = i" "sint n \<le> os_MaxAttempts s"
      using guarded_counted[OF inv0] n that by simp
    ultimately show ?thesis
      using p by (intro exI[of _ ?ph]) (auto simp: told_of_def due_of_def)
  qed
next
  case (First g)
  obtain u x where x: "rd_Expire (os_Client s) (attemptKey j) (os_TTL s) (ext w) = (u, x)" by (rule prod.exhaust)
  let ?ph = "if 1 > os_MaxAttempts s then Dropping else Checking g"
  have p: "p = residual s j ?ph" "ext w' = x"
    using assms(3,4) x by (auto simp: First ext_call_bnd after_first_def)
  have "guarded s V i (b + told_of i (j, ph)) (q + due_of s i (j, ph)) x"
    using timed_expire[OF R x ttl] inv by (auto intro: guarded_expire guarded_time)
  with p show ?thesis by (intro exI[of _ ?ph]) (auto simp: First told_of_def due_of_def cong: if_cong)
next
  case (Checking g)
  obtain r x where r: "rd_Get (os_Client s) (codeKey j) (ext w) = (r, x)" by (rule prod.exhaust)
  let ?ph = "case r of Inl RNil \<Rightarrow> Done (Some (Sentinel OtpErrNotFound))
    | Inl (ROther m) \<Rightarrow> Done (Some (wrap_cause ''reading otp'' (Opaque m)))
    | Inr stored \<Rightarrow> if stored \<noteq> os_hash s g then Done (Some (Sentinel OtpErrMismatch)) else Matched"
  have p: "p = residual s j ?ph" "ext w' = x"
    using assms(3,4) r by (auto simp: Checking check_code_def ext_call_bnd split: sum.splits redis_error.splits)
  note g = timed_get[OF R r]
  have now: "guarded s V i b (q + (if j = i then 1 else 0)) x"
    using guarded_time[OF inv] g by (simp add: Checking told_of_def due_of_def cong: if_cong)
  then have "guarded s V i b q x" by (rule guarded_less) simp
  moreover have "guarded s V i (Suc b) q x" if "r = Inr v" "j = i" for v
    using now g that guarded_read[of s V i b q x v] by auto
  ultimately show ?thesis
    using p by (intro exI[of _ ?ph])
      (auto simp: told_of_def due_of_def compared_def wrap_cause_def split: sum.splits redis_error.splits)
next
  case Dropping
  obtain u x where x: "rd_Del (os_Client s) [codeKey j, attemptKey j] (ext w) = (u, x)" by (rule prod.exhaust)
  have "guarded s V i b q x"
    using timed_del[OF R x] inv by (auto simp: Dropping told_of_def due_of_def cong: if_cong intro: guarded_del guarded_time)
  then show ?thesis
    using assms(3,4) x by (intro exI[of _ "Done (Some (Sentinel OtpErrTooManyTries))"])
      (auto simp: Dropping del_keys_def ext_call_bnd told_of_def due_of_def compared_def)
next
  case Matched
  obtain u x where x: "rd_Del (os_Client s) [codeKey j, attemptKey j] (ext w) = (u, x)" by (rule prod.exhaust)
  have "guarded s V i (b + told_of i (j, Matched)) q x"
    using timed_del[OF R x] inv by (auto simp: Matched due_of_def cong: if_cong intro: guarded_del guarded_time)
  then show ?thesis
    using assms(3,4) x by (intro exI[of _ "Done None"])
      (auto simp: Matched del_keys_def ext_call_bnd told_of_def due_of_def compared_def)
qed (use assms(3) in simp)

lemma residual_Ret: "residual s j ph = Ret r \<Longrightarrow> ph = Done r"
  by (cases ph) (simp_all add: Verify_def check_code_def del_keys_def ext_call_bnd)

section \<open>Overlapping verifications\<close>

text \<open>Some verifications of some identifiers, each somewhere on its way.\<close>

definition pool_guarded ::
  "'x Store \<Rightarrow> 'x redis_view \<Rightarrow> string \<Rightarrow> string list \<Rightarrow> (go_error option, ('tb, 'x) world) prog list \<times> ('tb, 'x) world \<Rightarrow> bool" where
  "pool_guarded s V i js c \<longleftrightarrow> (\<exists>phs. length phs = length js \<and> fst c = map (\<lambda>(j, ph). residual s j ph) (zip js phs) \<and>
     guarded s V i (sum_list (map (told_of i) (zip js phs))) (sum_list (map (due_of s i) (zip js phs))) (ext (snd c)))"

lemma sum_list_other:
  fixes f :: "'a \<Rightarrow> nat"
  assumes "k < length xs"
  shows "\<exists>b. sum_list (map f xs) = b + f (xs ! k) \<and> (\<forall>y. sum_list (map f (xs[k := y])) = b + f y)"
proof (intro exI conjI allI)
  have le: "f (xs ! k) \<le> sum_list (map f xs)"
    using assms elem_le_sum_list[of k "map f xs"] by simp
  then show "sum_list (map f xs) = (sum_list (map f xs) - f (xs ! k)) + f (xs ! k)" by simp
  fix y show "sum_list (map f (xs[k := y])) = (sum_list (map f xs) - f (xs ! k)) + f y"
    using assms le by (simp add: map_update sum_list_update)
qed

lemma pool_step:
  assumes "redis_expires (os_Client s) V" and "whole_seconds (os_TTL s)"
    and "interleave c c'" and "pool_guarded s V i js c"
  shows "pool_guarded s V i js c'"
  using assms(3)
proof (cases rule: interleave.cases)
  case (step k ps f w p w')
  from assms(4) step obtain phs where phs: "length phs = length js" "ps = map (\<lambda>(j, ph). residual s j ph) (zip js phs)"
      "guarded s V i (sum_list (map (told_of i) (zip js phs))) (sum_list (map (due_of s i) (zip js phs))) (ext w)"
    by (auto simp: pool_guarded_def)
  let ?xs = "zip js phs"
  have k: "k < length ?xs" "k < length js" "k < length phs" using step(3) phs(1,2) by simp_all
  then have at: "?xs ! k = (js ! k, phs ! k)" by simp
  from sum_list_other[OF k(1), of "told_of i"] obtain b where
    b: "sum_list (map (told_of i) ?xs) = b + told_of i (js ! k, phs ! k)"
      "\<And>y. sum_list (map (told_of i) (?xs[k := y])) = b + told_of i y" unfolding at by blast
  from sum_list_other[OF k(1), of "due_of s i"] obtain q where
    q: "sum_list (map (due_of s i) ?xs) = q + due_of s i (js ! k, phs ! k)"
      "\<And>y. sum_list (map (due_of s i) (?xs[k := y])) = q + due_of s i y" unfolding at by blast
  have "residual s (js ! k) (phs ! k) = Atom f" using step(4) k phs(2) by simp
  from phase_step[OF assms(1,2) this step(5) phs(3)[unfolded b(1) q(1)]] obtain ph' where
    ph': "p = residual s (js ! k) ph'" "guarded s V i (b + told_of i (js ! k, ph')) (q + due_of s i (js ! k, ph')) (ext w')"
    by blast
  have "zip js (phs[k := ph']) = ?xs[k := (js ! k, ph')]"
    using zip_update[of js k "js ! k" phs ph'] by simp
  with ph' b(2) q(2) phs k step(2) show ?thesis
    unfolding pool_guarded_def by (intro exI[of _ "phs[k := ph']"]) (simp add: map_update)
qed

text \<open>C29. Nobody gets more than \<open>MaxAttempts\<close> guesses at a code, although keys expire and requests
  overlap: of any verifications begun after the code was generated, for this and other identifiers,
  interleaved at every call to Redis, with time passing between the calls and any of them failing, at
  most that many tell whether the guess was right. It rests on the counter's time to live, which begins
  after the code's and is no shorter.\<close>

theorem otp_guesses_bounded:
  assumes "redis_expires (os_Client s) V" and "whole_seconds (os_TTL s)"
    and "run (Generate s i) w0 = (Inr code, w)"
    and "interleave\<^sup>*\<^sup>* (map (\<lambda>(j, g). Verify s j g) guesses, w) (ps, w')"
  shows "length (filter (\<lambda>((j, g), p). j = i \<and> (\<exists>r. p = Ret r \<and> compared r)) (zip guesses ps)) \<le> nat (os_MaxAttempts s)"
proof -
  let ?js = "map fst guesses"
  have "\<exists>x. ext w = x \<and> guarded s V i 0 0 x"
  proof -
    obtain r v where r: "run (GenerateOTP (os_Length s)) w0 = (r, v)" by (rule prod.exhaust)
    with assms(3) have r': "r = Inr code" by (auto simp: Generate_def split: sum.splits prod.splits option.splits)
    obtain e x where x: "rd_TxSetDel (os_Client s) (codeKey i) (os_hash s code) (os_TTL s) (attemptKey i) (ext v) = (e, x)"
      by (rule prod.exhaust)
    with assms(3) r r' have "e = None" "ext w = x" by (auto simp: Generate_def ext_call_def split: option.splits)
    with timed_set[OF assms(1) x assms(2)] show ?thesis by (auto intro: guarded_set)
  qed
  moreover have "zip ?js (map (\<lambda>(j, g). Begun g) guesses) = map (\<lambda>(j, g). (j, Begun g)) guesses"
    by (induction guesses) auto
  ultimately have start: "pool_guarded s V i ?js (map (\<lambda>(j, g). Verify s j g) guesses, w)"
    unfolding pool_guarded_def
    by (intro exI[of _ "map (\<lambda>(j, g). Begun g) guesses"])
      (auto simp: told_of_def due_of_def comp_def case_prod_unfold cong: if_cong)
  have "pool_guarded s V i ?js (ps, w')"
    using assms(4) start by (induction rule: rtranclp_induct) (auto intro: pool_step[OF assms(1,2)])
  then obtain phs where phs: "length phs = length guesses" "ps = map (\<lambda>(j, ph). residual s j ph) (zip ?js phs)"
      "guarded s V i (sum_list (map (told_of i) (zip ?js phs))) (sum_list (map (due_of s i) (zip ?js phs))) (ext w')"
    by (auto simp: pool_guarded_def)
  have "length (filter (\<lambda>((j, g), p). j = i \<and> (\<exists>r. p = Ret r \<and> compared r))
      (zip gs (map (\<lambda>(j, ph). residual s j ph) (zip (map fst gs) phs)))) \<le> sum_list (map (told_of i) (zip (map fst gs) phs))"
    if "length phs = length gs" for gs :: "(string \<times> string) list" and phs
    using that by (induction phs gs rule: list_induct2) (auto simp: told_of_def case_prod_unfold dest!: residual_Ret)
  with phs(1,2) have "length (filter (\<lambda>((j, g), p). j = i \<and> (\<exists>r. p = Ret r \<and> compared r)) (zip guesses ps)) \<le>
      sum_list (map (told_of i) (zip ?js phs))" by blast
  also have "\<dots> \<le> nat (os_MaxAttempts s)" using phs(3) by (simp add: guarded_def guards_def)
  finally show ?thesis .
qed

section \<open>At concrete inputs\<close>

text \<open>A Redis whose clock advances by the given amount with every call.\<close>

type_synonym timed_state =
  "int \<times> (string \<Rightarrow> (string \<times> int option) option) \<times> (string \<Rightarrow> (nat \<times> int option) option)"

definition timed_redis :: "int \<Rightarrow> timed_state redis_client" where
  "timed_redis dt = \<lparr>
     rd_TxSetDel = (\<lambda>k v ttl d (t, cs, ns). let t = t + dt in
       (None, (t, (live t cs)(k \<mapsto> (v, Some (t + ttl))), without [d] t (live t ns)))),
     rd_Incr = (\<lambda>k (t, cs, ns). let t = t + dt; ms = bump k t (live t ns) in
       if fst (the (ms k)) \<le> 1000 then (Inr (of_nat (fst (the (ms k)))), (t, live t cs, ms))
       else (Inl ''ERR increment would overflow'', (t, live t cs, live t ns))),
     rd_Expire = (\<lambda>k ttl (t, cs, ns). let t = t + dt in ((), (t, expire_at k ttl t (live t cs), expire_at k ttl t (live t ns)))),
     rd_Del = (\<lambda>ks (t, cs, ns). let t = t + dt in ((), (t, without ks t (live t cs), without ks t (live t ns)))),
     rd_Get = (\<lambda>k (t, cs, ns). let t = t + dt in
       (case live t cs k of None \<Rightarrow> Inl RNil | Some (v, d) \<Rightarrow> Inr v, (t, live t cs, live t ns)))\<rparr>"

definition timed_view :: "timed_state redis_view" where
  "timed_view = \<lparr>rv_clock = fst, rv_codes = fst \<circ> snd, rv_counts = snd \<circ> snd\<rparr>"

lemma timed_redis_ok: "0 \<le> dt \<Longrightarrow> redis_expires (timed_redis dt) timed_view"
  unfolding redis_expires_def timed_redis_def redis_client.select_convs
  by (auto simp: moves_def timed_view_def Let_def sint_of_nat simp del: of_nat_Suc split: if_splits option.splits)

text \<open>Two guesses allowed, ten minutes to live, a minute between calls; four guesses by two users.\<close>

definition ex_timed_store :: "timed_state Store" where
  "ex_timed_store = NewStore (timed_redis 60000000000) (\<lambda>c. ''#'' @ c) 4 0 2"

definition ex_timed_world :: "(unit, timed_state) world" where
  "ex_timed_world = \<lparr>users = [], wallets = [], activities = [], transfers = [], intents = [], now = 0,
     db_fault = (\<lambda>_. None), db_n = 0, uuid_src = (\<lambda>_. 0), uuid_n = 0, rand_src = (\<lambda>n. Some n), rand_n = 7,
     tb = (), ext = (0, Map.empty, Map.empty), trace = []\<rparr>"

definition ex_guesses :: "(string \<times> string) list" where
  "ex_guesses = [(''a@b.c'', ''1111''), (''a@b.c'', ''2222''), (''d@e.f'', ''7890''), (''a@b.c'', ''7890'')]"

definition ex_overlap :: "(go_error option, (unit, timed_state) world) prog list \<times> (unit, timed_state) world" where
  "ex_overlap = schedule [0, 1, 2, 3, 1, 0, 0, 2, 2, 3] (map (\<lambda>(j, g). Verify ex_timed_store j g) ex_guesses,
     snd (run (Generate ex_timed_store ''a@b.c'') ex_timed_world))"

lemma otp_guesses_bounded_witness:
  "length (filter (\<lambda>((j, g), p). j = ''a@b.c'' \<and> (\<exists>r. p = Ret r \<and> compared r)) (zip ex_guesses (fst ex_overlap))) \<le> 2"
proof -
  have "fst (run (Generate ex_timed_store ''a@b.c'') ex_timed_world) = Inr ''7890''" by code_simp
  then have g: "run (Generate ex_timed_store ''a@b.c'') ex_timed_world =
      (Inr ''7890'', snd (run (Generate ex_timed_store ''a@b.c'') ex_timed_world))" by (metis prod.collapse)
  have s: "redis_expires (os_Client ex_timed_store) timed_view" "whole_seconds (os_TTL ex_timed_store)" "os_MaxAttempts ex_timed_store = 2"
    by (simp_all add: ex_timed_store_def NewStore_def timed_redis_ok whole_seconds_def)
  have "interleave\<^sup>*\<^sup>* (map (\<lambda>(j, g). Verify ex_timed_store j g) ex_guesses,
      snd (run (Generate ex_timed_store ''a@b.c'') ex_timed_world)) (fst ex_overlap, snd ex_overlap)"
    unfolding ex_overlap_def prod.collapse by (rule schedule_interleave)
  from otp_guesses_bounded[OF s(1,2) g this] show ?thesis by (simp add: s(3))
qed

end
