(* ===== verification/Poll_Properties.thy ===== *)
theory Poll_Properties
  imports Deposit_Properties
begin

text \<open>
  Polling a deposit, over as many attempts as asynq makes at the task: which answers of the provider
  bring the poll closer to its end, and that an unpaid deposit is polled for ever.
\<close>

section \<open>Attempts at a task\<close>






section \<open>One attempt at a poll\<close>









section \<open>All attempts at a poll\<close>



section \<open>At concrete inputs\<close>






end
