(* ===== verification/Service_Properties.thy ===== *)
theory Service_Properties
  imports Example_Worlds
begin

text \<open>
  What the service operations promise their callers: a transfer that was accepted is recorded as it
  was checked, nobody acts on someone else's wallet, only signed webhooks are taken, only the right
  password logs in, wallets get fresh account numbers, and history pages are what was asked for.
\<close>

section \<open>Frames\<close>

text \<open>\<open>same_rows\<close>: the tables the services guard are as they were.\<close>

definition same_rows :: "('tb, 'x) world \<Rightarrow> ('tb, 'x) world \<Rightarrow> bool" where
  "same_rows w w' \<longleftrightarrow> intents w' = intents w \<and> transfers w' = transfers w \<and> wallets w' = wallets w \<and>
     users w' = users w \<and> now w' = now w \<and> db_fault w' = db_fault w"

interpretation rows: rely_guarantee same_rows
  by unfold_locales (simp_all add: same_rows_def)

lemma guar_mono: "guar R p \<Longrightarrow> (\<And>v v'. R v v' \<Longrightarrow> S v v') \<Longrightarrow> guar S p"
proof (induction p rule: prog_induct)
  case (Atom f)
  show ?case unfolding guar.simps
  proof
    fix w
    obtain p' w' where f: "f w = (p', w')" by fastforce
    from Atom.prems(1) have "case map_prod (guar R) id (f w) of (g, w') \<Rightarrow> R w w' \<and> g"
      unfolding guar.simps by (rule spec)
    with f Atom.IH[of w] Atom.prems(2) show "case map_prod (guar S) id (f w) of (g, w') \<Rightarrow> S w w' \<and> g" by simp
  qed
qed simp

lemma rows_frame: "guar same_books p \<Longrightarrow> guar same_rows p"
  by (erule guar_mono) (simp add: same_books_def same_rows_def)

lemmas wp_rows = rows.wp_guar

lemma rows_tb_call: "guar same_rows (tb_call evs f)"
  unfolding tb_call_def by (rule guar_atom) (simp add: same_rows_def split: prod.splits)

lemma rows_Balances: "guar same_rows (Balances C ids)"
  unfolding Balances_def client_LookupAccounts_def by (intro guar_case guar_bnd guar_Ret rows_tb_call)

lemma frame_otp_digits: "guar same_books (otp_digits n)"
proof (induction n)
  case (Suc n)
  have "guar same_books (rand_Int 10 :: (go_error + nat, ('c, 'd) world) prog)"
    unfolding rand_Int_def by (rule guar_atom) (simp add: same_books_def)
  then show ?case using Suc by (auto intro!: frame_rules)
qed simp

lemma frame_listeners:
  "guar same_books (on_user_created E st p)" "guar same_books (on_login_email E p)"
  "guar same_books (on_login_activity A p)" "guar same_books (on_payment_webhook w p)"
  "guar same_books (on_payment_initialized w p)" "guar same_books (on_transfer_initiated v p)"
  "guar same_books (on_transfer_activity A p)"
  unfolding on_user_created_def on_login_email_def on_login_activity_def on_payment_webhook_def
    on_payment_initialized_def on_transfer_initiated_def on_transfer_activity_def queue_activity_def
    Email_Enqueue_def Activity_Enqueue_def Payment_Enqueue_def Transfer_Enqueue_def Generate_def GenerateOTP_def
  by (cases p; auto intro!: frame_rules frame_Enqueue frame_otp_digits frame_ext_call)+

lemma frame_PublishEvent:
  assumes "service_ok P C W s"
  shows "guar same_books (PublishEvent s name p)"
proof (cases "sv_Bus s")
  case (Some b)
  then have b: "b = RegisterListeners NewEventBus W (sv_Store s)" using assms by (simp add: service_ok_def)
  have "guar same_books (Publish b name p)"
    unfolding Publish_def b
    by (rule guar_dispatch_all)
      (auto simp: RegisterListeners_def RegisterTransferActivityListeners_def RegisterTransferListeners_def
        RegisterPaymentListeners_def RegisterActivityListeners_def RegisterEmailListeners_def Subscribe_def
        NewEventBus_def frame_listeners split: if_splits)
  then show ?thesis using Some by (simp add: PublishEvent_def)
qed (simp add: PublishEvent_def)

lemma wp_app_fail: "Q (Inl (app_error c m (Some e))) w \<Longrightarrow> wp (app_fail c m e) Q w"
  by (simp add: app_fail_def wp_Ret)

lemma wp_as_caller:
  assumes "\<And>e. ae_Code e = StatusUnauthorized \<Longrightarrow> Q (Inl e) w" and "\<And>u. caller = Some u \<Longrightarrow> wp (op1 u) Q w"
  shows "wp (as_caller caller op1) Q w"
  using assms by (auto simp: as_caller_def CallerID_def wp_Ret split: option.split)

lemma wp_own_wallet:
  assumes "\<And>e n. Q (Inl e) (w\<lparr>db_n := n\<rparr>)"
    and "\<And>v n. v \<in> set (wallets w) \<Longrightarrow> w_DeletedAt v = None \<Longrightarrow> uuid_Parse (sv_uuid s) i = Some (w_ID v) \<Longrightarrow>
      uuid_String (sv_uuid s) (w_UserID v) = u \<Longrightarrow> wp (k (MapWalletModelToWallet (sv_uuid s) v)) Q (w\<lparr>db_n := n\<rparr>)"
  shows "wp (own_wallet s u i k) Q w"
  unfolding own_wallet_def not_found_or_def
  by (rule wp_bnd, rule wp_GetWallet) (auto intro!: wp_case wp_app_fail assms)

lemma wp_insert_transfer:
  assumes "\<And>m v. same_rows w v \<Longrightarrow> Q (Inl m) v" and "\<And>m u n k. Q (Inl (Opaque m))
      (w\<lparr>db_n := n, uuid_n := k, transfers := transfers w @ [mk u (now w)]\<rparr>)"
    and "\<And>u n k. Q (Inr (mk u (now w))) (w\<lparr>db_n := n, uuid_n := k, transfers := transfers w @ [mk u (now w)]\<rparr>)"
  shows "wp (insert_transfer mk) Q w"
  unfolding insert_transfer_def uuid_New_def
  by (rule wp_db_call) (auto simp: same_rows_def intro!: assms split: if_splits)

section \<open>Transfers\<close>

text \<open>The row a request for a transfer between two wallets leads to.\<close>

definition requested_transfer :: "wallet_row \<Rightarrow> wallet_row \<Rightarrow> Money \<Rightarrow> transfer_row \<Rightarrow> bool" where
  "requested_transfer v v' amount r \<longleftrightarrow> tr_SenderUserID r = w_UserID v \<and> tr_SenderWalletID r = w_ID v \<and>
     tr_RecipientUserID r = w_UserID v' \<and> tr_RecipientWalletID r = w_ID v' \<and> tr_Amount r = amount \<and>
     tr_Currency r = w_Currency v \<and> tr_Status r = TransactionPending \<and> tr_FailureReason r = ''''"

definition transfer_accepted ::
  "uuid_pkg \<Rightarrow> string option \<Rightarrow> InitiateTransferParam \<Rightarrow> ('tb, 'x) world \<Rightarrow> ('tb, 'x) world \<Rightarrow> bool" where
  "transfer_accepted P caller param w w' \<longleftrightarrow> (\<exists>v \<in> set (wallets w). \<exists>v' \<in> set (wallets w). \<exists>r.
     transfers w' = transfers w @ [r] \<and> requested_transfer v v' (NewMoney (it_Amount param)) r \<and>
     uuid_Parse P (it_SenderWalletID param) = Some (w_ID v) \<and> caller = Some (uuid_String P (w_UserID v)) \<and>
     w_AccountNumber v' = TrimSpace (it_RecipientAccountNumber param) \<and> w_ID v \<noteq> w_ID v' \<and>
     w_DeletedAt v = None \<and> w_DeletedAt v' = None \<and> w_Status v = WalletActive \<and> w_Status v' = WalletActive \<and>
     EqualFold (w_Currency v') (w_Currency v) \<and> 100 \<le> sint (tr_Amount r) \<and> sint (tr_Amount r) \<le> 100000000)"

lemma wp_GetWalletByAccountNumber:
  assumes "\<And>e n. Q (Inl e) (w\<lparr>db_n := n\<rparr>)"
    and "\<And>r n. r \<in> set (wallets w) \<Longrightarrow> w_DeletedAt r = None \<Longrightarrow> w_AccountNumber r = a \<Longrightarrow>
      Q (Inr (MapWalletModelToWallet P r)) (w\<lparr>db_n := n\<rparr>)"
  shows "wp (GetWalletByAccountNumber P a) Q w"
  unfolding GetWalletByAccountNumber_def first_wallet_def
  by (rule wp_first[where rows = wallets]) (auto intro!: assms)

lemma wp_start_transfer:
  assumes ok: "service_ok P C W s" "uuid_ok P" and user: "userID = uuid_String P (w_UserID v)"
    and Q: "\<And>r w'. requested_transfer v v' amount r \<Longrightarrow> same_rows (w\<lparr>transfers := transfers w @ [r]\<rparr>) w' \<Longrightarrow>
        Q (Inr (MapTransferToServiceDomain (MapTransferModelToTransfer P r))) w'"
    and E: "\<And>e w'. ae_Code e \<noteq> StatusInternalServerError \<longrightarrow> same_rows w w' \<Longrightarrow> Q (Inl e) w'"
  shows "wp (start_transfer s userID amount (MapWalletModelToWallet P v) (MapWalletModelToWallet P v')) Q w"
proof -
  have P: "sv_uuid s = P" using ok(1) by (simp add: service_ok_def)
  have round: "uuid_Parse P (uuid_String P u) = Some u" for u using ok(2) by (simp add: uuid_ok_def)
  have create: "wp (CreateTransfer P \<lparr>CT_SenderUserID = userID, CT_SenderWalletID = uuid_String P (w_ID v),
      CT_RecipientUserID = uuid_String P (w_UserID v'), CT_RecipientWalletID = uuid_String P (w_ID v'),
      CT_Amount = amount, CT_Currency = w_Currency v\<rparr>)
    (\<lambda>r u. (\<exists>q. r = Inr (MapTransferModelToTransfer P q) \<and> requested_transfer v v' amount q \<and>
      same_rows (w\<lparr>transfers := transfers w @ [q]\<rparr>) u) \<or> (\<exists>e. r = Inl e)) u" if "same_rows w u" for u
    unfolding CreateTransfer_def ParseUUID_def logged_def user
    using that by (auto simp: round requested_transfer_def same_rows_def intro!: wp_bnd wp_insert_transfer wp_Ret)
  have check: "wp (checkSufficientBalance s (uuid_String P (w_ID v)) amount)
      (\<lambda>e u. same_rows w u) w"
    unfolding checkSufficientBalance_def by (intro wp_rows guar_case guar_bnd guar_Ret rows_Balances) simp
  show ?thesis
    unfolding start_transfer_def P Map_sel
    apply (rule wp_bnd, rule wp_mono[OF check])
    subgoal for e u
      apply (cases e)
       apply (simp, rule wp_bnd, rule wp_mono[OF create], assumption)
       apply (auto intro!: wp_app_fail E wp_bnd wp_rows[OF rows_frame[OF frame_PublishEvent[OF ok(1)]]] wp_Ret Q
          elim: rows.rely_trans)
      done
    done
qed

text \<open>C19. A transfer request that succeeds recorded exactly one new transfer, PENDING, between the
  caller's own active wallet and another active wallet of the same currency, for an amount within
  the limits, and changed no other row; one that is refused for any reason but an internal error
  changed none, with the database failing anywhere.\<close>

theorem accepted_transfer_is_recorded:
  assumes "service_ok P C W s" and "uuid_ok P"
  shows "case run (InitiateTransfer s caller param) w of
      (Inr x, w') \<Rightarrow> transfer_accepted P caller param w w' \<and> intents w' = intents w \<and> wallets w' = wallets w
    | (Inl e, w') \<Rightarrow> ae_Code e \<noteq> StatusInternalServerError \<longrightarrow> same_rows w w'"
proof -
  have P: "sv_uuid s = P" using assms(1) by (simp add: service_ok_def)
  have limits: "(sint (Minor a) < MinTransferMinor \<or> sint (Minor a) > MaxTransferMinor) = (\<not> (100 \<le> sint a \<and> sint a \<le> 100000000))" for a
    by (auto simp: Minor_def MinTransferMinor_def MaxTransferMinor_def)
  define Q where "Q = (\<lambda>r w'. case r of Inr (x :: ServiceTransfer) \<Rightarrow> transfer_accepted P caller param w w' \<and>
      intents w' = intents w \<and> wallets w' = wallets w
    | Inl (e :: AppError) \<Rightarrow> ae_Code e \<noteq> StatusInternalServerError \<longrightarrow> same_rows w w')"
  have ok_text: "uuid_String P a = uuid_String P b \<longleftrightarrow> a = b" for a b
    using assms(2) unfolding uuid_ok_def by (metis option.inject)
  have same: "Q (Inl e) w'" if "same_rows w w'" for e w' using that by (simp add: Q_def)
  have start: "wp (start_transfer s (uuid_String P (w_UserID v)) (NewMoney (it_Amount param)) (MapWalletModelToWallet P v)
      (MapWalletModelToWallet P v')) Q (w\<lparr>db_n := n\<rparr>)"
    if "v \<in> set (wallets w)" "v' \<in> set (wallets w)" "uuid_Parse P (it_SenderWalletID param) = Some (w_ID v)"
      "caller = Some (uuid_String P (w_UserID v))" "w_AccountNumber v' = TrimSpace (it_RecipientAccountNumber param)"
      "w_ID v \<noteq> w_ID v'" "w_DeletedAt v = None" "w_DeletedAt v' = None" "w_Status v = WalletActive" "w_Status v' = WalletActive"
      "EqualFold (w_Currency v') (w_Currency v)" "100 \<le> sint (NewMoney (it_Amount param))"
      "sint (NewMoney (it_Amount param)) \<le> 100000000" for v v' n
  proof (rule wp_start_transfer[OF assms refl])
    fix r w' assume r: "requested_transfer v v' (NewMoney (it_Amount param)) r"
      "same_rows (w\<lparr>db_n := n, transfers := transfers (w\<lparr>db_n := n\<rparr>) @ [r]\<rparr>) w'"
    then have "tr_Amount r = NewMoney (it_Amount param)" by (simp add: requested_transfer_def)
    with r that have "transfer_accepted P caller param w w'"
      unfolding transfer_accepted_def
      by (intro bexI[OF _ that(1)] bexI[OF _ that(2)] exI[of _ r]) (simp add: same_rows_def)
    with r(2) show "Q (Inr (MapTransferToServiceDomain (MapTransferModelToTransfer P r))) w'"
      by (simp add: Q_def same_rows_def)
  qed (auto simp: Q_def same_rows_def)
  have "wp (InitiateTransfer s caller param) Q w"
    unfolding InitiateTransfer_def Let_def limits
    apply (rule wp_as_caller, rule same, rule rows.rely_refl)
    apply (intro wp_case wp_app_fail same rows.rely_refl wp_own_wallet)
     apply (simp_all add: same_rows_def P)
    apply (intro wp_case wp_app_fail same conjI impI wp_bnd wp_GetWalletByAccountNumber)
       apply (simp_all add: same_rows_def not_found_or_def)
    using start ok_text by (auto simp: same_rows_def P intro!: wp_app_fail same wp_case)
  then show ?thesis unfolding Q_def wp_def by (auto split: prod.splits sum.splits)
qed

definition ex_request :: InitiateTransferParam where
  "ex_request = \<lparr>it_SenderWalletID = ''10'', it_RecipientAccountNumber = ''1000000011'', it_Amount = Fin 2\<rparr>"

lemma accepted_transfer_is_recorded_witness:
  "case run (InitiateTransfer ex_service (Some ''1'') ex_request) (ex_with TransactionSuccess [ex_deposit_entry]) of
      (Inr x, w') \<Rightarrow> transfer_accepted ex_uuid (Some ''1'') ex_request (ex_with TransactionSuccess [ex_deposit_entry]) w' \<and>
        intents w' = intents (ex_with TransactionSuccess [ex_deposit_entry]) \<and> wallets w' = wallets (ex_with TransactionSuccess [ex_deposit_entry])
    | (Inl e, w') \<Rightarrow> ae_Code e \<noteq> StatusInternalServerError \<longrightarrow> same_rows (ex_with TransactionSuccess [ex_deposit_entry]) w'"
  by (rule accepted_transfer_is_recorded[OF ex_service_ok ex_uuid_ok])

section \<open>Whose wallet\<close>

lemma wp_GetUserByID:
  assumes "\<And>e n. Q (Inl e) (w\<lparr>db_n := n\<rparr>)"
    and "\<And>r n. r \<in> set (users w) \<Longrightarrow> live_user r \<Longrightarrow> uuid_Parse P i = Some (u_ID r) \<Longrightarrow> Q (Inr (MapUserModelToUser P r)) (w\<lparr>db_n := n\<rparr>)"
  shows "wp (GetUserByID P i) Q w"
proof (cases "uuid_Parse P i")
  case None
  then show ?thesis using assms(1)[of _ "db_n w"] by (simp add: GetUserByID_def ParseUUID_def wp_Ret)
next
  case (Some u)
  have "wp (logged (first_user (\<lambda>r. u_ID r = u)) (MapUserModelToUser P)) Q w"
    unfolding first_user_def by (rule wp_first[where rows = users]) (use Some in \<open>auto intro!: assms\<close>)
  with Some show ?thesis by (simp add: GetUserByID_def ParseUUID_def)
qed

lemma wp_foreign:
  assumes "uuid_Parse (sv_uuid s) walletID = Some u" and "caller = Some userID"
    and "\<And>v. v \<in> set (wallets w) \<Longrightarrow> w_ID v = u \<Longrightarrow> caller \<noteq> Some (uuid_String (sv_uuid s) (w_UserID v))"
  shows "wp (own_wallet s userID walletID k) (\<lambda>r w'. isl r \<and> same_books w w' \<and> trace w' = trace w) (w\<lparr>db_n := n\<rparr>)"
  by (rule wp_own_wallet) (use assms in \<open>auto simp: same_books_def\<close>)

text \<open>C20. Nobody reads, spends from or deposits into another user's wallet: for a caller who does not
  own the wallet the request is refused, no row changes, the ledger is not asked to move anything
  and the payment provider is not called, with the database failing anywhere.\<close>

theorem foreign_wallet_refused:
  assumes "service_ok P C W s" and "uuid_Parse P walletID = Some u"
    and "\<And>v. v \<in> set (wallets w) \<Longrightarrow> w_ID v = u \<Longrightarrow> caller \<noteq> Some (uuid_String P (w_UserID v))"
    and "it_SenderWalletID param = walletID"
  shows "(case run (GetWallet s caller walletID) w of (r, w') \<Rightarrow> isl r \<and> same_books w w') \<and>
    (case run (InitiateTransfer s caller param) w of (r, w') \<Rightarrow> isl r \<and> same_books w w') \<and>
    (case run (InitializeDeposit s caller major walletID) w of (r, w') \<Rightarrow> isl r \<and> same_books w w' \<and> trace w' = trace w)"
proof -
  have P: "sv_uuid s = P" using assms(1) by (simp add: service_ok_def)
  note own = wp_foreign[of s walletID u caller, unfolded P, OF assms(2) _ assms(3)]
  have "wp (GetWallet s caller walletID) (\<lambda>r w'. isl r \<and> same_books w w') w"
    unfolding GetWallet_def
    by (rule wp_as_caller, simp add: frame.rely_refl, rule wp_mono[OF own[of _ w _ "db_n w", simplified]]) auto
  moreover have "wp (InitiateTransfer s caller param) (\<lambda>r w'. isl r \<and> same_books w w') w"
    unfolding InitiateTransfer_def Let_def assms(4)
    by (rule wp_as_caller, simp add: frame.rely_refl, intro wp_case wp_app_fail, simp add: frame.rely_refl,
        rule wp_mono[OF own[of _ w _ "db_n w", simplified]]) auto
  moreover have "wp (InitializeDeposit s caller major walletID) (\<lambda>r w'. isl r \<and> same_books w w' \<and> trace w' = trace w) w"
    unfolding InitializeDeposit_def Let_def
    apply (intro wp_case wp_app_fail wp_as_caller, simp_all add: frame.rely_refl P)
    apply (intro conjI impI wp_app_fail wp_bnd wp_GetUserByID)
    by (auto simp: same_books_def not_found_or_def intro!: wp_app_fail wp_mono[OF own[of _ w]])
  ultimately show ?thesis by (simp add: wp_def)
qed

lemma foreign_wallet_refused_witness:
  "let w = ex_with TransactionSuccess [ex_deposit_entry]; caller = Some ''2'' in
    (case run (GetWallet ex_service caller ''10'') w of (r, w') \<Rightarrow> isl r \<and> same_books w w') \<and>
    (case run (InitiateTransfer ex_service caller ex_request) w of (r, w') \<Rightarrow> isl r \<and> same_books w w') \<and>
    (case run (InitializeDeposit ex_service caller (Fin 2) ''10'') w of (r, w') \<Rightarrow> isl r \<and> same_books w w' \<and> trace w' = trace w)"
proof -
  have p: "uuid_Parse ex_uuid ''10'' = Some 10" by code_simp
  have t: "uuid_String ex_uuid 1 = ''1''" by code_simp
  have u: "Some ''2'' \<noteq> Some (uuid_String ex_uuid (w_UserID v))"
    if "v \<in> set (wallets (ex_with TransactionSuccess [ex_deposit_entry]))" "w_ID v = 10" for v
    using that t by (auto simp: ex_wallet_def)
  show ?thesis
    unfolding Let_def by (rule foreign_wallet_refused[OF ex_service_ok p u]) (simp_all add: ex_request_def)
qed

section \<open>Webhooks\<close>

text \<open>C22. With Paystack only a webhook signed with the program's key is taken: any other is answered
  401 and leaves the world exactly as it was, and nothing is taken while no key is configured.\<close>

theorem unsigned_webhook_ignored:
  assumes "sv_Provider s = Some (paystack E p)"
    and "ps_Secret p = '''' \<or> signature = '''' \<or> hmac_sha512_hex E (ps_Secret p) body \<noteq> ToLower (TrimSpace signature)"
  shows "\<exists>e. run (Service_HandlePaymentWebhook s signature body) w = (Inl e, w) \<and> ae_Code e = StatusUnauthorized"
proof -
  have "\<exists>err. paystack_VerifyWebhookSignature E p signature body = Some err"
    using assms(2) by (auto simp: paystack_VerifyWebhookSignature_def)
  then obtain err where "prov_VerifyWebhookSignature (paystack E p) signature body = Some err"
    by (auto simp: paystack_def)
  then show ?thesis by (simp add: Service_HandlePaymentWebhook_def assms(1) app_fail_def)
qed

definition ex_paystack :: "task list paystack_env" where
  "ex_paystack = \<lparr>http_Do = (\<lambda>r x. (Inl ''offline'', x)), hmac_sha512_hex = (\<lambda>k b. ''5ec'' @ k),
     json_parse = (\<lambda>b. Some (JObj [(''event'', JStr ''charge.success''), (''data'', JObj [(''reference'', JStr ''20''),
       (''status'', JStr ''success''), (''amount'', JNum ''500''), (''currency'', JStr ''NGN'')])]))\<rparr>"

definition ex_signed_service :: "(book, task list) Service" where
  "ex_signed_service = ex_service\<lparr>sv_Provider := Some (paystack ex_paystack (NewPaystackProvider ''k'' ''''))\<rparr>"

lemma unsigned_webhook_ignored_witness:
  "\<exists>e. run (Service_HandlePaymentWebhook ex_signed_service ''5ecx'' ''{}'') ex_world = (Inl e, ex_world) \<and>
    ae_Code e = StatusUnauthorized"
  by (rule unsigned_webhook_ignored[of _ ex_paystack "NewPaystackProvider ''k'' ''''"])
    (simp add: ex_signed_service_def, rule disjI2, rule disjI2, code_simp)

text \<open>The listeners of the events about money, as start-up subscribes them.\<close>

lemma money_listeners:
  "RegisterListeners NewEventBus W st EventPaymentWebhookReceived = [on_payment_webhook (aqw_Payment W)]"
  "RegisterListeners NewEventBus W st EventTransferInitiated =
    [on_transfer_initiated (aqw_Transfer W), on_transfer_activity (aqw_Activity W)]"
  by (simp_all add: RegisterListeners_def RegisterTransferActivityListeners_def RegisterTransferListeners_def
      RegisterPaymentListeners_def RegisterActivityListeners_def RegisterEmailListeners_def Subscribe_def NewEventBus_def
      EventPaymentWebhookReceived_def EventTransferInitiated_def EventPaymentInitialized_def EventUserCreated_def
      EventUserLoggedIn_def)

lemma service_bus:
  "service_ok P C W s \<Longrightarrow> sv_Bus s \<noteq> None \<Longrightarrow> sv_Bus s = Some (RegisterListeners NewEventBus W (sv_Store s))"
  by (auto simp: service_ok_def)

definition webhook_task :: "('tb, 'x) AsynqWorker \<Rightarrow> 'x PaymentProvider \<Rightarrow> WebhookEvent \<Rightarrow> task" where
  "webhook_task W V event = Payment_GenerateNewTask (aqw_Payment W) TaskTypePaymentWebhook
     \<lparr>pp_Reference = we_Reference event, pp_Provider = prov_Name V, pp_Event = we_Event event,
      pp_Status = we_Status event, pp_AmountMinor = we_Amount event, pp_Currency = we_Currency event\<rparr>"

lemma webhook_enqueues:
  assumes "service_ok P C W s" and "sv_Bus s \<noteq> None" and "sv_Provider s = Some V"
    and "prov_VerifyWebhookSignature V signature body = None" and "prov_ParseWebhook V body = Inr event"
  shows "run (Service_HandlePaymentWebhook s signature body) w =
    (Inr (), snd (run (Payment_Enqueue (aqw_Payment W) (webhook_task W V event)) w))"
  unfolding Service_HandlePaymentWebhook_def assms(3) option.simps assms(4,5) sum.simps
  by (simp add: PublishEvent_def service_bus[OF assms(1,2)] Publish_def money_listeners dispatch_def on_payment_webhook_def
      webhook_task_def Minor_def split: prod.splits)

text \<open>A signed webhook about a charge is queued for settlement exactly as it was received: the
  request succeeds and the payment queue gets the task with the provider's reference, status,
  amount and currency, which the worker decodes to that payload.\<close>

theorem signed_webhook_is_queued:
  assumes "service_ok P C W s" and "sv_Bus s \<noteq> None" and "sv_Provider s = Some V"
    and "prov_VerifyWebhookSignature V signature body = None" and "prov_ParseWebhook V body = Inr event"
    and "m = \<lparr>pp_Reference = we_Reference event, pp_Provider = prov_Name V, pp_Event = we_Event event,
      pp_Status = we_Status event, pp_AmountMinor = we_Amount event, pp_Currency = we_Currency event\<rparr>"
  shows "\<exists>w'. run (Service_HandlePaymentWebhook s signature body) w = (Inr (), w') \<and>
    trace w' = trace w @ [EvEnqueue (Payment_GenerateNewTask (aqw_Payment W) TaskTypePaymentWebhook m)] \<and>
    decode_payment (Payment_GenerateNewTask (aqw_Payment W) TaskTypePaymentWebhook m) = Inr m \<and>
    w' = w\<lparr>ext := ext w', trace := trace w'\<rparr>"
proof -
  have "decode_payment (Payment_GenerateNewTask (aqw_Payment W) TaskTypePaymentWebhook m) = Inr m"
    by (simp add: decode_payment_def Payment_GenerateNewTask_def GenerateNewTask_def payment_round_trip)
  then show ?thesis
    by (simp add: webhook_enqueues[OF assms(1-5)] webhook_task_def assms(6) Payment_Enqueue_def EnqueueWithContext_def
        ext_call_def split: prod.splits)
qed

lemma signed_webhook_is_queued_witness:
  "\<exists>w'. run (Service_HandlePaymentWebhook ex_signed_service '' 5ECk '' ''{}'') ex_world = (Inr (), w') \<and>
    trace w' = [EvEnqueue (Payment_GenerateNewTask (aqw_Payment ex_worker) TaskTypePaymentWebhook
      \<lparr>pp_Reference = ''20'', pp_Provider = ''paystack'', pp_Event = ''charge.success'', pp_Status = PaymentSuccess,
       pp_AmountMinor = 500, pp_Currency = ''NGN''\<rparr>)]"
proof -
  let ?V = "paystack ex_paystack (NewPaystackProvider ''k'' '''')"
  have ok: "service_ok ex_uuid ex_ledger ex_worker ex_signed_service"
    using ex_service_ok by (simp add: service_ok_def ex_signed_service_def)
  have bus: "sv_Bus ex_signed_service \<noteq> None" by (simp add: ex_signed_service_def ex_service_def NewService_def)
  have V: "sv_Provider ex_signed_service = Some ?V" by (simp add: ex_signed_service_def)
  have sig: "prov_VerifyWebhookSignature ?V '' 5ECk '' ''{}'' = None" by code_simp
  have parse: "prov_ParseWebhook ?V ''{}'' = Inr \<lparr>we_Event = ''charge.success'', we_Reference = ''20'',
      we_Status = PaymentSuccess, we_Amount = 500, we_Currency = ''NGN''\<rparr>" by code_simp
  have "trace ex_world = []" "prov_Name ?V = ''paystack''" by (simp_all add: ex_world_def paystack_def PaystackName_def)
  with signed_webhook_is_queued[OF ok bus V sig parse refl, of ex_world] show ?thesis by auto
qed

section \<open>Logging in\<close>

text \<open>C34. Tokens are issued at login only for the account of that e-mail address that is active and not
  deleted, whose stored hash bcrypt matches with the password given; the tokens carry that account.\<close>

theorem login_needs_password:
  assumes "run (LoginUser s email password) w = (Inr l, w')"
  shows "\<exists>u \<in> set (users w). u_Email u = email \<and> u_IsActive u \<and> u_DeletedAt u = None \<and>
    CompareHash s (case u_Passwordhash u of None \<Rightarrow> '''' | Some h \<Rightarrow> h) password = None \<and>
    lo_User l = MapUserToServiceDomain (MapUserModelToUser (sv_uuid s) u) \<and>
    jw_Encode (sv_jwt s) (token_claims (MapUserModelToUser (sv_uuid s) u) TokenTypeAccess
      (token_exp (now w) (sv_AccessTokenExpiry s))) = Inr (lo_AccessToken l)"
proof -
  let ?R = "\<lambda>l. \<exists>u \<in> set (users w). u_Email u = email \<and> u_IsActive u \<and> u_DeletedAt u = None \<and>
    CompareHash s (case u_Passwordhash u of None \<Rightarrow> '''' | Some h \<Rightarrow> h) password = None \<and>
    lo_User l = MapUserToServiceDomain (MapUserModelToUser (sv_uuid s) u) \<and>
    jw_Encode (sv_jwt s) (token_claims (MapUserModelToUser (sv_uuid s) u) TokenTypeAccess
      (token_exp (now w) (sv_AccessTokenExpiry s))) = Inr (lo_AccessToken l)"
  have tokens: "wp (issue_tokens s user) (\<lambda>r v. \<forall>l. r = Inr l \<longrightarrow> lo_User l = MapUserToServiceDomain user \<and>
      jw_Encode (sv_jwt s) (token_claims user TokenTypeAccess (token_exp (now w) (sv_AccessTokenExpiry s))) = Inr (lo_AccessToken l))
      (w\<lparr>db_n := n\<rparr>)" for user n
    unfolding issue_tokens_def GenerateAccessToken_def GenerateRefreshToken_def time_Now_def
    by (intro wp_bnd wp_atom wp_case wp_Ret wp_app_fail) (auto intro!: wp_Ret wp_bnd wp_atom wp_case wp_app_fail split: sum.splits)
  have "wp (LoginUser s email password) (\<lambda>r v. \<forall>l. r = Inr l \<longrightarrow> ?R l) w"
    unfolding LoginUser_def GetUserCredentialsByEmail_def first_user_def
  proof (rule wp_bnd, rule wp_first[where rows = users], goal_cases)
    case (3 u)
    let ?h = "case u_Passwordhash u of None \<Rightarrow> '''' | Some h \<Rightarrow> h" and ?u = "MapUserModelToUser (sv_uuid s) u"
    have "wp (bnd (issue_tokens s ?u) (\<lambda>t. case t of Inl e \<Rightarrow> Ret (Inl e) | Inr login \<Rightarrow>
        bnd (PublishEvent s EventUserLoggedIn (UserLoggedIn \<lparr>ul_FirstName = U_FirstName ?u,
          ul_LastName = U_LastName ?u, ul_Email = U_Email ?u, ul_UserID = U_ID ?u\<rparr>)) (\<lambda>_. Ret (Inr login))))
      (\<lambda>r v. \<forall>l. r = Inr l \<longrightarrow> ?R l) (w\<lparr>db_n := Suc (db_n w)\<rparr>)" if "CompareHash s ?h password = None"
      apply (rule wp_bnd, rule wp_mono[OF tokens], intro wp_case wp_Ret wp_bnd, simp)
      using 3 that by (intro wpI wp_Ret) (auto simp: live_user_def)
    then show ?case
      by (cases "CompareHash s ?h password") (auto intro!: wp_app_fail wp_case)
  qed (simp_all add: wp_app_fail)
  then show ?thesis using assms by (auto simp: wp_def)
qed

definition ex_user :: "bool \<Rightarrow> user_row" where
  "ex_user active = \<lparr>u_ID = 1, u_FirstName = ''Ada'', u_LastName = ''L'', u_Email = ''a@b.c'', u_Passwordhash = Some ''pw'',
     u_PhoneNumber = None, u_DateOfBirth = None, u_ProfilePhotoURL = None, u_Gender = ''OTHER'', u_IsActive = active,
     u_IsVerified = False, u_CreatedAt = 0, u_UpdatedAt = 0, u_DeletedAt = None\<rparr>"

definition ex_login :: LoginSuccessful where
  "ex_login = \<lparr>lo_AccessToken = ''token'', lo_RefreshToken = ''token'',
     lo_User = MapUserToServiceDomain (MapUserModelToUser ex_uuid (ex_user True))\<rparr>"

lemma ex_login_run: "fst (run (LoginUser ex_service ''a@b.c'' ''pw'') (ex_world\<lparr>users := [ex_user True]\<rparr>)) = Inr ex_login"
  by code_simp

lemma login_needs_password_witness:
  "fst (run (LoginUser ex_service ''a@b.c'' ''pw'') (ex_world\<lparr>users := [ex_user True]\<rparr>)) = Inr ex_login \<and>
   (\<exists>u \<in> set [ex_user True]. u_Email u = ''a@b.c'' \<and> u_IsActive u \<and>
     lo_User ex_login = MapUserToServiceDomain (MapUserModelToUser ex_uuid u))"
proof -
  obtain w' where r: "run (LoginUser ex_service ''a@b.c'' ''pw'') (ex_world\<lparr>users := [ex_user True]\<rparr>) = (Inr ex_login, w')"
    using ex_login_run by (metis prod.collapse)
  have "sv_uuid ex_service = ex_uuid" using ex_service_ok by (simp add: service_ok_def)
  with login_needs_password[OF r] ex_login_run show ?thesis by auto
qed

lemma wp_pure: "(\<And>a v. Q a v) \<Longrightarrow> wp p Q w"
  by (rule wpI)

text \<open>C35. Deleting an account keeps its owner from logging in but not from renewing tokens: with the
  right password login is answered 401, while a refresh token issued before is traded for a fresh
  pair, because \<open>GetUserByID\<close> does not look at \<open>is_active\<close>.\<close>

theorem deleted_account_keeps_renewing:
  assumes "calm w" and "sv_uuid s = P" and "uuid_ok P" and "distinct (map u_ID (users w))" and "distinct (map u_Email (users w))"
    and "u \<in> set (users w)" and "u_DeletedAt u = None" and "\<not> u_IsActive u"
    and "jw_VerifyToken (sv_jwt s) token (now w) = Inr claims" and "jc_token_type claims = Some TokenTypeRefresh"
    and "jc_sub claims = Some (uuid_String P (u_ID u))" and "uuid_String P (u_ID u) \<noteq> ''''"
    and "\<And>c. \<exists>t. jw_Encode (sv_jwt s) c = Inr t"
  shows "(\<exists>e. fst (run (LoginUser s (u_Email u) password) w) = Inl e \<and> ae_Code e = StatusUnauthorized) \<and>
    (\<exists>l. fst (run (RefreshUserToken s token) w) = Inr l \<and> lo_User l = MapUserToServiceDomain (MapUserModelToUser P u))"
proof (rule conjI)
  have "wp (LoginUser s (u_Email u) password) (\<lambda>r v. \<exists>e. r = Inl e \<and> ae_Code e = StatusUnauthorized) w"
    unfolding LoginUser_def GetUserCredentialsByEmail_def first_user_def
  proof (rule wp_bnd, rule wp_first[where rows = users], goal_cases)
    case (3 r)
    then have "r = u" using assms(5,6) distinct_key_unique[of u_Email "users w" r u] by simp
    with 3 assms(8) show ?case by simp
  qed (use assms(1) in \<open>auto intro!: wp_app_fail\<close>)
  then show "\<exists>e. fst (run (LoginUser s (u_Email u) password) w) = Inl e \<and> ae_Code e = StatusUnauthorized"
    by (auto simp: wp_def split: prod.splits)
  obtain a where a: "jw_Encode (sv_jwt s) c = Inr (a c)" for c using assms(13) by metis
  have "sql_first u_ID (\<lambda>r. live_user r \<and> u_ID r = u_ID u) (users w) = Some u"
    using sql_first_unique[OF assms(4,6) refl, of live_user] assms(7) by (simp add: live_user_def conj_commute)
  then have "run (GetUserByID P (uuid_String P (u_ID u))) w = (Inr (MapUserModelToUser P u), w\<lparr>db_n := Suc (db_n w)\<rparr>)"
    using assms(1,3) by (simp add: GetUserByID_def ParseUUID_def uuid_ok_def logged_def first_user_def db_call_def calm_def found_def Let_def)
  then show "\<exists>l. fst (run (RefreshUserToken s token) w) = Inr l \<and> lo_User l = MapUserToServiceDomain (MapUserModelToUser P u)"
    using assms(2,9-12) by (simp add: RefreshUserToken_def ParseRefreshToken_def time_Now_def issue_tokens_def
        GenerateAccessToken_def GenerateRefreshToken_def a)
qed

definition ex_claims :: jwt_claims where
  "ex_claims = \<lparr>jc_sub = Some ''1'', jc_email = '''', jc_first_name = '''', jc_last_name = '''', jc_is_verified = False,
     jc_token_type = Some TokenTypeRefresh, jc_exp = 9\<rparr>"

definition ex_token_service :: "(book, task list) Service" where
  "ex_token_service = ex_service\<lparr>sv_jwt := \<lparr>jw_Encode = (\<lambda>c. Inr ''new''), jw_VerifyToken = (\<lambda>t n. Inr ex_claims)\<rparr>\<rparr>"

lemma deleted_account_keeps_renewing_witness:
  "let w = ex_world\<lparr>users := [ex_user False]\<rparr> in
   (\<exists>e. fst (run (LoginUser ex_token_service (u_Email (ex_user False)) ''pw'') w) = Inl e \<and> ae_Code e = StatusUnauthorized) \<and>
   (\<exists>l. fst (run (RefreshUserToken ex_token_service ''old'') w) = Inr l \<and>
     lo_User l = MapUserToServiceDomain (MapUserModelToUser ex_uuid (ex_user False)))"
proof -
  have t: "uuid_String ex_uuid 1 = ''1''" by code_simp
  have s: "sv_uuid ex_service = ex_uuid" using ex_service_ok by (simp add: service_ok_def)
  show ?thesis
    unfolding Let_def
    by (rule deleted_account_keeps_renewing[where claims = ex_claims])
      (simp_all add: s t ex_uuid_ok calm_def ex_world_def ex_user_def ex_token_service_def ex_claims_def del: ex_uuid_sel)
qed

section \<open>Opening wallets\<close>

lemma dec_length:
  assumes "10 ^ n \<le> m" and "m < 10 ^ Suc n"
  shows "length (dec m) = Suc n"
  using assms
proof (induction n arbitrary: m)
  case 0
  then show ?case by (subst dec.simps) simp
next
  case (Suc n)
  have "(1::nat) \<le> 10 ^ n" by simp
  then have ten: "\<not> m < 10" using Suc.prems(1) unfolding power_Suc by linarith
  have "10 ^ n \<le> m div 10" "m div 10 < 10 ^ Suc n" using Suc.prems by (auto simp: less_mult_imp_div_less)
  with Suc.IH[of "m div 10"] ten show ?case by (subst dec.simps) simp
qed

lemma wp_new_account_number:
  assumes "\<And>e. Q (Inl e) (w\<lparr>rand_n := Suc (rand_n w)\<rparr>)"
    and "\<And>a. length a = 10 \<Longrightarrow> list_all is_digit a \<Longrightarrow> Q (Inr a) (w\<lparr>rand_n := Suc (rand_n w)\<rparr>)"
  shows "wp NewAccountNumber Q w"
proof -
  have d: "length (dec (r mod accountNumberSpan + accountNumberMin)) = 10" for r
    by (rule dec_length[of 9, simplified]) (simp_all add: accountNumberSpan_def accountNumberMin_def)
  show ?thesis
    unfolding NewAccountNumber_def rand_Int_def
    by (intro wp_bnd wp_atom wp_Ret)
      (auto intro!: assms d simp: list_all_iff dest: dec_digits split: option.splits)
qed

definition wallet_opened ::
  "uuid_pkg \<Rightarrow> uuid \<Rightarrow> string \<Rightarrow> nat \<Rightarrow> ('tb, 'x) world \<Rightarrow> go_error + Wallet \<Rightarrow> ('tb, 'x) world \<Rightarrow> bool" where
  "wallet_opened P user currency draws w r w' \<longleftrightarrow> rand_n w' \<le> rand_n w + draws \<and> (case r of
      Inr x \<Rightarrow> \<exists>v. wallets w' = wallets w @ [v] \<and> x = MapWalletModelToWallet P v \<and> w_UserID v = user \<and>
        w_Currency v = currency \<and> w_Status v = WalletActive \<and> w_DeletedAt v = None \<and> length (w_AccountNumber v) = 10 \<and>
        list_all is_digit (w_AccountNumber v) \<and> w_AccountNumber v \<notin> w_AccountNumber ` set (wallets w)
    | Inl e \<Rightarrow> errors_Is e ErrAccountNumberExhausted \<longrightarrow> wallets w' = wallets w)"

lemma wp_insert_wallet:
  assumes "\<And>n k. Q (Inl (Sentinel gorm_ErrDuplicatedKey)) (w\<lparr>db_n := n, uuid_n := k\<rparr>)"
    and "\<And>m v. rand_n v = rand_n w \<Longrightarrow> Q (Inl (Opaque m)) v"
    and "\<And>u n k. w_AccountNumber (mk u (now w)) \<notin> w_AccountNumber ` set (wallets w) \<Longrightarrow>
      Q (Inr (mk u (now w))) (w\<lparr>db_n := n, uuid_n := k, wallets := wallets w @ [mk u (now w)]\<rparr>)"
  shows "wp (insert_wallet mk) Q w"
  unfolding insert_wallet_def uuid_New_def
  by (rule wp_db_call) (auto simp: Let_def intro!: assms split: if_splits)

lemma wp_CreateWallet_loop:
  assumes "currency \<noteq> ''''"
  shows "wp (CreateWallet_loop P user currency n) (wallet_opened P user currency n w) w"
proof (induction n arbitrary: w)
  case 0
  then show ?case by (simp add: wallet_opened_def wp_Ret)
next
  case (Suc n)
  have later: "wallet_opened P user currency (Suc n) w r w'"
    if "wallet_opened P user currency n v r w'" "rand_n v = Suc (rand_n w)" "wallets v = wallets w" for r w' v
    using that by (auto simp: wallet_opened_def split: sum.splits)
  show ?case
    unfolding CreateWallet_loop.simps if_not_P[OF assms]
    apply (rule wp_bnd, rule wp_new_account_number)
     apply (simp add: wp_Ret wallet_opened_def)
    apply (simp, rule wp_bnd, rule wp_insert_wallet)
      apply (simp add: wrapGormError_def)
      apply (rule wp_mono[OF Suc], erule later, simp, simp)
     apply (simp add: wrapGormError_def wp_Ret wallet_opened_def)
    by (simp add: wp_Ret wallet_opened_def)
qed

text \<open>C36. Opening a wallet draws at most five account numbers. When it succeeds exactly one wallet was
  added, of the user and in the currency asked for, active, with a number of ten digits that no
  wallet had; when it gives up because the numbers it drew were taken, no wallet was added. So it is
  with the database and the random source failing anywhere.\<close>

theorem wallet_gets_fresh_number:
  assumes "uuid_Parse P userID = Some user" and "currency \<noteq> ''''"
  shows "case run (CreateWallet P userID currency) w of (r, w') \<Rightarrow> wallet_opened P user currency 5 w r w'"
  using wp_CreateWallet_loop[OF assms(2), of P user 5 w] assms(1)
  by (simp add: CreateWallet_def ParseUUID_def accountNumberAttempts_def wp_def)

lemma wallet_gets_fresh_number_witness:
  "case run (CreateWallet ex_uuid ''1'' ''NGN'') (ex_world\<lparr>rand_src := \<lambda>n. Some 11\<rparr>) of (r, w') \<Rightarrow>
    wallet_opened ex_uuid 1 ''NGN'' 5 (ex_world\<lparr>rand_src := \<lambda>n. Some 11\<rparr>) r w'"
proof (rule wallet_gets_fresh_number)
  show "uuid_Parse ex_uuid ''1'' = Some 1" by code_simp
qed simp

section \<open>History\<close>

definition history_page :: "sortedTransaction list \<Rightarrow> TransactionList \<Rightarrow> bool" where
  "history_page txs l \<longleftrightarrow> (\<exists>merged.
     mset merged = mset txs \<and> sorted_wrt (\<lambda>a b. st_key b \<le> st_key a) merged \<and>
     (\<forall>k. filter (\<lambda>t. st_key t = k) merged = filter (\<lambda>t. st_key t = k) txs) \<and>
     tl_Transactions l = map st_Tx (take (nat (sint (tl_Limit l))) (drop (nat (sint (tl_Offset l))) merged)) \<and>
     tl_Total l = int (length txs)) \<and>
   1 \<le> sint (tl_Limit l) \<and> sint (tl_Limit l) \<le> 100 \<and> 0 \<le> sint (tl_Offset l)"

lemma newest_page:
  assumes "1 \<le> sint limit" "sint limit \<le> 100" "0 \<le> sint offset"
  shows "history_page xs \<lparr>tl_Transactions = page_loop (newest xs) (sint limit) (sint offset) [],
    tl_Total = int (length (newest xs)), tl_Limit = limit, tl_Offset = offset\<rparr>"
proof -
  have "sorted_wrt (\<lambda>a b. st_key b \<le> st_key a) (newest xs)"
    using sorted_sort_key[of "\<lambda>t. - st_key t" xs] by (simp add: newest_def sorted_map)
  moreover have "filter (\<lambda>t. st_key t = k) (newest xs) = filter (\<lambda>t. st_key t = k) xs" for k
    using sort_key_stable[of "\<lambda>t. - st_key t" "- k" xs] by (simp add: newest_def)
  ultimately show ?thesis
    using assms by (auto simp: history_page_def page_loop_slice newest_def intro!: exI[of _ "newest xs"])
qed

lemma history_scan_value:
  assumes "1 \<le> sint limit" "sint limit \<le> 100" "0 \<le> sint offset"
  shows "sint (history_scan limit offset) =
    (if sint offset + sint limit < 2 ^ 63 then min 500 (sint offset + sint limit) else sint offset + sint limit - 2 ^ 64)"
proof -
  have b: "sint offset < 2 ^ 63" by (rule sint_bounds)
  have "sint (offset + limit) = signed_take_bit 63 (sint offset + sint limit)" by (simp add: sint_word_ariths)
  also have "\<dots> = (if sint offset + sint limit < 2 ^ 63 then sint offset + sint limit else sint offset + sint limit - 2 ^ 64)"
  proof (cases "sint offset + sint limit < 2 ^ 63")
    case True
    then show ?thesis using assms by (simp add: signed_take_bit_int_eq_self)
  next
    case False
    have "signed_take_bit 63 (sint offset + sint limit) = signed_take_bit 63 (sint offset + sint limit - 2 ^ 64)"
      by (simp add: signed_take_bit_eq_iff_take_bit_eq take_bit_eq_mod)
    also have "\<dots> = sint offset + sint limit - 2 ^ 64"
      using False assms b by (intro signed_take_bit_int_eq_self) auto
    finally show ?thesis using False by simp
  qed
  finally show ?thesis
    using assms b by (auto simp: history_scan_def Let_def MaxHistoryScan_def min_def)
qed

text \<open>C40. A page of the history is the slice the caller asked for of all the settled and unsettled
  transactions found, newest first, those of one instant in the order found: from the offset on, at
  most \<open>limit\<close> of them, which is at least 1 and at most 100, with the number of all of them. Each source
  is read as far back as the page ends, at most 500; but when offset and limit together leave the
  range of \<open>int64\<close> the sources are asked for a negative number.\<close>

theorem history_page_is_slice:
  assumes "user \<noteq> ''''" and "Normalise page = (limit, offset)" and "scan = history_scan limit offset"
    and "run (settledTransactions s user scan) w = (Inr settled, v)"
    and "run (unsettledTransactions s user scan) v = (Inr unsettled, v')"
  shows "(\<exists>l. run (ListMyTransactions s (Some user) page) w = (Inr l, v') \<and> history_page (settled @ unsettled) l \<and>
      tl_Limit l = limit \<and> tl_Offset l = offset) \<and>
    sint scan = (let upto = sint offset + sint limit in if upto < 2 ^ 63 then min 500 upto else upto - 2 ^ 64)"
proof -
  note b = Normalise_bounds[OF assms(2)]
  have "run (ListMyTransactions s (Some user) page) w = (Inr \<lparr>tl_Transactions = page_loop (newest (settled @ unsettled)) (sint limit) (sint offset) [],
      tl_Total = int (length (newest (settled @ unsettled))), tl_Limit = limit, tl_Offset = offset\<rparr>, v')"
    using assms(1,3-5) unfolding ListMyTransactions_def assms(2) by (simp add: as_caller_def CallerID_def Let_def)
  then show ?thesis
    using newest_page[OF b, of "settled @ unsettled"] history_scan_value[OF b] assms(3) by (auto simp: Let_def)
qed

lemma history_page_is_slice_witness:
  "\<exists>l w'. run (ListMyTransactions (ex_service\<lparr>sv_Ledger := None\<rparr>) (Some ''1'') None) (ex_world\<lparr>intents := []\<rparr>) = (Inr l, w') \<and>
    tl_Total l = 1 \<and> sint (tl_Limit l) = 20"
proof -
  let ?s = "ex_service\<lparr>sv_Ledger := None\<rparr>" and ?w = "ex_world\<lparr>intents := []\<rparr>"
  let ?p = "run (settledTransactions ?s ''1'' 20) ?w" and ?q = "run (unsettledTransactions ?s ''1'' 20) ?w"
  have p: "?p = (Inr [], ?w)" by (simp add: settledTransactions_def)
  have "case fst ?q of Inr xs \<Rightarrow> length xs = 1 | Inl e \<Rightarrow> False" by code_simp
  then obtain xs v where q: "?q = (Inr xs, v)" "length xs = 1" by (cases ?q) (auto split: sum.splits)
  have n: "Normalise None = (20, 0)" "20 = history_scan 20 0" by code_simp+
  from history_page_is_slice[OF _ n p q(1)] q(2) show ?thesis by (auto simp: history_page_def)
qed

end
