(* ===== verification/Http.thy ===== *)
theory Http
  imports History_Service
begin

text \<open>
  \<^verbatim>\<open>src/internal/api/routes/helpers.go\<close>, \<^verbatim>\<open>middelware.go\<close> and the router set-up of
  \<^verbatim>\<open>route.go\<close>: what every HTTP handler uses. A handler is a program that ends in a response.
  The chi router, the validator, the lookup of a token in a request and the JSON parser are a
  record of functions.
\<close>

section \<open>Requests and responses\<close>

text \<open>\<open>rq_Header\<close> and \<open>rq_Query\<close> are \<open>Header.Get\<close> and \<open>URL.Query().Get\<close>, empty when absent. The
  body is the bytes delivered and, when the stream breaks, the error it ends with.\<close>

record incoming =
  rq_Method :: string
  rq_Path :: string
  rq_Header :: "string \<Rightarrow> string"
  rq_Query :: "string \<Rightarrow> string"
  rq_Body :: string
  rq_BodyErr :: "string option"

record ErrorResponse =
  er_Message :: string
  er_Code :: int

text \<open>A response holds the value given to the JSON encoder; \<open>'b\<close> is the type of those values.\<close>

datatype 'b content = ErrorBody ErrorResponse | JSON 'b | Document string

record 'b response =
  rs_Status :: int
  rs_ContentType :: string
  rs_Body :: "'b content option"

definition WriteJSON :: "int \<Rightarrow> 'b content option \<Rightarrow> 'b response" where
  "WriteJSON status body = \<lparr>rs_Status = status, rs_ContentType = ''application/json'', rs_Body = body\<rparr>"

text \<open>\<open>http.StatusText\<close> of the codes the program answers.\<close>

definition StatusText :: "int \<Rightarrow> string" where
  "StatusText code = (case map_of
     [(400, ''Bad Request''), (401, ''Unauthorized''), (403, ''Forbidden''), (404, ''Not Found''),
      (409, ''Conflict''), (422, ''Unprocessable Entity''), (500, ''Internal Server Error''),
      (502, ''Bad Gateway''), (503, ''Service Unavailable'')] code of
     Some t \<Rightarrow> t | None \<Rightarrow> '''')"

definition WriteAppError :: "AppError \<Rightarrow> 'b response" where
  "WriteAppError appErr =
     (let code = (if ae_Code appErr = 0 then StatusInternalServerError else ae_Code appErr);
          msg = (if ae_Message appErr = '''' then StatusText code else ae_Message appErr)
      in WriteJSON code (Some (ErrorBody \<lparr>er_Message = msg, er_Code = code\<rparr>)))"

definition WriteError :: "int \<Rightarrow> string \<Rightarrow> go_error option \<Rightarrow> 'b response" where
  "WriteError code msg err = WriteAppError (app_error code msg err)"

lemma WriteAppError_sel [simp]:
  "rs_Status (WriteAppError e) = (if ae_Code e = 0 then 500 else ae_Code e)"
  "rs_ContentType (WriteAppError e) = ''application/json''"
  by (simp_all add: WriteAppError_def WriteJSON_def Let_def)

lemma WriteError_sel [simp]:
  "code \<noteq> 0 \<Longrightarrow> rs_Status (WriteError code msg err) = code"
  by (simp add: WriteError_def)

section \<open>Packages\<close>

text \<open>The tags of \<open>go-playground/validator\<close> the request types carry, and the field values they
  check.\<close>

datatype vtag =
    TRequired | TOmitempty | TMax nat | TMin nat | TLen nat | TPositive | TOneOf "string list"
  | TEmail | TE164 | TUrl | TUuid | TNumeric | TNumber

datatype vvalue = VString string | VPointer "string option" | VFloat float64

type_synonym checked_field = "string \<times> vtag list \<times> vvalue"

text \<open>\<open>hp_Decode\<close> reads the first JSON value of a stream of bytes that may break off with an error,
  \<open>hp_Struct\<close> is \<open>Validate.Struct\<close> on the fields of a struct (the error's text, when it objects),
  \<open>hp_FindToken\<close> finds a token in the \<open>Authorization\<close> header or the \<open>jwt\<close> cookie (empty when there is
  none), and \<open>hp_Match\<close> is chi's choice of a registered method and pattern for a request, with the
  URL parameters; \<open>hp_Unmatched\<close> is chi's own answer when there is none.\<close>

record 'b http_pkgs =
  hp_Decode :: "string \<Rightarrow> string option \<Rightarrow> string + json"
  hp_Struct :: "checked_field list \<Rightarrow> string option"
  hp_FindToken :: "incoming \<Rightarrow> string"
  hp_Match :: "(string \<times> string) list \<Rightarrow> string \<Rightarrow> string \<Rightarrow> ((string \<times> string) \<times> (string \<Rightarrow> string)) option"
  hp_Unmatched :: "incoming \<Rightarrow> 'b response"

text \<open>What the code relies on of the validator, as its documentation states the tags: \<open>required\<close> is not the
  zero value, \<open>len\<close>, \<open>min\<close> and \<open>max\<close> count characters, \<open>number\<close> is one or more digits, \<open>gt=0\<close> is positive, and
  \<open>omitempty\<close> skips the other tags of a zero value. \<open>U\<close> is the set of texts \<open>uuid\<close> accepts.\<close>

definition rune_count :: "string \<Rightarrow> nat" where
  "rune_count s = length (filter (\<lambda>c. code_of c < 128 \<or> 192 \<le> code_of c) s)"

fun zero_value :: "vvalue \<Rightarrow> bool" where
  "zero_value (VString s) \<longleftrightarrow> s = ''''"
| "zero_value (VPointer p) \<longleftrightarrow> p = None"
| "zero_value (VFloat x) \<longleftrightarrow> x = Fin 0"

fun positive :: "float64 \<Rightarrow> bool" where
  "positive (Fin q) \<longleftrightarrow> 0 < q"
| "positive (Inf neg) \<longleftrightarrow> \<not> neg"
| "positive NaN \<longleftrightarrow> False"

fun tag_holds :: "(string \<Rightarrow> bool) \<Rightarrow> vtag \<Rightarrow> vvalue \<Rightarrow> bool" where
  "tag_holds U TRequired v \<longleftrightarrow> \<not> zero_value v"
| "tag_holds U (TLen n) (VString s) \<longleftrightarrow> rune_count s = n"
| "tag_holds U (TMin n) (VString s) \<longleftrightarrow> n \<le> rune_count s"
| "tag_holds U (TMax n) (VString s) \<longleftrightarrow> rune_count s \<le> n"
| "tag_holds U TNumber (VString s) \<longleftrightarrow> s \<noteq> '''' \<and> (\<forall>c \<in> set s. is_digit c)"
| "tag_holds U TUuid (VString s) \<longleftrightarrow> U s"
| "tag_holds U TPositive (VFloat x) \<longleftrightarrow> positive x"
| "tag_holds U _ _ \<longleftrightarrow> True"

definition validator_ok :: "(string \<Rightarrow> bool) \<Rightarrow> (checked_field list \<Rightarrow> string option) \<Rightarrow> bool" where
  "validator_ok U V \<longleftrightarrow> (\<forall>fs. V fs = None \<longrightarrow>
     (\<forall>(name, tags, v) \<in> set fs. TOmitempty \<in> set tags \<and> zero_value v \<or> (\<forall>t \<in> set tags. tag_holds U t v)))"

section \<open>Decoding a request body\<close>

text \<open>A pointer field is set to nil by \<open>null\<close>.\<close>

fun pointer_field :: "string option \<Rightarrow> string \<Rightarrow> (string \<times> json) list \<Rightarrow> string option option" where
  "pointer_field cur tag [] = Some cur"
| "pointer_field cur tag ((k, v) # kvs) =
     (if EqualFold k tag
      then (case v of JNull \<Rightarrow> pointer_field None tag kvs | JStr s \<Rightarrow> pointer_field (Some s) tag kvs | _ \<Rightarrow> None)
      else pointer_field cur tag kvs)"

fun as_float :: "json \<Rightarrow> float64 option" where
  "as_float (JNum lit) = ParseFloat lit"
| "as_float _ = None"

definition float_field :: "string \<Rightarrow> (string \<times> json) list \<Rightarrow> float64 option" where
  "float_field = field_of as_float (Fin 0)"

text \<open>Only an object fits a struct; \<open>null\<close> leaves the zero value.\<close>

fun object_fields :: "json \<Rightarrow> (string \<times> json) list option" where
  "object_fields (JObj kvs) = Some kvs"
| "object_fields JNull = Some []"
| "object_fields _ = None"

definition DecodeAndValidate ::
  "'b http_pkgs \<Rightarrow> ((string \<times> json) list \<Rightarrow> 'r option) \<Rightarrow> ('r \<Rightarrow> checked_field list) \<Rightarrow> incoming \<Rightarrow> 'b response + 'r" where
  "DecodeAndValidate H decode checks r =
     (let invalid = (\<lambda>m. Inl (WriteError StatusBadRequest ''Invalid request body'' (Some (Opaque m)))) in
      case hp_Decode H (rq_Body r) (rq_BodyErr r) of
        Inl m \<Rightarrow> invalid m
      | Inr j \<Rightarrow> (case Option.bind (object_fields j) decode of
          None \<Rightarrow> invalid ''json: cannot unmarshal''
        | Some dst \<Rightarrow> (case hp_Struct H (checks dst) of
            Some m \<Rightarrow> Inl (WriteError StatusUnprocessableEntity m (Some (Opaque m)))
          | None \<Rightarrow> Inr dst)))"

text \<open>\<open>QueryInt\<close> with \<open>strconv.Atoi\<close>: absent is nil, present must be an \<open>int\<close>.\<close>

definition QueryInt :: "incoming \<Rightarrow> string \<Rightarrow> go_error + int64 option" where
  "QueryInt r name = (let raw = rq_Query r name in
     if raw = '''' then Inr None
     else case ParseInt64 raw of None \<Rightarrow> Inl (Opaque ''strconv.Atoi'') | Some n \<Rightarrow> Inr (Some n))"

section \<open>Middleware\<close>

text \<open>What the middleware puts on the request's context: the outcome of the token's verification
  (\<open>jwtauth.FromContext\<close>) and the \<open>user_id\<close>; and chi's URL parameters.\<close>

record rctx =
  cx_Token :: "go_error + jwt_claims"
  cx_UserID :: "string option"
  cx_Params :: "string \<Rightarrow> string"

type_synonym ('b, 'w) http_handler = "rctx \<Rightarrow> incoming \<Rightarrow> ('b response, 'w) prog"

text \<open>\<open>jwtauth.Verifier\<close> verifies the token found with the service's key and never refuses a request
  itself.\<close>

definition jwtauth_Verifier ::
  "'b http_pkgs \<Rightarrow> jwt_pkg \<Rightarrow> ('b, ('tb, 'x) world) http_handler \<Rightarrow> ('b, ('tb, 'x) world) http_handler" where
  "jwtauth_Verifier H J next = (\<lambda>cx r. bnd time_Now (\<lambda>t.
     let found = hp_FindToken H r in
     next (cx\<lparr>cx_Token := (if found = '''' then Inl (Opaque ''no token found'') else jw_VerifyToken J found t)\<rparr>) r))"

definition Authenticator :: "('b, 'w) http_handler \<Rightarrow> ('b, 'w) http_handler" where
  "Authenticator next = (\<lambda>cx r. case cx_Token cx of
      Inl err \<Rightarrow> Ret (WriteAppError (app_error StatusUnauthorized ''Unauhorized Inavlid or Expired Token'' (Some err)))
    | Inr token \<Rightarrow> next cx r)"

definition AuthMiddleWare :: "('b, 'w) http_handler \<Rightarrow> ('b, 'w) http_handler" where
  "AuthMiddleWare next = (\<lambda>cx r. case cx_Token cx of
      Inl err \<Rightarrow> Ret (WriteAppError (app_error StatusUnauthorized ''Unauhorized Context Mapping'' (Some err)))
    | Inr claims \<Rightarrow>
        if jc_token_type claims \<noteq> Some TokenTypeAccess
        then Ret (WriteAppError (app_error StatusUnauthorized ''Unauhorized, An Access Token Is Required''
          (Some (Opaque ''token is not an access token''))))
        else (case jc_sub claims of
          None \<Rightarrow> Ret (WriteAppError (app_error StatusUnauthorized ''Sub Couldnt be mapped to string'' None))
        | Some i \<Rightarrow> next (cx\<lparr>cx_UserID := Some i\<rparr>) r))"

section \<open>CORS\<close>

text \<open>\<open>isLocalhostOrigin\<close>; \<open>hostname\<close> is the host name \<open>url.Parse\<close> finds in an origin, if it parses.\<close>

definition isLocalhostOrigin :: "(string \<Rightarrow> string option) \<Rightarrow> string \<Rightarrow> bool" where
  "isLocalhostOrigin hostname origin = (case hostname origin of
      None \<Rightarrow> False
    | Some h \<Rightarrow> h = ''localhost'' \<or> h = ''127.0.0.1'' \<or> h = ''::1'')"

text \<open>The \<open>AllowOriginFunc\<close> of \<open>corsMiddleware\<close>.\<close>

definition corsAllowOrigin :: "(string \<Rightarrow> string option) \<Rightarrow> string list \<Rightarrow> string \<Rightarrow> bool" where
  "corsAllowOrigin hostname allowedOrigins origin \<longleftrightarrow>
     isLocalhostOrigin hostname origin \<or> origin \<in> set allowedOrigins"

text \<open>The options \<open>corsMiddleware\<close> gives to the CORS handler.\<close>

record cors_options =
  co_AllowOrigin :: "string \<Rightarrow> bool"
  co_AllowedMethods :: "string list"
  co_AllowedHeaders :: "string list"
  co_AllowCredentials :: bool
  co_MaxAge :: int

definition corsMiddleware :: "(string \<Rightarrow> string option) \<Rightarrow> string list \<Rightarrow> cors_options" where
  "corsMiddleware hostname allowedOrigins = \<lparr>
     co_AllowOrigin = corsAllowOrigin hostname allowedOrigins,
     co_AllowedMethods = [''GET'', ''POST'', ''PUT'', ''PATCH'', ''DELETE'', ''OPTIONS''],
     co_AllowedHeaders = [''Accept'', ''Authorization'', ''Content-Type'', ''X-Requested-With''],
     co_AllowCredentials = True, co_MaxAge = 300\<rparr>"

end
