(* ===== verification/Route_Types.thy ===== *)
theory Route_Types
  imports Http
begin

text \<open>
  \<^verbatim>\<open>src/internal/api/routes/types.go\<close>: the bodies of requests, each with its decoding from a JSON
  object and the fields its \<open>validate\<close> tags check, and the bodies of responses, each with the mapping
  from the service's type.
\<close>

section \<open>Request bodies\<close>

record CreateUserRequest =
  cu_FirstName :: string
  cu_LastName :: string
  cu_Email :: string
  cu_Password :: string
  cu_PhoneNumber :: "string option"
  cu_DateOfBirth :: "string option"
  cu_ProfilePhotoURL :: "string option"
  cu_Gender :: "string option"

definition decode_CreateUserRequest :: "(string \<times> json) list \<Rightarrow> CreateUserRequest option" where
  "decode_CreateUserRequest kvs =
     (case (string_field ''first_name'' kvs, string_field ''last_name'' kvs, string_field ''email'' kvs,
        string_field ''password'' kvs, pointer_field None ''phone_number'' kvs, pointer_field None ''date_of_birth'' kvs,
        pointer_field None ''profile_photo_url'' kvs, pointer_field None ''gender'' kvs) of
      (Some f, Some l, Some em, Some pw, Some ph, Some dob, Some url, Some g) \<Rightarrow>
        Some \<lparr>cu_FirstName = f, cu_LastName = l, cu_Email = em, cu_Password = pw, cu_PhoneNumber = ph,
          cu_DateOfBirth = dob, cu_ProfilePhotoURL = url, cu_Gender = g\<rparr>
    | _ \<Rightarrow> None)"

definition checks_CreateUserRequest :: "CreateUserRequest \<Rightarrow> checked_field list" where
  "checks_CreateUserRequest b =
     [(''FirstName'', [TRequired, TMax 100], VString (cu_FirstName b)),
      (''LastName'', [TRequired, TMax 100], VString (cu_LastName b)),
      (''Email'', [TRequired, TEmail], VString (cu_Email b)),
      (''Password'', [TRequired, TMin 8, TMax 72], VString (cu_Password b)),
      (''PhoneNumber'', [TOmitempty, TE164], VPointer (cu_PhoneNumber b)),
      (''ProfilePhotoURL'', [TOmitempty, TUrl], VPointer (cu_ProfilePhotoURL b)),
      (''Gender'', [TOmitempty, TOneOf [''MALE'', ''FEMALE'', ''OTHER'']], VPointer (cu_Gender b))]"

definition decode_ResendOtpRequest :: "(string \<times> json) list \<Rightarrow> string option" where
  "decode_ResendOtpRequest kvs = string_field ''email'' kvs"

definition checks_ResendOtpRequest :: "string \<Rightarrow> checked_field list" where
  "checks_ResendOtpRequest email = [(''Email'', [TRequired, TEmail], VString email)]"

record VerifyOtpRequest =
  vo_Email :: string
  vo_Otp :: string

definition decode_VerifyOtpRequest :: "(string \<times> json) list \<Rightarrow> VerifyOtpRequest option" where
  "decode_VerifyOtpRequest kvs = (case (string_field ''email'' kvs, string_field ''otp'' kvs) of
      (Some e, Some c) \<Rightarrow> Some \<lparr>vo_Email = e, vo_Otp = c\<rparr> | _ \<Rightarrow> None)"

definition checks_VerifyOtpRequest :: "VerifyOtpRequest \<Rightarrow> checked_field list" where
  "checks_VerifyOtpRequest b = [(''Email'', [TRequired, TEmail], VString (vo_Email b)),
     (''Otp'', [TRequired, TNumeric, TMin 4, TMax 10], VString (vo_Otp b))]"

record LoginRequest =
  lr_Email :: string
  lr_Password :: string

definition decode_LoginRequest :: "(string \<times> json) list \<Rightarrow> LoginRequest option" where
  "decode_LoginRequest kvs = (case (string_field ''email'' kvs, string_field ''password'' kvs) of
      (Some e, Some p) \<Rightarrow> Some \<lparr>lr_Email = e, lr_Password = p\<rparr> | _ \<Rightarrow> None)"

definition checks_LoginRequest :: "LoginRequest \<Rightarrow> checked_field list" where
  "checks_LoginRequest b = [(''Email'', [TRequired, TEmail], VString (lr_Email b)),
     (''Password'', [TRequired, TMin 8, TMax 72], VString (lr_Password b))]"

definition decode_RefreshTokenRequest :: "(string \<times> json) list \<Rightarrow> string option" where
  "decode_RefreshTokenRequest kvs = string_field ''refresh_token'' kvs"

definition checks_RefreshTokenRequest :: "string \<Rightarrow> checked_field list" where
  "checks_RefreshTokenRequest token = [(''RefreshToken'', [TRequired], VString token)]"

record UpdateUserRequest =
  uu_FirstName :: "string option"
  uu_LastName :: "string option"
  uu_PhoneNumber :: "string option"
  uu_ProfilePhotoURL :: "string option"
  uu_Gender :: "string option"

definition decode_UpdateUserRequest :: "(string \<times> json) list \<Rightarrow> UpdateUserRequest option" where
  "decode_UpdateUserRequest kvs =
     (case (pointer_field None ''first_name'' kvs, pointer_field None ''last_name'' kvs,
        pointer_field None ''phone_number'' kvs, pointer_field None ''profile_photo_url'' kvs,
        pointer_field None ''gender'' kvs) of
      (Some f, Some l, Some ph, Some url, Some g) \<Rightarrow>
        Some \<lparr>uu_FirstName = f, uu_LastName = l, uu_PhoneNumber = ph, uu_ProfilePhotoURL = url, uu_Gender = g\<rparr>
    | _ \<Rightarrow> None)"

definition checks_UpdateUserRequest :: "UpdateUserRequest \<Rightarrow> checked_field list" where
  "checks_UpdateUserRequest b =
     [(''FirstName'', [TOmitempty, TMax 100], VPointer (uu_FirstName b)),
      (''LastName'', [TOmitempty, TMax 100], VPointer (uu_LastName b)),
      (''PhoneNumber'', [TOmitempty, TE164], VPointer (uu_PhoneNumber b)),
      (''ProfilePhotoURL'', [TOmitempty, TUrl], VPointer (uu_ProfilePhotoURL b)),
      (''Gender'', [TOmitempty, TOneOf [''MALE'', ''FEMALE'', ''OTHER'']], VPointer (uu_Gender b))]"

definition decode_CreateWalletRequest :: "(string \<times> json) list \<Rightarrow> string option" where
  "decode_CreateWalletRequest kvs = string_field ''currency'' kvs"

definition checks_CreateWalletRequest :: "string \<Rightarrow> checked_field list" where
  "checks_CreateWalletRequest currency = [(''Currency'', [TOmitempty, TLen 3], VString currency)]"

record TransferRequest =
  tq_SenderWalletID :: string
  tq_RecipientAccountNumber :: string
  tq_Amount :: float64

definition decode_TransferRequest :: "(string \<times> json) list \<Rightarrow> TransferRequest option" where
  "decode_TransferRequest kvs =
     (case (string_field ''wallet_id'' kvs, string_field ''account_number'' kvs, float_field ''amount'' kvs) of
      (Some w, Some n, Some a) \<Rightarrow> Some \<lparr>tq_SenderWalletID = w, tq_RecipientAccountNumber = n, tq_Amount = a\<rparr>
    | _ \<Rightarrow> None)"

definition checks_TransferRequest :: "TransferRequest \<Rightarrow> checked_field list" where
  "checks_TransferRequest b =
     [(''SenderWalletID'', [TRequired, TUuid], VString (tq_SenderWalletID b)),
      (''RecipientAccountNumber'', [TRequired, TLen 10, TNumber], VString (tq_RecipientAccountNumber b)),
      (''Amount'', [TRequired, TPositive], VFloat (tq_Amount b))]"

record InitializeDepositRequest =
  dq_WalletID :: string
  dq_Amount :: float64

definition decode_InitializeDepositRequest :: "(string \<times> json) list \<Rightarrow> InitializeDepositRequest option" where
  "decode_InitializeDepositRequest kvs = (case (string_field ''wallet_id'' kvs, float_field ''amount'' kvs) of
      (Some w, Some a) \<Rightarrow> Some \<lparr>dq_WalletID = w, dq_Amount = a\<rparr> | _ \<Rightarrow> None)"

definition checks_InitializeDepositRequest :: "InitializeDepositRequest \<Rightarrow> checked_field list" where
  "checks_InitializeDepositRequest b = [(''WalletID'', [TRequired, TUuid], VString (dq_WalletID b)),
     (''Amount'', [TRequired, TPositive], VFloat (dq_Amount b))]"

section \<open>Response bodies\<close>

record UserResponse =
  ur_ID :: string
  ur_FirstName :: string
  ur_LastName :: string
  ur_Email :: string
  ur_PhoneNumber :: "string option"
  ur_DateOfBirth :: "time option"
  ur_ProfilePhotoURL :: "string option"
  ur_Gender :: string
  ur_IsVerified :: bool

definition MapUserToRouteDomain :: "ServiceUser \<Rightarrow> UserResponse" where
  "MapUserToRouteDomain user = \<lparr>ur_ID = su_ID user, ur_FirstName = su_FirstName user, ur_LastName = su_LastName user,
     ur_Email = su_Email user, ur_PhoneNumber = su_PhoneNumber user, ur_DateOfBirth = su_DateOfBirth user,
     ur_ProfilePhotoURL = su_ProfilePhotoURL user, ur_Gender = su_Gender user, ur_IsVerified = su_IsVerified user\<rparr>"

record LoginResponse =
  lg_AccessToken :: string
  lg_RefreshToken :: string
  lg_TokenType :: string
  lg_User :: UserResponse

record ActivityResponse =
  ac_ID :: nat
  ac_UserID :: string
  ac_Action :: string
  ac_CreatedAt :: string

definition MapActivityToRouteDomain :: "ServiceActivity \<Rightarrow> ActivityResponse" where
  "MapActivityToRouteDomain activity = \<lparr>ac_ID = sa_ID activity, ac_UserID = sa_UserID activity,
     ac_Action = sa_Action activity, ac_CreatedAt = sa_CreatedAt activity\<rparr>"

record ActivityListResponse =
  as_Activities :: "ActivityResponse list"
  as_Total :: int64
  as_Limit :: int64
  as_Offset :: int64

record WalletResponse =
  wr_ID :: string
  wr_AccountNumber :: string
  wr_Currency :: string
  wr_Status :: WalletStatus
  wr_Balance :: float64

definition mapWallet :: "ServiceWallet \<Rightarrow> WalletResponse" where
  "mapWallet wallet = \<lparr>wr_ID = sw_ID wallet, wr_AccountNumber = sw_AccountNumber wallet,
     wr_Currency = sw_Currency wallet, wr_Status = sw_Status wallet, wr_Balance = Major (sw_Balance wallet)\<rparr>"

record TransferResponse =
  tn_ID :: string
  tn_SenderWallet :: string
  tn_RecipientWallet :: string
  tn_AmountMajor :: float64
  tn_Currency :: string
  tn_Status :: TransactionStatus
  tn_FailureReason :: string
  tn_CreatedAt :: string

definition mapTransfer :: "ServiceTransfer \<Rightarrow> TransferResponse" where
  "mapTransfer transfer = \<lparr>tn_ID = sx_ID transfer, tn_SenderWallet = sx_SenderWalletID transfer,
     tn_RecipientWallet = sx_RecipientWalletID transfer, tn_AmountMajor = Major (sx_Amount transfer),
     tn_Currency = sx_Currency transfer, tn_Status = sx_Status transfer,
     tn_FailureReason = sx_FailureReason transfer, tn_CreatedAt = sx_CreatedAt transfer\<rparr>"

record DepositResponse =
  dr_Reference :: string
  dr_AuthorizationURL :: string
  dr_AccessCode :: string
  dr_Amount :: float64
  dr_Currency :: string
  dr_Status :: TransactionStatus

record TransactionResponse =
  xr_Reference :: string
  xr_WalletID :: string
  xr_Amount :: float64
  xr_Status :: TransactionStatus
  xr_Provider :: string
  xr_Kind :: TransactionKind
  xr_Direction :: Direction
  xr_CreatedAt :: string

definition mapTransaction :: "Transaction \<Rightarrow> TransactionResponse" where
  "mapTransaction transaction = \<lparr>xr_Reference = tx_Reference transaction, xr_WalletID = tx_WalletID transaction,
     xr_Amount = Major (tx_Amount transaction), xr_Status = tx_Status transaction,
     xr_Provider = tx_Provider transaction, xr_Kind = tx_Kind transaction,
     xr_Direction = tx_Direction transaction, xr_CreatedAt = tx_CreatedAt transaction\<rparr>"

record TransactionListResponse =
  xl_Transactions :: "TransactionResponse list"
  xl_Total :: int
  xl_Limit :: int64
  xl_Offset :: int64

text \<open>The values handed to the JSON encoder, one constructor for each response struct.\<close>

datatype answer =
    HealthResponse string
  | MessageResponse string
  | UserAnswer UserResponse
  | LoginAnswer LoginResponse
  | ActivityAnswer ActivityListResponse
  | WalletAnswer WalletResponse
  | WalletListResponse "WalletResponse list"
  | TransferAnswer TransferResponse
  | DepositAnswer DepositResponse
  | TransactionAnswer TransactionResponse
  | TransactionListAnswer TransactionListResponse

end
