(* ===== verification/Docs.thy ===== *)
theory Docs
  imports Go_Strings
begin

text \<open>
  \<^verbatim>\<open>src/internal/api/routes/docs.go\<close> and \<^verbatim>\<open>docs-route.go\<close>: the OpenAPI document as the
  program builds it. An operation has its method, path, identifier, summary, tag, whether it
  carries the bearer scheme, and the names of the Go types of its request and responses. The
  descriptions are prose and are left out; rendering the document to YAML and the viewer are
  parameters of the routes.
\<close>

section \<open>Operations\<close>

record operation =
  op_Method :: string
  op_Path :: string
  op_ID :: string
  op_Summary :: string
  op_Tag :: string
  op_Secured :: bool
  op_Request :: "string option"
  op_Responses :: "(int \<times> string option) list"

definition HealthDocs :: "operation list" where
  "HealthDocs = [
     \<lparr>op_Method = ''GET'', op_Path = ''/healthz'', op_ID = ''health-check'',
       op_Summary = ''Health check'', op_Tag = ''System'', op_Secured = False,
       op_Request = None,
       op_Responses = [(200, Some ''HealthResponse'')]\<rparr>]"

definition UserDocs :: "operation list" where
  "UserDocs = [
     \<lparr>op_Method = ''POST'', op_Path = ''/api/v1/users'', op_ID = ''user-create'',
       op_Summary = ''Create a user'', op_Tag = ''Users'', op_Secured = False,
       op_Request = Some ''CreateUserRequest'',
       op_Responses = [(201, Some ''LoginResponse''), (409, Some ''ErrorResponse''), (422, Some ''ErrorResponse'')]\<rparr>,
     \<lparr>op_Method = ''PATCH'', op_Path = ''/api/v1/users/{id}'', op_ID = ''user-update'',
       op_Summary = ''Update a user'', op_Tag = ''Users'', op_Secured = True,
       op_Request = Some ''UpdateUserRequest'',
       op_Responses = [(200, Some ''UserResponse''), (400, Some ''ErrorResponse''), (401, Some ''ErrorResponse''), (403, Some ''ErrorResponse''), (404, Some ''ErrorResponse''), (409, Some ''ErrorResponse''), (422, Some ''ErrorResponse'')]\<rparr>,
     \<lparr>op_Method = ''DELETE'', op_Path = ''/api/v1/users/{id}'', op_ID = ''user-delete'',
       op_Summary = ''Delete a user'', op_Tag = ''Users'', op_Secured = True,
       op_Request = None,
       op_Responses = [(204, None), (401, Some ''ErrorResponse''), (403, Some ''ErrorResponse''), (404, Some ''ErrorResponse'')]\<rparr>,
     \<lparr>op_Method = ''POST'', op_Path = ''/api/v1/users/login'', op_ID = ''user-login'',
       op_Summary = ''Log a user in'', op_Tag = ''Users'', op_Secured = False,
       op_Request = Some ''LoginRequest'',
       op_Responses = [(200, Some ''LoginResponse''), (401, Some ''ErrorResponse''), (403, Some ''ErrorResponse''), (422, Some ''ErrorResponse''), (500, Some ''ErrorResponse'')]\<rparr>,
     \<lparr>op_Method = ''POST'', op_Path = ''/api/v1/users/token/refresh'', op_ID = ''user-token-refresh'',
       op_Summary = ''Refresh an access token'', op_Tag = ''Users'', op_Secured = False,
       op_Request = Some ''RefreshTokenRequest'',
       op_Responses = [(200, Some ''LoginResponse''), (401, Some ''ErrorResponse''), (422, Some ''ErrorResponse''), (500, Some ''ErrorResponse'')]\<rparr>,
     \<lparr>op_Method = ''POST'', op_Path = ''/api/v1/users/otp/resend'', op_ID = ''user-otp-resend'',
       op_Summary = ''Resend a verification OTP'', op_Tag = ''Users'', op_Secured = False,
       op_Request = Some ''ResendOtpRequest'',
       op_Responses = [(200, Some ''MessageResponse''), (422, Some ''ErrorResponse''), (500, Some ''ErrorResponse'')]\<rparr>,
     \<lparr>op_Method = ''POST'', op_Path = ''/api/v1/users/otp/verify'', op_ID = ''user-otp-verify'',
       op_Summary = ''Verify an account with an OTP'', op_Tag = ''Users'', op_Secured = False,
       op_Request = Some ''VerifyOtpRequest'',
       op_Responses = [(200, Some ''MessageResponse''), (400, Some ''ErrorResponse''), (422, Some ''ErrorResponse''), (500, Some ''ErrorResponse'')]\<rparr>]"

definition ActivityDocs :: "operation list" where
  "ActivityDocs = [
     \<lparr>op_Method = ''GET'', op_Path = ''/api/v1/me/activity'', op_ID = ''me-activity-list'',
       op_Summary = ''List my activities'', op_Tag = ''Activities'', op_Secured = True,
       op_Request = None,
       op_Responses = [(200, Some ''ActivityListResponse''), (400, Some ''ErrorResponse''), (401, Some ''ErrorResponse''), (404, Some ''ErrorResponse''), (500, Some ''ErrorResponse'')]\<rparr>]"

definition WalletDocs :: "operation list" where
  "WalletDocs = [
     \<lparr>op_Method = ''POST'', op_Path = ''/api/v1/wallets'', op_ID = ''wallet-create'',
       op_Summary = ''Create a wallet'', op_Tag = ''Wallets'', op_Secured = True,
       op_Request = Some ''CreateWalletRequest'',
       op_Responses = [(201, Some ''WalletResponse''), (400, Some ''ErrorResponse''), (401, Some ''ErrorResponse''), (409, Some ''ErrorResponse''), (500, Some ''ErrorResponse'')]\<rparr>,
     \<lparr>op_Method = ''GET'', op_Path = ''/api/v1/me/wallets'', op_ID = ''me-wallets-list'',
       op_Summary = ''List my wallets'', op_Tag = ''Wallets'', op_Secured = True,
       op_Request = None,
       op_Responses = [(200, Some ''WalletListResponse''), (401, Some ''ErrorResponse''), (502, Some ''ErrorResponse''), (500, Some ''ErrorResponse'')]\<rparr>,
     \<lparr>op_Method = ''GET'', op_Path = ''/api/v1/wallets/{id}'', op_ID = ''wallet-get'',
       op_Summary = ''Get a wallet'', op_Tag = ''Wallets'', op_Secured = True,
       op_Request = None,
       op_Responses = [(200, Some ''WalletResponse''), (401, Some ''ErrorResponse''), (404, Some ''ErrorResponse''), (502, Some ''ErrorResponse''), (500, Some ''ErrorResponse'')]\<rparr>]"

definition PaymentDocs :: "operation list" where
  "PaymentDocs = [
     \<lparr>op_Method = ''POST'', op_Path = ''/api/v1/payments/deposits'', op_ID = ''payment-deposit-initialize'',
       op_Summary = ''Start a deposit'', op_Tag = ''Payments'', op_Secured = True,
       op_Request = Some ''InitializeDepositRequest'',
       op_Responses = [(201, Some ''DepositResponse''), (400, Some ''ErrorResponse''), (401, Some ''ErrorResponse''), (404, Some ''ErrorResponse''), (422, Some ''ErrorResponse''), (502, Some ''ErrorResponse''), (503, Some ''ErrorResponse'')]\<rparr>,
     \<lparr>op_Method = ''POST'', op_Path = ''/api/v1/payments/webhook'', op_ID = ''payment-webhook'',
       op_Summary = ''Receive a payment provider webhook'', op_Tag = ''Payments'', op_Secured = False,
       op_Request = None,
       op_Responses = [(200, Some ''MessageResponse''), (400, Some ''ErrorResponse''), (401, Some ''ErrorResponse''), (503, Some ''ErrorResponse'')]\<rparr>,
     \<lparr>op_Method = ''GET'', op_Path = ''/api/v1/me/transactions'', op_ID = ''me-transactions-list'',
       op_Summary = ''List my transactions'', op_Tag = ''Payments'', op_Secured = True,
       op_Request = None,
       op_Responses = [(200, Some ''TransactionListResponse''), (400, Some ''ErrorResponse''), (401, Some ''ErrorResponse''), (500, Some ''ErrorResponse'')]\<rparr>,
     \<lparr>op_Method = ''GET'', op_Path = ''/api/v1/transactions/{reference}'', op_ID = ''transaction-get'',
       op_Summary = ''Get a transaction'', op_Tag = ''Payments'', op_Secured = True,
       op_Request = None,
       op_Responses = [(200, Some ''TransactionResponse''), (401, Some ''ErrorResponse''), (404, Some ''ErrorResponse''), (500, Some ''ErrorResponse'')]\<rparr>]"

definition TransferDocs :: "operation list" where
  "TransferDocs = [
     \<lparr>op_Method = ''POST'', op_Path = ''/api/v1/transfers'', op_ID = ''transfer-initiate'',
       op_Summary = ''Send money to another account'', op_Tag = ''Transfers'', op_Secured = True,
       op_Request = Some ''TransferRequest'',
       op_Responses = [(202, Some ''TransferResponse''), (400, Some ''ErrorResponse''), (401, Some ''ErrorResponse''), (404, Some ''ErrorResponse''), (422, Some ''ErrorResponse''), (500, Some ''ErrorResponse'')]\<rparr>,
     \<lparr>op_Method = ''GET'', op_Path = ''/api/v1/transfers/{id}'', op_ID = ''transfer-get'',
       op_Summary = ''Get a transfer'', op_Tag = ''Transfers'', op_Secured = True,
       op_Request = None,
       op_Responses = [(200, Some ''TransferResponse''), (401, Some ''ErrorResponse''), (404, Some ''ErrorResponse''), (500, Some ''ErrorResponse'')]\<rparr>]"

section \<open>The document\<close>

definition DocsPath :: string where "DocsPath = ''/docs''"
definition SpecPath :: string where "SpecPath = ''/openapi.yaml''"
definition BearerSecurityScheme :: string where "BearerSecurityScheme = ''bearerAuth''"

definition RoutesDocs :: "operation list list" where
  "RoutesDocs = [HealthDocs, UserDocs, ActivityDocs, WalletDocs, PaymentDocs, TransferDocs]"

record GenerateDocsConfig =
  gd_Title :: string
  gd_Version :: string
  gd_Description :: string
  gd_ServerURL :: string
  gd_Routes :: "operation list list option"

record openapi =
  oa_Title :: string
  oa_Version :: string
  oa_Description :: string
  oa_Security :: string
  oa_Server :: "string option"
  oa_Operations :: "operation list"

text \<open>\<open>GenerateDocs\<close>, also of a nil configuration.\<close>

definition GenerateDocs :: "GenerateDocsConfig option \<Rightarrow> openapi" where
  "GenerateDocs cfg0 =
     (let cfg = (case cfg0 of Some c \<Rightarrow> c | None \<Rightarrow> \<lparr>gd_Title = '''', gd_Version = '''', gd_Description = '''',
            gd_ServerURL = '''', gd_Routes = None\<rparr>)
      in \<lparr>oa_Title = (if gd_Title cfg = '''' then ''eda-monolith'' else gd_Title cfg),
          oa_Version = (if gd_Version cfg = '''' then ''1.0.0'' else gd_Version cfg),
          oa_Description = gd_Description cfg, oa_Security = BearerSecurityScheme,
          oa_Server = (if gd_ServerURL cfg \<noteq> '''' then Some (gd_ServerURL cfg) else None),
          oa_Operations = concat (case gd_Routes cfg of Some docs \<Rightarrow> docs | None \<Rightarrow> RoutesDocs)\<rparr>)"

end
