(* ===== verification/Routes.thy ===== *)
theory Routes
  imports Route_Types Docs User_Service
begin

text \<open>
  The handlers of \<^verbatim>\<open>src/internal/api/routes\<close> and the table \<open>SetupRoutes\<close> mounts them in. A handler
  decodes and validates the request, calls one service operation for the \<open>user_id\<close> of the context,
  and writes the answer. \<open>ServeHTTP\<close> is what the server does with a request the outermost
  middleware (request id, log line, recovery, CORS) passes on.
\<close>

text \<open>\<open>rt_MarshalYAML\<close> is the rendered OpenAPI document or the renderer's error, \<open>rt_UI\<close> the viewer.\<close>

record ('tb, 'x) Routes =
  rt_Pkgs :: "answer http_pkgs"
  rt_Services :: "('tb, 'x) Service"
  rt_MarshalYAML :: "string + string"
  rt_UI :: "incoming \<Rightarrow> answer response"

type_synonym ('tb, 'x) endpoint = "(answer, ('tb, 'x) world) http_handler"

text \<open>The end of a handler: the service's error as it is, or its result with a status.\<close>

definition reply :: "int \<Rightarrow> ('a \<Rightarrow> answer) \<Rightarrow> AppError + 'a \<Rightarrow> answer response" where
  "reply status f r = (case r of Inl appErr \<Rightarrow> WriteAppError appErr | Inr a \<Rightarrow> WriteJSON status (Some (JSON (f a))))"

definition login_response :: "LoginSuccessful \<Rightarrow> answer" where
  "login_response result = LoginAnswer \<lparr>lg_AccessToken = lo_AccessToken result, lg_RefreshToken = lo_RefreshToken result,
     lg_TokenType = ''Bearer'', lg_User = MapUserToRouteDomain (lo_User result)\<rparr>"

section \<open>user-route.go\<close>

definition Route_CreateUser :: "('tb, 'x) Routes \<Rightarrow> ('tb, 'x) endpoint" where
  "Route_CreateUser R = (\<lambda>cx r. case DecodeAndValidate (rt_Pkgs R) decode_CreateUserRequest checks_CreateUserRequest r of
      Inl refused \<Rightarrow> Ret refused
    | Inr body \<Rightarrow>
        bnd (Service_CreateUser (rt_Services R) \<lparr>in_FirstName = cu_FirstName body, in_LastName = cu_LastName body,
          in_Email = cu_Email body, in_Password = cu_Password body, in_PhoneNumber = cu_PhoneNumber body,
          in_DateOfBirth = cu_DateOfBirth body, in_ProfilePhotoURL = cu_ProfilePhotoURL body,
          in_Gender = cu_Gender body\<rparr>) (\<lambda>res. Ret (reply 201 login_response res)))"

definition Route_UpdateUser :: "('tb, 'x) Routes \<Rightarrow> ('tb, 'x) endpoint" where
  "Route_UpdateUser R = (\<lambda>cx r. let i = cx_Params cx ''id'' in
     if i = '''' then Ret (WriteError StatusBadRequest ''Missing user id'' None)
     else case DecodeAndValidate (rt_Pkgs R) decode_UpdateUserRequest checks_UpdateUserRequest r of
       Inl refused \<Rightarrow> Ret refused
     | Inr body \<Rightarrow>
         bnd (Service_UpdateUser (rt_Services R) (cx_UserID cx) i \<lparr>up_FirstName = uu_FirstName body,
           up_LastName = uu_LastName body, up_PhoneNumber = uu_PhoneNumber body,
           up_ProfilePhotoURL = uu_ProfilePhotoURL body, up_Gender = uu_Gender body\<rparr>) (\<lambda>res.
         Ret (reply 200 (\<lambda>user. UserAnswer (MapUserToRouteDomain user)) res)))"

definition Route_DeleteUser :: "('tb, 'x) Routes \<Rightarrow> ('tb, 'x) endpoint" where
  "Route_DeleteUser R = (\<lambda>cx r. let i = cx_Params cx ''id'' in
     if i = '''' then Ret (WriteError StatusBadRequest ''Missing user id'' None)
     else bnd (Service_DeleteUser (rt_Services R) (cx_UserID cx) i) (\<lambda>res. Ret (case res of
       Inl appErr \<Rightarrow> WriteAppError appErr | Inr _ \<Rightarrow> WriteJSON 204 None)))"

definition Route_Login :: "('tb, 'x) Routes \<Rightarrow> ('tb, 'x) endpoint" where
  "Route_Login R = (\<lambda>cx r. case DecodeAndValidate (rt_Pkgs R) decode_LoginRequest checks_LoginRequest r of
      Inl refused \<Rightarrow> Ret refused
    | Inr body \<Rightarrow> bnd (LoginUser (rt_Services R) (lr_Email body) (lr_Password body)) (\<lambda>res. Ret (reply 200 login_response res)))"

definition Route_RefreshToken :: "('tb, 'x) Routes \<Rightarrow> ('tb, 'x) endpoint" where
  "Route_RefreshToken R = (\<lambda>cx r. case DecodeAndValidate (rt_Pkgs R) decode_RefreshTokenRequest checks_RefreshTokenRequest r of
      Inl refused \<Rightarrow> Ret refused
    | Inr body \<Rightarrow> bnd (RefreshUserToken (rt_Services R) body) (\<lambda>res. Ret (reply 200 login_response res)))"

definition Route_ResendOtp :: "('tb, 'x) Routes \<Rightarrow> ('tb, 'x) endpoint" where
  "Route_ResendOtp R = (\<lambda>cx r. case DecodeAndValidate (rt_Pkgs R) decode_ResendOtpRequest checks_ResendOtpRequest r of
      Inl refused \<Rightarrow> Ret refused
    | Inr body \<Rightarrow> bnd (ResendUserOtp (rt_Services R) body) (\<lambda>res. Ret (reply 200 MessageResponse res)))"

definition Route_VerifyOtp :: "('tb, 'x) Routes \<Rightarrow> ('tb, 'x) endpoint" where
  "Route_VerifyOtp R = (\<lambda>cx r. case DecodeAndValidate (rt_Pkgs R) decode_VerifyOtpRequest checks_VerifyOtpRequest r of
      Inl refused \<Rightarrow> Ret refused
    | Inr body \<Rightarrow> bnd (VerifyOtp (rt_Services R) (vo_Email body) (vo_Otp body)) (\<lambda>res. Ret (reply 200 MessageResponse res)))"

section \<open>activity-route.go\<close>

text \<open>The two optional query parameters of a page.\<close>

definition query_page ::
  "incoming \<Rightarrow> (ActivityPageParam option \<Rightarrow> (answer response, 'w) prog) \<Rightarrow> (answer response, 'w) prog" where
  "query_page r k = (case QueryInt r ''limit'' of
      Inl err \<Rightarrow> Ret (WriteError StatusBadRequest ''Invalid limit'' (Some err))
    | Inr limit \<Rightarrow> (case QueryInt r ''offset'' of
        Inl err \<Rightarrow> Ret (WriteError StatusBadRequest ''Invalid offset'' (Some err))
      | Inr offset \<Rightarrow> k (Some \<lparr>pg_Limit = limit, pg_Offset = offset\<rparr>)))"

definition activity_list_response :: "ActivityList \<Rightarrow> answer" where
  "activity_list_response result = ActivityAnswer \<lparr>as_Activities = map MapActivityToRouteDomain (al_Activities result),
     as_Total = al_Total result, as_Limit = al_Limit result, as_Offset = al_Offset result\<rparr>"

definition Route_GetMyActivities :: "('tb, 'x) Routes \<Rightarrow> ('tb, 'x) endpoint" where
  "Route_GetMyActivities R = (\<lambda>cx r. query_page r (\<lambda>page.
     bnd (GetMyActivities (rt_Services R) (cx_UserID cx) page) (\<lambda>res. Ret (reply 200 activity_list_response res))))"

section \<open>wallet-route.go\<close>

definition Route_CreateWallet :: "('tb, 'x) Routes \<Rightarrow> ('tb, 'x) endpoint" where
  "Route_CreateWallet R = (\<lambda>cx r. case DecodeAndValidate (rt_Pkgs R) decode_CreateWalletRequest checks_CreateWalletRequest r of
      Inl refused \<Rightarrow> Ret refused
    | Inr body \<Rightarrow>
        bnd (Service_CreateWallet (rt_Services R) (cx_UserID cx) body) (\<lambda>res. Ret (reply 201 (\<lambda>w. WalletAnswer (mapWallet w)) res)))"

definition Route_ListMyWallets :: "('tb, 'x) Routes \<Rightarrow> ('tb, 'x) endpoint" where
  "Route_ListMyWallets R = (\<lambda>cx r.
     bnd (ListMyWallets (rt_Services R) (cx_UserID cx)) (\<lambda>res. Ret (reply 200 (\<lambda>ws. WalletListResponse (map mapWallet ws)) res)))"

definition Route_GetWallet :: "('tb, 'x) Routes \<Rightarrow> ('tb, 'x) endpoint" where
  "Route_GetWallet R = (\<lambda>cx r.
     bnd (GetWallet (rt_Services R) (cx_UserID cx) (cx_Params cx ''id'')) (\<lambda>res. Ret (reply 200 (\<lambda>w. WalletAnswer (mapWallet w)) res)))"

section \<open>transfer-route.go\<close>

definition Route_InitiateTransfer :: "('tb, 'x) Routes \<Rightarrow> ('tb, 'x) endpoint" where
  "Route_InitiateTransfer R = (\<lambda>cx r. case DecodeAndValidate (rt_Pkgs R) decode_TransferRequest checks_TransferRequest r of
      Inl refused \<Rightarrow> Ret refused
    | Inr body \<Rightarrow>
        bnd (InitiateTransfer (rt_Services R) (cx_UserID cx) \<lparr>it_SenderWalletID = tq_SenderWalletID body,
          it_RecipientAccountNumber = tq_RecipientAccountNumber body, it_Amount = tq_Amount body\<rparr>) (\<lambda>res.
        Ret (reply 202 (\<lambda>t. TransferAnswer (mapTransfer t)) res)))"

definition Route_GetTransfer :: "('tb, 'x) Routes \<Rightarrow> ('tb, 'x) endpoint" where
  "Route_GetTransfer R = (\<lambda>cx r.
     bnd (GetTransfer (rt_Services R) (cx_UserID cx) (cx_Params cx ''id'')) (\<lambda>res.
       Ret (reply 200 (\<lambda>t. TransferAnswer (mapTransfer t)) res)))"

section \<open>payment-route.go\<close>

definition MaxWebhookBodyBytes :: nat where "MaxWebhookBodyBytes = 2 ^ 20"

definition deposit_response :: "DepositInitialized \<Rightarrow> answer" where
  "deposit_response result = DepositAnswer \<lparr>dr_Reference = di_Reference result, dr_AuthorizationURL = di_AuthorizationURL result,
     dr_AccessCode = di_AccessCode result, dr_Amount = Major (di_Amount result), dr_Currency = di_Currency result,
     dr_Status = di_Status result\<rparr>"

definition Route_InitializeDeposit :: "('tb, 'x) Routes \<Rightarrow> ('tb, 'x) endpoint" where
  "Route_InitializeDeposit R = (\<lambda>cx r. case DecodeAndValidate (rt_Pkgs R) decode_InitializeDepositRequest
        checks_InitializeDepositRequest r of
      Inl refused \<Rightarrow> Ret refused
    | Inr body \<Rightarrow>
        bnd (InitializeDeposit (rt_Services R) (cx_UserID cx) (dq_Amount body) (dq_WalletID body)) (\<lambda>res.
        Ret (reply 201 deposit_response res)))"

text \<open>\<open>io.ReadAll(io.LimitReader(body, MaxWebhookBodyBytes))\<close>: a longer body is cut off without an
  error, and only a stream that breaks before the limit is one.\<close>

definition read_limited :: "incoming \<Rightarrow> string + string" where
  "read_limited r =
     (if MaxWebhookBodyBytes \<le> length (rq_Body r) then Inr (take MaxWebhookBodyBytes (rq_Body r))
      else case rq_BodyErr r of Some m \<Rightarrow> Inl m | None \<Rightarrow> Inr (rq_Body r))"

definition Route_PaymentWebhook :: "('tb, 'x) Routes \<Rightarrow> ('tb, 'x) endpoint" where
  "Route_PaymentWebhook R = (\<lambda>cx r. case read_limited r of
      Inl m \<Rightarrow> Ret (WriteError StatusBadRequest ''Could Not Read Webhook Body'' (Some (Opaque m)))
    | Inr body \<Rightarrow>
        bnd (Service_HandlePaymentWebhook (rt_Services R) (rq_Header r PaystackSignatureHeader) body) (\<lambda>res.
        Ret (reply 200 (\<lambda>_. MessageResponse ''Webhook Received'') res)))"

definition Route_GetTransaction :: "('tb, 'x) Routes \<Rightarrow> ('tb, 'x) endpoint" where
  "Route_GetTransaction R = (\<lambda>cx r.
     bnd (GetTransaction (rt_Services R) (cx_UserID cx) (cx_Params cx ''reference'')) (\<lambda>res.
       Ret (reply 200 (\<lambda>t. TransactionAnswer (mapTransaction t)) res)))"

definition transaction_list_response :: "TransactionList \<Rightarrow> answer" where
  "transaction_list_response result = TransactionListAnswer \<lparr>xl_Transactions = map mapTransaction (tl_Transactions result),
     xl_Total = tl_Total result, xl_Limit = tl_Limit result, xl_Offset = tl_Offset result\<rparr>"

definition Route_ListMyTransactions :: "('tb, 'x) Routes \<Rightarrow> ('tb, 'x) endpoint" where
  "Route_ListMyTransactions R = (\<lambda>cx r. query_page r (\<lambda>page.
     bnd (ListMyTransactions (rt_Services R) (cx_UserID cx) page) (\<lambda>res. Ret (reply 200 transaction_list_response res))))"

section \<open>health-route.go and docs-route.go\<close>

definition Route_HealthCheck :: "('tb, 'x) endpoint" where
  "Route_HealthCheck = (\<lambda>cx r. Ret (WriteJSON 200 (Some (JSON (HealthResponse ''ok'')))))"

definition ServeOpenAPISpec :: "('tb, 'x) Routes \<Rightarrow> ('tb, 'x) endpoint" where
  "ServeOpenAPISpec R = (\<lambda>cx r. Ret (case rt_MarshalYAML R of
      Inl m \<Rightarrow> WriteError StatusInternalServerError ''Could not generate OpenAPI document'' (Some (Opaque m))
    | Inr doc \<Rightarrow> \<lparr>rs_Status = 200, rs_ContentType = ''application/yaml'', rs_Body = Some (Document doc)\<rparr>))"

section \<open>route.go\<close>

text \<open>One line of the router; a guarded one stands in the group behind the three middlewares. Method
  \<open>*\<close> stands for \<open>Handle\<close>, which takes every method.\<close>

record ('tb, 'x) route =
  ro_Method :: string
  ro_Pattern :: string
  ro_Guarded :: bool
  ro_Handler :: "('tb, 'x) endpoint"

definition ro_Key :: "('tb, 'x) route \<Rightarrow> string \<times> string" where
  "ro_Key ro = (ro_Method ro, ro_Pattern ro)"

definition open_route :: "string \<Rightarrow> string \<Rightarrow> ('tb, 'x) endpoint \<Rightarrow> ('tb, 'x) route" where
  "open_route m p h = \<lparr>ro_Method = m, ro_Pattern = p, ro_Guarded = False, ro_Handler = h\<rparr>"

definition guarded_route :: "string \<Rightarrow> string \<Rightarrow> ('tb, 'x) endpoint \<Rightarrow> ('tb, 'x) route" where
  "guarded_route m p h = \<lparr>ro_Method = m, ro_Pattern = p, ro_Guarded = True, ro_Handler = h\<rparr>"

definition SetupDocsRoutes :: "('tb, 'x) Routes \<Rightarrow> ('tb, 'x) route list" where
  "SetupDocsRoutes R =
     [open_route ''GET'' SpecPath (ServeOpenAPISpec R),
      open_route ''*'' DocsPath (\<lambda>cx r. Ret (rt_UI R r)),
      open_route ''*'' (DocsPath @ ''/*'') (\<lambda>cx r. Ret (rt_UI R r))]"

definition SetupRoutes :: "('tb, 'x) Routes \<Rightarrow> ('tb, 'x) route list" where
  "SetupRoutes R = SetupDocsRoutes R @
     [open_route ''GET'' ''/healthz'' Route_HealthCheck,
      open_route ''POST'' ''/api/v1/users'' (Route_CreateUser R),
      open_route ''POST'' ''/api/v1/users/otp/resend'' (Route_ResendOtp R),
      open_route ''POST'' ''/api/v1/users/otp/verify'' (Route_VerifyOtp R),
      open_route ''POST'' ''/api/v1/users/login'' (Route_Login R),
      open_route ''POST'' ''/api/v1/users/token/refresh'' (Route_RefreshToken R),
      open_route ''POST'' ''/api/v1/payments/webhook'' (Route_PaymentWebhook R),
      guarded_route ''PATCH'' ''/api/v1/users/{id}'' (Route_UpdateUser R),
      guarded_route ''DELETE'' ''/api/v1/users/{id}'' (Route_DeleteUser R),
      guarded_route ''GET'' ''/api/v1/me/activity'' (Route_GetMyActivities R),
      guarded_route ''POST'' ''/api/v1/wallets'' (Route_CreateWallet R),
      guarded_route ''GET'' ''/api/v1/me/wallets'' (Route_ListMyWallets R),
      guarded_route ''GET'' ''/api/v1/wallets/{id}'' (Route_GetWallet R),
      guarded_route ''POST'' ''/api/v1/payments/deposits'' (Route_InitializeDeposit R),
      guarded_route ''POST'' ''/api/v1/transfers'' (Route_InitiateTransfer R),
      guarded_route ''GET'' ''/api/v1/transfers/{id}'' (Route_GetTransfer R),
      guarded_route ''GET'' ''/api/v1/me/transactions'' (Route_ListMyTransactions R),
      guarded_route ''GET'' ''/api/v1/transactions/{reference}'' (Route_GetTransaction R)]"

text \<open>A route with the middlewares of its group, outermost first.\<close>

definition mounted :: "('tb, 'x) Routes \<Rightarrow> ('tb, 'x) route \<Rightarrow> ('tb, 'x) endpoint" where
  "mounted R ro =
     (if ro_Guarded ro
      then jwtauth_Verifier (rt_Pkgs R) (sv_jwt (rt_Services R)) (Authenticator (AuthMiddleWare (ro_Handler ro)))
      else ro_Handler ro)"

definition ServeHTTP :: "('tb, 'x) Routes \<Rightarrow> incoming \<Rightarrow> (answer response, ('tb, 'x) world) prog" where
  "ServeHTTP R r = (case hp_Match (rt_Pkgs R) (map ro_Key (SetupRoutes R)) (rq_Method r) (rq_Path r) of
      None \<Rightarrow> Ret (hp_Unmatched (rt_Pkgs R) r)
    | Some (key, params) \<Rightarrow> (case List.find (\<lambda>ro. ro_Key ro = key) (SetupRoutes R) of
        None \<Rightarrow> Ret (hp_Unmatched (rt_Pkgs R) r)
      | Some ro \<Rightarrow> mounted R ro
          \<lparr>cx_Token = Inl (Opaque ''no token found''), cx_UserID = None, cx_Params = params\<rparr> r))"

end
