(* ===== verification/Responses.thy ===== *)
theory Responses
  imports Routes
begin

text \<open>
  Which statuses each service operation can answer, and which responses each route. \<open>yields Q p\<close> says
  that every value the program \<open>p\<close> can return satisfies \<open>Q\<close>, whatever the world answers; it is
  closed under sequencing, so the statuses of an operation are read off its definition.
\<close>

section \<open>The values a program can return\<close>

primrec yields :: "('a \<Rightarrow> bool) \<Rightarrow> ('a, 'w) prog \<Rightarrow> bool" where
  "yields Q (Ret a) \<longleftrightarrow> Q a"
| "yields Q (Atom f) \<longleftrightarrow> (\<forall>w. fst (map_prod (yields Q) id (f w)))"

lemma yields_run: "yields Q p \<Longrightarrow> run p w = (a, w') \<Longrightarrow> Q a"
proof (induction p arbitrary: w rule: prog_induct)
  case (Atom f)
  obtain p' v where f: "f w = (p', v)" by fastforce
  with Atom.prems have "yields Q p'" "run p' v = (a, w')" by (auto dest: spec[of _ w])
  then show ?case using Atom.IH[of w v] f by simp
qed simp

lemma yields_bnd: "yields R p \<Longrightarrow> (\<And>a. R a \<Longrightarrow> yields Q (k a)) \<Longrightarrow> yields Q (bnd p k)"
proof (induction p rule: prog_induct)
  case (Atom f)
  show ?case unfolding bnd.simps yields.simps
  proof
    fix w
    obtain p' v where f: "f w = (p', v)" by fastforce
    with Atom.prems(1) have "yields R p'" by (auto dest: spec[of _ w])
    with Atom.IH[of w] Atom.prems(2) f show "fst (map_prod (yields Q) id (map_prod (\<lambda>p. bnd p k) id (f w)))" by simp
  qed
qed simp

lemma yields_any: "yields (\<lambda>_. True) p"
  by (induction p rule: prog_induct) auto

lemma yields_then: "(\<And>a. yields Q (k a)) \<Longrightarrow> yields Q (bnd p k)"
  by (rule yields_bnd[OF yields_any])

lemma yields_mono: "yields Q p \<Longrightarrow> (\<And>a. Q a \<Longrightarrow> Q' a) \<Longrightarrow> yields Q' p"
  by (induction p rule: prog_induct) auto

lemma yields_Ret: "Q a \<Longrightarrow> yields Q (Ret a)"
  by simp

lemma yields_case:
  "(\<And>a. x = Inl a \<Longrightarrow> yields Q (f a)) \<Longrightarrow> (\<And>b. x = Inr b \<Longrightarrow> yields Q (g b)) \<Longrightarrow> yields Q (case x of Inl a \<Rightarrow> f a | Inr b \<Rightarrow> g b)"
  "yields Q n \<Longrightarrow> (\<And>b. yields Q (s b)) \<Longrightarrow> yields Q (case y of None \<Rightarrow> n | Some b \<Rightarrow> s b)"
  "(c \<Longrightarrow> yields Q p) \<Longrightarrow> (\<not> c \<Longrightarrow> yields Q q) \<Longrightarrow> yields Q (if c then p else q)"
  "(\<And>a b. yields Q (h a b)) \<Longrightarrow> yields Q (case z of (a, b) \<Rightarrow> h a b)"
  by (auto split: sum.split option.split prod.split)

section \<open>The statuses of the services\<close>

definition refused_with :: "int set \<Rightarrow> AppError + 'a \<Rightarrow> bool" where
  "refused_with S r \<longleftrightarrow> (case r of Inl e \<Rightarrow> ae_Code e \<in> S | Inr _ \<Rightarrow> True)"

abbreviation "fails_in S p \<equiv> yields (refused_with S) p"

lemma refused_with_simps [simp]:
  "refused_with S (Inr a)" "refused_with S (Inl e) \<longleftrightarrow> ae_Code e \<in> S"
  by (simp_all add: refused_with_def)

lemma fails_app_fail: "code \<in> S \<Longrightarrow> fails_in S (app_fail code m e)"
  by (simp add: app_fail_def)

lemma fails_not_found_or: "404 \<in> S \<Longrightarrow> 500 \<in> S \<Longrightarrow> fails_in S (not_found_or a b e)"
  by (simp add: not_found_or_def fails_app_fail)

text \<open>Sequencing two operations of the services: the first one's refusal is passed on.\<close>

lemma fails_pass:
  assumes "fails_in S p" and "\<And>a. fails_in S (k a)"
  shows "fails_in S (bnd p (\<lambda>r. case r of Inl e \<Rightarrow> Ret (Inl e) | Inr a \<Rightarrow> k a))"
  by (rule yields_bnd[OF assms(1)]) (auto split: sum.split simp: assms(2))

lemma fails_as_caller: "401 \<in> S \<Longrightarrow> (\<And>u. fails_in S (k u)) \<Longrightarrow> fails_in S (as_caller c k)"
  by (auto simp: as_caller_def CallerID_def split: option.split)

lemma fails_own_wallet:
  "404 \<in> S \<Longrightarrow> 500 \<in> S \<Longrightarrow> (\<And>w. fails_in S (k w)) \<Longrightarrow> fails_in S (own_wallet s u i k)"
  unfolding own_wallet_def by (rule yields_then) (auto split: sum.split simp: fails_app_fail fails_not_found_or)

lemma fails_issue_tokens: "500 \<in> S \<Longrightarrow> fails_in S (issue_tokens s u)"
  unfolding issue_tokens_def GenerateAccessToken_def GenerateRefreshToken_def
  by (intro fails_pass yields_then yields_case yields_Ret fails_app_fail) simp_all

lemma fails_ValidatOwner: "403 \<in> S \<Longrightarrow> fails_in S (ValidatOwner s a u)"
  unfolding ValidatOwner_def by (intro yields_then yields_case yields_Ret fails_app_fail) simp_all

lemma fails_withBalances: "500 \<in> S \<Longrightarrow> 502 \<in> S \<Longrightarrow> fails_in S (withBalances s ws)"
  unfolding withBalances_def Let_def by (intro yields_then yields_case yields_Ret fails_app_fail) simp_all

lemmas fails_rules = fails_pass yields_then yields_case yields_Ret fails_app_fail fails_not_found_or
  fails_as_caller fails_own_wallet fails_issue_tokens fails_ValidatOwner fails_withBalances

lemma user_statuses:
  "fails_in {409, 500} (Service_CreateUser s u)" "fails_in {500} (ResendUserOtp s e)"
  "fails_in {400, 500} (VerifyOtp s e c)" "fails_in {401, 403, 500} (LoginUser s e p)"
  "fails_in {401, 500} (RefreshUserToken s t)" "fails_in {0, 400, 403, 404, 409, 500} (Service_UpdateUser s cl a up)"
  "fails_in {0, 403, 404, 500} (Service_DeleteUser s cl a)" "fails_in {401, 404, 500} (GetMyActivities s cl pg)"
proof -
  have register: "fails_in {409, 500} (register s param)" for param
    unfolding register_def by (intro fails_rules) simp_all
  show "fails_in {409, 500} (Service_CreateUser s u)"
    unfolding Service_CreateUser_def by (intro register fails_rules) simp_all
  have parse: "fails_in {401, 500} (ParseRefreshToken s t)"
    unfolding ParseRefreshToken_def Let_def by (intro fails_rules) simp_all
  show "fails_in {401, 500} (RefreshUserToken s t)"
    unfolding RefreshUserToken_def by (rule fails_pass[OF parse]) (intro fails_rules; simp)
qed (unfold ResendUserOtp_def VerifyOtp_def LoginUser_def Service_UpdateUser_def Service_DeleteUser_def GetMyActivities_def
    no_user_id_def Let_def, (intro fails_rules; simp)+)

lemma wallet_statuses:
  "fails_in {400, 401, 409, 500} (Service_CreateWallet s cl c)" "fails_in {401, 500, 502} (ListMyWallets s cl)"
  "fails_in {401, 404, 500, 502} (GetWallet s cl i)"
  unfolding Service_CreateWallet_def ListMyWallets_def Let_def
    apply (intro fails_rules; simp)+
  unfolding GetWallet_def
  apply (rule fails_as_caller, simp, rule fails_own_wallet, simp, simp)
  apply (rule yields_bnd[OF fails_withBalances[of "{401, 404, 500, 502}"]], simp, simp)
  by (auto split: sum.split)

lemma transfer_statuses:
  "fails_in {400, 401, 404, 422, 500} (InitiateTransfer s cl p)" "fails_in {401, 404, 500} (GetTransfer s cl i)"
proof -
  have check: "yields (\<lambda>r. case r of Some e \<Rightarrow> ae_Code e \<in> {422, 500} | None \<Rightarrow> True) (checkSufficientBalance s w a)" for w a
    unfolding checkSufficientBalance_def by (intro yields_then yields_case yields_Ret) (auto split: sum.split)
  have start: "fails_in {400, 401, 404, 422, 500} (start_transfer s u a x y)" for u a x y
    unfolding start_transfer_def
    by (rule yields_bnd[OF check]) (auto split: option.split intro!: fails_rules)
  show "fails_in {400, 401, 404, 422, 500} (InitiateTransfer s cl p)"
    unfolding InitiateTransfer_def Let_def by (intro start fails_rules) simp_all
  show "fails_in {401, 404, 500} (GetTransfer s cl i)"
    unfolding GetTransfer_def by (intro fails_rules) simp_all
qed

lemma deposit_statuses:
  "fails_in {401, 404, 422, 500, 502, 503} (InitializeDeposit s cl m i)"
  "fails_in {400, 401, 503} (Service_HandlePaymentWebhook s sg b)" "fails_in {401, 404, 500} (GetTransaction s cl ref)"
proof -
  have checkout: "fails_in {401, 404, 422, 500, 502, 503} (start_checkout s V u a us wl it)" for V u a us wl it
    unfolding start_checkout_def by (intro fails_rules) simp_all
  show "fails_in {401, 404, 422, 500, 502, 503} (InitializeDeposit s cl m i)"
    unfolding InitializeDeposit_def Let_def by (intro checkout fails_rules) simp_all
  show "fails_in {400, 401, 503} (Service_HandlePaymentWebhook s sg b)"
    unfolding Service_HandlePaymentWebhook_def by (intro fails_rules) simp_all
  show "fails_in {401, 404, 500} (GetTransaction s cl ref)"
    unfolding GetTransaction_def transferAsTransaction_def by (intro fails_rules) simp_all
qed

lemma history_statuses: "fails_in {401, 500, 502} (ListMyTransactions s cl pg)"
proof -
  have settled: "fails_in {401, 500, 502} (settledTransactions s u n)" for u n
    unfolding settledTransactions_def by (intro fails_rules) simp_all
  have unsettled: "fails_in {401, 500, 502} (unsettledTransactions s u n)" for u n
    unfolding unsettledTransactions_def by (intro fails_rules) simp_all
  show ?thesis
    unfolding ListMyTransactions_def Let_def by (intro settled unsettled fails_rules) simp_all
qed

lemmas service_statuses = user_statuses wallet_statuses transfer_statuses deposit_statuses history_statuses

end
