(* ===== verification/Example_Routes.thy ===== *)
theory Example_Routes
  imports Routes Example_Worlds
begin

text \<open>
  A concrete set of HTTP packages for the example environment: paths match literally, a token is the
  whole \<open>Authorization\<close> header, the body \<open>order\<close> is one transfer request, and the validator checks
  exactly the documented tags.
\<close>

definition ex_tags_hold :: "checked_field \<Rightarrow> bool" where
  "ex_tags_hold f = (case f of (name, tags, v) \<Rightarrow>
     TOmitempty \<in> set tags \<and> zero_value v \<or> list_all (\<lambda>t. tag_holds (\<lambda>s. undec s \<noteq> None) t v) tags)"

definition ex_order :: json where
  "ex_order = JObj [(''wallet_id'', JStr ''10''), (''account_number'', JStr ''1000000011''), (''amount'', JNum ''2'')]"

definition ex_pkgs :: "answer http_pkgs" where
  "ex_pkgs = \<lparr>hp_Decode = (\<lambda>b e. if b = ''order'' then Inr ex_order else Inl ''EOF''),
     hp_Struct = (\<lambda>fs. if list_all ex_tags_hold fs then None else Some ''invalid''),
     hp_FindToken = (\<lambda>r. rq_Header r ''Authorization''),
     hp_Match = (\<lambda>keys m p. if (m, p) \<in> set keys then Some ((m, p), \<lambda>_. '''') else None),
     hp_Unmatched = (\<lambda>r. \<lparr>rs_Status = 404, rs_ContentType = ''text/plain'', rs_Body = None\<rparr>)\<rparr>"

definition ex_claims :: "string \<Rightarrow> jwt_claims" where
  "ex_claims kind = \<lparr>jc_sub = Some ''1'', jc_email = '''', jc_first_name = '''', jc_last_name = '''', jc_is_verified = True,
     jc_token_type = Some kind, jc_exp = 2\<rparr>"

text \<open>The token of a kind is the kind's name, for user 1.\<close>

definition ex_jwt :: jwt_pkg where
  "ex_jwt = \<lparr>jw_Encode = (\<lambda>c. Inr ''token''),
     jw_VerifyToken = (\<lambda>t n. if t \<in> {TokenTypeAccess, TokenTypeRefresh} then Inr (ex_claims t) else Inl (Opaque ''invalid''))\<rparr>"

definition ex_routes :: "(book, task list) Routes" where
  "ex_routes = \<lparr>rt_Pkgs = ex_pkgs, rt_Services = ex_service\<lparr>sv_jwt := ex_jwt\<rparr>, rt_MarshalYAML = Inr ''openapi'',
     rt_UI = (\<lambda>r. WriteJSON 200 None)\<rparr>"

definition ex_incoming :: "string \<Rightarrow> string \<Rightarrow> string \<Rightarrow> string \<Rightarrow> incoming" where
  "ex_incoming m p token body = \<lparr>rq_Method = m, rq_Path = p,
     rq_Header = (\<lambda>h. if h = ''Authorization'' then token else ''''), rq_Query = (\<lambda>_. ''''),
     rq_Body = body, rq_BodyErr = None\<rparr>"

lemma ex_routes_sel [simp]:
  "rt_Pkgs ex_routes = ex_pkgs" "sv_jwt (rt_Services ex_routes) = ex_jwt"
  "hp_Match ex_pkgs keys m p = (if (m, p) \<in> set keys then Some ((m, p), \<lambda>_. '''') else None)"
  "hp_FindToken ex_pkgs r = rq_Header r ''Authorization''"
  by (simp_all add: ex_routes_def ex_pkgs_def)

lemma ex_validator_ok: "validator_ok (\<lambda>s. undec s \<noteq> None) (hp_Struct ex_pkgs)"
  unfolding validator_ok_def
proof (intro allI impI)
  fix fs assume "hp_Struct ex_pkgs fs = None"
  then have "list_all ex_tags_hold fs" by (simp add: ex_pkgs_def split: if_splits)
  then show "\<forall>(name, tags, v) \<in> set fs. TOmitempty \<in> set tags \<and> zero_value v \<or> (\<forall>t \<in> set tags. tag_holds (\<lambda>s. undec s \<noteq> None) t v)"
    by (auto simp: list_all_iff ex_tags_hold_def)
qed

lemma ex_routes_ok: "system_ok ex_uuid ex_ledger ex_posted ex_worker (rt_Services ex_routes) ex_world"
  using ex_system_ok by (simp add: system_ok_def service_ok_def ex_routes_def)

end
