(* ===== verification/Route_Properties.thy ===== *)
theory Route_Properties
  imports Responses Example_Routes
begin

text \<open>
  The HTTP interface: what each route answers and how that compares with the OpenAPI document, who
  gets past the token check, which bodies reach the services, and that serving requests keeps the
  invariant of the ledger.
\<close>

section \<open>Answers\<close>

fun answer_schema :: "answer \<Rightarrow> string" where
  "answer_schema (HealthResponse _) = ''HealthResponse''"
| "answer_schema (MessageResponse _) = ''MessageResponse''"
| "answer_schema (UserAnswer _) = ''UserResponse''"
| "answer_schema (LoginAnswer _) = ''LoginResponse''"
| "answer_schema (ActivityAnswer _) = ''ActivityListResponse''"
| "answer_schema (WalletAnswer _) = ''WalletResponse''"
| "answer_schema (WalletListResponse _) = ''WalletListResponse''"
| "answer_schema (TransferAnswer _) = ''TransferResponse''"
| "answer_schema (DepositAnswer _) = ''DepositResponse''"
| "answer_schema (TransactionAnswer _) = ''TransactionResponse''"
| "answer_schema (TransactionListAnswer _) = ''TransactionListResponse''"

text \<open>The Go type of a response's body.\<close>

definition body_schema :: "answer response \<Rightarrow> string option" where
  "body_schema resp = (case rs_Body resp of
      None \<Rightarrow> None
    | Some (ErrorBody _) \<Rightarrow> Some ''ErrorResponse''
    | Some (JSON a) \<Rightarrow> Some (answer_schema a)
    | Some (Document _) \<Rightarrow> Some ''document'')"

definition well_formed :: "answer response \<Rightarrow> bool" where
  "well_formed resp \<longleftrightarrow> rs_ContentType resp = ''application/json'' \<and>
     (\<forall>er. rs_Body resp = Some (ErrorBody er) \<longrightarrow> er_Code er = rs_Status resp \<and> er_Message er \<noteq> '''')"

definition answers :: "(int \<times> string option) set \<Rightarrow> answer response \<Rightarrow> bool" where
  "answers A resp \<longleftrightarrow> well_formed resp \<and> (rs_Status resp, body_schema resp) \<in> A"

definition errors_of :: "int set \<Rightarrow> (int \<times> string option) set" where
  "errors_of E = (\<lambda>c. (c, Some ''ErrorResponse'')) ` E"

definition named_codes :: "int set" where
  "named_codes = {400, 401, 403, 404, 409, 422, 500, 502, 503}"

text \<open>What a route answers: its one success, and errors.\<close>

definition answer_set :: "int \<Rightarrow> string option \<Rightarrow> int set \<Rightarrow> (int \<times> string option) set" where
  "answer_set s schema E = insert (s, schema) (errors_of E)"

lemma answers_error:
  assumes "(if ae_Code e = 0 then 500 else ae_Code e) = c" and "c \<in> E" and "c \<in> named_codes"
  shows "answers (answer_set s schema E) (WriteAppError e)"
proof -
  have "StatusText c \<noteq> ''''" using assms(3) by (auto simp: named_codes_def StatusText_def)
  then show ?thesis using assms(1,2)
    by (auto simp: answers_def answer_set_def errors_of_def well_formed_def body_schema_def WriteAppError_def WriteJSON_def Let_def)
qed

lemma answers_WriteError:
  "c \<in> E \<Longrightarrow> c \<in> named_codes \<Longrightarrow> answers (answer_set s schema E) (WriteError c m e)"
  unfolding WriteError_def by (rule answers_error[of _ c]) (auto simp: named_codes_def)

lemma answers_json: "schema = Some (answer_schema a) \<Longrightarrow> answers (answer_set s schema E) (WriteJSON s (Some (JSON a)))"
  by (simp add: answers_def answer_set_def well_formed_def body_schema_def WriteJSON_def)

lemma answers_reply:
  assumes "refused_with S res" and "S - {0} \<subseteq> E" and "0 \<in> S \<Longrightarrow> 500 \<in> E" and "E \<subseteq> named_codes"
    and "\<And>a. schema = Some (answer_schema (f a))"
  shows "answers (answer_set s schema E) (reply s f res)"
proof (cases res)
  case (Inl e)
  let ?c = "if ae_Code e = 0 then 500 else ae_Code e"
  have "?c \<in> E" using assms(1-3) Inl by auto
  then have "answers (answer_set s schema E) (WriteAppError e)" using assms(4) by (intro answers_error[OF refl]) auto
  then show ?thesis using Inl by (simp add: reply_def)
next
  case (Inr a)
  then show ?thesis by (simp add: reply_def answers_json[OF assms(5)])
qed

lemma yields_reply:
  assumes "fails_in S p" and "S - {0} \<subseteq> E" and "0 \<in> S \<Longrightarrow> 500 \<in> E" and "E \<subseteq> named_codes"
    and "\<And>a. schema = Some (answer_schema (f a))"
  shows "yields (answers (answer_set s schema E)) (bnd p (\<lambda>res. Ret (reply s f res)))"
  by (rule yields_bnd[OF assms(1)]) (simp add: answers_reply[OF _ assms(2-5)])

lemma yields_decoded:
  assumes "{400, 422} \<subseteq> E" and "\<And>b. yields (answers (answer_set s schema E)) (k b)"
  shows "yields (answers (answer_set s schema E))
    (case DecodeAndValidate H d c r of Inl refused \<Rightarrow> Ret refused | Inr b \<Rightarrow> k b)"
proof (cases "DecodeAndValidate H d c r")
  case (Inl resp)
  then have "\<exists>code m e. resp = WriteError code m e \<and> code \<in> {400, 422}"
    by (auto simp: DecodeAndValidate_def Let_def split: sum.splits option.splits)
  then show ?thesis using Inl assms(1) by (auto intro!: answers_WriteError simp: named_codes_def)
qed (simp add: assms(2))

lemma yields_page:
  assumes "400 \<in> E" and "\<And>pg. yields (answers (answer_set s schema E)) (k pg)"
  shows "yields (answers (answer_set s schema E)) (query_page r k)"
  using assms unfolding query_page_def
  by (auto split: sum.split intro!: answers_WriteError simp: named_codes_def)

lemma user_routes:
  "yields (answers (answer_set 201 (Some ''LoginResponse'') {400, 409, 422, 500})) (Route_CreateUser R cx r)"
  "yields (answers (answer_set 200 (Some ''LoginResponse'') {400, 401, 403, 422, 500})) (Route_Login R cx r)"
  "yields (answers (answer_set 200 (Some ''LoginResponse'') {400, 401, 422, 500})) (Route_RefreshToken R cx r)"
  "yields (answers (answer_set 200 (Some ''MessageResponse'') {400, 422, 500})) (Route_ResendOtp R cx r)"
  "yields (answers (answer_set 200 (Some ''MessageResponse'') {400, 422, 500})) (Route_VerifyOtp R cx r)"
  unfolding Route_CreateUser_def Route_Login_def Route_RefreshToken_def Route_ResendOtp_def Route_VerifyOtp_def
  by (rule yields_decoded, simp, rule yields_reply, rule service_statuses, simp_all add: named_codes_def login_response_def)+

lemma account_routes:
  "yields (answers (answer_set 200 (Some ''UserResponse'') {400, 403, 404, 409, 422, 500})) (Route_UpdateUser R cx r)"
  "yields (answers (answer_set 204 None {400, 403, 404, 500})) (Route_DeleteUser R cx r)"
proof -
  show "yields (answers (answer_set 200 (Some ''UserResponse'') {400, 403, 404, 409, 422, 500})) (Route_UpdateUser R cx r)"
    unfolding Route_UpdateUser_def Let_def
    apply (rule yields_case, rule yields_Ret, rule answers_WriteError, simp, simp add: named_codes_def)
    apply (rule yields_decoded, simp, rule yields_reply, rule service_statuses)
    by (simp_all add: named_codes_def)
  let ?A = "answer_set 204 None {400, 403, 404, 500}"
  have "answers ?A (case res of Inl appErr \<Rightarrow> WriteAppError appErr | Inr _ \<Rightarrow> WriteJSON 204 None)"
    if "refused_with {0, 403, 404, 500} res" for res :: "AppError + unit"
  proof (cases res)
    case (Inl e)
    with that have "answers ?A (WriteAppError e)" by (intro answers_error[OF refl]) (auto simp: named_codes_def)
    then show ?thesis using Inl by simp
  next
    case (Inr u)
    then show ?thesis by (simp add: answers_def answer_set_def well_formed_def body_schema_def WriteJSON_def)
  qed
  then show "yields (answers ?A) (Route_DeleteUser R cx r)"
    unfolding Route_DeleteUser_def Let_def
    by (intro yields_case yields_Ret answers_WriteError yields_bnd[OF service_statuses(7)]) (simp_all add: named_codes_def)
qed

lemma money_routes:
  "yields (answers (answer_set 201 (Some ''WalletResponse'') {400, 401, 409, 422, 500})) (Route_CreateWallet R cx r)"
  "yields (answers (answer_set 202 (Some ''TransferResponse'') {400, 401, 404, 422, 500})) (Route_InitiateTransfer R cx r)"
  "yields (answers (answer_set 201 (Some ''DepositResponse'') {400, 401, 404, 422, 500, 502, 503})) (Route_InitializeDeposit R cx r)"
  unfolding Route_CreateWallet_def Route_InitiateTransfer_def Route_InitializeDeposit_def
  by (rule yields_decoded, simp, rule yields_reply, rule service_statuses, simp_all add: named_codes_def deposit_response_def)+

lemma reading_routes:
  "yields (answers (answer_set 200 (Some ''WalletListResponse'') {401, 500, 502})) (Route_ListMyWallets R cx r)"
  "yields (answers (answer_set 200 (Some ''WalletResponse'') {401, 404, 500, 502})) (Route_GetWallet R cx r)"
  "yields (answers (answer_set 200 (Some ''TransferResponse'') {401, 404, 500})) (Route_GetTransfer R cx r)"
  "yields (answers (answer_set 200 (Some ''TransactionResponse'') {401, 404, 500})) (Route_GetTransaction R cx r)"
  unfolding Route_ListMyWallets_def Route_GetWallet_def Route_GetTransfer_def Route_GetTransaction_def
  by (rule yields_reply, rule service_statuses, simp_all add: named_codes_def)+

lemma page_routes:
  "yields (answers (answer_set 200 (Some ''ActivityListResponse'') {400, 401, 404, 500})) (Route_GetMyActivities R cx r)"
  "yields (answers (answer_set 200 (Some ''TransactionListResponse'') {400, 401, 500, 502})) (Route_ListMyTransactions R cx r)"
  unfolding Route_GetMyActivities_def Route_ListMyTransactions_def
  by (rule yields_page, simp, rule yields_reply, rule service_statuses,
      simp_all add: named_codes_def activity_list_response_def transaction_list_response_def)+

lemma system_routes:
  "yields (answers (answer_set 200 (Some ''MessageResponse'') {400, 401, 503})) (Route_PaymentWebhook R cx r)"
  "yields (answers (answer_set 200 (Some ''HealthResponse'') {})) (Route_HealthCheck cx r)"
proof -
  show "yields (answers (answer_set 200 (Some ''MessageResponse'') {400, 401, 503})) (Route_PaymentWebhook R cx r)"
    unfolding Route_PaymentWebhook_def
    apply (rule yields_case, rule yields_Ret, rule answers_WriteError, simp, simp add: named_codes_def)
    by (rule yields_reply, rule service_statuses) (simp_all add: named_codes_def)
qed (simp add: Route_HealthCheck_def answers_json)

section \<open>The routes and the document\<close>

text \<open>Behind the token check a route can also answer 401.\<close>

lemma yields_mounted:
  assumes "\<And>cx. yields (answers (answer_set s schema E)) (ro_Handler ro cx r)" and "ro_Guarded ro \<Longrightarrow> 401 \<in> F" and "E \<subseteq> F"
  shows "yields (answers (answer_set s schema F)) (mounted R ro cx r)"
proof -
  have mono: "answers (answer_set s schema E) a \<Longrightarrow> answers (answer_set s schema F) a" for a
    using assms(3) by (auto simp: answers_def answer_set_def errors_of_def)
  have h: "yields (answers (answer_set s schema F)) (ro_Handler ro cx r)" for cx
    by (rule yields_mono[OF assms(1) mono])
  have e: "answers (answer_set s schema F) (WriteAppError (app_error 401 m err))" if "ro_Guarded ro" for m err
    using assms(2) that by (intro answers_error[of _ 401]) (simp_all add: named_codes_def)
  show ?thesis
    unfolding mounted_def jwtauth_Verifier_def Authenticator_def AuthMiddleWare_def Let_def
    by (auto split: sum.split option.split intro!: yields_then h e)
qed

text \<open>The answers of every route by its method and pattern: the success, its body's type, the errors.\<close>

definition route_answers :: "((string \<times> string) \<times> int \<times> string option \<times> int list) list" where
  "route_answers =
     [((''GET'', ''/healthz''), 200, Some ''HealthResponse'', []),
      ((''POST'', ''/api/v1/users''), 201, Some ''LoginResponse'', [400, 409, 422, 500]),
      ((''POST'', ''/api/v1/users/otp/resend''), 200, Some ''MessageResponse'', [400, 422, 500]),
      ((''POST'', ''/api/v1/users/otp/verify''), 200, Some ''MessageResponse'', [400, 422, 500]),
      ((''POST'', ''/api/v1/users/login''), 200, Some ''LoginResponse'', [400, 401, 403, 422, 500]),
      ((''POST'', ''/api/v1/users/token/refresh''), 200, Some ''LoginResponse'', [400, 401, 422, 500]),
      ((''POST'', ''/api/v1/payments/webhook''), 200, Some ''MessageResponse'', [400, 401, 503]),
      ((''PATCH'', ''/api/v1/users/{id}''), 200, Some ''UserResponse'', [400, 401, 403, 404, 409, 422, 500]),
      ((''DELETE'', ''/api/v1/users/{id}''), 204, None, [400, 401, 403, 404, 500]),
      ((''GET'', ''/api/v1/me/activity''), 200, Some ''ActivityListResponse'', [400, 401, 404, 500]),
      ((''POST'', ''/api/v1/wallets''), 201, Some ''WalletResponse'', [400, 401, 409, 422, 500]),
      ((''GET'', ''/api/v1/me/wallets''), 200, Some ''WalletListResponse'', [401, 500, 502]),
      ((''GET'', ''/api/v1/wallets/{id}''), 200, Some ''WalletResponse'', [401, 404, 500, 502]),
      ((''POST'', ''/api/v1/payments/deposits''), 201, Some ''DepositResponse'', [400, 401, 404, 422, 500, 502, 503]),
      ((''POST'', ''/api/v1/transfers''), 202, Some ''TransferResponse'', [400, 401, 404, 422, 500]),
      ((''GET'', ''/api/v1/transfers/{id}''), 200, Some ''TransferResponse'', [401, 404, 500]),
      ((''GET'', ''/api/v1/me/transactions''), 200, Some ''TransactionListResponse'', [400, 401, 500, 502]),
      ((''GET'', ''/api/v1/transactions/{reference}''), 200, Some ''TransactionResponse'', [401, 404, 500])]"

lemmas route_yields = user_routes account_routes money_routes reading_routes page_routes system_routes

lemma route_answers_hold:
  assumes "ro \<in> set (SetupRoutes R)" and "(ro_Key ro, s, schema, E) \<in> set route_answers"
  shows "yields (answers (answer_set s schema (set E))) (mounted R ro cx r)"
proof -
  have "\<exists>E'. (\<forall>cx. yields (answers (answer_set s schema E')) (ro_Handler ro cx r)) \<and> (ro_Guarded ro \<longrightarrow> 401 \<in> set E) \<and> E' \<subseteq> set E"
    using assms unfolding SetupRoutes_def SetupDocsRoutes_def SpecPath_def DocsPath_def set_append set_simps Un_iff insert_iff empty_iff
    apply (elim disjE)
    apply (simp_all add: open_route_def guarded_route_def ro_Key_def route_answers_def)
    apply (rule allI, rule route_yields)
    by (rule exI, rule conjI, rule allI, rule route_yields, simp)+
  then show ?thesis by (metis yields_mounted)
qed

text \<open>Error statuses a route answers although its operation does not list them.\<close>

definition undocumented :: "string \<Rightarrow> int list" where
  "undocumented i = (case map_of
     [(''user-create'', [400, 500]), (''user-update'', [500]), (''user-delete'', [400, 500]), (''user-login'', [400]),
      (''user-token-refresh'', [400]), (''user-otp-resend'', [400]), (''wallet-create'', [422]),
      (''payment-deposit-initialize'', [500]), (''me-transactions-list'', [502])] i of
     Some cs \<Rightarrow> cs | None \<Rightarrow> [])"

definition documents :: "operation \<Rightarrow> bool" where
  "documents op \<longleftrightarrow> (case map_of route_answers (op_Method op, op_Path op) of
      None \<Rightarrow> False
    | Some (s, schema, E) \<Rightarrow> (s, schema) \<in> set (op_Responses op) \<and>
        (\<forall>c \<in> set E. (c, Some ''ErrorResponse'') \<in> set (op_Responses op) \<or> c \<in> set (undocumented (op_ID op))))"

lemma all_documented: "\<forall>op \<in> set (concat RoutesDocs). documents op"
  by code_simp

lemmas docs_defs = RoutesDocs_def HealthDocs_def UserDocs_def ActivityDocs_def WalletDocs_def PaymentDocs_def TransferDocs_def

lemmas table_defs = SetupRoutes_def SetupDocsRoutes_def SpecPath_def DocsPath_def open_route_def guarded_route_def

text \<open>C25. The OpenAPI document and the router agree. Apart from the document and its viewer, the mounted
  routes are the documented operations, with the same methods and paths; an operation carries the
  bearer scheme exactly when its route is behind the token check; no two routes share method and path,
  no two operations an identifier.\<close>

theorem document_matches_router:
  "(\<lambda>op. (op_Method op, op_Path op, op_Secured op)) ` set (oa_Operations (GenerateDocs None)) =
     (\<lambda>ro. (ro_Method ro, ro_Pattern ro, ro_Guarded ro)) `
       set (filter (\<lambda>ro. ro_Pattern ro \<notin> {SpecPath, DocsPath, DocsPath @ ''/*''}) (SetupRoutes R)) \<and>
   distinct (map ro_Key (SetupRoutes R)) \<and> distinct (map op_ID (oa_Operations (GenerateDocs None)))"
proof (intro conjI)
  show "(\<lambda>op. (op_Method op, op_Path op, op_Secured op)) ` set (oa_Operations (GenerateDocs None)) =
     (\<lambda>ro. (ro_Method ro, ro_Pattern ro, ro_Guarded ro)) `
       set (filter (\<lambda>ro. ro_Pattern ro \<notin> {SpecPath, DocsPath, DocsPath @ ''/*''}) (SetupRoutes R))"
    by (simp add: GenerateDocs_def docs_defs table_defs insert_commute)
  show "distinct (map ro_Key (SetupRoutes R))" by (simp add: table_defs ro_Key_def)
  show "distinct (map op_ID (oa_Operations (GenerateDocs None)))" by (simp add: GenerateDocs_def docs_defs)
qed

text \<open>C24. Every response of a documented operation has the shape the document gives it: it is JSON, and
  either the documented success with a body of the documented type, or an \<open>ErrorResponse\<close> that repeats
  its status and says something, with a status the operation lists. The statuses missing from the lists
  are exactly bounded by \<open>undocumented\<close>.\<close>

theorem responses_are_documented:
  assumes "op \<in> set (oa_Operations (GenerateDocs None))" and "ro \<in> set (SetupRoutes R)"
    and "ro_Key ro = (op_Method op, op_Path op)" and "run (mounted R ro cx r) w = (resp, w')"
  shows "rs_ContentType resp = ''application/json'' \<and>
    ((rs_Status resp, body_schema resp) \<in> set (op_Responses op) \<or>
     body_schema resp = Some ''ErrorResponse'' \<and> rs_Status resp \<in> set (undocumented (op_ID op))) \<and>
    (\<forall>er. rs_Body resp = Some (ErrorBody er) \<longrightarrow> er_Code er = rs_Status resp \<and> er_Message er \<noteq> '''')"
proof -
  have "op \<in> set (concat RoutesDocs)" using assms(1) by (simp add: GenerateDocs_def)
  then have "documents op" using all_documented by blast
  then obtain s schema E where t: "map_of route_answers (ro_Key ro) = Some (s, schema, E)"
      and s: "(s, schema) \<in> set (op_Responses op)"
      and e: "\<forall>c \<in> set E. (c, Some ''ErrorResponse'') \<in> set (op_Responses op) \<or> c \<in> set (undocumented (op_ID op))"
    unfolding assms(3) documents_def by (auto split: option.splits)
  have "answers (answer_set s schema (set E)) resp"
    by (rule yields_run[OF route_answers_hold[OF assms(2) map_of_SomeD[OF t]] assms(4)])
  then show ?thesis using s e by (auto simp: answers_def well_formed_def answer_set_def errors_of_def)
qed

theorem responses_are_documented_witness:
  "body_schema (WriteError 401 ''Unauhorized, An Access Token Is Required'' (Some (Opaque ''token is not an access token'')) :: answer response)
     = Some ''ErrorResponse'' \<and> (401, Some ''ErrorResponse'') \<in> set (op_Responses (hd TransferDocs))"
proof -
  let ?op = "hd TransferDocs" and ?ro = "guarded_route ''POST'' ''/api/v1/transfers'' (Route_InitiateTransfer ex_routes)"
  let ?r = "ex_incoming ''POST'' ''/api/v1/transfers'' TokenTypeRefresh ''order''"
  let ?resp = "WriteError 401 ''Unauhorized, An Access Token Is Required'' (Some (Opaque ''token is not an access token'')) :: answer response"
  have "run (mounted ex_routes ?ro cx ?r) ex_world = (?resp, ex_world)" for cx
    by (simp add: mounted_def guarded_route_def jwtauth_Verifier_def Authenticator_def AuthMiddleWare_def ex_incoming_def
        ex_jwt_def ex_claims_def TokenTypeRefresh_def TokenTypeAccess_def WriteError_def time_Now_def)
  from responses_are_documented[OF _ _ _ this, of ?op]
  show ?thesis
    by (simp add: GenerateDocs_def docs_defs table_defs ro_Key_def undocumented_def body_schema_def)
qed

section \<open>Who gets in\<close>

text \<open>The account a request acts for: the subject of a token that is found, verifies now, and is an
  access token.\<close>

definition bearer :: "('tb, 'x) Routes \<Rightarrow> incoming \<Rightarrow> time \<Rightarrow> string option" where
  "bearer R r t = (let found = hp_FindToken (rt_Pkgs R) r in
     if found = '''' then None
     else case jw_VerifyToken (sv_jwt (rt_Services R)) found t of
       Inl e \<Rightarrow> None
     | Inr claims \<Rightarrow> if jc_token_type claims = Some TokenTypeAccess then jc_sub claims else None)"

definition open_keys :: "(string \<times> string) list" where
  "open_keys = [(''GET'', ''/openapi.yaml''), (''*'', ''/docs''), (''*'', ''/docs/*''), (''GET'', ''/healthz''),
     (''POST'', ''/api/v1/users''), (''POST'', ''/api/v1/users/otp/resend''), (''POST'', ''/api/v1/users/otp/verify''),
     (''POST'', ''/api/v1/users/login''), (''POST'', ''/api/v1/users/token/refresh''), (''POST'', ''/api/v1/payments/webhook'')]"

lemma guarded_keys:
  assumes "ro \<in> set (SetupRoutes R)" and "ro_Key ro \<notin> set open_keys"
  shows "ro_Guarded ro"
proof -
  have "list_all (\<lambda>ro. ro_Guarded ro \<or> ro_Key ro \<in> set open_keys) (SetupRoutes R)"
    by (simp add: table_defs ro_Key_def open_keys_def)
  with assms show ?thesis by (auto simp: list_all_iff)
qed

text \<open>The three middlewares together.\<close>

lemma run_mounted:
  assumes "ro_Guarded ro"
  shows "case bearer R r (now w) of
      None \<Rightarrow> \<exists>m err. run (mounted R ro cx r) w = (WriteError StatusUnauthorized m err, w)
    | Some user \<Rightarrow> \<exists>cx'. cx_UserID cx' = Some user \<and> cx_Params cx' = cx_Params cx \<and>
        run (mounted R ro cx r) w = run (ro_Handler ro cx' r) w"
proof -
  let ?found = "hp_FindToken (rt_Pkgs R) r"
  let ?auth = "if ?found = '''' then Inl (Opaque ''no token found'') else jw_VerifyToken (sv_jwt (rt_Services R)) ?found (now w)"
  have m: "run (mounted R ro cx r) w = run (Authenticator (AuthMiddleWare (ro_Handler ro)) (cx\<lparr>cx_Token := ?auth\<rparr>) r) w"
    using assms by (simp add: mounted_def jwtauth_Verifier_def time_Now_def)
  have b: "bearer R r (now w) = (case ?auth of Inl e \<Rightarrow> None
      | Inr claims \<Rightarrow> if jc_token_type claims = Some TokenTypeAccess then jc_sub claims else None)"
    by (simp add: bearer_def)
  show ?thesis
  proof (cases ?auth)
    case (Inl e)
    then show ?thesis unfolding m b by (auto simp: Authenticator_def WriteError_def)
  next
    case (Inr claims)
    show ?thesis
    proof (cases "jc_token_type claims = Some TokenTypeAccess")
      case access: True
      show ?thesis
      proof (cases "jc_sub claims")
        case None
        then show ?thesis unfolding m b Inr
          using access by (auto simp: Authenticator_def AuthMiddleWare_def WriteError_def)
      next
        case (Some user)
        then show ?thesis unfolding m b Inr
          using access by (auto simp: Authenticator_def AuthMiddleWare_def
              intro!: exI[of _ "cx\<lparr>cx_Token := Inr claims, cx_UserID := Some user\<rparr>"])
      qed
    next
      case False
      then show ?thesis unfolding m b Inr by (auto simp: Authenticator_def AuthMiddleWare_def WriteError_def)
    qed
  qed
qed

lemma find_route: "key \<in> ro_Key ` set ros \<Longrightarrow> \<exists>ro \<in> set ros. List.find (\<lambda>ro. ro_Key ro = key) ros = Some ro \<and> ro_Key ro = key"
  by (induction ros) auto

text \<open>C21. Without an access token only the ten open routes do anything. A request that the router gives to
  any other route is answered 401 and leaves the world as it was unless it carries a token that
  verifies and is an access token: a refresh token, an expired one or none will not do. With one, the
  route's handler runs for the token's subject and nobody else.\<close>

theorem only_open_routes_without_token:
  assumes "hp_Match (rt_Pkgs R) (map ro_Key (SetupRoutes R)) (rq_Method r) (rq_Path r) = Some (key, params)"
    and "key \<in> ro_Key ` set (SetupRoutes R)" and "key \<notin> set open_keys"
  shows "\<exists>ro \<in> set (SetupRoutes R). ro_Key ro = key \<and> (case bearer R r (now w) of
      None \<Rightarrow> \<exists>m err. run (ServeHTTP R r) w = (WriteError StatusUnauthorized m err, w)
    | Some user \<Rightarrow> \<exists>cx. cx_UserID cx = Some user \<and> cx_Params cx = params \<and>
        run (ServeHTTP R r) w = run (ro_Handler ro cx r) w)"
proof -
  obtain ro where ro: "ro \<in> set (SetupRoutes R)" "ro_Key ro = key" "List.find (\<lambda>ro. ro_Key ro = key) (SetupRoutes R) = Some ro"
    using find_route[OF assms(2)] by blast
  then have g: "ro_Guarded ro" using guarded_keys[OF ro(1)] assms(3) by simp
  let ?cx = "\<lparr>cx_Token = Inl (Opaque ''no token found''), cx_UserID = None, cx_Params = params\<rparr>"
  have serve: "ServeHTTP R r = mounted R ro ?cx r" using assms(1) ro(3) by (simp add: ServeHTTP_def)
  have "case bearer R r (now w) of
      None \<Rightarrow> \<exists>m err. run (ServeHTTP R r) w = (WriteError StatusUnauthorized m err, w)
    | Some user \<Rightarrow> \<exists>cx. cx_UserID cx = Some user \<and> cx_Params cx = params \<and>
        run (ServeHTTP R r) w = run (ro_Handler ro cx r) w"
    unfolding serve using run_mounted[OF g, where R = R and r = r and w = w and cx = ?cx] by (simp only: rctx.select_convs)
  with ro(1,2) show ?thesis by blast
qed

theorem only_open_routes_without_token_witness:
  "(\<exists>m err. run (ServeHTTP ex_routes (ex_incoming ''GET'' ''/api/v1/me/wallets'' TokenTypeRefresh '''')) ex_world =
      (WriteError StatusUnauthorized m err, ex_world)) \<and>
   (\<exists>ro \<in> set (SetupRoutes ex_routes). \<exists>cx. cx_UserID cx = Some ''1'' \<and>
      run (ServeHTTP ex_routes (ex_incoming ''GET'' ''/api/v1/me/wallets'' TokenTypeAccess '''')) ex_world =
      run (ro_Handler ro cx (ex_incoming ''GET'' ''/api/v1/me/wallets'' TokenTypeAccess '''')) ex_world)"
    (is "?refused \<and> ?served")
proof -
  let ?key = "(''GET'', ''/api/v1/me/wallets'')"
  let ?r = "\<lambda>token. ex_incoming ''GET'' ''/api/v1/me/wallets'' token ''''"
  have match: "hp_Match (rt_Pkgs ex_routes) (map ro_Key (SetupRoutes ex_routes)) (rq_Method (?r token)) (rq_Path (?r token)) =
      Some (?key, \<lambda>_. '''')" for token
    by (simp add: ex_incoming_def table_defs ro_Key_def)
  have key: "?key \<in> ro_Key ` set (SetupRoutes ex_routes)" "?key \<notin> set open_keys"
    by (simp_all add: table_defs ro_Key_def open_keys_def)
  have bearer: "bearer ex_routes (?r TokenTypeRefresh) (now ex_world) = None"
      "bearer ex_routes (?r TokenTypeAccess) (now ex_world) = Some ''1''"
    by (simp_all add: bearer_def ex_incoming_def ex_jwt_def ex_claims_def TokenTypeRefresh_def TokenTypeAccess_def)
  have ?refused
    using only_open_routes_without_token[OF match key, of TokenTypeRefresh ex_world] unfolding bearer by auto
  moreover have ?served
    using only_open_routes_without_token[OF match key, of TokenTypeAccess ex_world] unfolding bearer by auto
  ultimately show ?thesis ..
qed

section \<open>Serving requests among the jobs\<close>

lemma guar_routes:
  assumes s: "service_ok P C W (rt_Services R)" and ok: "tb_ok C posted"
  shows "guar (sys_rel P C posted) (Route_CreateUser R cx r)" "guar (sys_rel P C posted) (Route_ResendOtp R cx r)"
    "guar (sys_rel P C posted) (Route_VerifyOtp R cx r)" "guar (sys_rel P C posted) (Route_Login R cx r)"
    "guar (sys_rel P C posted) (Route_RefreshToken R cx r)" "guar (sys_rel P C posted) (Route_PaymentWebhook R cx r)"
    "guar (sys_rel P C posted) (Route_UpdateUser R cx r)" "guar (sys_rel P C posted) (Route_DeleteUser R cx r)"
    "guar (sys_rel P C posted) (Route_GetMyActivities R cx r)" "guar (sys_rel P C posted) (Route_CreateWallet R cx r)"
    "guar (sys_rel P C posted) (Route_ListMyWallets R cx r)" "guar (sys_rel P C posted) (Route_GetWallet R cx r)"
    "guar (sys_rel P C posted) (Route_InitializeDeposit R cx r)" "guar (sys_rel P C posted) (Route_InitiateTransfer R cx r)"
    "guar (sys_rel P C posted) (Route_GetTransfer R cx r)" "guar (sys_rel P C posted) (Route_ListMyTransactions R cx r)"
    "guar (sys_rel P C posted) (Route_GetTransaction R cx r)"
  unfolding Route_CreateUser_def Route_ResendOtp_def Route_VerifyOtp_def Route_Login_def Route_RefreshToken_def
    Route_PaymentWebhook_def Route_UpdateUser_def Route_DeleteUser_def Route_GetMyActivities_def
    Route_CreateWallet_def Route_ListMyWallets_def Route_GetWallet_def Route_InitializeDeposit_def
    Route_InitiateTransfer_def Route_GetTransfer_def Route_ListMyTransactions_def Route_GetTransaction_def query_page_def
  by (intro guar_rules guar_user_requests[OF s] guar_wallet_requests[OF s ok])+

lemma guar_ServeHTTP:
  assumes s: "service_ok P C W (rt_Services R)" and ok: "tb_ok C posted"
  shows "guar (sys_rel P C posted) (ServeHTTP R r)"
proof -
  have "list_all (\<lambda>ro. guar (sys_rel P C posted) (ro_Handler ro cx r)) (SetupRoutes R)" for cx
    by (simp add: table_defs ServeOpenAPISpec_def Route_HealthCheck_def guar_routes[OF s ok])
  then have h: "guar (sys_rel P C posted) (ro_Handler ro cx r)" if "ro \<in> set (SetupRoutes R)" for ro cx
    using that by (simp add: list_all_iff)
  have "guar (sys_rel P C posted) (mounted R ro cx r)" if "ro \<in> set (SetupRoutes R)" for ro cx
    unfolding mounted_def jwtauth_Verifier_def Authenticator_def AuthMiddleWare_def
    using h[OF that] by (auto intro!: guar_rules)
  then show ?thesis
    unfolding ServeHTTP_def by (auto split: option.split simp: find_Some_iff in_set_conv_nth)
qed

text \<open>Requests among the queue's tasks and each other change the world only as the system may, whatever
  the router, the validator and the token library do.\<close>

lemma requests_rel:
  assumes "env_ok P C posted" and "worker_ok P C W" and "service_ok P C W (rt_Services R)"
    and "interleave\<^sup>*\<^sup>* (map (\<lambda>r. quiet (ServeHTTP R r)) rs @ map (job_prog W (rt_Services R)) jobs, w) (ps, w')"
  shows "sys_rel P C posted w w'"
proof -
  have "tb_ok C posted" using assms(1) by (simp add: env_ok_def)
  then have "safe P C posted (quiet (ServeHTTP R r)) v" for r v
    unfolding quiet_def using guar_ServeHTTP[OF assms(3)] by (intro safe_guar guar_rules)
  then show ?thesis
    using sys.rg_pool[OF assms(4), of P C posted "\<lambda>_ _ _. True"] safe_job[OF assms(1-3)] by (simp add: nth_append)
qed

section \<open>Which bodies reach the services\<close>

lemma DecodeAndValidate_cases:
  assumes "validator_ok U (hp_Struct H)"
  obtains (refused) c m e where "c \<in> {400, 422}" "DecodeAndValidate H d ck r = Inl (WriteError c m e)"
  | (accepted) b kvs where "DecodeAndValidate H d ck r = Inr b" "d kvs = Some b"
      "\<forall>(name, tags, v) \<in> set (ck b). TOmitempty \<in> set tags \<and> zero_value v \<or> (\<forall>t \<in> set tags. tag_holds U t v)"
proof (cases "DecodeAndValidate H d ck r")
  case (Inl resp)
  then have "\<exists>c m e. c \<in> {400, 422} \<and> resp = WriteError c m e"
    by (auto simp: DecodeAndValidate_def Let_def split: sum.splits option.splits)
  then show ?thesis using Inl refused by blast
next
  case (Inr b)
  then have "hp_Struct H (ck b) = None" "\<exists>kvs. d kvs = Some b"
    by (auto simp: DecodeAndValidate_def Let_def bind_eq_Some_conv split: sum.splits option.splits)
  then show ?thesis using Inr accepted assms unfolding validator_ok_def by blast
qed

lemma float_field_finite: "float_field tag kvs = Some x \<Longrightarrow> \<exists>q. x = Fin q"
proof -
  have parse: "\<exists>q. y = Fin q" if "ParseFloat lit = Some y" for lit y
    using that by (auto simp: ParseFloat_def fl_def Let_def split: option.splits float64.splits if_splits)
  have "field_of as_float (Fin c) tag kvs = Some x \<Longrightarrow> \<exists>q. x = Fin q" for c
  proof (induction as_float "Fin c" tag kvs arbitrary: c rule: field_of.induct)
    case (2 tag k v kvs)
    then show ?case
      by (cases v) (auto split: if_splits option.splits dest: parse)
  qed auto
  then show "float_field tag kvs = Some x \<Longrightarrow> \<exists>q. x = Fin q" unfolding float_field_def .
qed

lemma digits_rune_count: "\<forall>c \<in> set s. is_digit c \<Longrightarrow> rune_count s = length s"
proof -
  assume "\<forall>c \<in> set s. is_digit c"
  then have "filter (\<lambda>c. code_of c < 128 \<or> 192 \<le> code_of c) s = s" by (auto simp: is_digit_def filter_id_conv)
  then show ?thesis by (simp add: rune_count_def)
qed

text \<open>C23. Only well-formed orders to move money reach the services. A transfer or a deposit request is
  either refused with 400 or 422 and changes nothing, or is passed on with a wallet id that the
  validator takes for a UUID, a finite positive amount and, for a transfer, an account number of
  exactly ten digits.\<close>

theorem only_valid_orders_accepted:
  assumes "validator_ok U (hp_Struct (rt_Pkgs R))"
  shows "((\<exists>c m e. c \<in> {400, 422} \<and> run (Route_InitiateTransfer R cx r) w = (WriteError c m e, w)) \<or>
     (\<exists>wallet number q. U wallet \<and> length number = 10 \<and> (\<forall>c \<in> set number. is_digit c) \<and> 0 < q \<and>
        run (Route_InitiateTransfer R cx r) w = (case run (InitiateTransfer (rt_Services R) (cx_UserID cx)
          \<lparr>it_SenderWalletID = wallet, it_RecipientAccountNumber = number, it_Amount = Fin q\<rparr>) w of
          (res, w') \<Rightarrow> (reply 202 (\<lambda>t. TransferAnswer (mapTransfer t)) res, w')))) \<and>
    ((\<exists>c m e. c \<in> {400, 422} \<and> run (Route_InitializeDeposit R cx r) w = (WriteError c m e, w)) \<or>
     (\<exists>wallet q. U wallet \<and> 0 < q \<and>
        run (Route_InitializeDeposit R cx r) w = (case run (InitializeDeposit (rt_Services R) (cx_UserID cx) (Fin q) wallet) w of
          (res, w') \<Rightarrow> (reply 201 deposit_response res, w'))))"
    (is "?transfer \<and> ?deposit")
proof (rule conjI)
  show ?transfer
  proof (rule DecodeAndValidate_cases[OF assms, of decode_TransferRequest checks_TransferRequest r])
    fix b kvs assume b: "DecodeAndValidate (rt_Pkgs R) decode_TransferRequest checks_TransferRequest r = Inr b"
      "decode_TransferRequest kvs = Some b"
      and ok: "\<forall>(name, tags, v) \<in> set (checks_TransferRequest b). TOmitempty \<in> set tags \<and> zero_value v \<or> (\<forall>t \<in> set tags. tag_holds U t v)"
    have "\<exists>q. tq_Amount b = Fin q" using b(2) float_field_finite by (auto simp: decode_TransferRequest_def split: option.splits)
    then obtain q where q: "tq_Amount b = Fin q" ..
    from ok have "U (tq_SenderWalletID b)" "rune_count (tq_RecipientAccountNumber b) = 10"
        "\<forall>c \<in> set (tq_RecipientAccountNumber b). is_digit c" "0 < q"
      by (auto simp: checks_TransferRequest_def q)
    then show ?transfer using b(1) q digits_rune_count
      by (intro disjI2 exI[of _ "tq_SenderWalletID b"] exI[of _ "tq_RecipientAccountNumber b"] exI[of _ q])
        (auto simp: Route_InitiateTransfer_def)
  qed (auto simp: Route_InitiateTransfer_def)
  show ?deposit
  proof (rule DecodeAndValidate_cases[OF assms, of decode_InitializeDepositRequest checks_InitializeDepositRequest r])
    fix b kvs assume b: "DecodeAndValidate (rt_Pkgs R) decode_InitializeDepositRequest checks_InitializeDepositRequest r = Inr b"
      "decode_InitializeDepositRequest kvs = Some b"
      and ok: "\<forall>(name, tags, v) \<in> set (checks_InitializeDepositRequest b).
        TOmitempty \<in> set tags \<and> zero_value v \<or> (\<forall>t \<in> set tags. tag_holds U t v)"
    have "\<exists>q. dq_Amount b = Fin q" using b(2) float_field_finite by (auto simp: decode_InitializeDepositRequest_def split: option.splits)
    then obtain q where q: "dq_Amount b = Fin q" ..
    from ok have "U (dq_WalletID b)" "0 < q" by (auto simp: checks_InitializeDepositRequest_def q)
    then show ?deposit using b(1) q
      by (intro disjI2 exI[of _ "dq_WalletID b"] exI[of _ q]) (auto simp: Route_InitializeDeposit_def)
  qed (auto simp: Route_InitializeDeposit_def)
qed

text \<open>The order of the example, sent past the token check: it reaches the service, which refuses a
  caller without an id.\<close>

definition ex_nobody :: rctx where
  "ex_nobody = \<lparr>cx_Token = Inr (ex_claims TokenTypeAccess), cx_UserID = None, cx_Params = (\<lambda>_. '''')\<rparr>"

lemma ex_two: "ParseFloat ''2'' = Some (Fin 2)"
proof -
  have "parse_decimal ''2'' = Some 2" by code_simp
  moreover have "fl 2 = Fin 2" using fl_int[of 2] by simp
  ultimately show ?thesis by (simp add: ParseFloat_def)
qed

lemma ex_order_decoded:
  "DecodeAndValidate ex_pkgs decode_TransferRequest checks_TransferRequest (ex_incoming ''POST'' '''' '''' ''order'') =
     Inr \<lparr>tq_SenderWalletID = ''10'', tq_RecipientAccountNumber = ''1000000011'', tq_Amount = Fin 2\<rparr>"
proof -
  let ?kvs = "[(''wallet_id'', JStr ''10''), (''account_number'', JStr ''1000000011''), (''amount'', JNum ''2'')]"
  have texts: "string_field ''wallet_id'' ?kvs = Some ''10''" "string_field ''account_number'' ?kvs = Some ''1000000011''"
    by code_simp+
  have "EqualFold ''wallet_id'' ''amount'' = False" "EqualFold ''account_number'' ''amount'' = False"
      "EqualFold ''amount'' ''amount'' = True"
    by code_simp+
  then have amount: "float_field ''amount'' ?kvs = Some (Fin 2)" by (simp add: float_field_def ex_two)
  have checked: "list_all is_digit ''1000000011''" "rune_count ''1000000011'' = 10" "(undec ''10'' \<noteq> None) = True"
    by code_simp+
  have order: "hp_Decode ex_pkgs ''order'' e = Inr ex_order" for e by (simp add: ex_pkgs_def)
  have ok: "hp_Struct ex_pkgs (checks_TransferRequest
      \<lparr>tq_SenderWalletID = ''10'', tq_RecipientAccountNumber = ''1000000011'', tq_Amount = Fin 2\<rparr>) = None"
    using checked by (simp add: ex_pkgs_def checks_TransferRequest_def ex_tags_hold_def)
  show ?thesis
    by (simp add: DecodeAndValidate_def ex_incoming_def order ex_order_def decode_TransferRequest_def texts amount ok)
qed

theorem only_valid_orders_accepted_witness:
  "\<exists>wallet number q. undec wallet \<noteq> None \<and> length number = 10 \<and> 0 < q \<and>
     run (Route_InitiateTransfer ex_routes ex_nobody (ex_incoming ''POST'' '''' '''' ''order'')) ex_world =
     (case run (InitiateTransfer (rt_Services ex_routes) None
        \<lparr>it_SenderWalletID = wallet, it_RecipientAccountNumber = number, it_Amount = Fin q\<rparr>) ex_world of
        (res, w') \<Rightarrow> (reply 202 (\<lambda>t. TransferAnswer (mapTransfer t)) res, w'))"
proof -
  let ?r = "ex_incoming ''POST'' '''' '''' ''order''"
  have ok: "validator_ok (\<lambda>s. undec s \<noteq> None) (hp_Struct (rt_Pkgs ex_routes))" unfolding ex_routes_sel(1) by (rule ex_validator_ok)
  have nobody: "cx_UserID ex_nobody = None" by (simp add: ex_nobody_def)
  have "rs_Status (fst (run (Route_InitiateTransfer ex_routes ex_nobody ?r) ex_world)) = 401"
    by (simp add: Route_InitiateTransfer_def ex_order_decoded nobody InitiateTransfer_def as_caller_def CallerID_def
        reply_def)
  then have "\<not> (\<exists>c m e. c \<in> {400, 422} \<and> run (Route_InitiateTransfer ex_routes ex_nobody ?r) ex_world = (WriteError c m e, ex_world))"
    by auto
  with conjunct1[OF only_valid_orders_accepted[OF ok, of ex_nobody ?r ex_world]] show ?thesis unfolding nobody by blast
qed

end
