(* ===== verification/Config.thy ===== *)
theory Config
  imports Go_Errors
begin

text \<open>
  \<^verbatim>\<open>src/config/config.go\<close> and \<^verbatim>\<open>viper.go\<close>: the configuration and how it is read. A viper instance
  is its six getters, \<open>url_Parse\<close> the host \<open>net/url\<close> finds in a URL or its error. Reading ends in a
  configuration, in \<open>log.Fatalf\<close> or in a panic. Durations are nanoseconds in 64-bit arithmetic.
\<close>

section \<open>config.go\<close>

record DatabaseConfig =
  dc_URL :: string
  dc_Host :: string
  dc_Port :: int64
  dc_Username :: string
  dc_Password :: string
  dc_Database :: string
  dc_SSLMode :: string
  dc_SkipAutoMigrate :: bool

definition DSN :: "DatabaseConfig \<Rightarrow> string" where
  "DSN d = (if dc_URL d \<noteq> '''' then dc_URL d
     else let sslMode = (if dc_SSLMode d = '''' then ''disable'' else dc_SSLMode d)
       in ''host='' @ dc_Host d @ '' user='' @ dc_Username d @ '' password='' @ dc_Password d @
          '' dbname='' @ dc_Database d @ '' port='' @ fmt_d (sint (dc_Port d)) @ '' sslmode='' @ sslMode)"

record Uptrace =
  ut_DSN :: string
  ut_ServiceName :: string
  ut_ServiceVersion :: string

record AsynqBackgroundWorker =
  bw_RedisUrl :: string
  bw_RedisNamespace :: string
  bw_Concurrency :: int64
  bw_Username :: string
  bw_Password :: string
  bw_DB :: int64

record OTPConfig =
  oc_Length :: int64
  oc_TTL :: int64
  oc_MaxAttempts :: int64

record PaymentConfig =
  pc_Provider :: string
  pc_SecretKey :: string
  pc_BaseURL :: string
  pc_CallbackURL :: string
  pc_PollInterval :: int64
  pc_PollMaxRetries :: int64

record JWTConfig =
  jc_SecretKey :: string
  jc_AccessTokenExpiry :: uint64
  jc_RefreshTokenExpiry :: uint64

record TigerBeetleConfig =
  tc_ClusterID :: uint64
  tc_Addresses :: "string list"

record Config =
  cf_Database :: DatabaseConfig
  cf_Uptrace :: Uptrace
  cf_BackgroundWorker :: AsynqBackgroundWorker
  cf_AllowedOrigins :: "string list"
  cf_Port :: int64
  cf_ResendEmail :: string
  cf_ResendKey :: string
  cf_EmailProvider :: string
  cf_OTP :: OTPConfig
  cf_Payment :: PaymentConfig
  cf_JWT :: JWTConfig
  cf_TigerBeetle :: TigerBeetleConfig

section \<open>viper.go\<close>

text \<open>How start-up can end early.\<close>

datatype stop = Fatal string | Panic string | StartError go_error

record viper =
  vi_IsSet :: "string \<Rightarrow> bool"
  vi_GetString :: "string \<Rightarrow> string"
  vi_GetInt :: "string \<Rightarrow> int64"
  vi_GetBool :: "string \<Rightarrow> bool"
  vi_GetUint64 :: "string \<Rightarrow> uint64"
  vi_GetStringSlice :: "string \<Rightarrow> string list"

text \<open>\<open>path.Join\<close> of a directory and a file name: the elements that are not empty, separated by slashes and
  cleaned. \<open>path_elems\<close> cuts a path at its slashes, and \<open>clean_elem\<close> keeps the cleaned elements, last first.\<close>

fun path_elems :: "string \<Rightarrow> string list" where
  "path_elems '''' = ['''']"
| "path_elems (c # cs) = (case path_elems cs of
      [] \<Rightarrow> [[c]]
    | e # es \<Rightarrow> if c = CHR ''/'' then '''' # e # es else (c # e) # es)"

definition clean_elem :: "bool \<Rightarrow> string list \<Rightarrow> string \<Rightarrow> string list" where
  "clean_elem rooted kept e =
     (if e = '''' \<or> e = ''.'' then kept
      else if e \<noteq> ''..'' then e # kept
      else case kept of [] \<Rightarrow> if rooted then [] else [e] | k # ks \<Rightarrow> if k = ''..'' then e # kept else ks)"

definition path_Clean :: "string \<Rightarrow> string" where
  "path_Clean p =
     (let rooted = (take 1 p = ''/'');
          body = concat (map (\<lambda>e. ''/'' @ e) (rev (foldl (clean_elem rooted) [] (path_elems p))))
      in if rooted then if body = '''' then ''/'' else body else if body = '''' then ''.'' else tl body)"

definition path_Join :: "string \<Rightarrow> string \<Rightarrow> string" where
  "path_Join dir file = path_Clean (if dir = '''' then file else dir @ ''/'' @ file)"

lemma path_Join_examples:
  "path_Join ''/srv/app'' ''.env'' = ''/srv/app/.env''" "path_Join ''/'' ''.env'' = ''/.env''"
  "path_Join ''/a/../../b/.'' ''.env'' = ''/b/.env''"
  by code_simp+

text \<open>What \<open>SetupViper\<close> asks of the system and of the viper package: the working directory, what there
  is at a path, and the viper after \<open>AutomaticEnv\<close> and after reading a file in.\<close>

datatype stat_result = StatOk | StatNotExist | StatError string

record setup_pkgs =
  sy_Getwd :: "string + string"
  sy_Stat :: "string \<Rightarrow> stat_result"
  sy_AutomaticEnv :: "viper \<Rightarrow> viper"
  sy_ReadInConfig :: "string \<Rightarrow> viper \<Rightarrow> string + viper"

definition SetupViper :: "setup_pkgs \<Rightarrow> viper \<Rightarrow> stop + viper" where
  "SetupViper S v = (let v = sy_AutomaticEnv S v in case sy_Getwd S of
      Inl m \<Rightarrow> Inr v
    | Inr dir \<Rightarrow> (let envFile = path_Join dir ''.env'' in case sy_Stat S envFile of
        StatNotExist \<Rightarrow> Inr v
      | StatError m \<Rightarrow> Inl (Fatal (''could not read '' @ envFile @ '': '' @ m))
      | StatOk \<Rightarrow> (case sy_ReadInConfig S envFile v of
          Inl m \<Rightarrow> Inl (Fatal (''error reading '' @ envFile @ '': '' @ m))
        | Inr v' \<Rightarrow> Inr v')))"

definition getAllowedOrigins :: "viper \<Rightarrow> string list" where
  "getAllowedOrigins v = (let allowedOrigins = vi_GetStringSlice v ''ALLOWED_ORIGINS'' in
     if allowedOrigins = [] then [''http://localhost:3000''] else allowedOrigins)"

text \<open>The two shapes of the integer settings: a value below one is replaced, and only a positive value
  counts.\<close>

definition at_least_one :: "viper \<Rightarrow> string \<Rightarrow> int64 \<Rightarrow> int64" where
  "at_least_one v key standard =
     (if vi_IsSet v key then if sint (vi_GetInt v key) < 1 then standard else vi_GetInt v key else standard)"

definition when_positive :: "viper \<Rightarrow> string \<Rightarrow> int64 \<Rightarrow> int64 \<Rightarrow> int64" where
  "when_positive v key unit standard =
     (if vi_IsSet v key \<and> sint (vi_GetInt v key) > 0 then vi_GetInt v key * unit else standard)"

definition time_Second :: int64 where "time_Second = 1000000000"
definition time_Minute :: int64 where "time_Minute = 60 * time_Second"

definition database_config :: "viper \<Rightarrow> DatabaseConfig" where
  "database_config v = \<lparr>dc_URL = TrimSpace (vi_GetString v ''DATABASE_URL''), dc_Host = vi_GetString v ''DB_HOST'',
     dc_Port = vi_GetInt v ''DB_PORT'', dc_Username = vi_GetString v ''DB_USERNAME'',
     dc_Password = vi_GetString v ''DB_PASSWORD'', dc_Database = vi_GetString v ''DB_DATABASE'',
     dc_SSLMode = vi_GetString v ''DB_SSLMODE'',
     dc_SkipAutoMigrate = (if vi_IsSet v ''SKIP_AUTO_MIGRATE'' then vi_GetBool v ''SKIP_AUTO_MIGRATE'' else False)\<rparr>"

definition redis_url :: "(string \<Rightarrow> string + string) \<Rightarrow> viper \<Rightarrow> stop + string" where
  "redis_url url_Parse v =
     (if vi_IsSet v ''ASYNC_REDIS_URL''
      then let ul = vi_GetString v ''ASYNC_REDIS_URL'' in
        (case url_Parse ul of
           Inl m \<Rightarrow> Inl (Fatal (''Error parsing ASYNC_REDIS_URL: '' @ m))
         | Inr host \<Rightarrow> if host = '''' then Inl (Fatal ''Error parsing ASYNC_REDIS_URL: missing host'') else Inr ul)
      else Inr ''redis://localhost:6379'')"

definition worker_config :: "viper \<Rightarrow> string \<Rightarrow> AsynqBackgroundWorker" where
  "worker_config v url = \<lparr>bw_RedisUrl = url,
     bw_RedisNamespace = (if vi_IsSet v ''ASYNC_REDIS_NAMESPACE'' then vi_GetString v ''ASYNC_REDIS_NAMESPACE'' else ''asynq''),
     bw_Concurrency = at_least_one v ''ASYNC_REDIS_CONCURRENCY'' 10,
     bw_Username = vi_GetString v ''ASYNC_REDIS_USERNAME'', bw_Password = vi_GetString v ''ASYNC_REDIS_PASSWORD'',
     bw_DB = at_least_one v ''ASYNC_REDIS_DB'' 10\<rparr>"

definition otp_config :: "viper \<Rightarrow> OTPConfig" where
  "otp_config v = \<lparr>oc_Length = when_positive v ''OTP_LENGTH'' 1 6,
     oc_TTL = when_positive v ''OTP_TTL_MINUTES'' time_Minute (10 * time_Minute),
     oc_MaxAttempts = when_positive v ''OTP_MAX_ATTEMPTS'' 1 5\<rparr>"

definition tigerbeetle_config :: "viper \<Rightarrow> TigerBeetleConfig" where
  "tigerbeetle_config v = \<lparr>tc_ClusterID = vi_GetUint64 v ''TB_CLUSTER_ID'',
     tc_Addresses = (let addresses = vi_GetStringSlice v ''TB_ADDRESSES'' in if addresses = [] then [''3000''] else addresses)\<rparr>"

definition jwt_config :: "viper \<Rightarrow> stop + JWTConfig" where
  "jwt_config v = (let key = vi_GetString v ''JWT_SECRET_KEY'' in
     if key = ''''
     then Inl (Panic ''JWT_SECRET_KEY is not set: refusing to sign tokens with an empty key, anyone could forge one'')
     else Inr \<lparr>jc_SecretKey = key, jc_AccessTokenExpiry = vi_GetInt v ''JWT_ACCESS_TOKEN_EXPIRY_HOURS'',
       jc_RefreshTokenExpiry = vi_GetInt v ''JWT_REFRESH_TOKEN_EXPIRY_HOURS''\<rparr>)"

definition payment_config :: "viper \<Rightarrow> PaymentConfig" where
  "payment_config v = \<lparr>
     pc_Provider = (if vi_IsSet v ''PAYMENT_PROVIDER'' then ToLower (vi_GetString v ''PAYMENT_PROVIDER'') else ''paystack''),
     pc_SecretKey = vi_GetString v ''PAYSTACK_SECRET_KEY'', pc_BaseURL = vi_GetString v ''PAYSTACK_BASE_URL'',
     pc_CallbackURL = vi_GetString v ''PAYMENT_CALLBACK_URL'',
     pc_PollInterval = when_positive v ''PAYMENT_POLL_INTERVAL_SECONDS'' time_Second time_Minute,
     pc_PollMaxRetries = when_positive v ''PAYMENT_POLL_MAX_RETRIES'' 1 30\<rparr>"

definition GetConfigFromViper :: "(string \<Rightarrow> string + string) \<Rightarrow> viper \<Rightarrow> stop + Config" where
  "GetConfigFromViper url_Parse v = (case redis_url url_Parse v of
      Inl s \<Rightarrow> Inl s
    | Inr url \<Rightarrow> (case jwt_config v of
        Inl s \<Rightarrow> Inl s
      | Inr jwt \<Rightarrow> Inr \<lparr>cf_Database = database_config v,
          cf_Uptrace = \<lparr>ut_DSN = vi_GetString v ''UPTRACE_DSN'', ut_ServiceName = vi_GetString v ''UPTRACE_SERVICE_NAME'',
            ut_ServiceVersion = vi_GetString v ''UPTRACE_SERVICE_VERSION''\<rparr>,
          cf_BackgroundWorker = worker_config v url, cf_AllowedOrigins = getAllowedOrigins v,
          cf_Port = at_least_one v ''APP_PORT'' 7001, cf_ResendEmail = vi_GetString v ''RESEND_API_EMAIL'',
          cf_ResendKey = vi_GetString v ''RESEND_API_KEY'', cf_EmailProvider = vi_GetString v ''EMAIL_PROVIDER'',
          cf_OTP = otp_config v, cf_Payment = payment_config v, cf_JWT = jwt, cf_TigerBeetle = tigerbeetle_config v\<rparr>))"

lemma GetConfig_cases:
  assumes "GetConfigFromViper url_Parse v = Inr c"
  obtains url jwt where "redis_url url_Parse v = Inr url" "jwt_config v = Inr jwt"
    "cf_Database c = database_config v" "cf_BackgroundWorker c = worker_config v url" "cf_OTP c = otp_config v"
    "cf_Payment c = payment_config v" "cf_JWT c = jwt" "cf_TigerBeetle c = tigerbeetle_config v"
    "cf_AllowedOrigins c = getAllowedOrigins v" "cf_EmailProvider c = vi_GetString v ''EMAIL_PROVIDER''"
  using assms by (auto simp: GetConfigFromViper_def split: sum.splits)

end
