(* ===== verification/Startup.thy ===== *)
theory Startup
  imports Config Routes
begin

text \<open>
  Start-up: \<^verbatim>\<open>src/cmd/main.go\<close>, \<^verbatim>\<open>src/internal/api/api.go\<close>, \<^verbatim>\<open>src/telemetry/telemetry.go\<close>,
  \<^verbatim>\<open>src/internal/api/providers/resend.go\<close>, and the connection options of \<^verbatim>\<open>otp/store.go\<close> and
  \<^verbatim>\<open>queues/worker.go\<close>. \<open>start_app\<close> builds what \<open>fx\<close> builds, in the order in which the constructors
  need each other, and \<open>on_start\<close> runs the start hooks in the order they were appended.
\<close>

section \<open>Packages\<close>

record redis_opts =
  rop_Addr :: string
  rop_Username :: string
  rop_Password :: string
  rop_DB :: int64

text \<open>What \<open>asynq.ParseRedisURI\<close> makes of a URI: the options of one server, or those of a sentinel or
  cluster, which the code passes on as they are.\<close>

datatype conn_opt = RedisClientOpt redis_opts | OtherConnOpt string

record SendEmailRequest =
  se_From :: string
  se_To :: "string list"
  se_Subject :: string
  se_Html :: string

record ('tb, 'x) start_pkgs =
  st_url_Parse :: "string \<Rightarrow> string + string"
  st_gorm_Open :: "string \<Rightarrow> string option"
  st_AutoMigrate :: "string list \<Rightarrow> string option"
  st_redis_ParseURL :: "string \<Rightarrow> string + redis_opts"
  st_redis_NewClient :: "redis_opts \<Rightarrow> 'x redis_client"
  st_redis_Ping :: "redis_opts \<Rightarrow> 'x \<Rightarrow> go_error option \<times> 'x"
  st_ParseRedisURI :: "string \<Rightarrow> string + conn_opt"
  st_asynq_NewClient :: "conn_opt \<Rightarrow> 'x asynq_client"
  st_asynq_Ping :: "conn_opt \<Rightarrow> 'x \<Rightarrow> go_error option \<times> 'x"
  st_asynq_Start :: "conn_opt \<Rightarrow> 'x \<Rightarrow> go_error option \<times> 'x"
  st_tb_NewClient :: "u128 \<Rightarrow> string list \<Rightarrow> string + 'tb tb_client"
  st_tb_ToUint128 :: "uint64 \<Rightarrow> u128"
  st_uuid :: uuid_pkg
  st_bcrypt :: "'x bcrypt_pkg"
  st_sha256 :: "string \<Rightarrow> string"
  st_jwtauth_New :: "string \<Rightarrow> jwt_pkg"
  st_paystack :: "'x paystack_env"
  st_resend :: "string \<Rightarrow> SendEmailRequest \<Rightarrow> 'x \<Rightarrow> (go_error + string) \<times> 'x"
  st_templates :: "string \<Rightarrow> (EmailPayload \<Rightarrow> string + string) option"
  st_http :: "answer http_pkgs"
  st_MarshalYAML :: "openapi \<Rightarrow> string + string"
  st_UI :: "incoming \<Rightarrow> answer response"

section \<open>Redis\<close>

definition NewRedisClient :: "(string \<Rightarrow> string + redis_opts) \<Rightarrow> AsynqBackgroundWorker \<Rightarrow> go_error + redis_opts" where
  "NewRedisClient redis_ParseURL cfg = (case redis_ParseURL (bw_RedisUrl cfg) of
      Inl m \<Rightarrow> Inl (wrap_cause ''parsing otp redis url'' (Opaque m))
    | Inr opts \<Rightarrow>
        let opts = (if bw_Username cfg \<noteq> '''' then opts\<lparr>rop_Username := bw_Username cfg\<rparr> else opts);
            opts = (if bw_Password cfg \<noteq> '''' then opts\<lparr>rop_Password := bw_Password cfg\<rparr> else opts)
        in Inr (opts\<lparr>rop_DB := bw_DB cfg\<rparr>))"

definition RedisConnOpt :: "(string \<Rightarrow> string + conn_opt) \<Rightarrow> AsynqBackgroundWorker \<Rightarrow> go_error + conn_opt" where
  "RedisConnOpt asynq_ParseRedisURI cfg = (case asynq_ParseRedisURI (bw_RedisUrl cfg) of
      Inl m \<Rightarrow> Inl (wrap_cause ''parsing ASYNC_REDIS_URL'' (Opaque m))
    | Inr (OtherConnOpt raw) \<Rightarrow> Inr (OtherConnOpt raw)
    | Inr (RedisClientOpt opts) \<Rightarrow>
        let opts = (if bw_Username cfg \<noteq> '''' then opts\<lparr>rop_Username := bw_Username cfg\<rparr> else opts);
            opts = (if bw_Password cfg \<noteq> '''' then opts\<lparr>rop_Password := bw_Password cfg\<rparr> else opts);
            opts = (if bw_DB cfg \<noteq> 0 then opts\<lparr>rop_DB := bw_DB cfg\<rparr> else opts)
        in Inr (RedisClientOpt opts))"

text \<open>The asynq server's own configuration in \<open>NewAsyncWorker\<close>.\<close>

record asynq_config =
  ac_Concurrency :: int
  ac_Queues :: "(string \<times> int) list"
  ac_IsFailure :: "go_error \<Rightarrow> bool"

definition NewAsynqConfig :: "AsynqBackgroundWorker \<Rightarrow> asynq_config" where
  "NewAsynqConfig workerCfg = \<lparr>
     ac_Concurrency = (if sint (bw_Concurrency workerCfg) \<le> 0 then 10 else sint (bw_Concurrency workerCfg)),
     ac_Queues = [(if bw_RedisNamespace workerCfg = '''' then ''default'' else bw_RedisNamespace workerCfg, 1)],
     ac_IsFailure = IsFailure\<rparr>"

section \<open>Logging and tracing\<close>

text \<open>\<open>slog.Level.UnmarshalText\<close>: a name and an optional signed offset, added in 64-bit arithmetic.\<close>

definition level_offset :: "string \<Rightarrow> int64 option" where
  "level_offset s = (if s = '''' then Some 0 else ParseInt64 s)"

definition UnmarshalLevel :: "string \<Rightarrow> int64 option" where
  "UnmarshalLevel s =
     (let name = takeWhile (\<lambda>c. c \<noteq> CHR ''+'' \<and> c \<noteq> CHR ''-'') s in
      case level_offset (drop (length name) s) of
        None \<Rightarrow> None
      | Some offset \<Rightarrow> map_option (\<lambda>base. base + offset)
          (map_of [(''DEBUG'', - 4), (''INFO'', 0), (''WARN'', 4), (''ERROR'', 8)] (ToUpper name)))"

record log_setup =
  lg_Level :: int64
  lg_Text :: bool

definition StartNewLogger :: "viper \<Rightarrow> log_setup" where
  "StartNewLogger v = \<lparr>
     lg_Level = (case UnmarshalLevel (vi_GetString v ''LOG_LEVEL'') of Some level \<Rightarrow> level | None \<Rightarrow> 0),
     lg_Text = (vi_GetString v ''LOG_FORMAT'' = ''text'')\<rparr>"

record TracerConfig =
  tr_AppName :: string
  tr_AppServiceName :: string
  tr_AppServiceVersion :: string
  tr_DSN :: string

text \<open>The tracer \<open>otel.Tracer\<close> is asked for, and the exporter when one is configured.\<close>

record tracer_setup =
  ts_Name :: string
  ts_Version :: "string option"
  ts_Exporter :: "(string \<times> string \<times> string) option"

definition StartAppTracer :: "TracerConfig \<Rightarrow> tracer_setup" where
  "StartAppTracer cfg =
     (let name = tr_AppServiceName cfg;
          name = (if name = '''' then tr_AppName cfg else name);
          name = (if name = '''' then ''eda-monolith'' else name)
      in \<lparr>ts_Name = name,
          ts_Version = (if tr_AppServiceVersion cfg \<noteq> '''' then Some (tr_AppServiceVersion cfg) else None),
          ts_Exporter = (if tr_DSN cfg \<noteq> '''' then Some (tr_DSN cfg, name, tr_AppServiceVersion cfg) else None)\<rparr>)"

definition StartTracer :: "Config \<Rightarrow> tracer_setup" where
  "StartTracer cfg = StartAppTracer \<lparr>tr_AppName = ''EDA Monolith'', tr_AppServiceName = ut_ServiceName (cf_Uptrace cfg),
     tr_AppServiceVersion = ut_ServiceVersion (cf_Uptrace cfg), tr_DSN = ut_DSN (cf_Uptrace cfg)\<rparr>"

section \<open>Mail\<close>

text \<open>The Resend provider: its client, made with the API key, and the sender's address.\<close>

record 'x ResendProvider =
  rs_SendWithContext :: "SendEmailRequest \<Rightarrow> 'x \<Rightarrow> (go_error + string) \<times> 'x"
  rs_SenderEmail :: string

definition NewResendProvider ::
  "(string \<Rightarrow> SendEmailRequest \<Rightarrow> 'x \<Rightarrow> (go_error + string) \<times> 'x) \<Rightarrow> string \<Rightarrow> string \<Rightarrow> 'x ResendProvider" where
  "NewResendProvider resend_NewClient resendKey senderEmail =
     \<lparr>rs_SendWithContext = resend_NewClient resendKey, rs_SenderEmail = senderEmail\<rparr>"

definition Resend_Send :: "'x ResendProvider \<Rightarrow> EmailPayload \<Rightarrow> string \<Rightarrow> 'x \<Rightarrow> go_error option \<times> 'x" where
  "Resend_Send p payload body x =
     (case rs_SendWithContext p \<lparr>se_From = rs_SenderEmail p, se_To = ep_To payload, se_Subject = ep_Subject payload,
        se_Html = body\<rparr> x of
        (Inl err, x') \<Rightarrow> (Some (wrap_cause ''sending email via resend'' err), x')
      | (Inr i, x') \<Rightarrow> (None, x'))"

section \<open>The constructors\<close>

definition migrationModels :: "string list" where
  "migrationModels = [''User'', ''Wallet'', ''UserActivity'', ''TransactionIntent'', ''Transfer'']"

text \<open>\<open>StartNewDB\<close> panics on either failure.\<close>

definition StartNewDB :: "('tb, 'x) start_pkgs \<Rightarrow> Config \<Rightarrow> stop option" where
  "StartNewDB K cfg = (case st_gorm_Open K (DSN (cf_Database cfg)) of
      Some m \<Rightarrow> Some (Panic m)
    | None \<Rightarrow> if dc_SkipAutoMigrate (cf_Database cfg) then None else map_option Panic (st_AutoMigrate K migrationModels))"

definition NewLedger :: "(u128 \<Rightarrow> string list \<Rightarrow> string + 'tb tb_client) \<Rightarrow> u128 \<Rightarrow> string list \<Rightarrow> go_error + 'tb tb_client" where
  "NewLedger tb_NewClient clusterID addresses = (case tb_NewClient clusterID addresses of
      Inl m \<Rightarrow> Inl (wrap_cause ''tigerbeetle client'' (Opaque m))
    | Inr client \<Rightarrow> Inr client)"

definition StartNewLedger :: "('tb, 'x) start_pkgs \<Rightarrow> Config \<Rightarrow> go_error + 'tb tb_client" where
  "StartNewLedger K cfg = NewLedger (st_tb_NewClient K) (st_tb_ToUint128 K (tc_ClusterID (cf_TigerBeetle cfg)))
     (tc_Addresses (cf_TigerBeetle cfg))"

definition StartNewPaymentProvider :: "('tb, 'x) start_pkgs \<Rightarrow> Config \<Rightarrow> 'x PaymentProvider option" where
  "StartNewPaymentProvider K cfg = (let p = cf_Payment cfg in
     if pc_Provider p = PaystackName
     then if pc_SecretKey p = '''' then None
       else Some (paystack (st_paystack K) (NewPaystackProvider (pc_SecretKey p) (pc_BaseURL p)))
     else None)"

definition StartNewOTPStore :: "('tb, 'x) start_pkgs \<Rightarrow> redis_opts \<Rightarrow> Config \<Rightarrow> 'x Store" where
  "StartNewOTPStore K opts cfg = NewStore (st_redis_NewClient K opts) (st_sha256 K)
     (sint (oc_Length (cf_OTP cfg))) (sint (oc_TTL (cf_OTP cfg))) (sint (oc_MaxAttempts (cf_OTP cfg)))"

definition email_sender ::
  "('tb, 'x) start_pkgs \<Rightarrow> Config \<Rightarrow> (EmailPayload \<Rightarrow> string \<Rightarrow> 'x \<Rightarrow> go_error option \<times> 'x) option" where
  "email_sender K cfg = (if cf_EmailProvider cfg = ''resend''
     then Some (Resend_Send (NewResendProvider (st_resend K) (cf_ResendKey cfg) (cf_ResendEmail cfg))) else None)"

definition StartNewQueueWorker ::
  "('tb, 'x) start_pkgs \<Rightarrow> Config \<Rightarrow> 'x PaymentProvider option \<Rightarrow> 'tb tb_client \<Rightarrow> go_error + conn_opt \<times> ('tb, 'x) AsynqWorker" where
  "StartNewQueueWorker K cfg paymentProvider ledgerClient =
     (case RedisConnOpt (st_ParseRedisURI K) (cf_BackgroundWorker cfg) of
        Inl err \<Rightarrow> Inl err
      | Inr opts \<Rightarrow> Inr (opts, NewAsyncWorker (bw_RedisNamespace (cf_BackgroundWorker cfg)) (st_uuid K)
          (st_asynq_NewClient K opts) (st_templates K) (email_sender K cfg) paymentProvider (Some ledgerClient)
          (sint (pc_PollInterval (cf_Payment cfg))) (sint (pc_PollMaxRetries (cf_Payment cfg)))))"

definition StartNewServices ::
  "('tb, 'x) start_pkgs \<Rightarrow> Config \<Rightarrow> ('tb, 'x) world EventBus \<Rightarrow> 'x Store \<Rightarrow> 'x PaymentProvider option \<Rightarrow> 'tb tb_client \<Rightarrow>
   ('tb, 'x) Service" where
  "StartNewServices K cfg bus store provider ledger = NewService \<lparr>sv_uuid = st_uuid K, sv_Bus = Some bus, sv_Store = store,
     sv_bcrypt = st_bcrypt K, sv_jwt = st_jwtauth_New K (jc_SecretKey (cf_JWT cfg)),
     sv_AccessTokenExpiry = jc_AccessTokenExpiry (cf_JWT cfg), sv_RefreshTokenExpiry = jc_RefreshTokenExpiry (cf_JWT cfg),
     sv_Provider = provider, sv_CallbackURL = pc_CallbackURL (cf_Payment cfg), sv_Ledger = Some ledger\<rparr>"

section \<open>The API server\<close>

record StartApiConfigParams =
  sa_Port :: int64
  sa_AllowedOrigins :: "string list"
  sa_DocsConfig :: GenerateDocsConfig

definition BuildApiConfig :: "Config \<Rightarrow> viper \<Rightarrow> StartApiConfigParams" where
  "BuildApiConfig cfg v = \<lparr>sa_Port = vi_GetInt v ''PORT'', sa_AllowedOrigins = cf_AllowedOrigins cfg,
     sa_DocsConfig = \<lparr>gd_Title = ''EDA Monolith'', gd_Version = ''1.0.0'',
       gd_Description = ''HTTP API for the eda-monolith service.'', gd_ServerURL = vi_GetString v ''SERVER_URL'',
       gd_Routes = Some RoutesDocs\<rparr>\<rparr>"

record ('tb, 'x) server =
  srv_Addr :: string
  srv_Origins :: "string list"
  srv_Docs :: openapi
  srv_Routes :: "('tb, 'x) Routes"

definition NewApiServer :: "('tb, 'x) start_pkgs \<Rightarrow> ('tb, 'x) Service \<Rightarrow> StartApiConfigParams \<Rightarrow> ('tb, 'x) server" where
  "NewApiServer K services cfg =
     (let docs = GenerateDocs (Some (sa_DocsConfig cfg));
          port = (if sa_Port cfg = 0 then 8080 else sa_Port cfg)
      in \<lparr>srv_Addr = '':'' @ fmt_d (sint port), srv_Origins = sa_AllowedOrigins cfg, srv_Docs = docs,
          srv_Routes = \<lparr>rt_Pkgs = st_http K, rt_Services = services, rt_MarshalYAML = st_MarshalYAML K docs,
            rt_UI = st_UI K\<rparr>\<rparr>)"

section \<open>main\<close>

record ('tb, 'x) app =
  ap_Config :: Config
  ap_Logger :: log_setup
  ap_Tracer :: tracer_setup
  ap_Redis :: redis_opts
  ap_Ledger :: "'tb tb_client"
  ap_Service :: "('tb, 'x) Service"
  ap_Server :: "('tb, 'x) server"
  ap_ConnOpt :: conn_opt
  ap_Worker :: "('tb, 'x) AsynqWorker"
  ap_Asynq :: asynq_config

text \<open>The services share the bus \<open>RegisterListeners\<close> subscribes to: the model builds it subscribed.\<close>

definition start_app :: "('tb, 'x) start_pkgs \<Rightarrow> viper \<Rightarrow> stop + ('tb, 'x) app" where
  "start_app K v = (case GetConfigFromViper (st_url_Parse K) v of
      Inl s \<Rightarrow> Inl s
    | Inr cfg \<Rightarrow> (case StartNewDB K cfg of
        Some s \<Rightarrow> Inl s
      | None \<Rightarrow> (case NewRedisClient (st_redis_ParseURL K) (cf_BackgroundWorker cfg) of
          Inl err \<Rightarrow> Inl (StartError err)
        | Inr opts \<Rightarrow> (case StartNewLedger K cfg of
            Inl err \<Rightarrow> Inl (StartError err)
          | Inr ledger \<Rightarrow> (let store = StartNewOTPStore K opts cfg; provider = StartNewPaymentProvider K cfg in
              case StartNewQueueWorker K cfg provider ledger of
                Inl err \<Rightarrow> Inl (StartError err)
              | Inr (conn, queueWorker) \<Rightarrow>
                  (let services = StartNewServices K cfg (RegisterListeners NewEventBus queueWorker store) store provider ledger
                   in Inr \<lparr>ap_Config = cfg, ap_Logger = StartNewLogger v, ap_Tracer = StartTracer cfg, ap_Redis = opts,
                        ap_Ledger = ledger, ap_Service = services, ap_Server = NewApiServer K services (BuildApiConfig cfg v),
                        ap_ConnOpt = conn, ap_Worker = queueWorker, ap_Asynq = NewAsynqConfig (cf_BackgroundWorker cfg)\<rparr>))))))"

definition Worker_Start ::
  "('tb, 'x) start_pkgs \<Rightarrow> conn_opt \<Rightarrow> (go_error option, ('tb, 'x) world) prog" where
  "Worker_Start K conn = bnd (ext_call [] (st_asynq_Ping K conn)) (\<lambda>e. case e of
      Some err \<Rightarrow> Ret (Some (wrap_cause ''redis unreachable'' err))
    | None \<Rightarrow> ext_call [] (st_asynq_Start K conn))"

text \<open>\<open>ListenAndServe\<close> always returns an error; any but \<open>ErrServerClosed\<close> is a panic.\<close>

datatype listen_error = ErrServerClosed | ListenFailed string

definition StartServer :: "listen_error \<Rightarrow> stop option" where
  "StartServer err = (case err of ErrServerClosed \<Rightarrow> None | ListenFailed m \<Rightarrow> Some (Panic (''api server failed: '' @ m)))"

text \<open>The hooks with an effect: the one-time codes' Redis must answer, the settlement accounts are
  opened if the ledger is up, and the queue worker is started if its Redis answers. Only the first
  stops the start.\<close>

definition on_start :: "('tb, 'x) start_pkgs \<Rightarrow> ('tb, 'x) app \<Rightarrow> (go_error option, ('tb, 'x) world) prog" where
  "on_start K app = bnd (ext_call [] (st_redis_Ping K (ap_Redis app))) (\<lambda>e. case e of
      Some err \<Rightarrow> Ret (Some err)
    | None \<Rightarrow> bnd (EnsureSettlementAccounts (ap_Ledger app)) (\<lambda>_.
        bnd (Worker_Start K (ap_ConnOpt app)) (\<lambda>_. Ret None)))"

text \<open>The whole of start-up, as \<open>fx_instance.Run\<close> makes it: the configuration is found, the constructors
  run, then the hooks. A hook's error ends the program.\<close>

definition start_program ::
  "('tb, 'x) start_pkgs \<Rightarrow> setup_pkgs \<Rightarrow> viper \<Rightarrow> (stop + ('tb, 'x) app, ('tb, 'x) world) prog" where
  "start_program K S viperInstance = (case SetupViper S viperInstance of
      Inl s \<Rightarrow> Ret (Inl s)
    | Inr v \<Rightarrow> (case start_app K v of
        Inl s \<Rightarrow> Ret (Inl s)
      | Inr app \<Rightarrow> bnd (on_start K app) (\<lambda>e. Ret (case e of Some err \<Rightarrow> Inl (StartError err) | None \<Rightarrow> Inr app))))"

end
