(* ===== verification/Startup_Properties.thy ===== *)
theory Startup_Properties
  imports Startup Route_Properties Otp_Expiry
begin

text \<open>
  Start-up: when it succeeds, what the settings are bounded by, and that what it wires together
  satisfies the contracts the properties of the services, the workers and the routes rest on.
\<close>

section \<open>What start-up builds\<close>

lemma start_app_cases:
  assumes "start_app K v = Inr app"
  obtains c opts ledger conn where "GetConfigFromViper (st_url_Parse K) v = Inr c" "StartNewDB K c = None"
    "NewRedisClient (st_redis_ParseURL K) (cf_BackgroundWorker c) = Inr opts" "StartNewLedger K c = Inr ledger"
    "ap_Worker app = NewAsyncWorker (bw_RedisNamespace (cf_BackgroundWorker c)) (st_uuid K) (st_asynq_NewClient K conn)
       (st_templates K) (email_sender K c) (StartNewPaymentProvider K c) (Some ledger)
       (sint (pc_PollInterval (cf_Payment c))) (sint (pc_PollMaxRetries (cf_Payment c)))"
    "RedisConnOpt (st_ParseRedisURI K) (cf_BackgroundWorker c) = Inr conn"
    "ap_Config app = c" "ap_Redis app = opts" "ap_Ledger app = ledger" "ap_ConnOpt app = conn"
    "ap_Service app = StartNewServices K c (RegisterListeners NewEventBus (ap_Worker app) (StartNewOTPStore K opts c))
       (StartNewOTPStore K opts c) (StartNewPaymentProvider K c) ledger"
    "ap_Server app = NewApiServer K (ap_Service app) (BuildApiConfig c v)"
proof -
  from assms obtain c opts ledger conn W where *: "GetConfigFromViper (st_url_Parse K) v = Inr c" "StartNewDB K c = None"
      "NewRedisClient (st_redis_ParseURL K) (cf_BackgroundWorker c) = Inr opts" "StartNewLedger K c = Inr ledger"
      "StartNewQueueWorker K c (StartNewPaymentProvider K c) ledger = Inr (conn, W)"
    by (auto simp: start_app_def Let_def split: sum.splits option.splits)
  moreover from *(5) have "RedisConnOpt (st_ParseRedisURI K) (cf_BackgroundWorker c) = Inr conn"
      "W = NewAsyncWorker (bw_RedisNamespace (cf_BackgroundWorker c)) (st_uuid K) (st_asynq_NewClient K conn)
       (st_templates K) (email_sender K c) (StartNewPaymentProvider K c) (Some ledger)
       (sint (pc_PollInterval (cf_Payment c))) (sint (pc_PollMaxRetries (cf_Payment c)))"
    unfolding StartNewQueueWorker_def by (auto split: sum.splits)
  moreover have "ap_Worker app = W" using * assms by (auto simp: start_app_def Let_def)
  ultimately show ?thesis using assms by (intro that) (auto simp: start_app_def Let_def)
qed

lemma started_routes:
  assumes "start_app K v = Inr app"
  shows "rt_Services (srv_Routes (ap_Server app)) = ap_Service app" and "rt_Pkgs (srv_Routes (ap_Server app)) = st_http K"
  by (rule start_app_cases[OF assms], simp add: NewApiServer_def Let_def)+

text \<open>The wiring gives the services and the workers one UUID package, one ledger and one bus.\<close>

lemma started_contracts:
  assumes "start_app K v = Inr app"
  shows "worker_ok (st_uuid K) (ap_Ledger app) (ap_Worker app)"
    and "service_ok (st_uuid K) (ap_Ledger app) (ap_Worker app) (ap_Service app)"
proof -
  from assms obtain c opts ledger conn where c:
      "ap_Worker app = NewAsyncWorker (bw_RedisNamespace (cf_BackgroundWorker c)) (st_uuid K) (st_asynq_NewClient K conn)
         (st_templates K) (email_sender K c) (StartNewPaymentProvider K c) (Some ledger)
         (sint (pc_PollInterval (cf_Payment c))) (sint (pc_PollMaxRetries (cf_Payment c)))" "ap_Ledger app = ledger"
      "ap_Service app = StartNewServices K c (RegisterListeners NewEventBus (ap_Worker app) (StartNewOTPStore K opts c))
         (StartNewOTPStore K opts c) (StartNewPaymentProvider K c) ledger"
    by (rule start_app_cases)
  show "worker_ok (st_uuid K) (ap_Ledger app) (ap_Worker app)" unfolding c(1,2) by (rule worker_ok_New) simp
  show "service_ok (st_uuid K) (ap_Ledger app) (ap_Worker app) (ap_Service app)"
    unfolding c(2,3) by (simp add: service_ok_def StartNewServices_def NewService_def)
qed

lemma guar_on_start: "tb_ok (ap_Ledger app) posted \<Longrightarrow> guar (sys_rel P (ap_Ledger app) posted) (on_start K app)"
  unfolding on_start_def Worker_Start_def EnsureSettlementAccounts_def createAccounts_def
  by (intro guar_rules guar_clients guar_ext_call; simp)

text \<open>C8. The program as \<open>main\<close> wires it keeps the books, for every configuration it starts with: from
  any world in which they are in order, after the start hooks have run, in every interleaving of HTTP
  requests and queue jobs every posted transfer is explained by a row, every row marked SUCCESS is
  posted and every refund is recorded.\<close>

theorem started_app_keeps_the_books:
  assumes "start_app K v = Inr app" and "env_ok (st_uuid K) (ap_Ledger app) posted"
    and "ledger_inv (st_uuid K) (ap_Ledger app) posted w" and "run (on_start K app) w = (result, w1)"
    and "interleave\<^sup>*\<^sup>* (map (\<lambda>r. quiet (ServeHTTP (srv_Routes (ap_Server app)) r)) rs @
        map (job_prog (ap_Worker app) (ap_Service app)) jobs, w1) (ps, w')"
    and "uuids_fresh w'"
  shows "ledger_inv (st_uuid K) (ap_Ledger app) posted w'"
proof -
  let ?R = "sys_rel (st_uuid K) (ap_Ledger app) posted"
  have ok: "tb_ok (ap_Ledger app) posted" using assms(2) by (simp add: env_ok_def)
  have start: "?R w w1" by (rule sys.run_guar[OF guar_on_start[OF ok] assms(4)])
  have "?R w1 w'"
    by (rule requests_rel[OF assms(2) started_contracts(1)[OF assms(1)], of "srv_Routes (ap_Server app)"])
      (use started_routes[OF assms(1)] started_contracts(2)[OF assms(1)] assms(5) in simp_all)
  then have "?R w w'" using start sys.rely_trans by blast
  then show ?thesis using assms(3,6) by (simp add: sys_rel_def)
qed

section \<open>Settings\<close>

lemma at_least_one_bound: "1 \<le> sint d \<Longrightarrow> 1 \<le> sint (at_least_one v key d)"
  by (simp add: at_least_one_def)

lemma when_positive_bound: "1 \<le> sint d \<Longrightarrow> 1 \<le> sint (when_positive v key 1 d)"
  by (simp add: when_positive_def)

text \<open>A number of units that fits comes out as that many nanoseconds.\<close>

lemma when_positive_exact:
  assumes "0 < sint u" and "sint (vi_GetInt v key) \<le> (2 ^ 63 - 1) div sint u" and "d = of_int n * u" and "0 < n"
    and "n \<le> (2 ^ 63 - 1) div sint u"
  shows "sint (when_positive v key u d) = (if vi_IsSet v key \<and> 0 < sint (vi_GetInt v key) then sint (vi_GetInt v key) else n) * sint u"
proof -
  have exact: "sint (word_of_int x :: int64) = x" if "- (2 ^ 63) \<le> x" "x < 2 ^ 63" for x
    using that by (simp add: signed_of_int signed_take_bit_int_eq_self)
  have fits: "sint (of_int m * u :: int64) = m * sint u" if "0 < m" "m \<le> (2 ^ 63 - 1) div sint u" for m
  proof -
    have "m * sint u \<le> (2 ^ 63 - 1) div sint u * sint u" using that assms(1) by (intro mult_right_mono) simp_all
    also have "\<dots> \<le> 2 ^ 63 - 1" by (metis div_mult_mod_eq assms(1) le_add_same_cancel1 pos_mod_sign)
    finally have "sint (word_of_int (m * sint u) :: int64) = m * sint u"
      using that assms(1) by (intro exact) (simp_all add: order_trans[of _ 0])
    moreover have "of_int m * u = word_of_int (m * sint u)" by simp
    ultimately show ?thesis by (simp only:)
  qed
  show ?thesis
    using fits[of "sint (vi_GetInt v key)"] fits[OF assms(4,5)] assms(2,3) by (simp add: when_positive_def)
qed

lemma otp_ttl_exact:
  assumes "sint (vi_GetInt v ''OTP_TTL_MINUTES'') \<le> 153722867"
  shows "sint (oc_TTL (otp_config v)) = 60000000000 *
    (if vi_IsSet v ''OTP_TTL_MINUTES'' \<and> 0 < sint (vi_GetInt v ''OTP_TTL_MINUTES'') then sint (vi_GetInt v ''OTP_TTL_MINUTES'') else 10)"
proof -
  have "sint (oc_TTL (otp_config v)) = (if vi_IsSet v ''OTP_TTL_MINUTES'' \<and> 0 < sint (vi_GetInt v ''OTP_TTL_MINUTES'')
      then sint (vi_GetInt v ''OTP_TTL_MINUTES'') else 10) * sint time_Minute"
    unfolding otp_config_def OTPConfig.select_convs
    by (rule when_positive_exact) (use assms in \<open>simp_all add: time_Minute_def time_Second_def\<close>)
  then show ?thesis by (simp add: time_Minute_def time_Second_def)
qed

text \<open>So the codes and counters of a started program live for whole seconds, as \<open>Otp_Expiry\<close> asks.\<close>

lemma started_codes_whole_seconds:
  assumes "start_app K v = Inr app" and "sint (vi_GetInt v ''OTP_TTL_MINUTES'') \<le> 153722867"
  shows "whole_seconds (os_TTL (sv_Store (ap_Service app)))"
proof -
  obtain c opts ledger where c: "GetConfigFromViper (st_url_Parse K) v = Inr c"
      "ap_Service app = StartNewServices K c (RegisterListeners NewEventBus (ap_Worker app) (StartNewOTPStore K opts c))
         (StartNewOTPStore K opts c) (StartNewPaymentProvider K c) ledger"
    by (rule start_app_cases[OF assms(1)])
  have "cf_OTP c = otp_config v" by (rule GetConfig_cases[OF c(1)])
  with otp_ttl_exact[OF assms(2)] show ?thesis
    unfolding c(2) by (auto simp: StartNewServices_def NewService_def StartNewOTPStore_def NewStore_def whole_seconds_def)
qed

text \<open>C27. Every configuration the program runs with is usable: tokens are never signed with an empty
  key, every count is at least one, there is an allowed origin and a ledger address, and the life of a
  code and the poll interval are the configured numbers of minutes and seconds, or the defaults, exactly,
  as long as these fit 64 bits of nanoseconds.\<close>

theorem settings_within_bounds:
  assumes "GetConfigFromViper url_Parse v = Inr c"
    and "sint (vi_GetInt v ''OTP_TTL_MINUTES'') \<le> 153722867" and "sint (vi_GetInt v ''PAYMENT_POLL_INTERVAL_SECONDS'') \<le> 9223372036"
  shows "jc_SecretKey (cf_JWT c) \<noteq> '''' \<and> cf_AllowedOrigins c \<noteq> [] \<and> tc_Addresses (cf_TigerBeetle c) \<noteq> [] \<and>
    1 \<le> sint (bw_Concurrency (cf_BackgroundWorker c)) \<and> 1 \<le> sint (bw_DB (cf_BackgroundWorker c)) \<and>
    1 \<le> sint (oc_Length (cf_OTP c)) \<and> 1 \<le> sint (oc_MaxAttempts (cf_OTP c)) \<and> 1 \<le> sint (pc_PollMaxRetries (cf_Payment c)) \<and>
    sint (oc_TTL (cf_OTP c)) = 60000000000 *
      (if vi_IsSet v ''OTP_TTL_MINUTES'' \<and> 0 < sint (vi_GetInt v ''OTP_TTL_MINUTES'') then sint (vi_GetInt v ''OTP_TTL_MINUTES'') else 10) \<and>
    sint (pc_PollInterval (cf_Payment c)) = 1000000000 *
      (if vi_IsSet v ''PAYMENT_POLL_INTERVAL_SECONDS'' \<and> 0 < sint (vi_GetInt v ''PAYMENT_POLL_INTERVAL_SECONDS'')
       then sint (vi_GetInt v ''PAYMENT_POLL_INTERVAL_SECONDS'') else 60)"
proof -
  have poll: "sint (pc_PollInterval (payment_config v)) =
      (if vi_IsSet v ''PAYMENT_POLL_INTERVAL_SECONDS'' \<and> 0 < sint (vi_GetInt v ''PAYMENT_POLL_INTERVAL_SECONDS'')
       then sint (vi_GetInt v ''PAYMENT_POLL_INTERVAL_SECONDS'') else 60) * sint time_Second"
    unfolding payment_config_def PaymentConfig.select_convs
    by (rule when_positive_exact) (use assms(3) in \<open>simp_all add: time_Minute_def time_Second_def\<close>)
  have units: "sint time_Minute = 60000000000" "sint time_Second = 1000000000"
    by (simp_all add: time_Minute_def time_Second_def)
  obtain url jwt where c: "jwt_config v = Inr jwt" "cf_BackgroundWorker c = worker_config v url" "cf_OTP c = otp_config v"
      "cf_Payment c = payment_config v" "cf_JWT c = jwt" "cf_TigerBeetle c = tigerbeetle_config v"
      "cf_AllowedOrigins c = getAllowedOrigins v"
    by (rule GetConfig_cases[OF assms(1)])
  have "jc_SecretKey jwt \<noteq> ''''" using c(1) by (auto simp: jwt_config_def Let_def split: if_splits)
  then show ?thesis
    unfolding c using otp_ttl_exact[OF assms(2)] poll
    by (simp add: getAllowedOrigins_def units tigerbeetle_config_def worker_config_def Let_def otp_config_def
        payment_config_def at_least_one_bound when_positive_bound)
qed

text \<open>Too many minutes for 64 bits of nanoseconds come out negative.\<close>

lemma ttl_overflows: "sint (when_positive (v\<lparr>vi_IsSet := \<lambda>_. True, vi_GetInt := \<lambda>_. 153722868\<rparr>) key time_Minute d) < 0"
  by (simp add: when_positive_def time_Minute_def time_Second_def)

section \<open>When the program starts\<close>

text \<open>The options of a Redis URL with what the settings put in their place.\<close>

definition configured_redis :: "viper \<Rightarrow> redis_opts \<Rightarrow> redis_opts" where
  "configured_redis v opts = opts\<lparr>
     rop_Username := (if vi_GetString v ''ASYNC_REDIS_USERNAME'' = '''' then rop_Username opts else vi_GetString v ''ASYNC_REDIS_USERNAME''),
     rop_Password := (if vi_GetString v ''ASYNC_REDIS_PASSWORD'' = '''' then rop_Password opts else vi_GetString v ''ASYNC_REDIS_PASSWORD''),
     rop_DB := at_least_one v ''ASYNC_REDIS_DB'' 10\<rparr>"

lemma constructs_exactly_when:
  "(\<exists>app. start_app K v = Inr app) \<longleftrightarrow>
     vi_GetString v ''JWT_SECRET_KEY'' \<noteq> '''' \<and>
     (if vi_IsSet v ''ASYNC_REDIS_URL''
      then \<exists>host. st_url_Parse K (vi_GetString v ''ASYNC_REDIS_URL'') = Inr host \<and> host \<noteq> '''' else True) \<and>
     st_gorm_Open K (DSN (database_config v)) = None \<and>
     (if vi_IsSet v ''SKIP_AUTO_MIGRATE'' \<and> vi_GetBool v ''SKIP_AUTO_MIGRATE'' then True
      else st_AutoMigrate K migrationModels = None) \<and>
     (let url = (if vi_IsSet v ''ASYNC_REDIS_URL'' then vi_GetString v ''ASYNC_REDIS_URL'' else ''redis://localhost:6379'')
      in (\<exists>opts. st_redis_ParseURL K url = Inr opts) \<and> (\<exists>conn. st_ParseRedisURI K url = Inr conn)) \<and>
     (\<exists>client. st_tb_NewClient K (st_tb_ToUint128 K (vi_GetUint64 v ''TB_CLUSTER_ID'')) (tc_Addresses (tigerbeetle_config v)) =
        Inr client)"
    (is "?starts \<longleftrightarrow> ?conditions")
proof -
  let ?url = "if vi_IsSet v ''ASYNC_REDIS_URL'' then vi_GetString v ''ASYNC_REDIS_URL'' else ''redis://localhost:6379''"
  have url: "redis_url (st_url_Parse K) v = Inr u \<longleftrightarrow> u = ?url \<and> (if vi_IsSet v ''ASYNC_REDIS_URL''
      then \<exists>host. st_url_Parse K (vi_GetString v ''ASYNC_REDIS_URL'') = Inr host \<and> host \<noteq> '''' else True)" for u
    by (auto simp: redis_url_def Let_def split: sum.splits)
  have key: "(\<exists>j. jwt_config v = Inr j) \<longleftrightarrow> vi_GetString v ''JWT_SECRET_KEY'' \<noteq> ''''"
    by (simp add: jwt_config_def Let_def)
  have config: "(\<exists>c. GetConfigFromViper (st_url_Parse K) v = Inr c) \<longleftrightarrow>
      (\<exists>u. redis_url (st_url_Parse K) v = Inr u) \<and> (\<exists>j. jwt_config v = Inr j)"
    by (auto simp: GetConfigFromViper_def split: sum.splits)
  have db: "StartNewDB K c = None \<longleftrightarrow> st_gorm_Open K (DSN (cf_Database c)) = None \<and>
      (dc_SkipAutoMigrate (cf_Database c) \<or> st_AutoMigrate K migrationModels = None)" for c
    by (auto simp: StartNewDB_def split: option.splits)
  have redis: "(\<exists>opts. NewRedisClient p cfg = Inr opts) \<longleftrightarrow> (\<exists>opts. p (bw_RedisUrl cfg) = Inr opts)" for p cfg
    by (auto simp: NewRedisClient_def Let_def split: sum.splits)
  have conn: "(\<exists>opts. RedisConnOpt p cfg = Inr opts) \<longleftrightarrow> (\<exists>opts. p (bw_RedisUrl cfg) = Inr opts)" for p cfg
    by (auto simp: RedisConnOpt_def Let_def split: sum.splits conn_opt.splits)
  have ledger: "(\<exists>l. StartNewLedger K c = Inr l) \<longleftrightarrow> (\<exists>client. st_tb_NewClient K
      (st_tb_ToUint128 K (tc_ClusterID (cf_TigerBeetle c))) (tc_Addresses (cf_TigerBeetle c)) = Inr client)" for c
    by (auto simp: StartNewLedger_def NewLedger_def split: sum.splits)
  have "?starts \<longleftrightarrow> (\<exists>c. GetConfigFromViper (st_url_Parse K) v = Inr c \<and> StartNewDB K c = None \<and>
      (\<exists>opts. NewRedisClient (st_redis_ParseURL K) (cf_BackgroundWorker c) = Inr opts) \<and> (\<exists>l. StartNewLedger K c = Inr l) \<and>
      (\<exists>opts. RedisConnOpt (st_ParseRedisURI K) (cf_BackgroundWorker c) = Inr opts))"
    by (auto simp: start_app_def StartNewQueueWorker_def Let_def split: sum.splits option.splits)
  also have "\<dots> \<longleftrightarrow> (\<exists>c. GetConfigFromViper (st_url_Parse K) v = Inr c \<and> st_gorm_Open K (DSN (database_config v)) = None \<and>
      (dc_SkipAutoMigrate (database_config v) \<or> st_AutoMigrate K migrationModels = None) \<and>
      (\<exists>opts. st_redis_ParseURL K ?url = Inr opts) \<and> (\<exists>opts. st_ParseRedisURI K ?url = Inr opts) \<and>
      (\<exists>client. st_tb_NewClient K (st_tb_ToUint128 K (vi_GetUint64 v ''TB_CLUSTER_ID'')) (tc_Addresses (tigerbeetle_config v)) = Inr client))"
  proof (rule ex_cong1, rule conj_cong[OF refl])
    fix c assume "GetConfigFromViper (st_url_Parse K) v = Inr c"
    then obtain u where "redis_url (st_url_Parse K) v = Inr u" "cf_Database c = database_config v"
        "cf_BackgroundWorker c = worker_config v u" "cf_TigerBeetle c = tigerbeetle_config v"
      by (rule GetConfig_cases)
    moreover from this(1) have "u = ?url" by (simp only: url)
    ultimately show "StartNewDB K c = None \<and> (\<exists>opts. NewRedisClient (st_redis_ParseURL K) (cf_BackgroundWorker c) = Inr opts) \<and>
        (\<exists>l. StartNewLedger K c = Inr l) \<and> (\<exists>opts. RedisConnOpt (st_ParseRedisURI K) (cf_BackgroundWorker c) = Inr opts) \<longleftrightarrow>
        st_gorm_Open K (DSN (database_config v)) = None \<and>
        (dc_SkipAutoMigrate (database_config v) \<or> st_AutoMigrate K migrationModels = None) \<and>
        (\<exists>opts. st_redis_ParseURL K ?url = Inr opts) \<and> (\<exists>opts. st_ParseRedisURI K ?url = Inr opts) \<and>
        (\<exists>client. st_tb_NewClient K (st_tb_ToUint128 K (vi_GetUint64 v ''TB_CLUSTER_ID'')) (tc_Addresses (tigerbeetle_config v)) = Inr client)"
      unfolding db redis conn ledger by (auto simp: worker_config_def tigerbeetle_config_def)
  qed
  also have "\<dots> \<longleftrightarrow> ?conditions"
    using config by (auto simp: url key Let_def database_config_def)
  finally show ?thesis .
qed

text \<open>Of the hooks only the ping of the one-time codes' Redis can stop the start.\<close>

lemma run_start_program:
  "(\<exists>app w'. run (start_program K S v0) w = (Inr app, w')) \<longleftrightarrow>
     (\<exists>v app. SetupViper S v0 = Inr v \<and> start_app K v = Inr app \<and> fst (st_redis_Ping K (ap_Redis app) (ext w)) = None)"
  by (auto simp: start_program_def on_start_def ext_call_def split: sum.splits option.splits prod.splits)

lemma started_redis:
  assumes "start_app K v = Inr app"
    and "url = (if vi_IsSet v ''ASYNC_REDIS_URL'' then vi_GetString v ''ASYNC_REDIS_URL'' else ''redis://localhost:6379'')"
  shows "\<exists>opts. st_redis_ParseURL K url = Inr opts \<and> ap_Redis app = configured_redis v opts"
proof -
  obtain c opts where c: "GetConfigFromViper (st_url_Parse K) v = Inr c"
      "NewRedisClient (st_redis_ParseURL K) (cf_BackgroundWorker c) = Inr opts" "ap_Redis app = opts"
    by (rule start_app_cases[OF assms(1)])
  obtain u where u: "redis_url (st_url_Parse K) v = Inr u" "cf_BackgroundWorker c = worker_config v u"
    by (rule GetConfig_cases[OF c(1)])
  have "u = url" using u(1) assms(2) by (auto simp: redis_url_def Let_def split: sum.splits if_splits)
  then show ?thesis
    using c(2,3) u(2) by (auto simp: NewRedisClient_def worker_config_def configured_redis_def Let_def split: sum.splits)
qed

text \<open>C28. Start-up succeeds exactly when the program can work: \<open>.env\<close> is absent or can be read; there
  is a key to sign tokens with; a configured Redis URL names a host; the database opens and, unless told
  to skip it, migrates; both Redis packages read the URL; the ledger's client can be made; and the Redis
  of the one-time codes answers, in the configured database and under the configured name. Neither the
  mail and payment providers are asked for, nor a ledger that answers or the queue's Redis.\<close>

theorem starts_exactly_when:
  "(\<exists>app w'. run (start_program K S v0) w = (Inr app, w')) \<longleftrightarrow>
     (\<exists>v. (case sy_Getwd S of
         Inl m \<Rightarrow> v = sy_AutomaticEnv S v0
       | Inr dir \<Rightarrow> (case sy_Stat S (path_Join dir ''.env'') of
           StatNotExist \<Rightarrow> v = sy_AutomaticEnv S v0
         | StatOk \<Rightarrow> sy_ReadInConfig S (path_Join dir ''.env'') (sy_AutomaticEnv S v0) = Inr v
         | StatError m \<Rightarrow> False)) \<and>
       vi_GetString v ''JWT_SECRET_KEY'' \<noteq> '''' \<and>
       (if vi_IsSet v ''ASYNC_REDIS_URL''
        then \<exists>host. st_url_Parse K (vi_GetString v ''ASYNC_REDIS_URL'') = Inr host \<and> host \<noteq> '''' else True) \<and>
       st_gorm_Open K (DSN (database_config v)) = None \<and>
       (if vi_IsSet v ''SKIP_AUTO_MIGRATE'' \<and> vi_GetBool v ''SKIP_AUTO_MIGRATE'' then True
        else st_AutoMigrate K migrationModels = None) \<and>
       (let url = (if vi_IsSet v ''ASYNC_REDIS_URL'' then vi_GetString v ''ASYNC_REDIS_URL'' else ''redis://localhost:6379'')
        in (\<exists>conn. st_ParseRedisURI K url = Inr conn) \<and>
          (\<exists>opts. st_redis_ParseURL K url = Inr opts \<and> fst (st_redis_Ping K (configured_redis v opts) (ext w)) = None)) \<and>
       (\<exists>client. st_tb_NewClient K (st_tb_ToUint128 K (vi_GetUint64 v ''TB_CLUSTER_ID'')) (tc_Addresses (tigerbeetle_config v)) =
          Inr client))"
    (is "_ \<longleftrightarrow> (\<exists>v. ?env v \<and> ?key v \<and> ?host v \<and> ?open v \<and> ?migrate v \<and> ?redis v \<and> ?ledger v)")
proof -
  have env: "SetupViper S v0 = Inr v \<longleftrightarrow> ?env v" for v
    by (auto simp: SetupViper_def Let_def split: sum.splits stat_result.splits)
  have "(\<exists>app. start_app K v = Inr app \<and> fst (st_redis_Ping K (ap_Redis app) (ext w)) = None) \<longleftrightarrow>
      ?key v \<and> ?host v \<and> ?open v \<and> ?migrate v \<and> ?redis v \<and> ?ledger v" for v
  proof
    assume "\<exists>app. start_app K v = Inr app \<and> fst (st_redis_Ping K (ap_Redis app) (ext w)) = None"
    then obtain app where app: "start_app K v = Inr app" "fst (st_redis_Ping K (ap_Redis app) (ext w)) = None" by blast
    then have "\<exists>app. start_app K v = Inr app" by blast
    then show "?key v \<and> ?host v \<and> ?open v \<and> ?migrate v \<and> ?redis v \<and> ?ledger v"
      using started_redis[OF app(1) refl] app(2) unfolding constructs_exactly_when Let_def by auto
  next
    assume c: "?key v \<and> ?host v \<and> ?open v \<and> ?migrate v \<and> ?redis v \<and> ?ledger v"
    then have "\<exists>app. start_app K v = Inr app" unfolding constructs_exactly_when Let_def by blast
    then obtain app where app: "start_app K v = Inr app" ..
    with started_redis[OF app refl] c show "\<exists>app. start_app K v = Inr app \<and> fst (st_redis_Ping K (ap_Redis app) (ext w)) = None"
      unfolding Let_def by (metis Inr_inject)
  qed
  then show ?thesis unfolding run_start_program env by blast
qed

section \<open>Redis\<close>

text \<open>Both Redis clients use the configured database number, which is never 0, and the configured
  credentials: whatever database the URL names is ignored, so the queue and the one-time codes always
  meet in the same one.\<close>

theorem redis_database_is_configured:
  assumes "start_app K v = Inr app"
  shows "rop_DB (ap_Redis app) = bw_DB (cf_BackgroundWorker (ap_Config app)) \<and> rop_DB (ap_Redis app) \<noteq> 0 \<and>
    (case ap_ConnOpt app of
       OtherConnOpt raw \<Rightarrow> st_ParseRedisURI K (bw_RedisUrl (cf_BackgroundWorker (ap_Config app))) = Inr (OtherConnOpt raw)
     | RedisClientOpt opts \<Rightarrow> rop_DB opts = rop_DB (ap_Redis app) \<and>
         (if vi_GetString v ''ASYNC_REDIS_PASSWORD'' = '''' then True else rop_Password opts = rop_Password (ap_Redis app)))"
proof -
  obtain c opts ledger conn where c: "GetConfigFromViper (st_url_Parse K) v = Inr c"
      "NewRedisClient (st_redis_ParseURL K) (cf_BackgroundWorker c) = Inr opts"
      "RedisConnOpt (st_ParseRedisURI K) (cf_BackgroundWorker c) = Inr conn"
      "ap_Config app = c" "ap_Redis app = opts" "ap_ConnOpt app = conn"
    by (rule start_app_cases[OF assms])
  obtain url where "cf_BackgroundWorker c = worker_config v url" by (rule GetConfig_cases[OF c(1)])
  then have b: "1 \<le> sint (bw_DB (cf_BackgroundWorker c))" "bw_Password (cf_BackgroundWorker c) = vi_GetString v ''ASYNC_REDIS_PASSWORD''"
    by (simp_all add: worker_config_def at_least_one_bound)
  then have "bw_DB (cf_BackgroundWorker c) \<noteq> 0" by auto
  then show ?thesis
    using c(2,3) b(2) unfolding c(4-6)
    by (auto simp: NewRedisClient_def RedisConnOpt_def Let_def split: sum.splits conn_opt.splits if_splits)
qed

section \<open>Mail\<close>

text \<open>C26. Mail is sent only when \<open>EMAIL_PROVIDER\<close> is exactly \<open>resend\<close>. Then an email task hands the
  rendered message to Resend once, from the configured sender, and fails for a retry when Resend does;
  with any other value, also the default, every email task that renders panics and nothing is sent.\<close>

theorem mail_needs_resend:
  assumes "start_app K v = Inr app" and "task_Type t = TaskTypeEmailSend"
    and "unmarshal_email (task_Payload t) = Some payload"
    and "RenderEmail (aqw_Email (ap_Worker app)) (ep_Template payload) payload = Inr body"
  shows "run (serve (ap_Worker app) ctx t) w =
    (if vi_GetString v ''EMAIL_PROVIDER'' = ''resend''
     then case st_resend K (vi_GetString v ''RESEND_API_KEY'') \<lparr>se_From = vi_GetString v ''RESEND_API_EMAIL'',
         se_To = ep_To payload, se_Subject = ep_Subject payload, se_Html = body\<rparr> (ext w) of
       (r, x) \<Rightarrow> (Returned (case r of Inl err \<Rightarrow> Some (wrap_cause ''sending email via resend'' err) | Inr i \<Rightarrow> None),
         w\<lparr>ext := x, trace := trace w @ [EvSendEmail (Recipient payload)]\<rparr>)
     else (Panicked ''invalid memory address or nil pointer dereference'', w))"
proof -
  obtain c where c: "GetConfigFromViper (st_url_Parse K) v = Inr c"
      "ew_Send (aqw_Email (ap_Worker app)) = email_sender K c"
    by (rule start_app_cases[OF assms(1)]) (simp add: NewAsyncWorker_def Let_def)
  have "cf_EmailProvider c = vi_GetString v ''EMAIL_PROVIDER''" "cf_ResendKey c = vi_GetString v ''RESEND_API_KEY''"
      "cf_ResendEmail c = vi_GetString v ''RESEND_API_EMAIL''"
    using c(1) by (auto simp: GetConfigFromViper_def split: sum.splits)
  then have send: "ew_Send (aqw_Email (ap_Worker app)) = (if vi_GetString v ''EMAIL_PROVIDER'' = ''resend''
      then Some (Resend_Send (NewResendProvider (st_resend K) (vi_GetString v ''RESEND_API_KEY'')
        (vi_GetString v ''RESEND_API_EMAIL''))) else None)"
    using c(2) by (simp add: email_sender_def)
  have "serve (ap_Worker app) ctx t = HandleEmailSend (aqw_Email (ap_Worker app)) t"
    by (simp add: serve_def RegisterHandlers_def assms(2))
  then show ?thesis
    by (simp add: HandleEmailSend_def assms(3,4) send ext_call_def Resend_Send_def NewResendProvider_def split: prod.split sum.split)
qed

section \<open>An example\<close>

text \<open>An environment with only the signing key and a provider for mail set, over the example packages.\<close>

definition ex_viper :: "string \<Rightarrow> viper" where
  "ex_viper mail = \<lparr>vi_IsSet = (\<lambda>k. False),
     vi_GetString = (\<lambda>k. if k = ''JWT_SECRET_KEY'' then ''key'' else if k = ''EMAIL_PROVIDER'' then mail else ''''),
     vi_GetInt = (\<lambda>k. 0), vi_GetBool = (\<lambda>k. False), vi_GetUint64 = (\<lambda>k. 0), vi_GetStringSlice = (\<lambda>k. [])\<rparr>"

definition ex_start :: "(book, task list) start_pkgs" where
  "ex_start = \<lparr>st_url_Parse = (\<lambda>u. Inr ''localhost''), st_gorm_Open = (\<lambda>d. None), st_AutoMigrate = (\<lambda>ms. None),
     st_redis_ParseURL = (\<lambda>u. Inr \<lparr>rop_Addr = u, rop_Username = '''', rop_Password = '''', rop_DB = 0\<rparr>),
     st_redis_NewClient = (\<lambda>o'. ex_redis), st_redis_Ping = (\<lambda>o' x. (None, x)),
     st_ParseRedisURI = (\<lambda>u. Inr (RedisClientOpt \<lparr>rop_Addr = u, rop_Username = '''', rop_Password = '''', rop_DB = 0\<rparr>)),
     st_asynq_NewClient = (\<lambda>o'. ex_queue), st_asynq_Ping = (\<lambda>o' x. (None, x)), st_asynq_Start = (\<lambda>o' x. (None, x)),
     st_tb_NewClient = (\<lambda>c as. Inr ex_ledger), st_tb_ToUint128 = ucast, st_uuid = ex_uuid,
     st_bcrypt = sv_bcrypt ex_service, st_sha256 = (\<lambda>c. c), st_jwtauth_New = (\<lambda>k. ex_jwt),
     st_paystack = \<lparr>http_Do = (\<lambda>r x. (Inl ''offline'', x)), hmac_sha512_hex = (\<lambda>k b. ''''), json_parse = (\<lambda>b. None)\<rparr>,
     st_resend = (\<lambda>k m x. (Inr ''id'', x)), st_templates = (\<lambda>n. Some (\<lambda>p. Inr ''hello'')), st_http = ex_pkgs,
     st_MarshalYAML = (\<lambda>d. Inr ''openapi''), st_UI = (\<lambda>r. WriteJSON 200 None)\<rparr>"

definition ex_app :: "string \<Rightarrow> (book, task list) app" where
  "ex_app mail = projr (start_app ex_start (ex_viper mail))"

lemma ex_started: "start_app ex_start (ex_viper mail) = Inr (ex_app mail)" (is ?start)
  and ex_app_ledger: "ap_Ledger (ex_app mail) = ex_ledger" (is ?ledger)
proof -
  obtain c where c: "GetConfigFromViper (st_url_Parse ex_start) (ex_viper mail) = Inr c"
    by (simp add: GetConfigFromViper_def redis_url_def jwt_config_def ex_viper_def)
  have db: "StartNewDB ex_start c = None" by (simp add: StartNewDB_def ex_start_def)
  obtain o1 where redis: "NewRedisClient (st_redis_ParseURL ex_start) (cf_BackgroundWorker c) = Inr o1"
    by (simp add: NewRedisClient_def ex_start_def Let_def)
  have ledger: "StartNewLedger ex_start c = Inr ex_ledger" by (simp add: StartNewLedger_def NewLedger_def ex_start_def)
  have "\<exists>o2. RedisConnOpt (st_ParseRedisURI ex_start) (cf_BackgroundWorker c) = Inr o2"
    by (simp add: RedisConnOpt_def ex_start_def Let_def)
  then obtain o2 W where queue: "StartNewQueueWorker ex_start c (StartNewPaymentProvider ex_start c) ex_ledger = Inr (o2, W)"
    by (auto simp: StartNewQueueWorker_def)
  have "\<exists>app. start_app ex_start (ex_viper mail) = Inr app \<and> ap_Ledger app = ex_ledger"
    by (simp add: start_app_def c db redis ledger queue Let_def)
  then show ?start ?ledger by (auto simp: ex_app_def)
qed

lemma ex_start_sel [simp]:
  "st_uuid ex_start = ex_uuid" "st_templates ex_start n = Some (\<lambda>p. Inr ''hello'')" "st_resend ex_start k m x = (Inr ''id'', x)"
  "st_http ex_start = ex_pkgs"
  by (simp_all add: ex_start_def)

lemma ex_app_ok: "env_ok (st_uuid ex_start) (ap_Ledger (ex_app mail)) ex_posted"
    "ledger_inv (st_uuid ex_start) (ap_Ledger (ex_app mail)) ex_posted ex_world"
  by (simp_all add: ex_app_ledger ex_env_ok ex_inv)

theorem started_app_keeps_the_books_witness:
  "ledger_inv ex_uuid ex_ledger ex_posted (snd (schedule [0]
     ([quiet (ServeHTTP (srv_Routes (ap_Server (ex_app ''''))) (ex_incoming ''GET'' ''/healthz'' '''' ''''))],
      snd (run (on_start ex_start (ex_app '''')) ex_world))))"
proof -
  let ?app = "ex_app ''''" and ?r = "ex_incoming ''GET'' ''/healthz'' '''' ''''"
  let ?ps = "map (\<lambda>r. quiet (ServeHTTP (srv_Routes (ap_Server ?app)) r)) [?r] @ map (job_prog (ap_Worker ?app) (ap_Service ?app)) []"
  let ?c = "schedule [0] (?ps, snd (run (on_start ex_start ?app) ex_world))"
  have w1: "uuid_src (snd (run (on_start ex_start ?app) ex_world)) = uuid_src ex_world"
      "uuid_n (snd (run (on_start ex_start ?app) ex_world)) = uuid_n ex_world"
    by (simp_all add: on_start_def Worker_Start_def EnsureSettlementAccounts_def createAccounts_def client_CreateAccounts_def
        ex_app_ledger ext_call_def tb_call_def split: prod.splits option.splits sum.splits)
  have "rt_Pkgs (srv_Routes (ap_Server ?app)) = ex_pkgs" by (simp add: started_routes(2)[OF ex_started])
  then have "ServeHTTP (srv_Routes (ap_Server ?app)) ?r = Ret (WriteJSON 200 (Some (JSON (HealthResponse ''ok''))))"
    by (simp add: ServeHTTP_def ex_incoming_def table_defs ro_Key_def mounted_def Route_HealthCheck_def)
  then have w': "snd ?c = snd (run (on_start ex_start ?app) ex_world)" by (simp add: quiet_def)
  have "uuids_fresh (snd ?c)" unfolding w' by (rule ex_fresh) (simp_all only: w1, simp_all add: ex_world_def)
  moreover have "interleave\<^sup>*\<^sup>* (?ps, snd (run (on_start ex_start ?app) ex_world)) (fst ?c, snd ?c)"
    using schedule_interleave by (simp only: prod.collapse)
  ultimately have "ledger_inv (st_uuid ex_start) (ap_Ledger ?app) ex_posted (snd ?c)"
    by (intro started_app_keeps_the_books[OF ex_started ex_app_ok prod.collapse[symmetric]])
  then show ?thesis by (simp only: ex_app_ledger ex_start_sel list.map append_Nil append_Cons)
qed

theorem settings_within_bounds_witness:
  "1 \<le> sint (bw_DB (cf_BackgroundWorker (ap_Config (ex_app '''')))) \<and>
   sint (oc_TTL (cf_OTP (ap_Config (ex_app '''')))) = 600000000000"
proof -
  obtain c where c: "GetConfigFromViper (st_url_Parse ex_start) (ex_viper '''') = Inr c" "ap_Config (ex_app '''') = c"
    by (rule start_app_cases[OF ex_started])
  have "sint (vi_GetInt (ex_viper '''') k) \<le> 153722867" "sint (vi_GetInt (ex_viper '''') k) \<le> 9223372036"
      "\<not> vi_IsSet (ex_viper '''') k" for k
    by (simp_all add: ex_viper_def)
  with settings_within_bounds[OF c(1)] show ?thesis unfolding c(2) by auto
qed

theorem redis_database_is_configured_witness:
  "rop_DB (ap_Redis (ex_app '''')) = bw_DB (cf_BackgroundWorker (ap_Config (ex_app '''')))"
  using redis_database_is_configured[OF ex_started, of "''''"] by simp

definition ex_mail :: EmailPayload where
  "ex_mail = login_email \<lparr>ul_FirstName = ''Ada'', ul_LastName = ''L'', ul_Email = ''ada@x'', ul_UserID = ''1''\<rparr>"

lemma ex_mail_task:
  "task_Type (Email_GenerateNewTask TaskTypeEmailSend ex_mail) = TaskTypeEmailSend"
  "unmarshal_email (task_Payload (Email_GenerateNewTask TaskTypeEmailSend ex_mail)) = Some ex_mail"
  by code_simp+

theorem mail_needs_resend_witness:
  "fst (run (serve (ap_Worker (ex_app ''resend'')) (ex_ctx 0) (Email_GenerateNewTask TaskTypeEmailSend ex_mail)) ex_world) = Returned None \<and>
   fst (run (serve (ap_Worker (ex_app '''')) (ex_ctx 0) (Email_GenerateNewTask TaskTypeEmailSend ex_mail)) ex_world) =
     Panicked ''invalid memory address or nil pointer dereference''"
proof -
  have "ew_Lookup (aqw_Email (ap_Worker (ex_app mail))) = st_templates ex_start" for mail
    by (rule start_app_cases[OF ex_started[of mail]]) (simp add: NewAsyncWorker_def Let_def)
  then have "RenderEmail (aqw_Email (ap_Worker (ex_app mail))) (ep_Template ex_mail) ex_mail = Inr ''hello''" for mail
    by (simp add: RenderEmail_def Let_def)
  from mail_needs_resend[OF ex_started ex_mail_task this] show ?thesis by (simp add: ex_viper_def)
qed

end
