(* ===== verification/End_To_End.thy ===== *)
theory End_To_End
  imports Deposit_Properties Transfer_Properties Queue_Properties Service_Properties Route_Properties
begin

text \<open>
  Components put together: from the request that starts a movement of money, through the event bus and
  the queue, to the worker that carries it out.
\<close>

section \<open>Programs that call nobody outside\<close>

definition stays_inside :: "('tb, 'x) world \<Rightarrow> ('tb, 'x) world \<Rightarrow> bool" where
  "stays_inside w w' \<longleftrightarrow> same_rows w w' \<and> ext w' = ext w"

interpretation inside: rely_guarantee stays_inside
  by unfold_locales (auto simp: stays_inside_def same_rows_def)

lemma inside_check: "guar stays_inside (checkSufficientBalance s i a)"
  unfolding checkSufficientBalance_def Balances_def client_LookupAccounts_def tb_call_def
  by (intro guar_case guar_bnd guar_Ret guar_atom) (auto simp: stays_inside_def same_rows_def split: prod.splits)

lemma wp_insert_inside:
  assumes "stays_inside w u"
  shows "wp (insert_transfer mk) (\<lambda>res t. isl res \<or> (\<exists>k. res = Inr (mk k (now w)) \<and>
      stays_inside (w\<lparr>transfers := transfers w @ [mk k (now w)]\<rparr>) t)) u"
  unfolding insert_transfer_def uuid_New_def
  by (rule wp_db_call) (use assms in \<open>auto simp: stays_inside_def same_rows_def split: if_splits\<close>)

section \<open>A transfer from request to ledger\<close>

text \<open>What an accepted request leaves behind: the row, and then what publishing its event does.\<close>

definition transfer_event :: "uuid_pkg \<Rightarrow> string \<Rightarrow> transfer_row \<Rightarrow> payload" where
  "transfer_event P userID r = TransferInitiated \<lparr>ip_TransferID = uuid_String P (tr_ID r), ip_UserID = userID,
     ip_AmountMinor = Minor (tr_Amount r), ip_Currency = tr_Currency r\<rparr>"

definition accepted_as ::
  "('tb, 'x) Service \<Rightarrow> wallet_row \<Rightarrow> wallet_row \<Rightarrow> transfer_row \<Rightarrow> ('tb, 'x) world \<Rightarrow> AppError + ServiceTransfer \<Rightarrow> ('tb, 'x) world \<Rightarrow> bool" where
  "accepted_as s v v' r w res w' \<longleftrightarrow> (\<exists>u x. res = Inr x \<and> sx_ID x = uuid_String (sv_uuid s) (tr_ID r) \<and>
     stays_inside (w\<lparr>transfers := transfers w @ [r]\<rparr>) u \<and> requested_transfer v v' (tr_Amount r) r \<and>
     run (PublishEvent s EventTransferInitiated (transfer_event (sv_uuid s) (uuid_String (sv_uuid s) (w_UserID v)) r)) u = ((), w'))"

lemma wp_start_accepted:
  assumes ok: "uuid_ok (sv_uuid s)"
  shows "wp (start_transfer s (uuid_String (sv_uuid s) (w_UserID v)) amount (MapWalletModelToWallet (sv_uuid s) v)
      (MapWalletModelToWallet (sv_uuid s) v')) (\<lambda>res w'. isl res \<or> (\<exists>r. tr_Amount r = amount \<and> accepted_as s v v' r w res w')) w"
proof -
  let ?P = "sv_uuid s" and ?user = "uuid_String (sv_uuid s) (w_UserID v)"
  let ?Q = "\<lambda>(res :: AppError + ServiceTransfer) w'. isl res \<or> (\<exists>r. tr_Amount r = amount \<and> accepted_as s v v' r w res w')"
  have round: "uuid_Parse ?P (uuid_String ?P u) = Some u" for u using ok by (simp add: uuid_ok_def)
  have create: "wp (CreateTransfer ?P \<lparr>CT_SenderUserID = ?user, CT_SenderWalletID = uuid_String ?P (w_ID v),
      CT_RecipientUserID = uuid_String ?P (w_UserID v'), CT_RecipientWalletID = uuid_String ?P (w_ID v'),
      CT_Amount = amount, CT_Currency = w_Currency v\<rparr>)
    (\<lambda>res t. isl res \<or> (\<exists>r. res = Inr (MapTransferModelToTransfer ?P r) \<and> requested_transfer v v' amount r \<and>
      stays_inside (w\<lparr>transfers := transfers w @ [r]\<rparr>) t)) u" if "stays_inside w u" for u
    unfolding CreateTransfer_def ParseUUID_def logged_def
    by (simp add: round, rule wp_bnd, rule wp_mono[OF wp_insert_inside[OF that]])
      (auto simp: requested_transfer_def intro!: wp_Ret split: sum.splits)
  have publish: "wp (bnd (PublishEvent s EventTransferInitiated (TransferInitiated \<lparr>ip_TransferID = uuid_String ?P (tr_ID r),
      ip_UserID = ?user, ip_AmountMinor = Minor amount, ip_Currency = w_Currency v\<rparr>))
      (\<lambda>_. Ret (Inr (MapTransferToServiceDomain (MapTransferModelToTransfer ?P r))))) ?Q u"
    if r: "requested_transfer v v' amount r" and u: "stays_inside (w\<lparr>transfers := transfers w @ [r]\<rparr>) u" for r u
  proof (rule wpI)
    fix res :: "AppError + ServiceTransfer" and w'
    assume run: "run (bnd (PublishEvent s EventTransferInitiated (TransferInitiated \<lparr>ip_TransferID = uuid_String ?P (tr_ID r),
      ip_UserID = ?user, ip_AmountMinor = Minor amount, ip_Currency = w_Currency v\<rparr>))
      (\<lambda>_. Ret (Inr (MapTransferToServiceDomain (MapTransferModelToTransfer ?P r))))) u = (res, w')"
    have e: "transfer_event ?P ?user r = TransferInitiated \<lparr>ip_TransferID = uuid_String ?P (tr_ID r), ip_UserID = ?user,
        ip_AmountMinor = Minor amount, ip_Currency = w_Currency v\<rparr>" "tr_Amount r = amount"
      using r by (simp_all add: transfer_event_def requested_transfer_def)
    have "accepted_as s v v' r w res w'"
      unfolding accepted_as_def e
      using run r u by (auto simp: MapTransferToServiceDomain_def MapTransferModelToTransfer_def split: prod.splits)
    with e(2) show "?Q res w'" by blast
  qed
  have tid: "T_ID (MapTransferModelToTransfer ?P r) = uuid_String ?P (tr_ID r)" for r
    by (simp add: MapTransferModelToTransfer_def)
  show ?thesis
    unfolding start_transfer_def Map_sel
  proof (rule wp_bnd, rule wpI)
    fix e u assume "run (checkSufficientBalance s (uuid_String ?P (w_ID v)) amount) w = (e, u)"
    then have u: "stays_inside w u" by (rule inside.run_guar[OF inside_check])
    show "wp (case e of Some e \<Rightarrow> Ret (Inl e) | None \<Rightarrow>
        bnd (CreateTransfer ?P \<lparr>CT_SenderUserID = ?user, CT_SenderWalletID = uuid_String ?P (w_ID v),
          CT_RecipientUserID = uuid_String ?P (w_UserID v'), CT_RecipientWalletID = uuid_String ?P (w_ID v'),
          CT_Amount = amount, CT_Currency = w_Currency v\<rparr>) (\<lambda>r. case r of
            Inl err \<Rightarrow> app_fail StatusInternalServerError ''Could Not Start Transfer'' err
          | Inr transfer \<Rightarrow> bnd (PublishEvent s EventTransferInitiated (TransferInitiated \<lparr>ip_TransferID = T_ID transfer,
              ip_UserID = ?user, ip_AmountMinor = Minor amount, ip_Currency = w_Currency v\<rparr>))
              (\<lambda>_. Ret (Inr (MapTransferToServiceDomain transfer))))) ?Q u"
    proof (cases e)
      case None
      show ?thesis
        unfolding None option.simps
        by (rule wp_bnd, rule wp_mono[OF create[OF u]]) (auto intro!: wp_app_fail publish simp: tid split: sum.split)
    qed (simp add: wp_Ret)
  qed
qed

lemma accepted_as_frame:
  "accepted_as s v v' r (w\<lparr>db_n := n\<rparr>) res w' \<Longrightarrow> accepted_as s v v' r w res w'"
  by (auto simp: accepted_as_def stays_inside_def same_rows_def)

lemma wp_initiate_accepted:
  assumes ok: "uuid_ok (sv_uuid s)"
  shows "wp (InitiateTransfer s caller param) (\<lambda>res w'. isl res \<or> (\<exists>v \<in> set (wallets w). \<exists>v' \<in> set (wallets w). \<exists>r.
    w_DeletedAt v = None \<and> w_DeletedAt v' = None \<and> w_Status v = WalletActive \<and> w_Status v' = WalletActive \<and> w_ID v \<noteq> w_ID v' \<and>
    EqualFold (w_Currency v') (w_Currency v) \<and> 100 \<le> sint (tr_Amount r) \<and> accepted_as s v v' r w res w')) w"
    (is "wp _ ?Q w")
proof -
  let ?P = "sv_uuid s"
  have limits: "(sint (Minor a) < MinTransferMinor \<or> sint (Minor a) > MaxTransferMinor) = (\<not> (100 \<le> sint a \<and> sint a \<le> 100000000))" for a
    by (auto simp: Minor_def MinTransferMinor_def MaxTransferMinor_def)
  have ids: "uuid_String ?P a = uuid_String ?P b \<longleftrightarrow> a = b" for a b
    using ok unfolding uuid_ok_def by (metis option.inject)
  have start: "wp (start_transfer s (uuid_String ?P (w_UserID v)) amount (MapWalletModelToWallet ?P v) (MapWalletModelToWallet ?P v'))
      ?Q (w\<lparr>db_n := n\<rparr>)"
    if "v \<in> set (wallets w)" "v' \<in> set (wallets w)" "w_DeletedAt v = None" "w_DeletedAt v' = None" "w_Status v = WalletActive"
      "w_Status v' = WalletActive" "w_ID v \<noteq> w_ID v'" "EqualFold (w_Currency v') (w_Currency v)" "100 \<le> sint amount" for v v' n amount
    by (rule wp_mono[OF wp_start_accepted[OF ok]]) (use that accepted_as_frame in blast)
  show ?thesis
    unfolding InitiateTransfer_def Let_def limits
    apply (rule wp_as_caller, simp)
    apply (intro wp_case wp_app_fail wp_own_wallet)
     apply simp_all
    apply (intro wp_case wp_app_fail conjI impI wp_bnd wp_GetWalletByAccountNumber)
       apply (simp_all add: not_found_or_def)
    using start ids by (auto intro!: wp_app_fail wp_case)
qed

lemma publish_transfer:
  assumes s: "service_ok P C W s" "sv_Bus s \<noteq> None"
    and q: "queue_ok (tw_Client (aqw_Transfer W)) tasks" "queue_ok (aw_Client (aqw_Activity W)) tasks"
    and fresh: "Some (ExecuteTaskID (uuid_String P (tr_ID r))) \<notin> task_TaskID ` set (tasks (ext u))"
    and run: "run (PublishEvent s EventTransferInitiated (transfer_event P user r)) u = ((), w')"
  shows "Transfer_GenerateNewTask TaskTypeTransferExecute (uuid_String P (tr_ID r)) \<in> set (tasks (ext w')) \<and> same_books u w'"
proof
  let ?t = "Transfer_GenerateNewTask TaskTypeTransferExecute (uuid_String P (tr_ID r))"
  have "task_TaskID ?t = Some (ExecuteTaskID (uuid_String P (tr_ID r)))"
    by (simp add: Transfer_GenerateNewTask_def GenerateNewTask_def NewTask_def)
  with enqueue_runs[OF q(1), of ?t "tw_Queue (aqw_Transfer W)" u] fresh obtain u1 where
    u1: "run (EnqueueWithContext ?t (tw_Queue (aqw_Transfer W)) (tw_Client (aqw_Transfer W))) u = (None, u1)"
      "tasks (ext u1) = tasks (ext u) @ [?t]" by auto
  let ?a = "Activity_GenerateNewTask UpdateUserActivity \<lparr>ap_UserID = user, ap_Action = ''Started a transfer''\<rparr>"
  obtain u2 where u2: "run (EnqueueWithContext ?a (aw_Queue (aqw_Activity W)) (aw_Client (aqw_Activity W))) u1 = (None, u2)"
      "set (tasks (ext u1)) \<subseteq> set (tasks (ext u2))"
  proof -
    obtain v where v: "run (EnqueueWithContext ?a (aw_Queue (aqw_Activity W)) (aw_Client (aqw_Activity W))) u1 = (None, v)"
        "tasks (ext v) = (if task_TaskID ?a \<noteq> None \<and> task_TaskID ?a \<in> task_TaskID ` set (tasks (ext u1))
          then tasks (ext u1) else tasks (ext u1) @ [?a])"
      using enqueue_runs[OF q(2)] by blast
    from v(2) have "set (tasks (ext u1)) \<subseteq> set (tasks (ext v))" by (auto split: if_splits)
    with v(1) show thesis by (rule that)
  qed
  have "w' = u2"
    using run by (simp add: PublishEvent_def service_bus[OF s] Publish_def money_listeners dispatch_def transfer_event_def on_transfer_initiated_def
        on_transfer_activity_def queue_activity_def Transfer_Enqueue_def Activity_Enqueue_def u1(1) u2(1))
  then show "?t \<in> set (tasks (ext w'))" using u1(2) u2(2) by auto
  show "same_books u w'" by (rule frame.run_guar[OF frame_PublishEvent[OF s(1)] run])
qed

lemma serve_execute:
  assumes "run (HandleTransferExecute (aqw_Transfer W) t) w = (None, w')" and "task_Type t = TaskTypeTransferExecute"
  shows "run (serve W ctx t) w = (Returned None, w')"
proof -
  have "serve W ctx t = transfer_execute_route (aqw_Transfer W) ctx t"
    by (simp add: serve_def RegisterHandlers_def assms(2) TaskTypeEmailSend_def UpdateUserActivity_def
        TaskTypePaymentWebhook_def TaskTypePaymentPoll_def TaskTypeTransferExecute_def)
  then show ?thesis
    unfolding transfer_execute_route_def handlePayment_simps Recover_HandlerFunc OnRetriesExhausted_def
    using assms(1) by (simp add: HandlerFunc_def)
qed

text \<open>What an accepted request has done: one new PENDING row between two active wallets, which the worker
  can move, and the task that executes it in the queue.\<close>

lemma accepted_is_queued:
  assumes "service_ok P C W s" and "sv_Bus s \<noteq> None" and "uuid_ok P"
    and "queue_ok (tw_Client (aqw_Transfer W)) tasks" and "queue_ok (aw_Client (aqw_Activity W)) tasks"
    and "run (InitiateTransfer s caller param) w = (Inr x, w1)"
    and "Some (ExecuteTaskID (sx_ID x)) \<notin> task_TaskID ` set (tasks (ext w))"
  shows "\<exists>r. same_rows (w\<lparr>transfers := transfers w @ [r]\<rparr>) w1 \<and> sx_ID x = uuid_String P (tr_ID r) \<and>
    Transfer_GenerateNewTask TaskTypeTransferExecute (sx_ID x) \<in> set (tasks (ext w1)) \<and> tr_Status r = TransactionPending \<and>
    (\<forall>l. LedgerForCurrency (tr_Currency r) = Inr l \<longrightarrow> can_move r l w1)"
proof -
  have P: "sv_uuid s = P" using assms(1) by (simp add: service_ok_def)
  from assms(3) obtain v v' r where v: "v \<in> set (wallets w)" "v' \<in> set (wallets w)" "w_DeletedAt v = None" "w_DeletedAt v' = None"
      "w_Status v = WalletActive" "w_Status v' = WalletActive" "w_ID v \<noteq> w_ID v'" "EqualFold (w_Currency v') (w_Currency v)"
      "100 \<le> sint (tr_Amount r)" and acc: "accepted_as s v v' r w (Inr x) w1"
    using wp_initiate_accepted[of s caller param w] assms(6) by (auto simp: wp_def P)
  from acc obtain u where u: "sx_ID x = uuid_String P (tr_ID r)" "stays_inside (w\<lparr>transfers := transfers w @ [r]\<rparr>) u"
      "requested_transfer v v' (tr_Amount r) r"
      "run (PublishEvent s EventTransferInitiated (transfer_event P (uuid_String P (w_UserID v)) r)) u = ((), w1)"
    by (auto simp: accepted_as_def P)
  have "Transfer_GenerateNewTask TaskTypeTransferExecute (sx_ID x) \<in> set (tasks (ext w1)) \<and> same_books u w1"
    unfolding u(1) by (rule publish_transfer[OF assms(1,2,4,5) _ u(4)])
      (use assms(7) u(2) in \<open>simp add: u(1)[symmetric] stays_inside_def same_rows_def\<close>)
  moreover from this u(2) have w1: "same_rows (w\<lparr>transfers := transfers w @ [r]\<rparr>) w1"
    by (simp add: same_books_def stays_inside_def same_rows_def)
  moreover have r: "tr_SenderWalletID r = w_ID v" "tr_RecipientWalletID r = w_ID v'" "tr_Currency r = w_Currency v"
      "tr_Status r = TransactionPending" using u(3) by (simp_all add: requested_transfer_def)
  moreover have "EqualFold (w_Currency v) (w_Currency v')" using v(8) by (rule EqualFold_sym)
  then have "LedgerForCurrency (tr_Currency r) = Inr l \<Longrightarrow> can_move r l w1" for l
    unfolding can_move_def using v r w1
    by (intro conjI bexI[of _ v] bexI[of _ v']) (simp_all add: IsPositive_def same_rows_def)
  ultimately show ?thesis using u(1) by blast
qed

text \<open>What the router makes of a request for a transfer: without an access token it is refused, with one the
  handler runs for the token's subject.\<close>

lemma transfer_post:
  assumes "hp_Match (rt_Pkgs R) (map ro_Key (SetupRoutes R)) (rq_Method r) (rq_Path r) = Some ((''POST'', ''/api/v1/transfers''), params)"
  shows "case bearer R r (now w) of
      None \<Rightarrow> \<exists>m err. run (ServeHTTP R r) w = (WriteError StatusUnauthorized m err, w)
    | Some user \<Rightarrow> \<exists>cx. cx_UserID cx = Some user \<and> run (ServeHTTP R r) w = run (Route_InitiateTransfer R cx r) w"
proof -
  let ?ro = "guarded_route ''POST'' ''/api/v1/transfers'' (Route_InitiateTransfer R)"
    and ?cx = "\<lparr>cx_Token = Inl (Opaque ''no token found''), cx_UserID = None, cx_Params = params\<rparr>"
  have "List.find (\<lambda>ro. ro_Key ro = (''POST'', ''/api/v1/transfers'')) (SetupRoutes R) = Some ?ro"
    by (simp add: SetupRoutes_def SetupDocsRoutes_def open_route_def guarded_route_def ro_Key_def SpecPath_def DocsPath_def)
  with assms have m: "run (ServeHTTP R r) w = run (mounted R ?ro ?cx r) w" by (simp add: ServeHTTP_def)
  have "ro_Guarded ?ro" "ro_Handler ?ro = Route_InitiateTransfer R" by (simp_all add: guarded_route_def)
  with run_mounted[where ro = ?ro and R = R and r = r and w = w and cx = ?cx] show ?thesis
    unfolding m by (fastforce split: option.splits)
qed

text \<open>An HTTP request answered with a transfer is one whose service call accepted it.\<close>

lemma transfer_answered:
  assumes "hp_Match (rt_Pkgs R) (map ro_Key (SetupRoutes R)) (rq_Method r) (rq_Path r) = Some ((''POST'', ''/api/v1/transfers''), params)"
    and "run (ServeHTTP R r) w = (resp, w1)" and "rs_Body resp = Some (JSON (TransferAnswer t))"
  shows "\<exists>caller param x. run (InitiateTransfer (rt_Services R) caller param) w = (Inr x, w1) \<and> tn_ID t = sx_ID x"
proof -
  from transfer_post[OF assms(1), of w] assms(2,3) obtain cx where "run (Route_InitiateTransfer R cx r) w = (resp, w1)"
    by (auto simp: WriteError_def WriteAppError_def WriteJSON_def Let_def split: option.splits)
  with assms(3) show ?thesis
    by (auto simp: Route_InitiateTransfer_def DecodeAndValidate_def Let_def WriteError_def WriteAppError_def WriteJSON_def reply_def
        mapTransfer_def split: sum.splits option.splits prod.splits) blast
qed

text \<open>C10. From HTTP request to ledger: when a request for a transfer is answered with the transfer, one row
  is added to the transfers and the task that executes it is in the queue; one attempt at that task, with
  database and ledger answering and the sender's account covering it, ends with the new transfer SUCCESS
  and its money moved in the ledger, exactly once.\<close>

theorem accepted_transfer_reaches_ledger:
  assumes "service_ok P C W (rt_Services R)" and "sv_Bus (rt_Services R) \<noteq> None" and "worker_ok P C W"
    and "tw_Ledger (aqw_Transfer W) = Some C"
    and "queue_ok (tw_Client (aqw_Transfer W)) tasks" and "queue_ok (aw_Client (aqw_Activity W)) tasks"
    and "hp_Match (rt_Pkgs R) (map ro_Key (SetupRoutes R)) (rq_Method req) (rq_Path req) =
      Some ((''POST'', ''/api/v1/transfers''), params)"
    and "run (ServeHTTP R req) w = (resp, w1)" and "rs_Body resp = Some (JSON (TransferAnswer t))"
    and "all_up P C posted w1" and "Some (ExecuteTaskID (tn_ID t)) \<notin> task_TaskID ` set (tasks (ext w))"
    and "LedgerForCurrency (tr_Currency (last (transfers w1))) = Inr l"
    and "tb_accepts C (tb w1) (move_entry C l (last (transfers w1)))"
  shows "\<exists>r w2. transfers w1 = transfers w @ [r] \<and> tn_ID t = uuid_String P (tr_ID r) \<and>
    Transfer_GenerateNewTask TaskTypeTransferExecute (tn_ID t) \<in> set (tasks (ext w1)) \<and>
    run (serve W ctx (Transfer_GenerateNewTask TaskTypeTransferExecute (tn_ID t))) w1 = (Returned None, w2) \<and>
    only_moved posted (r\<lparr>tr_Status := TransactionSuccess, tr_FailureReason := '''', tr_UpdatedAt := now w1\<rparr>)
      ((posted (tb w1))(TransferID C (tr_ID r) \<mapsto> move_entry C l r)) [EvCreateTransfers [move_entry C l r]] w1 w2"
proof -
  have P: "uuid_ok P" using assms(10) by (simp add: all_up_def env_ok_def)
  obtain caller param x where x: "run (InitiateTransfer (rt_Services R) caller param) w = (Inr x, w1)" "tn_ID t = sx_ID x"
    using transfer_answered[OF assms(7-9)] by blast
  obtain r where
    r: "same_rows (w\<lparr>transfers := transfers w @ [r]\<rparr>) w1" "sx_ID x = uuid_String P (tr_ID r)"
      "Transfer_GenerateNewTask TaskTypeTransferExecute (sx_ID x) \<in> set (tasks (ext w1))" "tr_Status r = TransactionPending"
      "\<And>l. LedgerForCurrency (tr_Currency r) = Inr l \<Longrightarrow> can_move r l w1"
    using accepted_is_queued[OF assms(1,2) P assms(5,6) x(1)] assms(11) x(2) by auto
  from r(1) have w1: "transfers w1 = transfers w @ [r]" by (simp add: same_rows_def)
  let ?t = "Transfer_GenerateNewTask TaskTypeTransferExecute (uuid_String P (tr_ID r))"
  have "tw_uuid (aqw_Transfer W) = P" using assms(3) by (simp add: worker_ok_def)
  then have ex: "wp (HandleTransferExecute (aqw_Transfer W) ?t) (\<lambda>e w'. e = None \<and>
      only_moved posted (r\<lparr>tr_Status := TransactionSuccess, tr_FailureReason := '''', tr_UpdatedAt := now w1\<rparr>)
      ((posted (tb w1))(TransferID C (tr_ID r) \<mapsto> move_entry C l r)) [EvCreateTransfers [move_entry C l r]] w1 w') w1"
    by (intro wp_executes[OF assms(10) _ assms(4)]) (use r(4,5) w1 assms(12,13) in simp_all)
  have "task_Type ?t = TaskTypeTransferExecute" by (simp add: Transfer_GenerateNewTask_def)
  with wp_runs[OF ex] serve_execute[where W = W and t = ?t] r(2,3) w1 x(2) show ?thesis by (metis (no_types, lifting))
qed


definition ex_covered :: "(book, task list) world" where
  "ex_covered = ex_with TransactionSuccess [ex_deposit_entry]"

definition ex_transfer_post :: incoming where
  "ex_transfer_post = ex_incoming ''POST'' ''/api/v1/transfers'' TokenTypeAccess ''order''"

lemma ex_post_match:
  "hp_Match (rt_Pkgs ex_routes) (map ro_Key (SetupRoutes ex_routes)) (rq_Method ex_transfer_post) (rq_Path ex_transfer_post) =
    Some ((''POST'', ''/api/v1/transfers''), \<lambda>_. [])"
  by (simp add: ex_transfer_post_def ex_incoming_def SetupRoutes_def SetupDocsRoutes_def open_route_def guarded_route_def ro_Key_def)

lemma ex_posted_order: "DecodeAndValidate ex_pkgs decode_TransferRequest checks_TransferRequest ex_transfer_post =
    Inr \<lparr>tq_SenderWalletID = ''10'', tq_RecipientAccountNumber = ''1000000011'', tq_Amount = Fin 2\<rparr>"
proof -
  have "DecodeAndValidate ex_pkgs decode_TransferRequest checks_TransferRequest ex_transfer_post =
      DecodeAndValidate ex_pkgs decode_TransferRequest checks_TransferRequest (ex_incoming ''POST'' [] [] ''order'')"
    by (simp add: ex_transfer_post_def ex_incoming_def DecodeAndValidate_def)
  then show ?thesis by (simp only: ex_order_decoded)
qed

lemma ex_post_run:
  assumes "now w = 1"
  shows "run (ServeHTTP ex_routes ex_transfer_post) w =
    (case run (InitiateTransfer (rt_Services ex_routes) (Some ''1'') ex_request) w of
      (res, w') \<Rightarrow> (reply 202 (\<lambda>t. TransferAnswer (mapTransfer t)) res, w'))"
proof -
  have "bearer ex_routes ex_transfer_post (now w) = Some ''1''"
    by (simp add: bearer_def ex_transfer_post_def ex_incoming_def ex_jwt_def ex_claims_def TokenTypeAccess_def TokenTypeRefresh_def)
  with transfer_post[OF ex_post_match, of w] obtain cx where
    "cx_UserID cx = Some ''1''" "run (ServeHTTP ex_routes ex_transfer_post) w = run (Route_InitiateTransfer ex_routes cx ex_transfer_post) w"
    by auto
  then show ?thesis by (simp add: Route_InitiateTransfer_def ex_posted_order ex_request_def split: prod.splits)
qed

definition ex_accepted_view ::
  "(AppError + ServiceTransfer) \<times> (book, task list) world \<Rightarrow> (unit + string) \<times> u128 list \<times> string \<times> TransferStatus" where
  "ex_accepted_view = (\<lambda>(r, w1). (map_sum (\<lambda>_. ()) sx_ID r, map tr_ID (transfers w1), tr_Currency (last (transfers w1)),
     book_status (tb w1) (move_entry ex_ledger 1 (last (transfers w1)))))"

lemma ex_requested: "ex_accepted_view (run (InitiateTransfer (rt_Services ex_routes) (Some ''1'') ex_request) ex_covered) =
    (Inr ''40'', [30, 40], ''NGN'', TransferCreated)"
  by code_simp

lemma accepted_transfer_reaches_ledger_witness:
  "\<exists>resp w1 r w2. run (ServeHTTP ex_routes ex_transfer_post) ex_covered = (resp, w1) \<and> rs_Status resp = 202 \<and>
    transfers w1 = transfers ex_covered @ [r] \<and>
    run (serve ex_worker (ex_ctx 0) (Transfer_GenerateNewTask TaskTypeTransferExecute ''40'')) w1 = (Returned None, w2) \<and>
    only_moved ex_posted (r\<lparr>tr_Status := TransactionSuccess, tr_FailureReason := '''', tr_UpdatedAt := now w1\<rparr>)
      ((ex_posted (tb w1))(TransferID ex_ledger (tr_ID r) \<mapsto> move_entry ex_ledger 1 r)) [EvCreateTransfers [move_entry ex_ledger 1 r]] w1 w2"
proof -
  obtain res w1 where run: "run (InitiateTransfer (rt_Services ex_routes) (Some ''1'') ex_request) ex_covered = (res, w1)"
    by (rule prod.exhaust)
  with ex_requested obtain x where x: "res = Inr x" "sx_ID x = ''40''" "map tr_ID (transfers w1) = [30, 40]"
    and l: "tr_Currency (last (transfers w1)) = ''NGN''" "book_status (tb w1) (move_entry ex_ledger 1 (last (transfers w1))) = TransferCreated"
    by (cases res) (simp_all add: ex_accepted_view_def)
  have now: "now ex_covered = 1" by (simp add: ex_covered_def)
  let ?resp = "WriteJSON 202 (Some (JSON (TransferAnswer (mapTransfer x))))"
  have post: "run (ServeHTTP ex_routes ex_transfer_post) ex_covered = (?resp, w1)"
    using ex_post_run[OF now] run x(1) by (simp add: reply_def)
  have body: "rs_Body ?resp = Some (JSON (TransferAnswer (mapTransfer x)))" by (simp add: WriteJSON_def)
  have id: "tn_ID (mapTransfer x) = ''40''" by (simp add: mapTransfer_def x(2))
  have q: "queue_ok ex_queue id" by (auto simp: queue_ok_def ex_queue_def image_iff) metis+
  have c: "tw_Client (aqw_Transfer ex_worker) = ex_queue" "aw_Client (aqw_Activity ex_worker) = ex_queue"
      "tw_Ledger (aqw_Transfer ex_worker) = Some ex_ledger"
    by (simp_all add: ex_worker_def NewAsyncWorker_def Let_def)
  have q2: "queue_ok (tw_Client (aqw_Transfer ex_worker)) id" "queue_ok (aw_Client (aqw_Activity ex_worker)) id"
    unfolding c by (rule q)+
  have ok: "service_ok ex_uuid ex_ledger ex_worker (rt_Services ex_routes)" using ex_routes_ok by (simp add: system_ok_def)
  have bus: "sv_Bus (rt_Services ex_routes) \<noteq> None" by (simp add: ex_routes_def ex_service_def NewService_def)
  have fresh: "Some (ExecuteTaskID i) \<notin> task_TaskID ` set (id (ext ex_covered))" for i by (simp add: ex_covered_def)
  from accepted_is_queued[OF ok bus ex_uuid_ok q2 run[unfolded x(1)] fresh] obtain r where
    "same_rows (ex_covered\<lparr>transfers := transfers ex_covered @ [r]\<rparr>) w1" by blast
  with x(3) have up: "all_up ex_uuid ex_ledger ex_posted w1"
    using ex_up[of TransactionSuccess "[ex_deposit_entry]"]
    by (simp add: all_up_def calm_def db_wf_def same_rows_def ex_covered_def[symmetric])
  have acc: "tb_accepts ex_ledger (tb w1) (move_entry ex_ledger 1 (last (transfers w1)))" by (rule ex_status) (simp add: l(2))
  have naira: "LedgerForCurrency (tr_Currency (last (transfers w1))) = Inr 1" by (simp add: l(1) ex_naira)
  have "rs_Status ?resp = 202" by (simp add: WriteJSON_def)
  with accepted_transfer_reaches_ledger[OF ok bus ex_worker_ok c(3) q2 ex_post_match post body up fresh naira acc, of "ex_ctx 0"] post
  show ?thesis unfolding id by blast
qed

section \<open>A deposit from webhook to ledger\<close>

text \<open>The wallet an intent pays into, active and of a currency with ledger \<open>l\<close>.\<close>

definition can_settle :: "intent_row \<Rightarrow> string \<Rightarrow> LedgerID \<Rightarrow> ('tb, 'x) world \<Rightarrow> bool" where
  "can_settle r currency l w \<longleftrightarrow> IsPositive (ti_Amount r) \<and> (\<exists>v \<in> set (wallets w). w_ID v = ti_Wallet r \<and>
     w_DeletedAt v = None \<and> w_Status v = WalletActive \<and> (currency = '''' \<or> EqualFold currency (w_Currency v)) \<and>
     LedgerForCurrency (w_Currency v) = Inr l)"

lemma webhook_queued:
  assumes "service_ok P C W s" and "sv_Bus s \<noteq> None" and "sv_Provider s = Some V"
    and "prov_VerifyWebhookSignature V signature body = None" and "prov_ParseWebhook V body = Inr event"
    and "queue_ok (pw_Client (aqw_Payment W)) tasks"
  shows "\<exists>w1. run (Service_HandlePaymentWebhook s signature body) w = (Inr (), w1) \<and> same_books w w1 \<and>
    tasks (ext w1) = tasks (ext w) @ [webhook_task W V event]"
proof -
  let ?t = "webhook_task W V event"
  have "task_TaskID ?t = None"
    by (simp add: webhook_task_def Payment_GenerateNewTask_def GenerateNewTask_def NewTask_def TaskTypePaymentWebhook_def
        TaskTypePaymentPoll_def)
  with enqueue_runs[OF assms(6), of ?t "pw_Queue (aqw_Payment W)" w] obtain w1 where
    w1: "run (EnqueueWithContext ?t (pw_Queue (aqw_Payment W)) (pw_Client (aqw_Payment W))) w = (None, w1)"
      "tasks (ext w1) = tasks (ext w) @ [?t]" by auto
  then have "same_books w w1"
    by (auto simp: EnqueueWithContext_def ext_call_def same_books_def split: prod.splits)
  with w1 show ?thesis by (simp add: webhook_enqueues[OF assms(1-5)] Payment_Enqueue_def)
qed

lemma serve_webhook:
  assumes "run (HandlePaymentWebhook (aqw_Payment W) t) w = (None, w')" and "task_Type t = TaskTypePaymentWebhook"
  shows "run (serve W ctx t) w = (Returned None, w')"
proof -
  have "serve W ctx t = payment_webhook_route (aqw_Payment W) ctx t"
    by (simp add: serve_def RegisterHandlers_def assms(2) TaskTypeEmailSend_def UpdateUserActivity_def
        TaskTypePaymentWebhook_def TaskTypePaymentPoll_def TaskTypeTransferExecute_def)
  then show ?thesis
    unfolding payment_webhook_route_def handlePayment_simps Recover_HandlerFunc
    using assms(1) by (simp add: HandlerFunc_def)
qed

text \<open>What the router makes of a webhook request whose body could be read.\<close>

lemma webhook_post:
  assumes "hp_Match (rt_Pkgs R) (map ro_Key (SetupRoutes R)) (rq_Method r) (rq_Path r) =
      Some ((''POST'', ''/api/v1/payments/webhook''), params)" and "read_limited r = Inr body"
  shows "run (ServeHTTP R r) w = (case run (Service_HandlePaymentWebhook (rt_Services R) (rq_Header r PaystackSignatureHeader) body) w of
    (res, w') \<Rightarrow> (reply 200 (\<lambda>_. MessageResponse ''Webhook Received'') res, w'))"
proof -
  let ?ro = "open_route ''POST'' ''/api/v1/payments/webhook'' (Route_PaymentWebhook R)"
  have "List.find (\<lambda>ro. ro_Key ro = (''POST'', ''/api/v1/payments/webhook'')) (SetupRoutes R) = Some ?ro"
    by (simp add: SetupRoutes_def SetupDocsRoutes_def open_route_def guarded_route_def ro_Key_def SpecPath_def DocsPath_def)
  with assms show ?thesis
    by (simp add: ServeHTTP_def mounted_def open_route_def Route_PaymentWebhook_def split: prod.splits)
qed

text \<open>C9. From HTTP webhook to ledger: a signed webhook that reports the amount of a PENDING intent paid is
  answered 200 and queued, and one attempt at the queued task, with database and ledger answering, ends with
  the intent SUCCESS and its amount credited to its wallet in the ledger, exactly once; nothing else changed.\<close>

theorem signed_webhook_credits_wallet:
  assumes "service_ok P C W (rt_Services R)" and "sv_Bus (rt_Services R) \<noteq> None" and "sv_Provider (rt_Services R) = Some V"
    and "worker_ok P C W" and "pw_Ledger (aqw_Payment W) = Some C" and "queue_ok (pw_Client (aqw_Payment W)) tasks"
    and "hp_Match (rt_Pkgs R) (map ro_Key (SetupRoutes R)) (rq_Method req) (rq_Path req) =
      Some ((''POST'', ''/api/v1/payments/webhook''), params)" and "read_limited req = Inr body"
    and "prov_VerifyWebhookSignature V (rq_Header req PaystackSignatureHeader) body = None"
    and "prov_ParseWebhook V body = Inr event"
    and "we_Status event = PaymentSuccess" and "we_Reference event = uuid_String P (ti_ID r)"
    and "we_Amount event = ti_Amount r" and "all_up P C posted w" and "r \<in> set (intents w)"
    and "ti_Status r = TransactionPending" and "can_settle r (we_Currency event) l w"
    and "tb_accepts C (tb w) (deposit_entry C l r)"
  shows "\<exists>t w1 w2. run (ServeHTTP R req) w = (WriteJSON 200 (Some (JSON (MessageResponse ''Webhook Received''))), w1) \<and>
    tasks (ext w1) = tasks (ext w) @ [t] \<and> same_books w w1 \<and> run (serve W ctx t) w1 = (Returned None, w2) \<and>
    only_changed posted (r\<lparr>ti_Status := TransactionSuccess, ti_UpdatedAt := now w1\<rparr>)
      ((posted (tb w1))(TransferID C (ti_ID r) \<mapsto> deposit_entry C l r)) [EvCreateTransfers [deposit_entry C l r]] w1 w2"
proof -
  obtain w1 where w1: "run (Service_HandlePaymentWebhook (rt_Services R) (rq_Header req PaystackSignatureHeader) body) w = (Inr (), w1)"
      "same_books w w1" "tasks (ext w1) = tasks (ext w) @ [webhook_task W V event]"
    using webhook_queued[OF assms(1-3,9,10,6)] by blast
  then have post: "run (ServeHTTP R req) w = (WriteJSON 200 (Some (JSON (MessageResponse ''Webhook Received''))), w1)"
    by (simp add: webhook_post[OF assms(7,8)] reply_def)
  have up: "all_up P C posted w1" using assms(14) w1(2) by (simp add: all_up_def calm_def db_wf_def same_books_def)
  from assms(17) obtain v where v: "v \<in> set (wallets w)" "w_ID v = ti_Wallet r" "w_DeletedAt v = None" "w_Status v = WalletActive"
      "we_Currency event = '''' \<or> EqualFold (we_Currency event) (w_Currency v)" "LedgerForCurrency (w_Currency v) = Inr l"
    and pos: "IsPositive (ti_Amount r)"
    by (auto simp: can_settle_def)
  have same: "intents w1 = intents w" "wallets w1 = wallets w" "tb w1 = tb w" using w1(2) by (simp_all add: same_books_def)
  have P: "pw_uuid (aqw_Payment W) = P" using assms(4) by (simp add: worker_ok_def)
  let ?done = "only_changed posted (r\<lparr>ti_Status := TransactionSuccess, ti_UpdatedAt := now w1\<rparr>)
      ((posted (tb w1))(TransferID C (ti_ID r) \<mapsto> deposit_entry C l r)) [EvCreateTransfers [deposit_entry C l r]] w1"
  have settled: "wp (settle (aqw_Payment W) (uuid_String P (ti_ID r)) (ti_Amount r) (we_Currency event))
      (\<lambda>e u. \<forall>u'. same_books u u' \<longrightarrow> e = None \<and> ?done u') w1"
    by (rule wp_settle_match[OF up P assms(5) assms(15,16)[folded same] pos v(1)[folded same(2)] v(2-6)])
      (use assms(18) only_changed_frame same in \<open>simp; blast\<close>)+
  have "wp (HandlePaymentWebhook (aqw_Payment W) (webhook_task W V event)) (\<lambda>e w'. e = None \<and> ?done w') w1"
    unfolding webhook_task_def by (rule wp_webhook) (use settled assms(11-13) in simp_all)
  from wp_runs[OF this] obtain w2 where w2: "run (HandlePaymentWebhook (aqw_Payment W) (webhook_task W V event)) w1 = (None, w2)"
      "?done w2" by blast
  have "task_Type (webhook_task W V event) = TaskTypePaymentWebhook" by (simp add: webhook_task_def Payment_GenerateNewTask_def)
  from serve_webhook[OF w2(1) this] post w1(2,3) w2(2) show ?thesis by blast
qed

text \<open>The program of the example with Paystack, and a signed request.\<close>

definition ex_paid_routes :: "(book, task list) Routes" where
  "ex_paid_routes = ex_routes\<lparr>rt_Services := ex_signed_service\<rparr>"

definition ex_paid_post :: incoming where
  "ex_paid_post = (ex_incoming ''POST'' ''/api/v1/payments/webhook'' '''' ''{}'')\<lparr>rq_Header :=
     (\<lambda>h. if h = PaystackSignatureHeader then '' 5ECk '' else '''')\<rparr>"

lemma signed_webhook_credits_wallet_witness:
  "\<exists>t w1 w2. run (ServeHTTP ex_paid_routes ex_paid_post) (ex_with TransactionPending []) =
      (WriteJSON 200 (Some (JSON (MessageResponse ''Webhook Received''))), w1) \<and>
    ext w1 = [t] \<and> run (serve ex_worker (ex_ctx 0) t) w1 = (Returned None, w2) \<and>
    only_changed ex_posted ((ex_intent TransactionPending)\<lparr>ti_Status := TransactionSuccess, ti_UpdatedAt := 1\<rparr>)
      ((ex_posted [])(20 \<mapsto> ex_deposit_entry)) [EvCreateTransfers [ex_deposit_entry]] w1 w2"
proof -
  let ?V = "paystack ex_paystack (NewPaystackProvider ''k'' '''')" and ?r = "ex_intent TransactionPending"
    and ?w = "ex_with TransactionPending []"
    and ?e = "\<lparr>we_Event = ''charge.success'', we_Reference = ''20'', we_Status = PaymentSuccess, we_Amount = 500, we_Currency = ''NGN''\<rparr>"
  have R: "rt_Services ex_paid_routes = ex_signed_service" "rt_Pkgs ex_paid_routes = ex_pkgs"
    by (simp_all add: ex_paid_routes_def)
  have ok: "service_ok ex_uuid ex_ledger ex_worker (rt_Services ex_paid_routes)"
    using ex_service_ok by (simp add: R service_ok_def ex_signed_service_def)
  have bus: "sv_Bus (rt_Services ex_paid_routes) \<noteq> None" by (simp add: R ex_signed_service_def ex_service_def NewService_def)
  have V: "sv_Provider (rt_Services ex_paid_routes) = Some ?V" by (simp add: R ex_signed_service_def)
  have match: "hp_Match (rt_Pkgs ex_paid_routes) (map ro_Key (SetupRoutes ex_paid_routes)) (rq_Method ex_paid_post) (rq_Path ex_paid_post) =
      Some ((''POST'', ''/api/v1/payments/webhook''), \<lambda>_. '''')"
    by (simp add: R ex_paid_post_def ex_incoming_def SetupRoutes_def SetupDocsRoutes_def open_route_def guarded_route_def ro_Key_def)
  have read: "read_limited ex_paid_post = Inr ''{}''"
    by (simp add: read_limited_def ex_paid_post_def ex_incoming_def MaxWebhookBodyBytes_def)
  have sig: "prov_VerifyWebhookSignature ?V (rq_Header ex_paid_post PaystackSignatureHeader) ''{}'' = None"
    by (simp add: ex_paid_post_def) code_simp
  have parse: "prov_ParseWebhook ?V ''{}'' = Inr ?e" by code_simp
  have client: "pw_Client (aqw_Payment ex_worker) = ex_queue"
    by (simp add: ex_worker_def NewAsyncWorker_def NewPaymentWorker_def Let_def)
  have q: "queue_ok (pw_Client (aqw_Payment ex_worker)) id"
    unfolding client by (auto simp: queue_ok_def ex_queue_def image_iff) metis+
  have acc: "tb_accepts ex_ledger (tb ?w) (deposit_entry ex_ledger 1 ?r)" by (simp add: ex_deposit ex_accepts)
  have can: "can_settle ?r (we_Currency ?e) 1 ?w" by (auto simp: can_settle_def IsPositive_def ex_naira)
  have fits: "we_Status ?e = PaymentSuccess" "we_Reference ?e = uuid_String ex_uuid (ti_ID ?r)" "we_Amount ?e = ti_Amount ?r"
    "?r \<in> set (intents ?w)" "ti_Status ?r = TransactionPending" by (simp_all add: ex_text del: ex_uuid_sel)
  obtain t w1 w2 where run: "run (ServeHTTP ex_paid_routes ex_paid_post) ?w =
        (WriteJSON 200 (Some (JSON (MessageResponse ''Webhook Received''))), w1)"
      "id (ext w1) = id (ext ?w) @ [t]" "same_books ?w w1" "run (serve ex_worker (ex_ctx 0) t) w1 = (Returned None, w2)"
      "only_changed ex_posted (?r\<lparr>ti_Status := TransactionSuccess, ti_UpdatedAt := now w1\<rparr>)
        ((ex_posted (tb w1))(TransferID ex_ledger (ti_ID ?r) \<mapsto> deposit_entry ex_ledger 1 ?r))
        [EvCreateTransfers [deposit_entry ex_ledger 1 ?r]] w1 w2"
    using signed_webhook_credits_wallet[OF ok bus V ex_worker_ok ex_payment(2) q match read sig parse fits(1-3) ex_up fits(4,5) can acc,
      of "ex_ctx 0"] by blast
  from run(3) have "now w1 = 1" "tb w1 = []" by (simp_all add: same_books_def)
  with run show ?thesis by (auto simp: ex_deposit ex_ids)
qed

end
