(* ===== verification/Conservation.thy ===== *)
theory Conservation
  imports Example_Env
begin

text \<open>
  Conservation of money. The balance of an account is what the transfers the ledger holds credit to it
  less what they debit; in every reachable configuration the balances of the wallets are the history the
  database keeps of them, and together they are the deposits.
\<close>

section \<open>Balances of a book of transfers\<close>

definition balance :: "'tb tb_client \<Rightarrow> (u128 \<Rightarrow> tb_transfer option) \<Rightarrow> u128 \<Rightarrow> int" where
  "balance C book a = (\<Sum>i \<in> dom book.
     (if t_CreditAccountID (the (book i)) = a then tb_BigInt C (t_Amount (the (book i))) else 0) -
     (if t_DebitAccountID (the (book i)) = a then tb_BigInt C (t_Amount (the (book i))) else 0))"

text \<open>The rows whose transfer the ledger holds.\<close>

definition posted_intents ::
  "'tb tb_client \<Rightarrow> ('tb \<Rightarrow> u128 \<Rightarrow> tb_transfer option) \<Rightarrow> ('tb, 'x) world \<Rightarrow> intent_row set" where
  "posted_intents C posted w = {r \<in> set (intents w). posted (tb w) (TransferID C (ti_ID r)) \<noteq> None}"

definition posted_transfers ::
  "'tb tb_client \<Rightarrow> ('tb \<Rightarrow> u128 \<Rightarrow> tb_transfer option) \<Rightarrow> ('tb, 'x) world \<Rightarrow> transfer_row set" where
  "posted_transfers C posted w = {r \<in> set (transfers w). posted (tb w) (TransferID C (tr_ID r)) \<noteq> None}"

definition paid_in :: "intent_row set \<Rightarrow> uuid \<Rightarrow> int" where
  "paid_in I v = (\<Sum>r \<in> I. if ti_Wallet r = v then sint (ti_Amount r) else 0)"

definition received :: "transfer_row set \<Rightarrow> uuid \<Rightarrow> int" where
  "received T v = (\<Sum>r \<in> T. if tr_RecipientWalletID r = v then sint (tr_Amount r) else 0)"

definition sent :: "transfer_row set \<Rightarrow> uuid \<Rightarrow> int" where
  "sent T v = (\<Sum>r \<in> T. if tr_SenderWalletID r = v then sint (tr_Amount r) else 0)"

text \<open>No wallet's identifier is the account number of the settlement account of a wallet's currency.\<close>

definition no_settlement_wallet :: "'tb tb_client \<Rightarrow> ('tb, 'x) world \<Rightarrow> bool" where
  "no_settlement_wallet C w \<longleftrightarrow> (\<forall>v \<in> set (wallets w). \<forall>v' \<in> set (wallets w). \<forall>l.
     LedgerForCurrency (w_Currency v') = Inr l \<longrightarrow> AccountID C (w_ID v) \<noteq> SettlementAccountID C l)"

lemma positive_amount: "IsPositive a \<Longrightarrow> tb_ids_ok C \<Longrightarrow> tb_BigInt C (tb_ToUint128 C (Minor a)) = sint a"
  by (auto simp: tb_ids_ok_def Minor_def IsPositive_def uint_sint take_bit_int_eq_self_iff intro: order.strict_trans[OF sint_lt])

text \<open>A sum over the book is a sum over the rows, each row standing for its own transfer.\<close>

lemma sum_over_rows:
  assumes ok: "env_ok P C posted" and inv: "ledger_inv P C posted w"
  shows "(\<Sum>i \<in> dom (posted (tb w)). f i) =
    (\<Sum>r \<in> posted_intents C posted w. f (TransferID C (ti_ID r))) + (\<Sum>r \<in> posted_transfers C posted w. f (TransferID C (tr_ID r)))"
proof -
  let ?I = "posted_intents C posted w" and ?T = "posted_transfers C posted w"
  let ?i = "\<lambda>r. TransferID C (ti_ID r)" and ?t = "\<lambda>r. TransferID C (tr_ID r)"
  note inj = TransferID_inj[OF ok]
  have keys: "distinct (map ti_ID (intents w))" "distinct (map tr_ID (transfers w))"
    and disj: "ti_ID ` set (intents w) \<inter> tr_ID ` set (transfers w) = {}"
    using inv by (simp_all add: ledger_inv_def db_wf_def ids_ok_def)
  have "posted_explained C posted w" using inv by (simp add: ledger_inv_def)
  then have "i \<in> ?i ` ?I \<union> ?t ` ?T" if "i \<in> dom (posted (tb w))" for i
    using that unfolding posted_explained_def posted_intents_def posted_transfers_def by blast
  then have dom: "dom (posted (tb w)) = ?i ` ?I \<union> ?t ` ?T"
    by (auto simp: posted_intents_def posted_transfers_def)
  have I: "inj_on ?i ?I" and T: "inj_on ?t ?T"
    using keys by (auto simp: inj_on_def inj posted_intents_def posted_transfers_def dest: distinct_key_unique)
  have "finite ?I" "finite ?T" by (simp_all add: posted_intents_def posted_transfers_def)
  moreover have "?i ` ?I \<inter> ?t ` ?T = {}" using disj by (auto simp: inj posted_intents_def posted_transfers_def)
  ultimately show ?thesis
    unfolding dom by (simp add: sum.union_disjoint sum.reindex[OF I] sum.reindex[OF T] o_def)
qed

lemma balance_of_wallet:
  assumes ok: "env_ok P C posted" and inv: "ledger_inv P C posted w" and s: "no_settlement_wallet C w" and v: "v \<in> set (wallets w)"
  shows "balance C (posted (tb w)) (AccountID C (w_ID v)) = paid_in (posted_intents C posted w) (w_ID v) +
    received (posted_transfers C posted w) (w_ID v) - sent (posted_transfers C posted w) (w_ID v)"
proof -
  let ?b = "posted (tb w)" and ?a = "AccountID C (w_ID v)"
  let ?f = "\<lambda>i. (if t_CreditAccountID (the (?b i)) = ?a then tb_BigInt C (t_Amount (the (?b i))) else 0) -
     (if t_DebitAccountID (the (?b i)) = ?a then tb_BigInt C (t_Amount (the (?b i))) else 0)"
  have ids: "tb_ids_ok C" using ok by (simp add: env_ok_def)
  have acc: "AccountID C x = AccountID C y \<longleftrightarrow> x = y" for x y using TransferID_inj[OF ok] by (simp add: AccountID_def TransferID_def)
  have settle: "SettlementAccountID C l \<noteq> ?a" if "v' \<in> set (wallets w)" "LedgerForCurrency (w_Currency v') = Inr l" for v' l
    using s v that unfolding no_settlement_wallet_def by metis
  have deposit: "?f (TransferID C (ti_ID r)) = (if ti_Wallet r = w_ID v then sint (ti_Amount r) else 0)"
    if r: "r \<in> posted_intents C posted w" for r
  proof -
    from r obtain t where t: "r \<in> set (intents w)" "?b (TransferID C (ti_ID r)) = Some t" by (auto simp: posted_intents_def)
    with inv_success_intent[OF ok inv this] show ?thesis
      by (auto simp: is_deposit_def deposit_request_def acc positive_amount ids dest: settle)
  qed
  have move: "?f (TransferID C (tr_ID r)) = (if tr_RecipientWalletID r = w_ID v then sint (tr_Amount r) else 0) -
      (if tr_SenderWalletID r = w_ID v then sint (tr_Amount r) else 0)"
    if r: "r \<in> posted_transfers C posted w" for r
  proof -
    from r obtain t where t: "r \<in> set (transfers w)" "?b (TransferID C (tr_ID r)) = Some t" by (auto simp: posted_transfers_def)
    with inv_success_transfer[OF ok inv this] show ?thesis
      by (auto simp: is_move_def transfer_request_def acc positive_amount ids)
  qed
  have "balance C ?b ?a = (\<Sum>r \<in> posted_intents C posted w. if ti_Wallet r = w_ID v then sint (ti_Amount r) else 0) +
      (\<Sum>r \<in> posted_transfers C posted w. (if tr_RecipientWalletID r = w_ID v then sint (tr_Amount r) else 0) -
        (if tr_SenderWalletID r = w_ID v then sint (tr_Amount r) else 0))"
    unfolding balance_def sum_over_rows[OF ok inv] by (intro arg_cong2[where f = "(+)"] sum.cong refl deposit move)
  then show ?thesis by (simp add: paid_in_def received_def sent_def sum_subtractf)
qed

text \<open>A sum over the wallets of what rows name one of them is a sum over the rows.\<close>

lemma sum_over_wallets:
  assumes "distinct (map w_ID ws)" and "\<And>r. r \<in> R \<Longrightarrow> key r \<in> w_ID ` set ws"
  shows "(\<Sum>v \<in> set ws. \<Sum>r \<in> R. if key r = w_ID v then f r else (0 :: int)) = (\<Sum>r \<in> R. f r)"
proof -
  have "(\<Sum>v \<in> set ws. if key r = w_ID v then f r else 0) = f r" if r: "r \<in> R" for r
  proof -
    obtain v where v: "v \<in> set ws" "w_ID v = key r" using assms(2)[OF r] by auto
    have "(key r = w_ID u) = (u = v)" if "u \<in> set ws" for u using assms(1) v that distinct_key_unique by metis
    then have "(\<Sum>u \<in> set ws. if key r = w_ID u then f r else 0) = (\<Sum>u \<in> set ws. if u = v then f r else 0)" by simp
    also have "\<dots> = f r" using v(1) by simp
    finally show ?thesis .
  qed
  then show ?thesis by (subst sum.swap) simp
qed

text \<open>C3. Money is conserved: in every configuration the running program can come to, the balance of each
  wallet in the ledger is what its posted deposits and incoming transfers brought less what its outgoing
  transfers took, and all wallets together hold exactly the posted deposits.\<close>

theorem wallets_hold_the_deposits:
  assumes "system_ok P C posted W s w" and "reachable W s w w'" and "uuids_fresh w'" and "no_settlement_wallet C w'"
  shows "(\<forall>v \<in> set (wallets w'). balance C (posted (tb w')) (AccountID C (w_ID v)) = paid_in (posted_intents C posted w') (w_ID v) +
      received (posted_transfers C posted w') (w_ID v) - sent (posted_transfers C posted w') (w_ID v)) \<and>
    (\<Sum>v \<in> set (wallets w'). balance C (posted (tb w')) (AccountID C (w_ID v))) =
      (\<Sum>r \<in> posted_intents C posted w'. sint (ti_Amount r))"
proof
  let ?I = "posted_intents C posted w'" and ?T = "posted_transfers C posted w'"
  have ok: "env_ok P C posted" using assms(1) by (simp add: system_ok_def)
  have inv: "ledger_inv P C posted w'" using reachable_inv assms(1-3) .
  then have ids: "distinct (map w_ID (wallets w'))" by (simp add: ledger_inv_def db_wf_def)
  have rows: "ti_Wallet r \<in> w_ID ` set (wallets w')" if r: "r \<in> ?I" for r
  proof -
    from r obtain t where "r \<in> set (intents w')" "posted (tb w') (TransferID C (ti_ID r)) = Some t" by (auto simp: posted_intents_def)
    from inv_success_intent[OF ok inv this] show ?thesis unfolding is_deposit_def by (metis image_eqI)
  qed
  have moves: "tr_SenderWalletID r \<in> w_ID ` set (wallets w') \<and> tr_RecipientWalletID r \<in> w_ID ` set (wallets w')" if r: "r \<in> ?T" for r
  proof -
    from r obtain t where "r \<in> set (transfers w')" "posted (tb w') (TransferID C (tr_ID r)) = Some t" by (auto simp: posted_transfers_def)
    from inv_success_transfer[OF ok inv this] show ?thesis unfolding is_move_def by (metis image_eqI)
  qed
  show each: "\<forall>v \<in> set (wallets w'). balance C (posted (tb w')) (AccountID C (w_ID v)) = paid_in ?I (w_ID v) +
      received ?T (w_ID v) - sent ?T (w_ID v)"
    using balance_of_wallet[OF ok inv assms(4)] by blast
  then have "(\<Sum>v \<in> set (wallets w'). balance C (posted (tb w')) (AccountID C (w_ID v))) =
      (\<Sum>v \<in> set (wallets w'). paid_in ?I (w_ID v)) + (\<Sum>v \<in> set (wallets w'). received ?T (w_ID v)) -
      (\<Sum>v \<in> set (wallets w'). sent ?T (w_ID v))"
    by (simp add: sum.distrib sum_subtractf)
  also have "\<dots> = (\<Sum>r \<in> ?I. sint (ti_Amount r))"
    unfolding paid_in_def received_def sent_def using rows moves by (simp add: sum_over_wallets[OF ids])
  finally show "(\<Sum>v \<in> set (wallets w'). balance C (posted (tb w')) (AccountID C (w_ID v))) = (\<Sum>r \<in> ?I. sint (ti_Amount r))" .
qed

lemma ex_moved_wallets: "map (\<lambda>v. (w_ID v, w_Currency v)) (wallets (ex_after [ex_webhook 500, ex_execute])) =
    [(10, ''NGN''), (11, ''NGN'')]"
  by code_simp

lemma wallets_hold_the_deposits_witness:
  "let w = ex_after [ex_webhook 500, ex_execute] in
   balance ex_ledger (ex_posted (tb w)) 10 = 300 \<and> balance ex_ledger (ex_posted (tb w)) 11 = 200 \<and>
   (\<Sum>v \<in> set (wallets w). balance ex_ledger (ex_posted (tb w)) (AccountID ex_ledger (w_ID v))) = 500"
proof -
  let ?w = "ex_after [ex_webhook 500, ex_execute]"
  have acc: "AccountID ex_ledger u = u" "TransferID ex_ledger u = u" "SettlementAccountID ex_ledger 1 = 1" for u
    by (simp_all add: AccountID_def TransferID_def SettlementAccountID_def ex_ledger_def)
  have ngn: "LedgerForCurrency ''NGN'' = Inr 1" by (simp add: LedgerForCurrency_def currencyLedgers_def)
  have ids: "w_ID v \<in> {10, 11} \<and> w_Currency v = ''NGN''" if "v \<in> set (wallets ?w)" for v
  proof -
    from that have "(w_ID v, w_Currency v) \<in> set (map (\<lambda>v. (w_ID v, w_Currency v)) (wallets ?w))" by force
    then show ?thesis unfolding ex_moved_wallets by auto
  qed
  have sep: "no_settlement_wallet ex_ledger ?w"
    unfolding no_settlement_wallet_def
  proof (intro ballI allI impI)
    fix v v' l assume a: "v \<in> set (wallets ?w)" "v' \<in> set (wallets ?w)" "LedgerForCurrency (w_Currency v') = Inr l"
    then have "l = 1" using ids[of v'] by (simp add: ngn)
    then show "AccountID ex_ledger (w_ID v) \<noteq> SettlementAccountID ex_ledger l"
      using ids[OF a(1)] by (auto simp: acc)
  qed
  have rows: "posted_intents ex_ledger ex_posted ?w = {(ex_intent TransactionSuccess)\<lparr>ti_UpdatedAt := 1\<rparr>}"
    "posted_transfers ex_ledger ex_posted ?w = {(ex_transfer TransactionSuccess)\<lparr>tr_UpdatedAt := 1\<rparr>}"
    by (auto simp: posted_intents_def posted_transfers_def ex_movedD acc ex_intent_def ex_transfer_def ex_posted_def
        ex_deposit_entry_def ex_move_entry_def)
  have "(10, ''NGN'') \<in> set (map (\<lambda>v. (w_ID v, w_Currency v)) (wallets ?w))" "(11, ''NGN'') \<in> set (map (\<lambda>v. (w_ID v, w_Currency v)) (wallets ?w))"
    unfolding ex_moved_wallets by simp_all
  then obtain v v' where v: "v \<in> set (wallets ?w)" "w_ID v = 10" "v' \<in> set (wallets ?w)" "w_ID v' = 11" by auto
  from wallets_hold_the_deposits[OF ex_system_ok ex_reachable(1) ex_movedD(4) sep] v show ?thesis
    unfolding Let_def rows paid_in_def received_def sent_def
    by (auto simp: acc ex_intent_def ex_transfer_def dest: bspec[of _ _ v] bspec[of _ _ v'])
qed

end
