(* ===== verification/Contexts.thy ===== *)
theory Contexts
  imports Repository_Base
begin

text \<open>
  What goes along with a call and leaves the tables alone: the context, its span, the tracer and the
  logger. \<^verbatim>\<open>src/internal/repository/repository.go\<close>, \<open>LogError\<close> of its \<^verbatim>\<open>errors.go\<close>, the contexts of
  \<^verbatim>\<open>src/internal/api/services/services.go\<close> and \<^verbatim>\<open>routes/route.go\<close>, and the spans of the ledger, the event
  bus, the code store and the providers. The rest of the development leaves these out; \<open>LogError_value\<close>
  and \<open>Fail_value\<close> say that they do not change what an operation returns.
\<close>

section \<open>Packages\<close>

text \<open>\<open>context\<close>, \<open>log/slog\<close> and \<open>go.opentelemetry.io/otel/trace\<close>, over any types of contexts, spans and loggers.\<close>

record ('c, 's, 'l) telemetry =
  te_Background :: 'c
  te_SpanFromContext :: "'c \<Rightarrow> 's"
  te_Default :: 'l
  te_With :: "'l \<Rightarrow> string \<Rightarrow> string \<Rightarrow> 'l"

type_synonym ('c, 's) tracer = "'c \<Rightarrow> string \<Rightarrow> 'c \<times> 's"

text \<open>A span started by a tracer is the span of the context it returns.\<close>

definition tracer_ok :: "('c, 's, 'l) telemetry \<Rightarrow> ('c, 's) tracer \<Rightarrow> bool" where
  "tracer_ok K t \<longleftrightarrow> (\<forall>c name. te_SpanFromContext K (fst (t c name)) = snd (t c name))"

text \<open>What is written: records of a logger, and errors and the error status of a span.\<close>

datatype log_level = LevelDebug | LevelInfo | LevelWarn | LevelError

datatype ('s, 'l) telemetry_event =
    Logged 'l log_level string "(string \<times> string) list"
  | SpanError 's go_error
  | SpanStatus 's string

section \<open>Spans\<close>

text \<open>The body the \<open>StartSpan\<close> functions share: without a tracer the span is the context's.\<close>

definition start_span :: "('c, 's, 'l) telemetry \<Rightarrow> ('c, 's) tracer option \<Rightarrow> 'c \<Rightarrow> string \<Rightarrow> 'c \<times> 's" where
  "start_span K tracer ctx name = (case tracer of None \<Rightarrow> (ctx, te_SpanFromContext K ctx) | Some t \<Rightarrow> t ctx name)"

definition Ledger_StartSpan :: "('c, 's, 'l) telemetry \<Rightarrow> ('c, 's) tracer option \<Rightarrow> 'c \<Rightarrow> string \<Rightarrow> 'c \<times> 's" where
  "Ledger_StartSpan K tracer ctx op = start_span K tracer ctx (''ledger.'' @ op)"

definition EventBus_StartSpan ::
  "('c, 's, 'l) telemetry \<Rightarrow> ('c, 's) tracer option option \<Rightarrow> 'c \<Rightarrow> string \<Rightarrow> 'c \<times> 's" where
  "EventBus_StartSpan K bus ctx name = start_span K (case bus of None \<Rightarrow> None | Some tracer \<Rightarrow> tracer) ctx name"

definition Store_startSpan :: "('c, 's, 'l) telemetry \<Rightarrow> ('c, 's) tracer option \<Rightarrow> 'c \<Rightarrow> string \<Rightarrow> 'c \<times> 's" where
  "Store_startSpan K tracer ctx name = start_span K tracer ctx name"

definition Paystack_StartSpan :: "('c, 's, 'l) telemetry \<Rightarrow> ('c, 's) tracer option \<Rightarrow> 'c \<Rightarrow> string \<Rightarrow> 'c \<times> 's" where
  "Paystack_StartSpan K tracer ctx op = start_span K tracer ctx (''payment.provider.paystack.'' @ op)"

definition Resend_StartSpan :: "('c, 's, 'l) telemetry \<Rightarrow> ('c, 's) tracer option \<Rightarrow> 'c \<Rightarrow> 'c \<times> 's" where
  "Resend_StartSpan K tracer ctx = start_span K tracer ctx ''email.provider.resend''"

text \<open>\<open>RecordError\<close> of the event package.\<close>

definition RecordError :: "'s option \<Rightarrow> go_error option \<Rightarrow> ('s, 'l) telemetry_event list" where
  "RecordError span err = (case (span, err) of
      (Some s, Some e) \<Rightarrow> [SpanError s e, SpanStatus s (Error e)]
    | _ \<Rightarrow> [])"

text \<open>\<open>fail\<close> of the code store.\<close>

definition Store_fail :: "'l \<Rightarrow> 's option \<Rightarrow> string \<Rightarrow> string \<Rightarrow> go_error \<Rightarrow> ('s, 'l) telemetry_event list" where
  "Store_fail logger span msg identifier err =
     Logged logger LevelError msg [(''identifier'', identifier), (''error'', Error err)] #
     (case span of None \<Rightarrow> [] | Some s \<Rightarrow> [SpanError s err, SpanStatus s (Error err)])"

section \<open>The repository's contexts\<close>

record ('c, 's, 'l, 'd) RepoConfig =
  rp_DB :: 'd
  rp_Tracer :: "('c, 's) tracer option"
  rp_Logger :: "'l option"

text \<open>\<open>NewRepository\<close> fills in the default logger.\<close>

definition NewRepository :: "('c, 's, 'l) telemetry \<Rightarrow> ('c, 's, 'l, 'd) RepoConfig \<Rightarrow> ('c, 's, 'l, 'd) RepoConfig" where
  "NewRepository K cfg = \<lparr>rp_DB = rp_DB cfg, rp_Tracer = rp_Tracer cfg,
     rp_Logger = Some (case rp_Logger cfg of None \<Rightarrow> te_Default K | Some l \<Rightarrow> l)\<rparr>"

text \<open>\<open>StartNewRepo\<close> of \<^verbatim>\<open>cmd/main.go\<close>.\<close>

definition StartNewRepo ::
  "('c, 's, 'l) telemetry \<Rightarrow> 'd \<Rightarrow> ('c, 's) tracer option \<Rightarrow> 'l \<Rightarrow> ('c, 's, 'l, 'd) RepoConfig" where
  "StartNewRepo K db tracer logger =
     NewRepository K \<lparr>rp_DB = db, rp_Tracer = tracer, rp_Logger = Some (te_With K logger ''layer'' ''repository'')\<rparr>"

record ('c, 's, 'l, 'd) RepoctxConfig =
  rx_Context :: "'c option"
  rx_DB :: "'d option"
  rx_Span :: "'s option"
  rx_Tracer :: "('c, 's) tracer option"
  rx_Logger :: "'l option"

record ('c, 's, 'l, 'd) RepoCtx =
  rc_Context :: 'c
  rc_DB :: 'd
  rc_Span :: "'s option"
  rc_Tracer :: "('c, 's) tracer option"
  rc_Logger :: "'l option"

text \<open>The last value given wins. Neither the repository's tracer nor the span of a configuration is used.\<close>

definition apply_repoctx ::
  "('c, 's, 'l) telemetry \<Rightarrow> ('c, 's, 'l, 'd) RepoCtx \<Rightarrow> ('c, 's, 'l, 'd) RepoctxConfig \<Rightarrow> ('c, 's, 'l, 'd) RepoCtx" where
  "apply_repoctx K c cfg =
     (let c = (case rx_Logger cfg of None \<Rightarrow> c | Some l \<Rightarrow> c\<lparr>rc_Logger := Some l\<rparr>);
          c = (case rx_Context cfg of None \<Rightarrow> c
               | Some x \<Rightarrow> c\<lparr>rc_Context := x, rc_Span := Some (te_SpanFromContext K x)\<rparr>);
          c = (case rx_DB cfg of None \<Rightarrow> c | Some d \<Rightarrow> c\<lparr>rc_DB := d\<rparr>)
      in (case rx_Tracer cfg of None \<Rightarrow> c | Some t \<Rightarrow> c\<lparr>rc_Tracer := Some t\<rparr>))"

definition NewRepoCtx ::
  "('c, 's, 'l) telemetry \<Rightarrow> ('c, 's, 'l, 'd) RepoConfig \<Rightarrow> ('c, 's, 'l, 'd) RepoctxConfig list \<Rightarrow> ('c, 's, 'l, 'd) RepoCtx" where
  "NewRepoCtx K r cfgs =
     (let c = foldl (apply_repoctx K) \<lparr>rc_Context = te_Background K, rc_DB = rp_DB r, rc_Span = None, rc_Tracer = None,
          rc_Logger = rp_Logger r\<rparr> cfgs
      in c\<lparr>rc_Logger := Some (case rc_Logger c of None \<Rightarrow> te_Default K | Some l \<Rightarrow> l)\<rparr>)"

definition RepoCtx_Start ::
  "('c, 's, 'l) telemetry \<Rightarrow> ('c, 's, 'l, 'd) RepoCtx \<Rightarrow> string \<Rightarrow> ('c, 's, 'l, 'd) RepoCtx \<times> 's" where
  "RepoCtx_Start K c op = (case rc_Tracer c of
      None \<Rightarrow> (c, te_SpanFromContext K (rc_Context c))
    | Some t \<Rightarrow> (case t (rc_Context c) (''repository.'' @ op) of
        (ctx, span) \<Rightarrow> (c\<lparr>rc_Context := ctx, rc_Span := Some span\<rparr>, span)))"

text \<open>\<open>LogError\<close> with what it writes. Without a logger it returns before it gets to the span.\<close>

definition RepoCtx_LogError ::
  "('c, 's, 'l, 'd) RepoCtx \<Rightarrow> string \<Rightarrow> go_error option \<Rightarrow> (string \<times> string) list \<Rightarrow>
   go_error option \<times> ('s, 'l) telemetry_event list" where
  "RepoCtx_LogError c op err attrs = (case map_option wrapGormError err of
      None \<Rightarrow> (None, [])
    | Some wrapped \<Rightarrow> (case rc_Logger c of
        None \<Rightarrow> (Some wrapped, [])
      | Some logger \<Rightarrow>
          let args = [(''repo_op'', op), (''error'', Error wrapped)] @ attrs;
              notFound = errors_Is wrapped ErrNotFound
          in (Some wrapped,
              (if notFound then Logged logger LevelDebug ''repository record not found'' args
               else Logged logger LevelError ''repository query failed'' args) #
              (case rc_Span c of
                 None \<Rightarrow> []
               | Some span \<Rightarrow> if notFound then [] else [SpanError span wrapped, SpanStatus span (Error wrapped)]))))"

lemma LogError_value: "fst (RepoCtx_LogError c op err attrs) = map_option LogError err"
  by (cases err) (auto simp: RepoCtx_LogError_def LogError_def Let_def split: option.split)

section \<open>The services' contexts\<close>

record ('c, 's, 'l) ServiceCtxConfig =
  sx_Context :: "'c option"
  sx_Span :: "'s option"
  sx_Tracer :: "('c, 's) tracer option"
  sx_Logger :: "'l option"

record ('c, 's, 'l) ServiceCtx =
  sc_Context :: 'c
  sc_Span :: "'s option"
  sc_Tracer :: "('c, 's) tracer option"
  sc_Logger :: "'l option"

definition apply_servicectx ::
  "('c, 's, 'l) telemetry \<Rightarrow> ('c, 's, 'l) ServiceCtx \<Rightarrow> ('c, 's, 'l) ServiceCtxConfig \<Rightarrow> ('c, 's, 'l) ServiceCtx" where
  "apply_servicectx K c cfg =
     (let c = (case sx_Context cfg of None \<Rightarrow> c
               | Some x \<Rightarrow> c\<lparr>sc_Context := x, sc_Span := Some (te_SpanFromContext K x)\<rparr>);
          c = (case sx_Span cfg of None \<Rightarrow> c | Some s \<Rightarrow> c\<lparr>sc_Span := Some s\<rparr>);
          c = (case sx_Tracer cfg of None \<Rightarrow> c | Some t \<Rightarrow> c\<lparr>sc_Tracer := Some t\<rparr>)
      in (case sx_Logger cfg of None \<Rightarrow> c | Some l \<Rightarrow> c\<lparr>sc_Logger := Some l\<rparr>))"

definition GetServiceCtx ::
  "('c, 's, 'l) telemetry \<Rightarrow> ('c, 's, 'l) ServiceCtxConfig list \<Rightarrow> ('c, 's, 'l) ServiceCtx" where
  "GetServiceCtx K cfgs =
     (let c = foldl (apply_servicectx K)
          \<lparr>sc_Context = te_Background K, sc_Span = None, sc_Tracer = None, sc_Logger = None\<rparr> cfgs
      in c\<lparr>sc_Logger := Some (case sc_Logger c of None \<Rightarrow> te_Default K | Some l \<Rightarrow> l)\<rparr>)"

text \<open>What of a service its contexts are made of; \<open>NewService\<close> takes database and tracer from the repository.\<close>

record ('c, 's, 'l, 'd) service_telemetry =
  sy_Repository :: "('c, 's, 'l, 'd) RepoConfig"
  sy_Tracer :: "('c, 's) tracer option"
  sy_Logger :: 'l

definition NewService_telemetry ::
  "('c, 's, 'l) telemetry \<Rightarrow> ('c, 's, 'l, 'd) RepoConfig \<Rightarrow> 'l option \<Rightarrow> ('c, 's, 'l, 'd) service_telemetry" where
  "NewService_telemetry K repo logger = \<lparr>sy_Repository = repo, sy_Tracer = rp_Tracer repo,
     sy_Logger = (case logger of Some l \<Rightarrow> l | None \<Rightarrow> (case rp_Logger repo of Some l \<Rightarrow> l | None \<Rightarrow> te_Default K))\<rparr>"

text \<open>\<open>GetRepoCtx\<close> takes the context and the span of the configurations; it leaves the logger out.\<close>

definition GetRepoCtx ::
  "('c, 's, 'l) telemetry \<Rightarrow> ('c, 's, 'l, 'd) service_telemetry \<Rightarrow> ('c, 's, 'l) ServiceCtxConfig list \<Rightarrow>
   ('c, 's, 'l, 'd) RepoCtx" where
  "GetRepoCtx K s cfgs =
     (case foldl (\<lambda>(ctx, span) cfg.
        let (ctx, span) = (case sx_Context cfg of None \<Rightarrow> (ctx, span) | Some x \<Rightarrow> (x, Some (te_SpanFromContext K x)))
        in (ctx, case sx_Span cfg of None \<Rightarrow> span | Some sp \<Rightarrow> Some sp)) (te_Background K, None) cfgs of
        (ctx, span) \<Rightarrow> \<lparr>rc_Context = ctx, rc_DB = rp_DB (sy_Repository s), rc_Span = span, rc_Tracer = sy_Tracer s,
          rc_Logger = None\<rparr>)"

definition ServiceCtx_Start ::
  "('c, 's, 'l) telemetry \<Rightarrow> ('c, 's, 'l) ServiceCtx \<Rightarrow> string \<Rightarrow> ('c, 's, 'l) ServiceCtx \<times> 's" where
  "ServiceCtx_Start K c op = (case sc_Tracer c of
      None \<Rightarrow> (c, te_SpanFromContext K (sc_Context c))
    | Some t \<Rightarrow> (case t (sc_Context c) (''service.'' @ op) of
        (ctx, span) \<Rightarrow> (c\<lparr>sc_Context := ctx, sc_Span := Some span\<rparr>, span)))"

definition ServiceCtx_Fail ::
  "('c, 's, 'l) ServiceCtx \<Rightarrow> AppError option \<Rightarrow> AppError option \<times> ('s, 'l) telemetry_event list" where
  "ServiceCtx_Fail c appErr = (case (appErr, sc_Span c) of
      (Some e, Some span) \<Rightarrow> (Some e,
        (case ae_Err e of None \<Rightarrow> [] | Some err \<Rightarrow> [SpanError span err]) @
        (if ae_Code e = 0 \<or> ae_Code e \<ge> StatusInternalServerError
         then [SpanStatus span (if ae_Message e = '''' then AppError_Error e else ae_Message e)] else []))
    | _ \<Rightarrow> (appErr, []))"

lemma Fail_value: "fst (ServiceCtx_Fail c e) = e"
  by (simp add: ServiceCtx_Fail_def split: option.split)

text \<open>\<open>WithTransaction\<close> over gorm's \<open>Transaction\<close>; here the logger is passed on.\<close>

definition WithTransaction ::
  "('d \<Rightarrow> 'c \<Rightarrow> ('d \<Rightarrow> 'r) \<Rightarrow> 'r) \<Rightarrow> ('c, 's, 'l) telemetry \<Rightarrow> ('c, 's, 'l, 'd) service_telemetry \<Rightarrow> ('c, 's, 'l) ServiceCtx \<Rightarrow>
   (('c, 's, 'l, 'd) RepoCtx \<Rightarrow> 'r) \<Rightarrow> 'r" where
  "WithTransaction gorm_Transaction K s ctx fn =
     gorm_Transaction (rp_DB (sy_Repository s)) (sc_Context ctx) (\<lambda>tx. fn \<lparr>rc_Context = sc_Context ctx, rc_DB = tx,
       rc_Span = Some (te_SpanFromContext K (sc_Context ctx)), rc_Tracer = sy_Tracer s, rc_Logger = sc_Logger ctx\<rparr>)"

section \<open>Routes\<close>

definition Routes_GetServiceCtx ::
  "('c, 's, 'l) telemetry \<Rightarrow> ('c, 's) tracer option \<Rightarrow> 'l \<Rightarrow> 'c \<Rightarrow> string \<Rightarrow> ('c, 's, 'l) ServiceCtx \<times> 's" where
  "Routes_GetServiceCtx K tracer logger ctx name =
     (case start_span K tracer ctx name of (ctx, span) \<Rightarrow>
        (GetServiceCtx K [\<lparr>sx_Context = Some ctx, sx_Span = Some span, sx_Tracer = tracer,
           sx_Logger = Some (te_With K logger ''operation'' name)\<rparr>], span))"

section \<open>The workers\<close>

definition Payment_repoCtx ::
  "('c, 's, 'l) telemetry \<Rightarrow> ('c, 's, 'l, 'd) RepoConfig \<Rightarrow> 'c \<Rightarrow> 'l \<Rightarrow> ('c, 's, 'l, 'd) RepoCtx" where
  "Payment_repoCtx K r ctx log =
     NewRepoCtx K r [\<lparr>rx_Context = Some ctx, rx_DB = None, rx_Span = None, rx_Tracer = None, rx_Logger = Some log\<rparr>]"

definition Transfer_repoCtx ::
  "('c, 's, 'l) telemetry \<Rightarrow> ('c, 's, 'l, 'd) RepoConfig \<Rightarrow> 'c \<Rightarrow> 'l \<Rightarrow> ('c, 's, 'l, 'd) RepoCtx" where
  "Transfer_repoCtx K r ctx log =
     NewRepoCtx K r [\<lparr>rx_Context = Some ctx, rx_DB = None, rx_Span = None, rx_Tracer = None, rx_Logger = Some log\<rparr>]"

text \<open>The adapter that gives asynq's log calls to the program's logger; a fatal one is an error record too.\<close>

datatype asynq_log = AsynqDebug | AsynqInfo | AsynqWarn | AsynqError | AsynqFatal

definition AsynqSlogAdapter ::
  "('c, 's, 'l) telemetry \<Rightarrow> 'l \<Rightarrow> asynq_log \<Rightarrow> string \<Rightarrow> ('s, 'l) telemetry_event" where
  "AsynqSlogAdapter K logger call args = Logged (te_With K logger ''component'' ''asynq'') (case call of
      AsynqDebug \<Rightarrow> LevelDebug | AsynqInfo \<Rightarrow> LevelInfo | AsynqWarn \<Rightarrow> LevelWarn
    | AsynqError \<Rightarrow> LevelError | AsynqFatal \<Rightarrow> LevelError) args []"

section \<open>What a failure leaves behind\<close>

text \<open>The context under which a service operation runs a query, as every operation builds it.\<close>

definition service_query ::
  "('c, 's, 'l) telemetry \<Rightarrow> ('c, 's, 'l, 'd) service_telemetry \<Rightarrow> ('c, 's, 'l) ServiceCtx \<Rightarrow> 's \<Rightarrow> string \<Rightarrow>
   ('c, 's, 'l, 'd) RepoCtx" where
  "service_query K s c span query = fst (RepoCtx_Start K (GetRepoCtx K s
     [\<lparr>sx_Context = Some (sc_Context c), sx_Span = Some span, sx_Tracer = None, sx_Logger = sc_Logger c\<rparr>]) query)"

definition on_span :: "('s, 'l) telemetry_event \<Rightarrow> 's option" where
  "on_span e = (case e of Logged l lv m a \<Rightarrow> None | SpanError s err \<Rightarrow> Some s | SpanStatus s m \<Rightarrow> Some s)"

lemma Start_span:
  assumes "Routes_GetServiceCtx K tracer logger ctx route = (c, root)" and "ServiceCtx_Start K c op = (c', span)"
  shows "sc_Span c' = Some span"
  using assms
  by (cases tracer) (auto simp: Routes_GetServiceCtx_def start_span_def GetServiceCtx_def apply_servicectx_def
      ServiceCtx_Start_def split: prod.splits)

lemma service_query_logger: "rc_Logger (service_query K s c span query) = None"
  by (auto simp: service_query_def GetRepoCtx_def RepoCtx_Start_def split: option.split prod.split)

lemma worker_query:
  "rc_Logger (fst (RepoCtx_Start K (Payment_repoCtx K r ctx log) query)) = Some log"
  "rc_Span (fst (RepoCtx_Start K (Payment_repoCtx K r ctx log) query)) = Some (te_SpanFromContext K ctx)"
  by (simp_all add: Payment_repoCtx_def NewRepoCtx_def apply_repoctx_def RepoCtx_Start_def)

text \<open>C38. What a failing query leaves behind: in a request nothing, whatever the error, since the context
  the service hands to the repository has no logger; in a worker one record, and, unless the row was just not
  found, the error on the span of the task, as the repository's tracer is not used there. A service operation
  that fails marks its own span as failed exactly for a code of 0 or from 500 on. None of this changes what
  is returned.\<close>

theorem failed_queries_in_requests_leave_no_record:
  assumes "Routes_GetServiceCtx K tracer logger ctx route = (c, root)" and "ServiceCtx_Start K c op = (c', span)"
  shows "RepoCtx_LogError (service_query K s c' span query) what err attrs = (map_option LogError err, []) \<and>
    RepoCtx_LogError (fst (RepoCtx_Start K (Payment_repoCtx K r task log) query)) what (Some e) attrs =
      (Some (LogError e),
       let args = [(''repo_op'', what), (''error'', Error (LogError e))] @ attrs in
       if errors_Is (LogError e) ErrNotFound then [Logged log LevelDebug ''repository record not found'' args]
       else [Logged log LevelError ''repository query failed'' args, SpanError (te_SpanFromContext K task) (LogError e),
         SpanStatus (te_SpanFromContext K task) (Error (LogError e))]) \<and>
    fst (ServiceCtx_Fail c' (Some a)) = Some a \<and> (\<forall>ev \<in> set (snd (ServiceCtx_Fail c' (Some a))). on_span ev = Some span) \<and>
    ((\<exists>m. SpanStatus span m \<in> set (snd (ServiceCtx_Fail c' (Some a)))) \<longleftrightarrow> ae_Code a = 0 \<or> 500 \<le> ae_Code a)"
proof (intro conjI)
  have span: "sc_Span c' = Some span" by (rule Start_span[OF assms])
  show "RepoCtx_LogError (service_query K s c' span query) what err attrs = (map_option LogError err, [])"
    by (cases err) (simp_all add: RepoCtx_LogError_def service_query_logger LogError_def)
  show "\<forall>ev \<in> set (snd (ServiceCtx_Fail c' (Some a))). on_span ev = Some span"
    and "(\<exists>m. SpanStatus span m \<in> set (snd (ServiceCtx_Fail c' (Some a)))) \<longleftrightarrow> ae_Code a = 0 \<or> 500 \<le> ae_Code a"
    by (auto simp: ServiceCtx_Fail_def span on_span_def split: option.split)
qed (simp_all add: RepoCtx_LogError_def worker_query LogError_def Fail_value Let_def)

text \<open>Contexts as lists of the spans started in them.\<close>

definition ex_telemetry :: "(string list, string list, string) telemetry" where
  "ex_telemetry = \<lparr>te_Background = [], te_SpanFromContext = id, te_Default = ''default'', te_With = (\<lambda>l k v. l)\<rparr>"

definition ex_tracer :: "(string list, string list) tracer" where
  "ex_tracer ctx name = (name # ctx, name # ctx)"

lemma failed_queries_in_requests_leave_no_record_witness:
  "let c = fst (Routes_GetServiceCtx ex_telemetry (Some ex_tracer) ''log'' [] ''transfer.get'');
       (c', span) = ServiceCtx_Start ex_telemetry c ''transfer.get'';
       s = NewService_telemetry ex_telemetry \<lparr>rp_DB = (), rp_Tracer = Some ex_tracer, rp_Logger = Some ''log''\<rparr> (Some ''log'')
   in RepoCtx_LogError (service_query ex_telemetry s c' span ''transaction.get_transfer'') ''transaction.get_transfer''
        (Some (Opaque ''connection refused'')) [] = (Some (Opaque ''connection refused''), []) \<and>
      span = [''service.transfer.get'', ''transfer.get'']"
proof -
  let ?c = "fst (Routes_GetServiceCtx ex_telemetry (Some ex_tracer) ''log'' [] ''transfer.get'')"
  obtain root where c: "Routes_GetServiceCtx ex_telemetry (Some ex_tracer) ''log'' [] ''transfer.get'' = (?c, root)"
    by (metis prod.collapse)
  obtain c' span where s: "ServiceCtx_Start ex_telemetry ?c ''transfer.get'' = (c', span)" by (rule prod.exhaust)
  then have "span = [''service.transfer.get'', ''transfer.get'']"
    by (simp add: ServiceCtx_Start_def Routes_GetServiceCtx_def start_span_def ex_tracer_def GetServiceCtx_def apply_servicectx_def)
  moreover have "RepoCtx_LogError (service_query ex_telemetry s c' span query) what err attrs = (map_option LogError err, [])"
    for s :: "(string list, string list, string, unit) service_telemetry" and query what err attrs
    by (rule conjunct1[OF failed_queries_in_requests_leave_no_record[OF c s]])
  ultimately show ?thesis by (simp add: s)
qed

end
