(* ===== verification/Spec2Isabelle.thy ===== *)
theory Spec2Isabelle
  imports Deposit_Properties Transfer_Properties Value_Properties Ledger_Properties Queue_Properties
    Otp_Properties Otp_Expiry Poll_Properties Service_Properties Route_Properties Startup_Properties End_To_End Conservation Contexts
begin

text \<open>
  A verification development for the digital wallet service under \<^verbatim>\<open>src/\<close> (Go): an HTTP API over
  Postgres (gorm), a ledger (TigerBeetle), a queue of background tasks (asynq on Redis), one-time codes
  in Redis, a payment provider (Paystack) and a mail provider (Resend).

  \<^bold>\<open>The program.\<close> A request comes in at \<^verbatim>\<open>internal/api/routes\<close>, which checks its token, decodes and
  validates the body and calls one operation of \<^verbatim>\<open>internal/api/services\<close>. The services read and write
  the tables through \<^verbatim>\<open>internal/repository\<close>, read balances and histories from \<^verbatim>\<open>internal/ledger\<close>,
  start checkouts at \<^verbatim>\<open>internal/api/providers\<close>, and publish events on the bus of
  \<^verbatim>\<open>internal/api/events\<close>. The bus's listeners queue tasks of \<^verbatim>\<open>internal/queues\<close>, whose workers move
  money in the ledger, mark rows, refund late payments, send mail and write the activity feed.
  \<^verbatim>\<open>config\<close> reads the settings and \<^verbatim>\<open>cmd/main.go\<close> wires everything.

  \<^bold>\<open>How code is modelled.\<close> A Go function that touches the database, the ledger, Redis, the clock or a
  source of randomness is a \<open>prog\<close> (theory \<open>Effects\<close>): a tree of atomic actions on the \<open>world\<close> that
  ends in a value. \<open>run\<close> runs it alone, \<open>interleave\<close> lets the actions of several alternate. There is
  one action for each SQL statement and each remote call, since these are the points where another
  goroutine, worker or process can come between. The \<open>world\<close> (theory \<open>World\<close>) holds the five tables as
  lists of rows, the state \<open>'tb\<close> of TigerBeetle, the state \<open>'x\<close> of the other services, the clock, a
  trace of the calls made, and oracles for database failures, drawn UUIDs and random numbers.
  Everything else is a HOL function. Go's \<open>int\<close>, \<open>int64\<close>, \<open>uint64\<close> and TigerBeetle's ids are words of
  their width, \<open>float64\<close> is a rational rounded to 53 bits with infinities and NaN, strings are lists of
  bytes, errors are values of \<open>go_error\<close> or \<open>AppError\<close>, and a panic is the \<open>outcome\<close> \<open>Panicked\<close>. Packages that
  are not under \<^verbatim>\<open>src/\<close> are records of functions passed to the definitions that use them; what is relied
  on of them is a named predicate (\<open>tb_ok\<close>, \<open>tb_ids_ok\<close>, \<open>uuid_ok\<close>, \<open>redis_ok\<close>, \<open>redis_expires\<close>, \<open>asynq_ok\<close>,
  \<open>validator_ok\<close>), and \<open>Example_Env\<close> and the examples of each theory give functions that satisfy them.

  \<^bold>\<open>Theories and sources.\<close>
  \<^item> Go itself: \<open>Prelude\<close>, \<open>Go_Strings\<close> (strings, strconv), \<open>Go_Errors\<close> (errors, \<^verbatim>\<open>shared/error.go\<close>),
    \<open>Go_Json\<close>, \<open>Go_Time\<close>, \<open>Float64\<close> and \<open>Money\<close> (\<^verbatim>\<open>shared/money.go\<close>).
  \<^item> \<open>Repository_Base\<close>, \<open>Repository_User\<close>, \<open>Repository_Tx\<close>: \<^verbatim>\<open>internal/repository\<close> and its \<^verbatim>\<open>db/types.go\<close>;
    the locale \<open>lifecycle\<close> states what updates keep of a table and is interpreted for intents,
    transfers and wallets.
  \<^item> \<open>Ledger\<close>: \<^verbatim>\<open>internal/ledger\<close>. \<open>Payment_Provider\<close>: \<^verbatim>\<open>shared/payment.go\<close> and \<^verbatim>\<open>providers/paystack.go\<close>.
    \<open>Otp_Store\<close>: \<^verbatim>\<open>internal/otp/store.go\<close>, \<^verbatim>\<open>shared/otp.go\<close>.
  \<^item> \<open>Queues\<close>, \<open>Tasks\<close>, \<open>Notify_Workers\<close>, \<open>Payment_Worker\<close>, \<open>Transfer_Worker\<close>, \<open>Worker\<close>: \<^verbatim>\<open>internal/queues\<close>
    (\<^verbatim>\<open>middleware.go\<close> and \<^verbatim>\<open>utils.go\<close> in \<open>Queues\<close>, the payloads in \<open>Tasks\<close>, one theory for each worker) and
    \<open>RenderEmail\<close> of \<^verbatim>\<open>internal/templates\<close>. The locale \<open>worker\<close> is the contract between a task and its
    handler, interpreted for the four payloads.
  \<^item> \<open>Events\<close>: \<^verbatim>\<open>internal/api/events\<close>. \<open>Service_Base\<close>, \<open>User_Service\<close>, \<open>Wallet_Service\<close>, \<open>History_Service\<close>:
    \<^verbatim>\<open>internal/api/services\<close>.
  \<^item> \<open>Http\<close>, \<open>Route_Types\<close>, \<open>Routes\<close>, \<open>Docs\<close>: \<^verbatim>\<open>internal/api/routes\<close> (\<^verbatim>\<open>helpers.go\<close> and \<^verbatim>\<open>middelware.go\<close> in
    \<open>Http\<close>, \<^verbatim>\<open>types.go\<close> in \<open>Route_Types\<close>, the handlers and \<open>SetupRoutes\<close> in \<open>Routes\<close>, the OpenAPI document in
    \<open>Docs\<close>). A handler of method \<open>X\<close> is named \<open>Route_X\<close>.
  \<^item> \<open>Config\<close>: \<^verbatim>\<open>config/config.go\<close> and \<^verbatim>\<open>viper.go\<close>. \<open>Startup\<close>: \<^verbatim>\<open>cmd/main.go\<close>, \<^verbatim>\<open>internal/api/api.go\<close>,
    \<^verbatim>\<open>providers/resend.go\<close>, \<^verbatim>\<open>telemetry/telemetry.go\<close>.
  \<^item> \<open>Contexts\<close>: what goes along with every call (context, span, tracer, logger), from \<^verbatim>\<open>repository/repository.go\<close>,
    \<open>LogError\<close> of \<^verbatim>\<open>repository/errors.go\<close>, the contexts of \<^verbatim>\<open>services/services.go\<close> and \<^verbatim>\<open>routes/route.go\<close>. The other
    theories leave it out; \<open>LogError_value\<close> and \<open>Fail_value\<close> show that it changes no result.

  \<^bold>\<open>What is proved, and where.\<close>
  \<^item> Over every interleaving. \<open>sys_rel\<close> (\<open>System_Invariant\<close>) is what any step may do to the world; the
    locale \<open>rely_guarantee\<close> (\<open>Effects\<close>) proves programs against it, \<open>System_Ops\<close>, \<open>System_Safety\<close> and
    \<open>System_Jobs\<close> show that every handler, request and listener stays within it. \<open>System_Machine\<close> is the
    state machine of the running program (jobs arrive, act, die; the clock moves; operators freeze
    wallets) and \<open>reachable_inv\<close> its invariant \<open>ledger_inv\<close>: rows are well formed, every posted transfer is
    explained by a row, every SUCCESS row is posted, every refund is recorded. The properties of this
    theory follow, among them the two runs that go wrong (\<open>refund_races_with_deposit\<close>,
    \<open>moved_transfer_can_fail\<close>). \<open>Conservation\<close> adds up the ledger: balances, and money conserved.
  \<^item> Over single runs. \<open>Sequential\<close> has a total weakest-precondition judgement \<open>wp\<close>, with the database
    failing anywhere or, where something is achieved, in a world where database and ledger answer.
    \<open>Deposit_Properties\<close> and \<open>Transfer_Properties\<close> use it for the money workers (also with a ledger that
    stops answering at any call, \<open>unreachable\<close>), \<open>Service_Properties\<close> for the services, \<open>Otp_Properties\<close> for
    the codes.
  \<^item> Over repeated and overlapping runs. \<open>Poll_Properties\<close> follows a poll through all attempts asynq makes at
    it, with the counter of retries that only failures advance. \<open>Otp_Expiry\<close> gives Redis a clock (\<open>redis_expires\<close>:
    calls happen at later and later times, keys disappear when theirs has come) and bounds the guesses at a
    code over every interleaving of verifications.
  \<^item> \<open>Ledger_Properties\<close>: the ledger operations refine an abstract book of transfers; balances and
    movements. \<open>Queue_Properties\<close>: the middleware chain against a direct description, task identity,
    the event bus. \<open>Value_Properties\<close>: conversions and texts of amounts, task payloads.
  \<^item> \<open>Responses\<close> bounds the statuses each service operation answers; \<open>Route_Properties\<close> compares the
    routes with the OpenAPI document, and shows who gets past the token check and which bodies reach
    the services. \<open>Startup_Properties\<close> shows when start-up succeeds, from \<^verbatim>\<open>.env\<close> to the last hook, with which settings, and that what
    \<open>main\<close> wires satisfies the contracts above, so that the invariant holds of the program as started.
  \<^item> \<open>End_To_End\<close> composes the components: a signed webhook is followed from the router through the bus and the
    queue until its amount is in the wallet, and a request for a transfer until its money has moved.
  \<^item> \<open>Example_Env\<close>, \<open>Example_Worlds\<close>, \<open>Example_Routes\<close>: concrete packages and worlds on which every property
    with a hypothesis is exercised.

  \<^bold>\<open>Bounds.\<close> No definition uses fuel: every loop of the code is bounded (five attempts at an account
  number, the digits of a code, the pages and rows of a history, the accounts of a query), and retries of
  tasks are separate jobs; \<open>attempts\<close> takes the number of attempts to follow, and its theorem holds for every number. \<open>uuids_fresh\<close> says that the UUIDs drawn so far are distinct; nothing is
  assumed of those to come. A body read by the webhook is cut at \<open>MaxWebhookBodyBytes\<close>.

  \<^bold>\<open>Not modelled.\<close> Cancellation and deadlines of contexts (they show up only as a job that dies), and, outside
  \<open>Contexts\<close>, spans and loggers; the outer HTTP middlewares (request ids, access log, panic recovery; of CORS
  only the options), chi's matching of paths, the validator's own parsing of tags, JSON text, YAML and the
  document's prose; SQL beyond the rows a statement reads and writes, and schema migration; the text of the HTML
  templates; HMAC, bcrypt, SHA-256 and JWT signatures, which are parameters; stopping the program, and watching
  the configuration file.
\<close>

section \<open>Money is conserved in every interleaving\<close>

text \<open>C1. In every configuration the running program can come to (any jobs, in any
  interleaving, dying anywhere), a deposit intent marked SUCCESS has its transfer in the ledger:
  from the settlement account of the wallet's currency to the intent's wallet, for exactly the
  intent's amount.\<close>

theorem successful_deposits_posted:
  assumes "system_ok P C posted W s w" and "reachable W s w w'" and "uuids_fresh w'"
    and "r \<in> set (intents w')" and "ti_Status r = TransactionSuccess"
  shows "\<exists>v \<in> set (wallets w'). \<exists>l. w_ID v = ti_Wallet r \<and> LedgerForCurrency (w_Currency v) = Inr l \<and>
    0 < sint (ti_Amount r) \<and>
    posted (tb w') (TransferID C (ti_ID r)) = Some \<lparr>t_ID = TransferID C (ti_ID r),
      t_DebitAccountID = SettlementAccountID C l, t_CreditAccountID = AccountID C (ti_Wallet r),
      t_Amount = tb_ToUint128 C (Minor (ti_Amount r)), t_Ledger = l, t_Code = TransferDeposit\<rparr>"
proof -
  have inv: "ledger_inv P C posted w'" using reachable_inv assms(1-3) .
  with assms(4,5) obtain t where t: "posted (tb w') (TransferID C (ti_ID r)) = Some t"
    by (auto simp: ledger_inv_def success_posted_def)
  with inv assms(1,4) have "is_deposit C (wallets w') r t"
    by (auto simp: system_ok_def intro: inv_success_intent)
  with t show ?thesis by (auto simp: is_deposit_def deposit_request_def IsPositive_def word_sless_sint)
qed

lemma successful_deposits_posted_witness:
  "let w = ex_after [ex_webhook 500]; r = (ex_intent TransactionSuccess)\<lparr>ti_UpdatedAt := 1\<rparr> in
   r \<in> set (intents w) \<and> (\<exists>v \<in> set (wallets w). \<exists>l. w_ID v = 10 \<and> LedgerForCurrency (w_Currency v) = Inr l \<and>
     0 < sint (ti_Amount r) \<and>
     ex_posted (tb w) (TransferID ex_ledger 20) = Some \<lparr>t_ID = TransferID ex_ledger 20,
       t_DebitAccountID = SettlementAccountID ex_ledger l, t_CreditAccountID = AccountID ex_ledger 10,
       t_Amount = tb_ToUint128 ex_ledger (Minor 500), t_Ledger = l, t_Code = TransferDeposit\<rparr>)"
proof -
  let ?r = "(ex_intent TransactionSuccess)\<lparr>ti_UpdatedAt := 1\<rparr>"
  have r: "?r \<in> set (intents (ex_after [ex_webhook 500]))" by (simp add: ex_settledD)
  from successful_deposits_posted[OF ex_system_ok ex_reachable(1) ex_settledD(4) r] r show ?thesis
    by (simp add: Let_def ex_intent_def)
qed

text \<open>C2. Likewise a wallet-to-wallet transfer marked SUCCESS has its transfer in the ledger, from the
  sender's wallet to the recipient's, two different wallets of one currency, for exactly its
  amount.\<close>

theorem successful_transfers_posted:
  assumes "system_ok P C posted W s w" and "reachable W s w w'" and "uuids_fresh w'"
    and "r \<in> set (transfers w')" and "tr_Status r = TransactionSuccess"
  shows "\<exists>v \<in> set (wallets w'). \<exists>v' \<in> set (wallets w'). \<exists>l.
    w_ID v = tr_SenderWalletID r \<and> w_ID v' = tr_RecipientWalletID r \<and> w_ID v \<noteq> w_ID v' \<and>
    EqualFold (w_Currency v) (w_Currency v') \<and> LedgerForCurrency (w_Currency v) = Inr l \<and> 0 < sint (tr_Amount r) \<and>
    posted (tb w') (TransferID C (tr_ID r)) = Some \<lparr>t_ID = TransferID C (tr_ID r),
      t_DebitAccountID = AccountID C (w_ID v), t_CreditAccountID = AccountID C (w_ID v'),
      t_Amount = tb_ToUint128 C (Minor (tr_Amount r)), t_Ledger = l, t_Code = TransferInternal\<rparr>"
proof -
  have inv: "ledger_inv P C posted w'" using reachable_inv assms(1-3) .
  with assms(4,5) obtain t where t: "posted (tb w') (TransferID C (tr_ID r)) = Some t"
    by (auto simp: ledger_inv_def success_posted_def)
  with inv assms(1,4) have "is_move C (wallets w') r t"
    by (auto simp: system_ok_def intro: inv_success_transfer)
  then obtain v v' l where v: "v \<in> set (wallets w')" "v' \<in> set (wallets w')" "w_ID v = tr_SenderWalletID r"
    "w_ID v' = tr_RecipientWalletID r" "EqualFold (w_Currency v) (w_Currency v')"
    "LedgerForCurrency (w_Currency v) = Inr l" "IsPositive (tr_Amount r)" "tr_SenderWalletID r \<noteq> tr_RecipientWalletID r"
    and "t = transfer_request C l \<lparr>tp_TransferID = tr_ID r, tp_SenderWalletID = tr_SenderWalletID r,
      tp_ReceipientWalletID = tr_RecipientWalletID r, tp_SenderCurrency = w_Currency v,
      tp_ReceipientsCurrency = w_Currency v', tp_Amount = tr_Amount r\<rparr>"
    by (auto simp: is_move_def)
  with t show ?thesis
    by (intro bexI[OF _ v(1)] bexI[OF _ v(2)] exI[of _ l]) (simp add: transfer_request_def IsPositive_def)
qed

lemma successful_transfers_posted_witness:
  "let w = ex_after [ex_webhook 500, ex_execute]; r = (ex_transfer TransactionSuccess)\<lparr>tr_UpdatedAt := 1\<rparr> in
   r \<in> set (transfers w) \<and> (\<exists>v \<in> set (wallets w). \<exists>v' \<in> set (wallets w). \<exists>l. w_ID v = tr_SenderWalletID r \<and>
     w_ID v' = tr_RecipientWalletID r \<and> w_ID v \<noteq> w_ID v' \<and> EqualFold (w_Currency v) (w_Currency v') \<and>
     LedgerForCurrency (w_Currency v) = Inr l \<and> 0 < sint (tr_Amount r) \<and>
     ex_posted (tb w) (TransferID ex_ledger (tr_ID r)) = Some \<lparr>t_ID = TransferID ex_ledger (tr_ID r),
       t_DebitAccountID = AccountID ex_ledger (w_ID v), t_CreditAccountID = AccountID ex_ledger (w_ID v'),
       t_Amount = tb_ToUint128 ex_ledger (Minor (tr_Amount r)), t_Ledger = l, t_Code = TransferInternal\<rparr>)"
proof -
  let ?r = "(ex_transfer TransactionSuccess)\<lparr>tr_UpdatedAt := 1\<rparr>"
  have r: "?r \<in> set (transfers (ex_after [ex_webhook 500, ex_execute]))" by (simp add: ex_movedD)
  have "tr_Status ?r = TransactionSuccess" by (simp add: ex_transfer_def)
  from successful_transfers_posted[OF ex_system_ok ex_reachable(1) ex_movedD(4) r this] r show ?thesis
    unfolding Let_def by (rule conjI[rotated])
qed

text \<open>C4. Nothing else is in the ledger: every transfer TigerBeetle holds was made for exactly one row
  of the database, a deposit intent or a wallet-to-wallet transfer but never both, with that
  row's accounts and amount.\<close>

theorem every_posting_explained:
  assumes "system_ok P C posted W s w" and "reachable W s w w'" and "uuids_fresh w'"
    and "posted (tb w') i = Some t"
  shows "((\<exists>!r. r \<in> set (intents w') \<and> i = TransferID C (ti_ID r) \<and> is_deposit C (wallets w') r t) \<and>
           (\<forall>q \<in> set (transfers w'). i \<noteq> TransferID C (tr_ID q))) \<or>
         ((\<exists>!r. r \<in> set (transfers w') \<and> i = TransferID C (tr_ID r) \<and> is_move C (wallets w') r t) \<and>
           (\<forall>q \<in> set (intents w'). i \<noteq> TransferID C (ti_ID q)))"
proof -
  have inv: "ledger_inv P C posted w'" using reachable_inv assms(1-3) .
  have ok: "env_ok P C posted" using assms(1) by (simp add: system_ok_def)
  note inj = TransferID_inj[OF ok]
  have keys: "distinct (map ti_ID (intents w'))" "distinct (map tr_ID (transfers w'))"
    and disj: "ti_ID ` set (intents w') \<inter> tr_ID ` set (transfers w') = {}"
    using inv by (simp_all add: ledger_inv_def db_wf_def ids_ok_def)
  have "posted_explained C posted w'" using inv by (simp add: ledger_inv_def)
  with assms(4) consider
      (deposit) r where "r \<in> set (intents w')" "i = TransferID C (ti_ID r)" "is_deposit C (wallets w') r t"
    | (move) r where "r \<in> set (transfers w')" "i = TransferID C (tr_ID r)" "is_move C (wallets w') r t"
    unfolding posted_explained_def by metis
  then show ?thesis
  proof cases
    case deposit
    with keys(1) disj show ?thesis
      by (intro disjI1 conjI ex1I[of _ r]) (auto simp: inj dest: distinct_key_unique)
  next
    case move
    with keys(2) disj show ?thesis
      by (intro disjI2 conjI ex1I[of _ r]) (auto simp: inj dest: distinct_key_unique)
  qed
qed

lemma every_posting_explained_witness:
  "let w = ex_after [ex_webhook 500, ex_execute] in ex_posted (tb w) 30 = Some ex_move_entry \<and>
     (((\<exists>!r. r \<in> set (intents w) \<and> 30 = TransferID ex_ledger (ti_ID r) \<and> is_deposit ex_ledger (wallets w) r ex_move_entry) \<and>
         (\<forall>q \<in> set (transfers w). 30 \<noteq> TransferID ex_ledger (tr_ID q))) \<or>
      ((\<exists>!r. r \<in> set (transfers w) \<and> 30 = TransferID ex_ledger (tr_ID r) \<and> is_move ex_ledger (wallets w) r ex_move_entry) \<and>
         (\<forall>q \<in> set (intents w). 30 \<noteq> TransferID ex_ledger (ti_ID q))))"
proof -
  have "ex_posted (tb (ex_after [ex_webhook 500, ex_execute])) 30 = Some ex_move_entry"
    by (simp add: ex_movedD ex_posted_def ex_deposit_entry_def ex_move_entry_def)
  from this every_posting_explained[OF ex_system_ok ex_reachable(1) ex_movedD(4) this] show ?thesis
    unfolding Let_def by (rule conjI)
qed

text \<open>C5. Every refund the program asked the provider for was for exactly one deposit intent, for
  exactly its amount, and that intent is recorded as being refunded or refunded: never as SUCCESS,
  FAILED or PENDING again.\<close>

theorem refunds_match_intents:
  assumes "system_ok P C posted W s w" and "reachable W s w w'" and "uuids_fresh w'"
    and "EvRefund ref amount \<in> set (trace w')"
  shows "(\<exists>!r. r \<in> set (intents w') \<and> uuid_String P (ti_ID r) = ref) \<and>
    (\<exists>r \<in> set (intents w'). uuid_String P (ti_ID r) = ref \<and> ti_Amount r = amount \<and>
      ti_Status r \<in> {TransactionRefunding, TransactionRefunded})"
proof -
  have inv: "ledger_inv P C posted w'" using reachable_inv assms(1-3) .
  have "env_ok P C posted" using assms(1) by (simp add: system_ok_def)
  note inj = uuid_text_inj[OF this]
  from inv have keys: "distinct (map ti_ID (intents w'))" by (simp add: ledger_inv_def db_wf_def)
  from inv have "refunds_recorded P w'" by (simp add: ledger_inv_def)
  with assms(4) obtain r where r: "r \<in> set (intents w')" "uuid_String P (ti_ID r) = ref" "ti_Amount r = amount"
      "ti_Status r \<in> {TransactionRefunding, TransactionRefunded}"
    unfolding refunds_recorded_def by blast
  moreover have "\<exists>!r. r \<in> set (intents w') \<and> uuid_String P (ti_ID r) = ref"
    using keys r by (intro ex1I[of _ r]) (auto simp: inj dest: distinct_key_unique)
  ultimately show ?thesis by blast
qed

lemma refunds_match_intents_witness:
  "let w = ex_after [ex_failed, ex_webhook 500] in
   EvRefund ''20'' 500 \<in> set (trace w) \<and> (\<exists>!r. r \<in> set (intents w) \<and> uuid_String ex_uuid (ti_ID r) = ''20'') \<and>
     (\<exists>r \<in> set (intents w). uuid_String ex_uuid (ti_ID r) = ''20'' \<and> ti_Amount r = 500 \<and>
      ti_Status r \<in> {TransactionRefunding, TransactionRefunded})"
proof -
  have v: "ex_view (ex_after [ex_failed, ex_webhook 500]) = ([(ex_intent TransactionRefunded)\<lparr>ti_UpdatedAt := 1\<rparr>],
      [ex_transfer TransactionPending], [], True)" "ex_refunds (ex_after [ex_failed, ex_webhook 500]) = [(''20'', 500)]"
    using ex_refunded by simp_all
  then have e: "EvRefund ''20'' 500 \<in> set (trace (ex_after [ex_failed, ex_webhook 500]))"
    by (auto intro!: ex_refundsD)
  from e refunds_match_intents[OF ex_system_ok ex_reachable(1) ex_viewD(4)[OF v(1) ex_reachable(1)] e] show ?thesis
    unfolding Let_def by (rule conjI)
qed

text \<open>C6. However the program runs on, a deposit intent is never lost or altered: exactly one row
  keeps its identifier, and that row still has its user, amount, wallet, provider and creation
  time, with a status at or after the one it had in the order PENDING, FAILED, then either SUCCESS
  or REFUNDING and REFUNDED (SUCCESS also directly from PENDING).\<close>

theorem intents_only_move_forward:
  assumes "system_ok P C posted W s w" and "reachable W s w v" and "uuids_fresh v" and "r \<in> set (intents w)"
  shows "\<exists>q \<in> set (intents v). (\<forall>q' \<in> set (intents v). ti_ID q' = ti_ID r \<longrightarrow> q' = q) \<and>
    ti_ID q = ti_ID r \<and> ti_UserID q = ti_UserID r \<and> ti_Amount q = ti_Amount r \<and> ti_Wallet q = ti_Wallet r \<and>
    ti_Provider q = ti_Provider r \<and> ti_CreatedAt q = ti_CreatedAt r \<and> ti_Status r \<le> ti_Status q"
proof -
  have inv: "ledger_inv P C posted v" using reachable_inv assms(1-3) .
  obtain q where q: "q \<in> set (intents v)" "intent_le r q"
    using has_intent_stable[OF reachable_rel[OF assms(1,2)] has_now(1)[OF assms(4)]] by (auto simp: has_intent_def)
  have f: "ti_ID q = ti_ID r \<and> ti_UserID q = ti_UserID r \<and> ti_Amount q = ti_Amount r \<and> ti_Wallet q = ti_Wallet r \<and>
      ti_Provider q = ti_Provider r \<and> ti_CreatedAt q = ti_CreatedAt r \<and> ti_Status r \<le> ti_Status q"
    using q(2) unfolding intent_le_def .
  have "distinct (map ti_ID (intents v))" using inv by (simp add: ledger_inv_def db_wf_def)
  then have "\<forall>q' \<in> set (intents v). ti_ID q' = ti_ID r \<longrightarrow> q' = q"
    using q(1) f distinct_key_unique by metis
  with f q(1) show ?thesis by blast
qed

lemma intents_only_move_forward_witness:
  "\<exists>q \<in> set (intents (ex_after [ex_webhook 500])). ti_ID q = 20 \<and> ti_Amount q = 500 \<and> TransactionPending \<le> ti_Status q"
proof -
  have "ex_intent TransactionPending \<in> set (intents ex_world)" by (simp add: ex_world_def)
  from intents_only_move_forward[OF ex_system_ok ex_reachable(1) ex_settledD(4) this] show ?thesis
    by (auto simp: ex_intent_def)
qed

text \<open>C7. A transfer between wallets closes once: when it is SUCCESS or FAILED its row never changes
  again, and until then its parties, wallets, amount and currency stay what they were.\<close>

theorem closed_transfers_are_final:
  assumes "system_ok P C posted W s w" and "reachable W s w v" and "r \<in> set (transfers w)"
  shows "(tr_Status r \<noteq> TransactionPending \<longrightarrow> r \<in> set (transfers v)) \<and>
    (\<exists>q \<in> set (transfers v). tr_ID q = tr_ID r \<and> tr_SenderWalletID q = tr_SenderWalletID r \<and>
      tr_RecipientWalletID q = tr_RecipientWalletID r \<and> tr_SenderUserID q = tr_SenderUserID r \<and>
      tr_RecipientUserID q = tr_RecipientUserID r \<and> tr_Amount q = tr_Amount r \<and> tr_Currency q = tr_Currency r)"
proof -
  obtain q where q: "q \<in> set (transfers v)" "transfer_le r q"
    using has_transfer_stable[OF reachable_rel[OF assms(1,2)] has_now(2)[OF assms(3)]] by (auto simp: has_transfer_def)
  show ?thesis
  proof (rule conjI)
    show "tr_Status r \<noteq> TransactionPending \<longrightarrow> r \<in> set (transfers v)" using q by (auto simp: transfer_le_def)
    show "\<exists>q \<in> set (transfers v). tr_ID q = tr_ID r \<and> tr_SenderWalletID q = tr_SenderWalletID r \<and>
      tr_RecipientWalletID q = tr_RecipientWalletID r \<and> tr_SenderUserID q = tr_SenderUserID r \<and>
      tr_RecipientUserID q = tr_RecipientUserID r \<and> tr_Amount q = tr_Amount r \<and> tr_Currency q = tr_Currency r"
      using q by (intro bexI[OF _ q(1)]) (auto simp: transfer_le_def)
  qed
qed

lemma closed_transfers_are_final_witness:
  "\<exists>q \<in> set (transfers (ex_after [ex_webhook 500, ex_execute])). tr_ID q = 30 \<and> tr_Amount q = 200"
proof -
  have "ex_transfer TransactionPending \<in> set (transfers ex_world)" by (simp add: ex_world_def)
  from closed_transfers_are_final[OF ex_system_ok ex_reachable(1)[of "[ex_webhook 500, ex_execute]"] this] show ?thesis
    by (auto simp: ex_transfer_def)
qed

section \<open>What the interleavings do allow\<close>

text \<open>C32. A customer can be both refunded and credited. From a sound initial state, with packages that
  behave as documented, the program reaches a configuration in which one and the same intent is
  REFUNDED, its full amount was refunded at the provider, and its deposit is in the ledger: the check
  \<open>TransferExists\<close> of \<open>refundLatePayment\<close> and the deposit of a suspended \<open>settle\<close> are not atomic.\<close>

theorem refund_races_with_deposit:
  "system_ok ex_uuid ex_ledger ex_posted ex_worker ex_service ex_world \<and>
   (\<exists>w'. reachable ex_worker ex_service ex_world w' \<and> (\<exists>r \<in> set (intents w').
      ti_Status r = TransactionRefunded \<and>
      EvRefund (uuid_String ex_uuid (ti_ID r)) (ti_Amount r) \<in> set (trace w') \<and>
      ex_posted (tb w') (TransferID ex_ledger (ti_ID r)) \<noteq> None))"
proof -
  have v: "ex_view ex_race = ([(ex_intent TransactionRefunded)\<lparr>ti_UpdatedAt := 1\<rparr>], [ex_transfer TransactionPending],
      [ex_deposit_entry], True)" "ex_refunds ex_race = [(''20'', 500)]"
    using ex_race by simp_all
  have "EvRefund ''20'' 500 \<in> set (trace ex_race)" using v(2) by (auto intro!: ex_refundsD)
  moreover have "dec 20 = ''20''" by code_simp
  ultimately show ?thesis
    using ex_system_ok ex_race_reachable ex_viewD[OF v(1) ex_race_reachable]
    by (intro conjI exI[of _ ex_race])
      (simp_all add: ex_intent_def ex_posted_def ex_deposit_entry_def TransferID_def ex_ledger_def)
qed

text \<open>C33. A transfer whose money has moved can end up FAILED. The worker dies between the ledger and
  the row; when the task is retried after an operator froze the receiving wallet, \<open>loadWallets\<close>
  marks the row FAILED without asking the ledger, and it stays FAILED for good (C6).\<close>

theorem moved_transfer_can_fail:
  "system_ok ex_uuid ex_ledger ex_posted ex_worker ex_service ex_world \<and>
   (\<exists>w'. reachable ex_worker ex_service ex_world w' \<and> (\<exists>r \<in> set (transfers w').
      tr_Status r = TransactionFailed \<and> tr_FailureReason r = ''An account involved is not active'' \<and>
      ex_posted (tb w') (TransferID ex_ledger (tr_ID r)) = Some ex_move_entry))"
  using ex_system_ok ex_retried_reachable ex_viewD[OF ex_retried ex_retried_reachable]
  by (intro conjI exI[of _ ex_retried])
    (simp_all add: ex_transfer_def ex_posted_def ex_deposit_entry_def ex_move_entry_def TransferID_def ex_ledger_def)

end
